(* ===== verification/Prelude.thy ===== *)
theory Prelude
  imports
    Main
    "HOL-Library.State_Monad"
    "HOL-Library.Word"
    "HOL-Library.Multiset"
begin

text \<open>
  Shared vocabulary of the development.

  A pass of the controller talks to the Kubernetes API server, to the Crusoe API and to the
  clock. Each such interaction is one entry of a \<^emph>\<open>history\<close>, a list in chronological order, and
  a program is a value of type \<open>('e list, 'a) state\<close>: it reads the history so far and returns
  a result together with the longer history. What the outside world answers is a function of
  the history, given by the environment, so a theorem over every environment is a theorem over
  every sequence of answers.

  \<open>wp m Q h\<close> says that running \<open>m\<close> from history \<open>h\<close> ends in a result and a history
  satisfying \<open>Q\<close>. Its equations, collected in \<open>wp\<close>, push it through a program.
  \<open>emits m P h\<close> says that \<open>m\<close> only appends to the history, and that \<open>P\<close> relates its result
  and what it appended; this is the form in which the operations' contracts are stated.
\<close>

section \<open>Outcomes of code that may fail to return\<close>

text \<open>
  \<open>Returned v\<close> is a normal return. \<open>Panicked m\<close> is a Go panic (a nil dereference), which
  unwinds past every caller up to the controller runtime. \<open>Unfinished\<close> means that the fuel
  given to the polling loop ran out, so the pass has not returned yet.
\<close>

datatype 'a outcome = Returned 'a | Panicked string | Unfinished

fun returns :: "'a outcome \<Rightarrow> bool" where
  "returns (Returned _) = True"
| "returns _ = False"

section \<open>Weakest preconditions for the state monad\<close>

named_theorems wp \<open>equations pushing wp through a program\<close>

definition wp :: "('s, 'a) state \<Rightarrow> ('a \<Rightarrow> 's \<Rightarrow> bool) \<Rightarrow> 's \<Rightarrow> bool" where
  "wp m Q s = (case run_state m s of (a, s') \<Rightarrow> Q a s')"

lemma wp_return [wp]: "wp (State_Monad.return a) Q s = Q a s"
  by (simp add: wp_def)

lemma wp_bind [wp]: "wp (State_Monad.bind m f) Q s = wp m (\<lambda>a s'. wp (f a) Q s') s"
  by (simp add: wp_def split: prod.split)

lemma wp_mono: "wp m P s \<Longrightarrow> (\<And>a s'. P a s' \<Longrightarrow> Q a s') \<Longrightarrow> wp m Q s"
  by (auto simp: wp_def split: prod.splits)

lemma wpD: "wp m Q s \<Longrightarrow> run_state m s = (a, s') \<Longrightarrow> Q a s'"
  by (simp add: wp_def)

lemma wp_conj: "wp m (\<lambda>a s'. P a s' \<and> Q a s') s \<longleftrightarrow> wp m P s \<and> wp m Q s"
  by (simp add: wp_def split: prod.split)

section \<open>Programs that append to a history\<close>

text \<open>
  \<open>io ask ev\<close> is one interaction: the answer is \<open>ask h\<close>, and the entry recording it is
  appended.
\<close>

definition io :: "('e list \<Rightarrow> 'a) \<Rightarrow> ('a \<Rightarrow> 'e) \<Rightarrow> ('e list, 'a) state" where
  "io ask ev = State (\<lambda>h. (ask h, h @ [ev (ask h)]))"

lemma wp_io [wp]: "wp (io ask ev) Q h = Q (ask h) (h @ [ev (ask h)])"
  by (simp add: io_def wp_def)

lemma run_state_io [simp]: "run_state (io ask ev) h = (ask h, h @ [ev (ask h)])"
  by (simp add: io_def)

definition emits :: "('e list, 'a) state \<Rightarrow> ('a \<Rightarrow> 'e list \<Rightarrow> bool) \<Rightarrow> 'e list \<Rightarrow> bool" where
  "emits m P h \<longleftrightarrow> wp m (\<lambda>r h'. \<exists>es. h' = h @ es \<and> P r es) h"

lemma emitsI:
  "wp m (\<lambda>r h'. \<exists>es. h' = h @ es \<and> P r es) h \<Longrightarrow> emits m P h"
  by (simp add: emits_def)

text \<open>The rule by which a caller uses the contract of an operation it calls.\<close>

lemma wp_emits:
  assumes "emits m P h" and "\<And>r es. P r es \<Longrightarrow> Q r (h @ es)"
  shows "wp m Q h"
  using assms(1) unfolding emits_def by (rule wp_mono) (auto intro: assms(2))

lemma emits_mono: "emits m P h \<Longrightarrow> (\<And>r es. P r es \<Longrightarrow> Q r es) \<Longrightarrow> emits m Q h"
  unfolding emits_def by (erule wp_mono) blast

lemma emitsD:
  assumes "emits m P h" and "run_state m h = (r, h')"
  obtains es where "h' = h @ es" and "P r es"
  using assms by (auto simp: emits_def wp_def)

lemma emits_appendD: "emits m P h \<Longrightarrow> run_state m h = (r, h @ es) \<Longrightarrow> P r es"
  by (auto simp: emits_def wp_def)

lemma emits_conj: "emits m P h \<Longrightarrow> emits m Q h \<Longrightarrow> emits m (\<lambda>r es. P r es \<and> Q r es) h"
  by (auto simp: emits_def wp_def split: prod.splits)

section \<open>Lists\<close>

text \<open>Positions: everything in \<open>es\<close> satisfying \<open>P\<close> comes after something satisfying \<open>Q\<close>.\<close>

fun preceded_by :: "('e \<Rightarrow> bool) \<Rightarrow> ('e \<Rightarrow> bool) \<Rightarrow> 'e list \<Rightarrow> bool" where
  "preceded_by Q P [] = True"
| "preceded_by Q P (e # es) = (\<not> P e \<and> (Q e \<or> preceded_by Q P es))"

lemma preceded_by_iff:
  "preceded_by Q P es \<longleftrightarrow>
    (\<forall>xs e ys. es = xs @ e # ys \<longrightarrow> P e \<longrightarrow> (\<exists>q \<in> set xs. Q q))"
proof (induction es)
  case Nil
  then show ?case by simp
next
  case (Cons e es)
  have "(\<forall>xs x ys. e # es = xs @ x # ys \<longrightarrow> P x \<longrightarrow> (\<exists>q \<in> set xs. Q q)) \<longleftrightarrow>
      \<not> P e \<and> (Q e \<or> (\<forall>xs x ys. es = xs @ x # ys \<longrightarrow> P x \<longrightarrow> (\<exists>q \<in> set xs. Q q)))"
    (is "?L \<longleftrightarrow> ?R")
  proof
    assume L: ?L
    from L have "\<not> P e" by (metis append_Nil empty_iff empty_set)
    moreover have "Q e \<or> (\<forall>xs x ys. es = xs @ x # ys \<longrightarrow> P x \<longrightarrow> (\<exists>q \<in> set xs. Q q))"
    proof (cases "Q e")
      case False
      then show ?thesis using L by (metis append_Cons set_ConsD)
    qed simp
    ultimately show ?R by blast
  next
    assume ?R
    then show ?L by (auto simp: Cons_eq_append_conv)
  qed
  with Cons.IH show ?case by simp
qed

lemma preceded_by_append:
  "preceded_by Q P (xs @ ys) \<longleftrightarrow>
    preceded_by Q P xs \<and> ((\<exists>x \<in> set xs. Q x) \<or> preceded_by Q P ys)"
  by (induction xs) auto

lemma preceded_by_none: "\<forall>e \<in> set es. \<not> P e \<Longrightarrow> preceded_by Q P es"
  by (induction es) auto

lemma count_filter_0 [simp]: "\<forall>e \<in> set es. \<not> P e \<Longrightarrow> length (filter P es) = 0"
  by (simp add: filter_empty_conv)

end
