(* ===== verification/GoStd.thy ===== *)
theory GoStd
  imports
    Prelude
    "HOL-Library.Char_ord"
    "HOL-Library.List_Lexorder"
    "HOL-Library.Sublist"
begin

text \<open>
  The parts of the Go standard library the controller uses: error values with \<open>%w\<close> wrapping,
  \<open>strings\<close>, \<open>strconv\<close>, \<open>fmt\<close>'s \<open>%d\<close>, \<open>sort\<close> and the clock arithmetic of \<open>time\<close>.

  A Go string is a sequence of bytes, here a \<open>string\<close> (a list of 8-bit \<open>char\<close>), so \<open>length\<close>
  counts bytes as \<open>len\<close> does, and the order on strings is bytewise. \<open>int\<close> and
  \<open>time.Duration\<close> values are \<open>int\<close>s; where the width matters the bounds are written out.
\<close>

section \<open>Errors\<close>

text \<open>The sentinel errors of the controller, of \<open>internal/crusoe\<close> and of \<open>internal/utils\<close>.\<close>

datatype sentinel =
    ErrUnableToGetOpRes
  | ErrMixedPortProtocols
  | ErrUnsupportedPortProtocol
  | ErrFirewallRuleOperationUnresolvable
  | ErrFirewallRuleOperationInFlight
  | ErrOperationGet
  | ErrUnexpectedListStatus

fun sentinel_text :: "sentinel \<Rightarrow> string" where
  "sentinel_text ErrUnableToGetOpRes = ''failed to get result of operation''"
| "sentinel_text ErrMixedPortProtocols =
     ''service mixes TCP and UDP ports; one protocol per load balancer''"
| "sentinel_text ErrUnsupportedPortProtocol = ''unsupported service port protocol''"
| "sentinel_text ErrFirewallRuleOperationUnresolvable = ''firewall rule operation is unresolvable''"
| "sentinel_text ErrFirewallRuleOperationInFlight = ''firewall rule operation still in flight''"
| "sentinel_text ErrOperationGet = ''failed to get operation''"
| "sentinel_text ErrUnexpectedListStatus = ''unexpected status listing load balancers''"

text \<open>
  Errors of the Kubernetes client, as far as the code tells them apart
  (\<open>apierrors.IsNotFound\<close>, \<open>apierrors.IsForbidden\<close>).
\<close>

datatype kube_error = NotFound string | Forbidden string | OtherKubeError string

fun IsNotFound :: "kube_error \<Rightarrow> bool" where
  "IsNotFound (NotFound _) = True"
| "IsNotFound _ = False"

fun IsForbidden :: "kube_error \<Rightarrow> bool" where
  "IsForbidden (Forbidden _) = True"
| "IsForbidden _ = False"

fun kube_error_text :: "kube_error \<Rightarrow> string" where
  "kube_error_text (NotFound t) = t"
| "kube_error_text (Forbidden t) = t"
| "kube_error_text (OtherKubeError t) = t"

text \<open>
  A Go error: a sentinel, an error from outside the repository, one made by \<open>fmt.Errorf\<close>
  without \<open>%w\<close> (or with \<open>%v\<close>), or one wrapping another with \<open>%w\<close> between two texts.
\<close>

datatype go_error =
    Sentinel sentinel
  | KubeError kube_error
  | ExternalError string
  | Errorf string
  | Wrapped string go_error string

fun error_text :: "go_error \<Rightarrow> string" where
  "error_text (Sentinel s) = sentinel_text s"
| "error_text (KubeError k) = kube_error_text k"
| "error_text (ExternalError t) = t"
| "error_text (Errorf t) = t"
| "error_text (Wrapped pre e post) = pre @ error_text e @ post"

text \<open>\<open>errors.Is(err, sentinel)\<close>: the chain of wrapped errors reaches the sentinel.\<close>

fun errors_Is :: "go_error \<Rightarrow> sentinel \<Rightarrow> bool" where
  "errors_Is (Sentinel s) t = (s = t)"
| "errors_Is (Wrapped _ e _) t = errors_Is e t"
| "errors_Is _ t = False"

section \<open>strings\<close>

text \<open>\<open>strings.Contains\<close>.\<close>

fun strings_Contains :: "string \<Rightarrow> string \<Rightarrow> bool" where
  "strings_Contains [] sub = (sub = [])"
| "strings_Contains (c # s) sub = (take (length sub) (c # s) = sub \<or> strings_Contains s sub)"

lemma strings_Contains_iff: "strings_Contains s sub \<longleftrightarrow> (\<exists>xs ys. s = xs @ sub @ ys)"
proof (induction s)
  case Nil
  then show ?case by auto
next
  case (Cons c s)
  have "take (length sub) (c # s) = sub \<longleftrightarrow> (\<exists>ys. c # s = sub @ ys)"
    by (metis append_eq_conv_conj append_take_drop_id)
  with Cons.IH show ?case
    by (auto simp: Cons_eq_append_conv)
qed

text \<open>
  \<open>strings.ToLower\<close> on ASCII letters; other bytes are left alone, which is what Go does on
  ASCII text (the protocol names and JSON text it is applied to).
\<close>

definition char_ToLower :: "char \<Rightarrow> char" where
  "char_ToLower c = (let n = (of_char c :: nat) in if 65 \<le> n \<and> n \<le> 90 then char_of (n + 32) else c)"

definition strings_ToLower :: "string \<Rightarrow> string" where
  "strings_ToLower s = map char_ToLower s"

text \<open>\<open>strings.TrimPrefix\<close>.\<close>

definition strings_TrimPrefix :: "string \<Rightarrow> string \<Rightarrow> string" where
  "strings_TrimPrefix s pre =
     (if take (length pre) s = pre then drop (length pre) s else s)"

lemma strings_TrimPrefix_append [simp]: "strings_TrimPrefix (pre @ s) pre = s"
  by (simp add: strings_TrimPrefix_def)

text \<open>\<open>slices.Contains\<close> guarding an \<open>append\<close>: the list without later repetitions.\<close>

fun append_new :: "'a list \<Rightarrow> 'a \<Rightarrow> 'a list" where
  "append_new xs x = (if x \<in> set xs then xs else xs @ [x])"

lemma foldl_append_new_set: "set (foldl append_new xs ys) = set xs \<union> set ys"
  by (induction ys arbitrary: xs) auto

lemma foldl_append_new_distinct: "distinct xs \<Longrightarrow> distinct (foldl append_new xs ys)"
  by (induction ys arbitrary: xs) auto

lemma foldl_append_new_Nil_iff: "foldl append_new [] ys = [] \<longleftrightarrow> ys = []"
  by (metis foldl_append_new_set empty_set set_empty sup_bot_left)

section \<open>Decimal numbers\<close>

definition digit_char :: "nat \<Rightarrow> char" where
  "digit_char d = char_of (48 + d)"

definition is_digit :: "char \<Rightarrow> bool" where
  "is_digit c = (48 \<le> (of_char c :: nat) \<and> (of_char c :: nat) \<le> 57)"

definition digit_val :: "char \<Rightarrow> nat" where
  "digit_val c = of_char c - 48"

lemma digit_char_props [simp]:
  "d < 10 \<Longrightarrow> is_digit (digit_char d)" "d < 10 \<Longrightarrow> digit_val (digit_char d) = d"
  by (simp_all add: digit_char_def is_digit_def digit_val_def)

fun decimal :: "nat \<Rightarrow> string" where
  "decimal n = (if n < 10 then [digit_char n] else decimal (n div 10) @ [digit_char (n mod 10)])"

declare decimal.simps [simp del]

definition minus_char :: char where "minus_char = CHR ''-''"
definition plus_char :: char where "plus_char = CHR ''+''"

text \<open>\<open>fmt.Sprintf("%d", i)\<close>.\<close>

definition Sprintf_d :: "int \<Rightarrow> string" where
  "Sprintf_d i = (if i < 0 then minus_char # decimal (nat (- i)) else decimal (nat i))"

text \<open>The value of a string of digits, read after the digits of \<open>acc\<close>.\<close>

fun digits_val :: "nat \<Rightarrow> string \<Rightarrow> nat option" where
  "digits_val acc [] = Some acc"
| "digits_val acc (c # cs) = (if is_digit c then digits_val (10 * acc + digit_val c) cs else None)"

definition max_int64 :: int where "max_int64 = 9223372036854775807"
definition min_int64 :: int where "min_int64 = - 9223372036854775808"

text \<open>
  \<open>strconv.Atoi\<close> on a 64-bit platform: an optional sign, at least one digit, nothing else, and
  the value has to fit \<open>int\<close>; \<open>None\<close> is the error return.
\<close>

definition Atoi :: "string \<Rightarrow> int option" where
  "Atoi s =
     (let neg = (case s of c # _ \<Rightarrow> c = minus_char | [] \<Rightarrow> False);
          ds = (case s of c # cs \<Rightarrow> if c = minus_char \<or> c = plus_char then cs else s | [] \<Rightarrow> [])
      in if ds = [] then None
         else case digits_val 0 ds of
                None \<Rightarrow> None
              | Some n \<Rightarrow>
                  (let v = (if neg then - int n else int n)
                   in if min_int64 \<le> v \<and> v \<le> max_int64 then Some v else None))"

lemma Atoi_range: "Atoi s = Some v \<Longrightarrow> min_int64 \<le> v \<and> v \<le> max_int64"
  unfolding Atoi_def Let_def by (simp split: option.splits if_splits)

lemma digits_val_append:
  "digits_val acc (xs @ ys) = (case digits_val acc xs of None \<Rightarrow> None | Some n \<Rightarrow> digits_val n ys)"
  by (induction xs arbitrary: acc) auto

lemma decimal_nonempty [simp]: "decimal n \<noteq> []"
  by (subst decimal.simps) simp

lemma digits_val_decimal [simp]: "digits_val 0 (decimal n) = Some n"
proof (induction n rule: decimal.induct)
  case (1 n)
  then show ?case
    by (subst decimal.simps) (simp add: digits_val_append)
qed

lemma decimal_digits: "\<forall>c \<in> set (decimal n). is_digit c"
proof (induction n rule: decimal.induct)
  case (1 n)
  then show ?case
    by (subst decimal.simps) simp
qed

lemma sign_not_digit [simp]: "\<not> is_digit minus_char" "\<not> is_digit plus_char"
  by (simp_all add: is_digit_def minus_char_def plus_char_def)

lemma decimal_hd_not_sign: "decimal n = c # cs \<Longrightarrow> c \<noteq> minus_char \<and> c \<noteq> plus_char"
  using decimal_digits [of n] by auto

text \<open>Printing and parsing are inverse, so printed numbers are equal only for equal numbers.\<close>

lemma Atoi_Sprintf_d:
  assumes "min_int64 \<le> i" and "i \<le> max_int64"
  shows "Atoi (Sprintf_d i) = Some i"
proof (cases "i < 0")
  case True
  with assms show ?thesis by (simp add: Atoi_def Sprintf_d_def)
next
  case False
  obtain c cs where c: "decimal (nat i) = c # cs" by (cases "decimal (nat i)") auto
  from False assms show ?thesis
    using decimal_hd_not_sign [OF c] digits_val_decimal [of "nat i"]
    by (simp add: Atoi_def Sprintf_d_def c)
qed

lemma Sprintf_d_inj: "Sprintf_d i = Sprintf_d j \<Longrightarrow> i = j"
proof -
  have nat_inj: "decimal a = decimal b \<Longrightarrow> a = b" for a b
    by (metis digits_val_decimal option.inject)
  have sign: "decimal a \<noteq> minus_char # cs" for a cs
    using decimal_hd_not_sign by blast
  show "Sprintf_d i = Sprintf_d j \<Longrightarrow> i = j"
    using sign sign [symmetric] nat_inj
    by (fastforce simp: Sprintf_d_def split: if_splits)
qed

text \<open>\<open>strconv.ParseBool\<close>; \<open>None\<close> is the error return.\<close>

definition ParseBool :: "string \<Rightarrow> bool option" where
  "ParseBool s =
     (if s \<in> set [''1'', ''t'', ''T'', ''true'', ''TRUE'', ''True''] then Some True
      else if s \<in> set [''0'', ''f'', ''F'', ''false'', ''FALSE'', ''False''] then Some False
      else None)"

section \<open>Time\<close>

text \<open>
  A \<open>time.Duration\<close> is a count of nanoseconds and a \<open>time.Time\<close> the nanoseconds since Go's
  zero time, so the zero time is 0.
\<close>

type_synonym duration = int
type_synonym time = int

definition Second :: duration where "Second = 1000000000"
definition Minute :: duration where "Minute = 60 * Second"
definition Millisecond :: duration where "Millisecond = 1000000"

text \<open>\<open>Time.Sub\<close> saturates at the range of a \<open>Duration\<close>.\<close>

definition Time_Sub :: "time \<Rightarrow> time \<Rightarrow> duration" where
  "Time_Sub t u = max min_int64 (min max_int64 (t - u))"

lemma Time_Sub_mono: "t \<le> t' \<Longrightarrow> u' \<le> u \<Longrightarrow> Time_Sub t u \<le> Time_Sub t' u'"
  by (auto simp: Time_Sub_def)

lemmas duration_defs = Second_def Minute_def Millisecond_def

end
