(* ===== verification/Json.thy ===== *)
theory Json
  imports GoStd
begin

text \<open>
  JSON values as \<open>encoding/json\<close> decodes them into an \<open>interface{}\<close>, and \<open>json.Marshal\<close> on
  them. An operation's \<open>Result\<close> is such a value. A number is kept as the text Go prints for
  it, an object as its members; \<open>json.Marshal\<close> never fails on such a value.
\<close>

datatype json =
    JNull
  | JBool bool
  | JNumber string
  | JString string
  | JArray "json list"
  | JObject "(string \<times> json) list"

definition quote_char :: char where "quote_char = CHR 0x22"
definition backslash :: char where "backslash = CHR 0x5C"

definition hex_char :: "nat \<Rightarrow> char" where
  "hex_char d = (if d < 10 then char_of (48 + d) else char_of (87 + d))"

text \<open>
  The escapes of a byte inside a string: the quote, the backslash, the named control
  characters, other control characters and the three HTML characters as \<open>\u00xx\<close>.
\<close>

definition json_escape :: "char \<Rightarrow> string" where
  "json_escape c =
     (let n = (of_char c :: nat) in
      if c = quote_char \<or> c = backslash then [backslash, c]
      else if n = 8 then [backslash, CHR ''b'']
      else if n = 12 then [backslash, CHR ''f'']
      else if n = 10 then [backslash, CHR ''n'']
      else if n = 13 then [backslash, CHR ''r'']
      else if n = 9 then [backslash, CHR ''t'']
      else if n < 32 \<or> n = 60 \<or> n = 62 \<or> n = 38
        then [backslash, CHR ''u'', CHR ''0'', CHR ''0'', hex_char (n div 16), hex_char (n mod 16)]
      else [c])"

text \<open>The line separators U+2028 and U+2029 (three bytes in UTF-8) are escaped as well.\<close>

fun json_string_body :: "string \<Rightarrow> string" where
  "json_string_body (a # b # c # s) =
     (if a = CHR 0xE2 \<and> b = CHR 0x80 \<and> (c = CHR 0xA8 \<or> c = CHR 0xA9)
      then backslash # ''u202'' @ [if c = CHR 0xA8 then CHR ''8'' else CHR ''9''] @ json_string_body s
      else json_escape a @ json_string_body (b # c # s))"
| "json_string_body (a # s) = json_escape a @ json_string_body s"
| "json_string_body [] = []"

definition json_string :: "string \<Rightarrow> string" where
  "json_string s = quote_char # json_string_body s @ [quote_char]"

fun join_comma :: "string list \<Rightarrow> string" where
  "join_comma [] = []"
| "join_comma [x] = x"
| "join_comma (x # xs) = x @ '','' @ join_comma xs"

text \<open>\<open>json.Marshal\<close>: no spaces, the members of an object sorted by name.\<close>

fun json_Marshal :: "json \<Rightarrow> string" where
  "json_Marshal JNull = ''null''"
| "json_Marshal (JBool b) = (if b then ''true'' else ''false'')"
| "json_Marshal (JNumber t) = t"
| "json_Marshal (JString s) = json_string s"
| "json_Marshal (JArray xs) = ''['' @ join_comma (map json_Marshal xs) @ '']''"
| "json_Marshal (JObject kvs) =
     ''{'' @ join_comma (map (\<lambda>(k, t). json_string k @ '':'' @ t)
              (sort_key fst (map (\<lambda>(k, v). (k, json_Marshal v)) kvs))) @ ''}''"

text \<open>\<open>json.Marshal\<close> of a possibly nil \<open>*interface{}\<close>: nil is \<open>null\<close>.\<close>

definition json_Marshal_ptr :: "json option \<Rightarrow> string" where
  "json_Marshal_ptr p = (case p of None \<Rightarrow> ''null'' | Some v \<Rightarrow> json_Marshal v)"

end
