(* ===== verification/Types.thy ===== *)
theory Types
  imports Json
begin

text \<open>
  The data the controller works on: the fields it uses of the Kubernetes objects (\<open>Service\<close>,
  \<open>Node\<close>), of the Crusoe API's requests and answers, the configuration read through viper and
  the \<open>ServiceReconciler\<close> itself.

  A Go \<open>int32\<close> or \<open>int64\<close> field is a \<open>32 word\<close> or \<open>64 word\<close> read with \<open>sint\<close>. A nil map
  reads like an empty one and the code makes the annotation map before every write to it, so
  annotations are a plain partial map. A pointer field that may be nil is an \<open>option\<close>.
\<close>

section \<open>Kubernetes objects\<close>

datatype int_or_string = FromInt "32 word" | FromString string

text \<open>\<open>corev1.ServicePort\<close>. \<open>AppProtocol\<close> is a pointer, and \<open>==\<close> on the struct compares the
  address it holds, so it is kept as an address.\<close>

record service_port =
  spName :: string
  spProtocol :: string
  spAppProtocol :: "nat option"
  spPort :: "32 word"
  spTargetPort :: int_or_string
  spNodePort :: "32 word"

record load_balancer_ingress =
  ingressIP :: string

type_synonym annotations = "string \<rightharpoonup> string"

text \<open>\<open>corev1.Service\<close>: metadata, then spec, then status.\<close>

record service =
  svcNamespace :: string
  svcName :: string
  svcUID :: string
  svcAnnotations :: annotations
  svcDeletionTimestamp :: "time option"
  svcFinalizers :: "string list"
  svcType :: string
  svcPorts :: "service_port list"
  svcLoadBalancerClass :: "string option"
  svcLoadBalancerSourceRanges :: "string list"
  svcIngress :: "load_balancer_ingress list"

record node_condition =
  condType :: string
  condStatus :: string

record node_address =
  addrType :: string
  addrAddress :: string

record node =
  nodeName :: string
  nodeLabels :: "string \<rightharpoonup> string"
  nodeConditions :: "node_condition list"
  nodeAddresses :: "node_address list"

record namespaced_name =
  nnNamespace :: string
  nnName :: string

definition object_key :: "service \<Rightarrow> namespaced_name" where
  "object_key svc = \<lparr>nnNamespace = svcNamespace svc, nnName = svcName svc\<rparr>"

text \<open>\<open>DeletionTimestamp.IsZero()\<close>: nil or the zero time.\<close>

definition DeletionTimestamp_IsZero :: "service \<Rightarrow> bool" where
  "DeletionTimestamp_IsZero svc =
     (case svcDeletionTimestamp svc of None \<Rightarrow> True | Some t \<Rightarrow> t = 0)"

text \<open>Reading an annotation with \<open>m[k]\<close> (a missing key reads as the empty string), and
  writing and deleting one.\<close>

definition annotation :: "service \<Rightarrow> string \<Rightarrow> string" where
  "annotation svc k = (case svcAnnotations svc k of None \<Rightarrow> '''' | Some v \<Rightarrow> v)"

definition set_annotation :: "string \<Rightarrow> string \<Rightarrow> service \<Rightarrow> service" where
  "set_annotation k v svc = svc\<lparr>svcAnnotations := (svcAnnotations svc)(k \<mapsto> v)\<rparr>"

definition delete_annotation :: "string \<Rightarrow> service \<Rightarrow> service" where
  "delete_annotation k svc = svc\<lparr>svcAnnotations := (svcAnnotations svc)(k := None)\<rparr>"

lemma svcAnnotations_set_annotation [simp]:
  "svcAnnotations (set_annotation k v svc) = (svcAnnotations svc)(k \<mapsto> v)"
  by (simp add: set_annotation_def)

lemma svcAnnotations_delete_annotation [simp]:
  "svcAnnotations (delete_annotation k svc) = (svcAnnotations svc)(k := None)"
  by (simp add: delete_annotation_def)

section \<open>The Crusoe API\<close>

record backend =
  backendIp :: string
  backendPort :: "64 word"

record listen_port_and_backend =
  ListenPort :: "64 word"
  Backends :: "backend list"

record health_check_options =
  FailureCount :: int
  Interval :: int
  SuccessCount :: int
  Timeout :: int

record external_load_balancer =
  elbId :: string
  elbName :: string
  elbVip :: string
  elbProtocol :: string

record external_load_balancer_post_request =
  postVpcId :: string
  postName :: string
  postLocation :: string
  postProtocol :: string
  postListenPortsAndBackends :: "listen_port_and_backend list"
  postHealthCheckOptions :: "health_check_options option"

record external_load_balancer_patch_request =
  patchId :: string
  patchHealthCheckOptions :: "health_check_options option"
  patchListenPortsAndBackends :: "listen_port_and_backend list"

record firewall_rule_object =
  froCidr :: string
  froResourceId :: string

record vpc_firewall_rule =
  fwId :: string
  fwName :: string
  fwVpcNetworkId :: string
  fwDestinationPorts :: "string list"
  fwProtocols :: "string list"
  fwSources :: "firewall_rule_object list"

record vpc_firewall_rules_post_request =
  fwPostName :: string
  fwPostAction :: string
  fwPostDestinations :: "firewall_rule_object list"
  fwPostDestinationPorts :: "string list"
  fwPostProtocols :: "string list"
  fwPostVpcNetworkId :: string
  fwPostDirection :: string
  fwPostSources :: "firewall_rule_object list"

record vpc_firewall_rules_patch_request =
  fwPatchName :: string
  fwPatchDestinations :: "firewall_rule_object list"
  fwPatchDestinationPorts :: "string list"
  fwPatchProtocols :: "string list"
  fwPatchSources :: "firewall_rule_object list"

text \<open>\<open>swagger.Operation\<close>; \<open>Result\<close> is a pointer to decoded JSON.\<close>

record operation =
  opOperationId :: string
  opState :: string
  opStartedAt :: string
  opCompletedAt :: string
  opResult :: "json option"

record vpc_subnet =
  subnetVpcNetworkId :: string
  subnetLocation :: string

record kubernetes_cluster =
  clusterSubnetId :: string

text \<open>
  An HTTP response as the code looks at it; \<open>bodyCloseErr\<close> is what closing its body returns.
\<close>

record http_response =
  StatusCode :: int
  Status :: string
  bodyCloseErr :: "string option"

text \<open>
  What a call of the generated client returns, \<open>(value, *http.Response, error)\<close>: a nil error
  comes with a response and a value; an error may or may not come with the response it was
  made from, and its value is never used. An error of the client is known by its text: errors
  from outside the repository never wrap its sentinels.
\<close>

datatype 'a api_result = ApiOk http_response 'a | ApiErr string "http_response option"

section \<open>Configuration and the reconciler\<close>

text \<open>The values \<open>viper.GetString\<close> returns for the flags; an unset flag is the empty string.\<close>

record config =
  CrusoeAPIEndpoint :: string
  CrusoeProjectID :: string
  CrusoeSubnetID :: string
  CrusoeClusterID :: string

text \<open>\<open>crusoe.LoadBalancerLookup\<close>, without its HTTP client.\<close>

record load_balancer_lookup =
  lookupBasePath :: string
  lookupUserAgent :: string

text \<open>
  The optional parts of \<open>ServiceReconciler\<close>: whether there is an \<open>APIReader\<close> and a
  \<open>Recorder\<close>, and the load balancer lookup.
\<close>

record reconciler =
  rHasAPIReader :: bool
  rLoadBalancerLookup :: "load_balancer_lookup option"
  rHasRecorder :: bool

text \<open>\<open>ctrl.Result\<close> and its \<open>IsZero\<close>.\<close>

record ctrl_result =
  Requeue :: bool
  RequeueAfter :: duration

definition empty_result :: ctrl_result where
  "empty_result = \<lparr>Requeue = False, RequeueAfter = 0\<rparr>"

definition requeue_after :: "duration \<Rightarrow> ctrl_result" where
  "requeue_after d = \<lparr>Requeue = False, RequeueAfter = d\<rparr>"

definition Result_IsZero :: "ctrl_result \<Rightarrow> bool" where
  "Result_IsZero r = (\<not> Requeue r \<and> RequeueAfter r = 0)"

lemma Result_IsZero_simps [simp]:
  "Result_IsZero empty_result" "Result_IsZero (requeue_after d) \<longleftrightarrow> d = 0"
  by (simp_all add: Result_IsZero_def empty_result_def requeue_after_def)

section \<open>Constants of the controller package\<close>

definition AnnotationHealthCheckFailureCount :: string where
  "AnnotationHealthCheckFailureCount = ''crusoe.ai/health-check-failure-count''"
definition AnnotationHealthCheckInterval :: string where
  "AnnotationHealthCheckInterval = ''crusoe.ai/health-check-interval''"
definition AnnotationHealthCheckSuccessCount :: string where
  "AnnotationHealthCheckSuccessCount = ''crusoe.ai/health-check-success-count''"
definition AnnotationHealthCheckTimeout :: string where
  "AnnotationHealthCheckTimeout = ''crusoe.ai/health-check-timeout''"
definition loadbalancerIDLabelKey :: string where
  "loadbalancerIDLabelKey = ''crusoe.ai/load-balancer-id''"
definition ManageFirewallRuleKey :: string where
  "ManageFirewallRuleKey = ''crusoe.ai/manage-firewall-rule''"
definition ManageFirewallRuleEnabled :: string where
  "ManageFirewallRuleEnabled = ''true''"
definition FirewallRuleOperationIdKey :: string where
  "FirewallRuleOperationIdKey = ''crusoe.ai/firewall-rule-operation-id''"
definition FirewallRuleIdKey :: string where
  "FirewallRuleIdKey = ''crusoe.ai/firewall-rule-id''"
definition OpSuccess :: string where "OpSuccess = ''SUCCEEDED''"
definition OpFailed :: string where "OpFailed = ''FAILED''"
definition OpInProgress :: string where "OpInProgress = ''IN_PROGRESS''"
definition LoadBalancerProtocolTCP :: string where
  "LoadBalancerProtocolTCP = ''LOAD_BALANCER_PROTOCOL_TCP''"
definition LoadBalancerProtocolUDP :: string where
  "LoadBalancerProtocolUDP = ''LOAD_BALANCER_PROTOCOL_UDP''"
definition AnnotationLoadBalancerProtocol :: string where
  "AnnotationLoadBalancerProtocol = ''crusoe.ai/load-balancer-protocol''"
definition firewallRuleInFlightHoldLimit :: duration where
  "firewallRuleInFlightHoldLimit = 5 * Minute"
definition firewallRuleCreateRetryDelay :: duration where
  "firewallRuleCreateRetryDelay = 2 * Minute"
definition firewallRuleRequeueInterval :: duration where
  "firewallRuleRequeueInterval = 10 * Second"
definition staleCacheRequeueInterval :: duration where
  "staleCacheRequeueInterval = Second"
definition loadBalancerIngressRequeueInterval :: duration where
  "loadBalancerIngressRequeueInterval = 10 * Second"
definition maxOperationResultText :: nat where
  "maxOperationResultText = 512"
definition EventReasonUnsupportedPortProtocol :: string where
  "EventReasonUnsupportedPortProtocol = ''UnsupportedPortProtocol''"
definition EventReasonProtocolDrift :: string where
  "EventReasonProtocolDrift = ''ProtocolDrift''"
definition EventReasonLoadBalancerCreateFailed :: string where
  "EventReasonLoadBalancerCreateFailed = ''LoadBalancerCreateFailed''"
definition finalizer :: string where
  "finalizer = ''crusoe.ai/crusoe-load-balancer-controller.finalizer''"

lemmas annotation_keys =
  loadbalancerIDLabelKey_def ManageFirewallRuleKey_def FirewallRuleOperationIdKey_def
  FirewallRuleIdKey_def AnnotationLoadBalancerProtocol_def

text \<open>The keys are pairwise different; these facts spare the proofs the comparison of texts.\<close>

lemma annotation_keys_distinct [simp]:
  "FirewallRuleIdKey \<noteq> FirewallRuleOperationIdKey"
  "FirewallRuleOperationIdKey \<noteq> FirewallRuleIdKey"
  "loadbalancerIDLabelKey \<noteq> FirewallRuleIdKey"
  "FirewallRuleIdKey \<noteq> loadbalancerIDLabelKey"
  "loadbalancerIDLabelKey \<noteq> FirewallRuleOperationIdKey"
  "FirewallRuleOperationIdKey \<noteq> loadbalancerIDLabelKey"
  "loadbalancerIDLabelKey \<noteq> AnnotationLoadBalancerProtocol"
  "AnnotationLoadBalancerProtocol \<noteq> loadbalancerIDLabelKey"
  "ManageFirewallRuleKey \<noteq> FirewallRuleIdKey"
  "FirewallRuleIdKey \<noteq> ManageFirewallRuleKey"
  "ManageFirewallRuleKey \<noteq> FirewallRuleOperationIdKey"
  "FirewallRuleOperationIdKey \<noteq> ManageFirewallRuleKey"
  "ManageFirewallRuleKey \<noteq> loadbalancerIDLabelKey"
  "loadbalancerIDLabelKey \<noteq> ManageFirewallRuleKey"
  "ManageFirewallRuleKey \<noteq> AnnotationLoadBalancerProtocol"
  "AnnotationLoadBalancerProtocol \<noteq> ManageFirewallRuleKey"
  "AnnotationLoadBalancerProtocol \<noteq> FirewallRuleIdKey"
  "FirewallRuleIdKey \<noteq> AnnotationLoadBalancerProtocol"
  "AnnotationLoadBalancerProtocol \<noteq> FirewallRuleOperationIdKey"
  "FirewallRuleOperationIdKey \<noteq> AnnotationLoadBalancerProtocol"
  by (simp_all add: annotation_keys)

lemma states_distinct [simp]:
  "OpSuccess \<noteq> OpFailed" "OpFailed \<noteq> OpSuccess" "OpInProgress \<noteq> OpSuccess"
  "OpSuccess \<noteq> OpInProgress" "OpInProgress \<noteq> OpFailed" "OpFailed \<noteq> OpInProgress"
  by (simp_all add: OpSuccess_def OpFailed_def OpInProgress_def)

lemma protocols_distinct [simp]:
  "LoadBalancerProtocolTCP \<noteq> LoadBalancerProtocolUDP"
  "LoadBalancerProtocolUDP \<noteq> LoadBalancerProtocolTCP"
  by (simp_all add: LoadBalancerProtocolTCP_def LoadBalancerProtocolUDP_def)

lemma intervals_positive [simp]:
  "0 < firewallRuleRequeueInterval" "0 < staleCacheRequeueInterval"
  "0 < loadBalancerIngressRequeueInterval" "0 < firewallRuleCreateRetryDelay"
  "0 \<le> firewallRuleCreateRetryDelay"
  "firewallRuleRequeueInterval \<noteq> 0" "loadBalancerIngressRequeueInterval \<noteq> 0"
  "staleCacheRequeueInterval \<noteq> 0"
  by (simp_all add: firewallRuleRequeueInterval_def staleCacheRequeueInterval_def
      loadBalancerIngressRequeueInterval_def firewallRuleCreateRetryDelay_def duration_defs)

end
