(* ===== verification/Env.thy ===== *)
theory Env
  imports Types
begin

text \<open>
  The world outside the controller: the Kubernetes API server, the Crusoe API, the clock, the
  random source, and the pure functions of third-party packages. It is a parameter of the
  model: an \<open>env\<close> answers each call as a function of the history of everything that
  happened before and of the call's arguments, so quantifying over \<open>env\<close> quantifies over
  every behaviour of the services, and nothing is assumed about them.

  Each call appends one \<open>event\<close> holding its arguments and its answer; emitting a
  Kubernetes Event (\<open>RecordWarning\<close>) and sleeping append one too. The history is what the
  properties of the development are about.
\<close>

section \<open>Calls of the lookup's HTTP client\<close>

record http_get_request =
  reqURL :: string
  reqAccept :: string
  reqUserAgent :: "string option"

text \<open>\<open>listBody\<close> is the outcome of decoding the response body into a list of load balancers.\<close>

record list_response =
  listStatusCode :: int
  listStatus :: string
  listBody :: "string + external_load_balancer list"

section \<open>Events\<close>

datatype event =
    GetService namespaced_name "kube_error + service"
  | ReaderGetService namespaced_name "kube_error + service"
  | ListNodes "kube_error + node list"
  | ListServices "kube_error + service list"
  | UpdateService service "kube_error + service"
  | PatchService service service "kube_error + service"
  | PatchServiceStatus service service "kube_error + service"
  | CreateExternalLoadBalancer external_load_balancer_post_request string "operation option api_result"
  | GetExternalLoadBalancerOperation string string "operation api_result"
  | GetExternalLoadBalancer string string "external_load_balancer api_result"
  | UpdateExternalLoadBalancer external_load_balancer_patch_request string string "unit api_result"
  | DeleteExternalLoadBalancer string string "http_response option \<times> string option"
  | HTTPDo http_get_request "string + list_response"
  | GetVPCSubnet string string "vpc_subnet api_result"
  | GetCluster string string "kubernetes_cluster api_result"
  | ListVPCFirewallRules string "vpc_firewall_rule list api_result"
  | GetVPCFirewallRule string string "vpc_firewall_rule api_result"
  | PatchVPCFirewallRule vpc_firewall_rules_patch_request string string "unit api_result"
  | CreateVPCFirewallRule vpc_firewall_rules_post_request string "operation option api_result"
  | DeleteVPCFirewallRule string string "unit api_result"
  | GetNetworkingVPCFirewallRulesOperation string string "operation api_result"
  | Now time
  | RandInt int "string + int"
  | RecordWarning namespaced_name string string
  | Sleep duration

section \<open>The environment\<close>

text \<open>
  After the calls come the pure functions of packages outside the repository: the finalizer
  helpers of \<open>controllerutil\<close>; \<open>json.Unmarshal\<close> at the two client types whose field tags live
  in the generated client; \<open>time.Parse\<close> for RFC 3339; and the URL functions that may fail.
\<close>

record env =
  env_get_service :: "event list \<Rightarrow> namespaced_name \<Rightarrow> (kube_error + service)"
  env_reader_get_service :: "event list \<Rightarrow> namespaced_name \<Rightarrow> (kube_error + service)"
  env_list_nodes :: "event list \<Rightarrow> (kube_error + node list)"
  env_list_services :: "event list \<Rightarrow> (kube_error + service list)"
  env_update_service :: "event list \<Rightarrow> service \<Rightarrow> (kube_error + service)"
  env_patch_service :: "event list \<Rightarrow> service \<Rightarrow> service \<Rightarrow> (kube_error + service)"
  env_patch_service_status :: "event list \<Rightarrow> service \<Rightarrow> service \<Rightarrow> (kube_error + service)"
  env_create_lb :: "event list \<Rightarrow> external_load_balancer_post_request \<Rightarrow> string \<Rightarrow> (operation option api_result)"
  env_get_lb_operation :: "event list \<Rightarrow> string \<Rightarrow> string \<Rightarrow> (operation api_result)"
  env_get_lb :: "event list \<Rightarrow> string \<Rightarrow> string \<Rightarrow> (external_load_balancer api_result)"
  env_update_lb :: "event list \<Rightarrow> external_load_balancer_patch_request \<Rightarrow> string \<Rightarrow> string \<Rightarrow> (unit api_result)"
  env_delete_lb :: "event list \<Rightarrow> string \<Rightarrow> string \<Rightarrow> (http_response option \<times> string option)"
  env_http_do :: "event list \<Rightarrow> http_get_request \<Rightarrow> (string + list_response)"
  env_get_subnet :: "event list \<Rightarrow> string \<Rightarrow> string \<Rightarrow> (vpc_subnet api_result)"
  env_get_cluster :: "event list \<Rightarrow> string \<Rightarrow> string \<Rightarrow> (kubernetes_cluster api_result)"
  env_list_rules :: "event list \<Rightarrow> string \<Rightarrow> (vpc_firewall_rule list api_result)"
  env_get_rule :: "event list \<Rightarrow> string \<Rightarrow> string \<Rightarrow> (vpc_firewall_rule api_result)"
  env_patch_rule :: "event list \<Rightarrow> vpc_firewall_rules_patch_request \<Rightarrow> string \<Rightarrow> string \<Rightarrow> (unit api_result)"
  env_create_rule :: "event list \<Rightarrow> vpc_firewall_rules_post_request \<Rightarrow> string \<Rightarrow> (operation option api_result)"
  env_delete_rule :: "event list \<Rightarrow> string \<Rightarrow> string \<Rightarrow> (unit api_result)"
  env_get_rule_operation :: "event list \<Rightarrow> string \<Rightarrow> string \<Rightarrow> (operation api_result)"
  env_now :: "event list \<Rightarrow> time"
  env_rand_int :: "event list \<Rightarrow> int \<Rightarrow> (string + int)"
  env_ContainsFinalizer :: "service \<Rightarrow> string \<Rightarrow> bool"
  env_AddFinalizer :: "service \<Rightarrow> string \<Rightarrow> service"
  env_RemoveFinalizer :: "service \<Rightarrow> string \<Rightarrow> service"
  env_unmarshal_firewall_rule :: "string \<Rightarrow> vpc_firewall_rule option"
  env_unmarshal_load_balancer :: "string \<Rightarrow> external_load_balancer option"
  env_time_Parse :: "string \<Rightarrow> time option"
  env_url_JoinPath :: "string \<Rightarrow> string list \<Rightarrow> string + string"
  env_NewRequest :: "string \<Rightarrow> string option"

type_synonym 'a prog = "(event list, 'a) state"

section \<open>The calls\<close>

named_theorems call_defs \<open>the calls as interactions with the environment\<close>

definition call_GetService :: "env \<Rightarrow> namespaced_name \<Rightarrow> (kube_error + service) prog" where
  [call_defs]: "call_GetService env a = io (\<lambda>h. env_get_service env h a) (GetService a)"

definition call_ReaderGetService :: "env \<Rightarrow> namespaced_name \<Rightarrow> (kube_error + service) prog" where
  [call_defs]: "call_ReaderGetService env a = io (\<lambda>h. env_reader_get_service env h a) (ReaderGetService a)"

definition call_ListNodes :: "env \<Rightarrow> (kube_error + node list) prog" where
  [call_defs]: "call_ListNodes env = io (\<lambda>h. env_list_nodes env h) (ListNodes)"

definition call_ListServices :: "env \<Rightarrow> (kube_error + service list) prog" where
  [call_defs]: "call_ListServices env = io (\<lambda>h. env_list_services env h) (ListServices)"

definition call_UpdateService :: "env \<Rightarrow> service \<Rightarrow> (kube_error + service) prog" where
  [call_defs]: "call_UpdateService env a = io (\<lambda>h. env_update_service env h a) (UpdateService a)"

definition call_PatchService :: "env \<Rightarrow> service \<Rightarrow> service \<Rightarrow> (kube_error + service) prog" where
  [call_defs]: "call_PatchService env a b = io (\<lambda>h. env_patch_service env h a b) (PatchService a b)"

definition call_PatchServiceStatus :: "env \<Rightarrow> service \<Rightarrow> service \<Rightarrow> (kube_error + service) prog" where
  [call_defs]: "call_PatchServiceStatus env a b = io (\<lambda>h. env_patch_service_status env h a b) (PatchServiceStatus a b)"

definition call_CreateExternalLoadBalancer :: "env \<Rightarrow> external_load_balancer_post_request \<Rightarrow> string \<Rightarrow> (operation option api_result) prog" where
  [call_defs]: "call_CreateExternalLoadBalancer env a b = io (\<lambda>h. env_create_lb env h a b) (CreateExternalLoadBalancer a b)"

definition call_GetExternalLoadBalancerOperation :: "env \<Rightarrow> string \<Rightarrow> string \<Rightarrow> (operation api_result) prog" where
  [call_defs]: "call_GetExternalLoadBalancerOperation env a b = io (\<lambda>h. env_get_lb_operation env h a b) (GetExternalLoadBalancerOperation a b)"

definition call_GetExternalLoadBalancer :: "env \<Rightarrow> string \<Rightarrow> string \<Rightarrow> (external_load_balancer api_result) prog" where
  [call_defs]: "call_GetExternalLoadBalancer env a b = io (\<lambda>h. env_get_lb env h a b) (GetExternalLoadBalancer a b)"

definition call_UpdateExternalLoadBalancer :: "env \<Rightarrow> external_load_balancer_patch_request \<Rightarrow> string \<Rightarrow> string \<Rightarrow> (unit api_result) prog" where
  [call_defs]: "call_UpdateExternalLoadBalancer env a b c = io (\<lambda>h. env_update_lb env h a b c) (UpdateExternalLoadBalancer a b c)"

definition call_DeleteExternalLoadBalancer :: "env \<Rightarrow> string \<Rightarrow> string \<Rightarrow> (http_response option \<times> string option) prog" where
  [call_defs]: "call_DeleteExternalLoadBalancer env a b = io (\<lambda>h. env_delete_lb env h a b) (DeleteExternalLoadBalancer a b)"

definition call_HTTPDo :: "env \<Rightarrow> http_get_request \<Rightarrow> (string + list_response) prog" where
  [call_defs]: "call_HTTPDo env a = io (\<lambda>h. env_http_do env h a) (HTTPDo a)"

definition call_GetVPCSubnet :: "env \<Rightarrow> string \<Rightarrow> string \<Rightarrow> (vpc_subnet api_result) prog" where
  [call_defs]: "call_GetVPCSubnet env a b = io (\<lambda>h. env_get_subnet env h a b) (GetVPCSubnet a b)"

definition call_GetCluster :: "env \<Rightarrow> string \<Rightarrow> string \<Rightarrow> (kubernetes_cluster api_result) prog" where
  [call_defs]: "call_GetCluster env a b = io (\<lambda>h. env_get_cluster env h a b) (GetCluster a b)"

definition call_ListVPCFirewallRules :: "env \<Rightarrow> string \<Rightarrow> (vpc_firewall_rule list api_result) prog" where
  [call_defs]: "call_ListVPCFirewallRules env a = io (\<lambda>h. env_list_rules env h a) (ListVPCFirewallRules a)"

definition call_GetVPCFirewallRule :: "env \<Rightarrow> string \<Rightarrow> string \<Rightarrow> (vpc_firewall_rule api_result) prog" where
  [call_defs]: "call_GetVPCFirewallRule env a b = io (\<lambda>h. env_get_rule env h a b) (GetVPCFirewallRule a b)"

definition call_PatchVPCFirewallRule :: "env \<Rightarrow> vpc_firewall_rules_patch_request \<Rightarrow> string \<Rightarrow> string \<Rightarrow> (unit api_result) prog" where
  [call_defs]: "call_PatchVPCFirewallRule env a b c = io (\<lambda>h. env_patch_rule env h a b c) (PatchVPCFirewallRule a b c)"

definition call_CreateVPCFirewallRule :: "env \<Rightarrow> vpc_firewall_rules_post_request \<Rightarrow> string \<Rightarrow> (operation option api_result) prog" where
  [call_defs]: "call_CreateVPCFirewallRule env a b = io (\<lambda>h. env_create_rule env h a b) (CreateVPCFirewallRule a b)"

definition call_DeleteVPCFirewallRule :: "env \<Rightarrow> string \<Rightarrow> string \<Rightarrow> (unit api_result) prog" where
  [call_defs]: "call_DeleteVPCFirewallRule env a b = io (\<lambda>h. env_delete_rule env h a b) (DeleteVPCFirewallRule a b)"

definition call_GetNetworkingVPCFirewallRulesOperation :: "env \<Rightarrow> string \<Rightarrow> string \<Rightarrow> (operation api_result) prog" where
  [call_defs]: "call_GetNetworkingVPCFirewallRulesOperation env a b = io (\<lambda>h. env_get_rule_operation env h a b) (GetNetworkingVPCFirewallRulesOperation a b)"

definition call_Now :: "env \<Rightarrow> time prog" where
  [call_defs]: "call_Now env = io (\<lambda>h. env_now env h) (Now)"

definition call_RandInt :: "env \<Rightarrow> int \<Rightarrow> (string + int) prog" where
  [call_defs]: "call_RandInt env a = io (\<lambda>h. env_rand_int env h a) (RandInt a)"

text \<open>Interactions without an answer.\<close>

definition record_event :: "namespaced_name \<Rightarrow> string \<Rightarrow> string \<Rightarrow> unit prog" where
  [call_defs]: "record_event key reason message = io (\<lambda>h. ()) (\<lambda>_. RecordWarning key reason message)"

definition time_Sleep :: "duration \<Rightarrow> unit prog" where
  [call_defs]: "time_Sleep d = io (\<lambda>h. ()) (\<lambda>_. Sleep d)"

section \<open>Classifying events\<close>

text \<open>Creations and deletions of cloud resources, and writes to the Service.\<close>

fun is_create_lb :: "event \<Rightarrow> bool" where
  "is_create_lb (CreateExternalLoadBalancer _ _ _) = True"
| "is_create_lb _ = False"

fun is_delete_lb :: "event \<Rightarrow> bool" where
  "is_delete_lb (DeleteExternalLoadBalancer _ _ _) = True"
| "is_delete_lb _ = False"

fun is_update_lb :: "event \<Rightarrow> bool" where
  "is_update_lb (UpdateExternalLoadBalancer _ _ _ _) = True"
| "is_update_lb _ = False"

fun is_create_rule :: "event \<Rightarrow> bool" where
  "is_create_rule (CreateVPCFirewallRule _ _ _) = True"
| "is_create_rule _ = False"

fun is_delete_rule :: "event \<Rightarrow> bool" where
  "is_delete_rule (DeleteVPCFirewallRule _ _ _) = True"
| "is_delete_rule _ = False"

fun is_patch_rule :: "event \<Rightarrow> bool" where
  "is_patch_rule (PatchVPCFirewallRule _ _ _ _) = True"
| "is_patch_rule _ = False"

fun is_service_update :: "event \<Rightarrow> bool" where
  "is_service_update (UpdateService _ _) = True"
| "is_service_update _ = False"

fun is_service_patch :: "event \<Rightarrow> bool" where
  "is_service_patch (PatchService _ _ _) = True"
| "is_service_patch _ = False"

fun is_status_patch :: "event \<Rightarrow> bool" where
  "is_status_patch (PatchServiceStatus _ _ _) = True"
| "is_status_patch _ = False"

text \<open>A change to a cloud resource, as opposed to reading one.\<close>

definition is_cloud_change :: "event \<Rightarrow> bool" where
  "is_cloud_change e =
     (is_create_lb e \<or> is_delete_lb e \<or> is_update_lb e \<or>
      is_create_rule e \<or> is_delete_rule e \<or> is_patch_rule e)"

text \<open>A write to the Service object in the cluster.\<close>

definition is_service_write :: "event \<Rightarrow> bool" where
  "is_service_write e = (is_service_update e \<or> is_service_patch e \<or> is_status_patch e)"

text \<open>Reading the world: these events change nothing outside the controller.\<close>

fun is_read :: "event \<Rightarrow> bool" where
  "is_read (UpdateService _ _) = False"
| "is_read (PatchService _ _ _) = False"
| "is_read (PatchServiceStatus _ _ _) = False"
| "is_read (CreateExternalLoadBalancer _ _ _) = False"
| "is_read (UpdateExternalLoadBalancer _ _ _ _) = False"
| "is_read (DeleteExternalLoadBalancer _ _ _) = False"
| "is_read (PatchVPCFirewallRule _ _ _ _) = False"
| "is_read (CreateVPCFirewallRule _ _ _) = False"
| "is_read (DeleteVPCFirewallRule _ _ _) = False"
| "is_read (RecordWarning _ _ _) = False"
| "is_read (Sleep _) = False"
| "is_read _ = True"

definition reads_only :: "event list \<Rightarrow> bool" where
  "reads_only es = (\<forall>e \<in> set es. is_read e)"

lemma reads_only_simps [simp]:
  "reads_only []"
  "reads_only (e # es) \<longleftrightarrow> is_read e \<and> reads_only es"
  "reads_only (es @ es') \<longleftrightarrow> reads_only es \<and> reads_only es'"
  by (auto simp: reads_only_def)

lemmas event_class = is_cloud_change_def is_service_write_def

lemma is_read_harmless:
  "is_read e \<Longrightarrow> \<not> is_cloud_change e \<and> \<not> is_service_write e"
  by (cases e) (simp_all add: event_class)

lemma reads_only_harmless:
  assumes "reads_only es" and "e \<in> set es"
  shows "\<not> is_cloud_change e" "\<not> is_service_write e"
    "\<not> is_create_lb e" "\<not> is_delete_lb e" "\<not> is_update_lb e" "\<not> is_create_rule e"
    "\<not> is_delete_rule e" "\<not> is_patch_rule e" "\<not> is_service_update e"
    "\<not> is_service_patch e" "\<not> is_status_patch e"
  using assms is_read_harmless [of e] by (auto simp: reads_only_def event_class)

end
