(* ===== verification/Fixtures.thy ===== *)
theory Fixtures
  imports Env
begin

text \<open>
  Concrete inputs for the witnesses, like the fixtures of the repository's tests: an
  environment in which every service is unreachable, to be updated with the answers a witness
  needs, and a few plain objects.
\<close>

definition offline_env :: env where
  "offline_env =
    \<lparr>env_get_service = (\<lambda>_ _. Inl (OtherKubeError ''offline'')),
     env_reader_get_service = (\<lambda>_ _. Inl (OtherKubeError ''offline'')),
     env_list_nodes = (\<lambda>_. Inl (OtherKubeError ''offline'')),
     env_list_services = (\<lambda>_. Inl (OtherKubeError ''offline'')),
     env_update_service = (\<lambda>_ _. Inl (OtherKubeError ''offline'')),
     env_patch_service = (\<lambda>_ _ _. Inl (OtherKubeError ''offline'')),
     env_patch_service_status = (\<lambda>_ _ _. Inl (OtherKubeError ''offline'')),
     env_create_lb = (\<lambda>_ _ _. ApiErr ''offline'' None),
     env_get_lb_operation = (\<lambda>_ _ _. ApiErr ''offline'' None),
     env_get_lb = (\<lambda>_ _ _. ApiErr ''offline'' None),
     env_update_lb = (\<lambda>_ _ _ _. ApiErr ''offline'' None),
     env_delete_lb = (\<lambda>_ _ _. (None, Some ''offline'')),
     env_http_do = (\<lambda>_ _. Inl ''offline''),
     env_get_subnet = (\<lambda>_ _ _. ApiErr ''offline'' None),
     env_get_cluster = (\<lambda>_ _ _. ApiErr ''offline'' None),
     env_list_rules = (\<lambda>_ _. ApiErr ''offline'' None),
     env_get_rule = (\<lambda>_ _ _. ApiErr ''offline'' None),
     env_patch_rule = (\<lambda>_ _ _ _. ApiErr ''offline'' None),
     env_create_rule = (\<lambda>_ _ _. ApiErr ''offline'' None),
     env_delete_rule = (\<lambda>_ _ _. ApiErr ''offline'' None),
     env_get_rule_operation = (\<lambda>_ _ _. ApiErr ''offline'' None),
     env_now = (\<lambda>_. 0),
     env_rand_int = (\<lambda>_ _. Inl ''offline''),
     env_ContainsFinalizer = (\<lambda>svc f. f \<in> set (svcFinalizers svc)),
     env_AddFinalizer = (\<lambda>svc f. svc\<lparr>svcFinalizers := svcFinalizers svc @ [f]\<rparr>),
     env_RemoveFinalizer = (\<lambda>svc f. svc\<lparr>svcFinalizers := filter (\<lambda>g. g \<noteq> f) (svcFinalizers svc)\<rparr>),
     env_unmarshal_firewall_rule = (\<lambda>_. None),
     env_unmarshal_load_balancer = (\<lambda>_. None),
     env_time_Parse = (\<lambda>_. None),
     env_url_JoinPath = (\<lambda>base parts. Inr base),
     env_NewRequest = (\<lambda>_. None)\<rparr>"

definition ok_response :: http_response where
  "ok_response = \<lparr>StatusCode = 200, Status = ''200 OK'', bodyCloseErr = None\<rparr>"

definition status_response :: "int \<Rightarrow> http_response" where
  "status_response code = \<lparr>StatusCode = code, Status = Sprintf_d code, bodyCloseErr = None\<rparr>"

definition test_op :: "string \<Rightarrow> operation" where
  "test_op state =
    \<lparr>opOperationId = ''op'', opState = state, opStartedAt = '''', opCompletedAt = '''', opResult = None\<rparr>"

definition tcp_port :: service_port where
  "tcp_port =
    \<lparr>spName = ''http'', spProtocol = ''TCP'', spAppProtocol = None, spPort = 80,
     spTargetPort = FromInt 8080, spNodePort = 30080\<rparr>"

definition test_svc :: service where
  "test_svc =
    \<lparr>svcNamespace = ''default'', svcName = ''web'', svcUID = ''u'', svcAnnotations = Map.empty,
     svcDeletionTimestamp = None, svcFinalizers = [finalizer], svcType = ''LoadBalancer'',
     svcPorts = [tcp_port], svcLoadBalancerClass = None, svcLoadBalancerSourceRanges = [],
     svcIngress = []\<rparr>"

definition test_config :: config where
  "test_config =
    \<lparr>CrusoeAPIEndpoint = ''https://api'', CrusoeProjectID = ''project'',
     CrusoeSubnetID = ''subnet'', CrusoeClusterID = ''''\<rparr>"

definition test_reconciler :: reconciler where
  "test_reconciler =
    \<lparr>rHasAPIReader = True,
     rLoadBalancerLookup = Some \<lparr>lookupBasePath = ''https://api'', lookupUserAgent = ''agent''\<rparr>,
     rHasRecorder = True\<rparr>"

lemmas fixture_defs = ok_response_def status_response_def test_op_def test_config_def
  test_reconciler_def

end
