(* ===== verification/Operations.thy ===== *)
theory Operations
  imports Complex_Main Fixtures
begin

text \<open>
  Asynchronous operations of the Crusoe API: \<open>OpResultToItem\<close>, \<open>firewallRuleRetryWait\<close> and
  \<open>GetFirewallRuleOperationResult\<close> of \<open>internal/controller/util.go\<close>, \<open>operationResultText\<close> and
  \<open>earliestRequeue\<close> of \<open>service_controller.go\<close>, and \<open>jitterMillisecond\<close> and the polling loop
  \<open>WaitForOperation\<close> of \<open>internal/utils/utils.go\<close>.

  The loop may poll for ever, so it takes fuel: \<open>Unfinished\<close> is "still polling after this many
  polls". More fuel never changes a result, and the loop returns for some fuel whenever the
  operation settles eventually.
\<close>

section \<open>Results\<close>

text \<open>\<open>json.Marshal\<close> and then \<open>json.Unmarshal\<close> at the wanted type, the parameter.\<close>

definition OpResultToItem :: "(string \<Rightarrow> 'a option) \<Rightarrow> json option \<Rightarrow> go_error + 'a" where
  "OpResultToItem unmarshal res =
     (case unmarshal (json_Marshal_ptr res) of
        None \<Rightarrow> Inl (Sentinel ErrUnableToGetOpRes)
      | Some item \<Rightarrow> Inr item)"

definition operationResultText :: "operation \<Rightarrow> string" where
  "operationResultText op =
     (case opResult op of
        None \<Rightarrow> ''no details reported''
      | Some result \<Rightarrow>
          (let text = json_Marshal result
           in if length text > maxOperationResultText
              then take maxOperationResultText text @ ''...'' else text))"

text \<open>
  The text of an operation's result put into events and logs never exceeds 512 bytes and
  an ellipsis, whatever payload the API returned.
\<close>

theorem operation_result_text_bounded:
  "length (operationResultText op) \<le> maxOperationResultText + 3"
  by (auto simp: operationResultText_def maxOperationResultText_def Let_def split: option.split)

section \<open>Requeue delays\<close>

fun retry_wait_loop :: "env \<Rightarrow> string list \<Rightarrow> time \<Rightarrow> duration" where
  "retry_wait_loop env [] now = 0"
| "retry_wait_loop env (timestamp # rest) now =
     (case env_time_Parse env timestamp of
        None \<Rightarrow> retry_wait_loop env rest now
      | Some settled \<Rightarrow>
          min firewallRuleCreateRetryDelay
            (max 0 (Time_Sub (settled + firewallRuleCreateRetryDelay) now)))"

definition firewallRuleRetryWait :: "env \<Rightarrow> operation \<Rightarrow> time \<Rightarrow> duration" where
  "firewallRuleRetryWait env op now = retry_wait_loop env [opCompletedAt op, opStartedAt op] now"

fun earliest_loop :: "duration \<Rightarrow> duration list \<Rightarrow> duration" where
  "earliest_loop earliest [] = earliest"
| "earliest_loop earliest (delay # delays) =
     (if delay > 0 \<and> (earliest = 0 \<or> delay < earliest)
      then earliest_loop delay delays else earliest_loop earliest delays)"

definition earliestRequeue :: "duration list \<Rightarrow> duration" where
  "earliestRequeue delays = earliest_loop 0 delays"

lemma earliest_loop_positive:
  "0 < e \<Longrightarrow> earliest_loop e ds = Min (insert e (set (filter (\<lambda>d. 0 < d) ds)))"
proof (induction ds arbitrary: e)
  case (Cons d ds)
  show ?case
    using Cons by (cases "filter (\<lambda>d. 0 < d) ds") (auto simp: min_def simp del: set_filter)
qed simp

lemma earliest_loop_zero:
  "earliest_loop 0 ds =
     (if \<exists>d \<in> set ds. 0 < d then Min (set (filter (\<lambda>d. 0 < d) ds)) else 0)"
  by (induction ds) (auto simp: earliest_loop_positive)

text \<open>
  \<open>earliestRequeue\<close> is the smallest of the positive delays, and zero (no requeue) exactly
  when no delay is positive.
\<close>

theorem earliest_requeue_spec:
  "earliestRequeue ds = (if \<exists>d \<in> set ds. 0 < d then Min (set (filter (\<lambda>d. 0 < d) ds)) else 0)"
  by (simp only: earliestRequeue_def earliest_loop_zero)

lemma firewallRuleRetryWait_cases:
  "firewallRuleRetryWait env op now =
     (case (case env_time_Parse env (opCompletedAt op) of
              None \<Rightarrow> env_time_Parse env (opStartedAt op) | Some t \<Rightarrow> Some t) of
        None \<Rightarrow> 0
      | Some settled \<Rightarrow>
          min firewallRuleCreateRetryDelay
            (max 0 (Time_Sub (settled + firewallRuleCreateRetryDelay) now)))"
  by (simp add: firewallRuleRetryWait_def split: option.split)

text \<open>
  The wait after a failed create is between zero and the retry delay whatever the server's
  timestamps are, never grows as time passes, and is zero once the delay has passed since the
  operation settled (at its completion, or its start if the completion time is unusable); with
  no usable timestamp it is zero.
\<close>

theorem retry_wait_spec:
  "0 \<le> firewallRuleRetryWait env op now \<and>
   firewallRuleRetryWait env op now \<le> firewallRuleCreateRetryDelay \<and>
   firewallRuleRetryWait env op (now + \<bar>later\<bar>) \<le> firewallRuleRetryWait env op now \<and>
   (case (env_time_Parse env (opCompletedAt op), env_time_Parse env (opStartedAt op)) of
      (None, None) \<Rightarrow> firewallRuleRetryWait env op now = 0
    | (None, Some t) \<Rightarrow>
        (firewallRuleRetryWait env op now = 0 \<longleftrightarrow> t + firewallRuleCreateRetryDelay \<le> now)
    | (Some t, _) \<Rightarrow>
        (firewallRuleRetryWait env op now = 0 \<longleftrightarrow> t + firewallRuleCreateRetryDelay \<le> now))"
proof -
  define wait where "wait t n = min firewallRuleCreateRetryDelay
      (max 0 (Time_Sub (t + firewallRuleCreateRetryDelay) n))" for t n
  have zero: "wait t n = 0 \<longleftrightarrow> t + firewallRuleCreateRetryDelay \<le> n" for t n
    by (auto simp: wait_def Time_Sub_def min_int64_def max_int64_def min_def max_def
        firewallRuleCreateRetryDelay_def duration_defs)
  have bounds: "0 \<le> wait t n" "wait t n \<le> firewallRuleCreateRetryDelay" for t n
    by (simp_all add: wait_def)
  have mono: "wait t (n + \<bar>later\<bar>) \<le> wait t n" for t n
    unfolding wait_def by (intro min.mono max.mono order_refl Time_Sub_mono) simp_all
  show ?thesis
    unfolding firewallRuleRetryWait_cases wait_def [symmetric]
    by (auto simp: zero bounds mono split: option.split)
qed

section \<open>Firewall rule operations\<close>

text \<open>The three return values of \<open>GetFirewallRuleOperationResult\<close>, nil as \<open>None\<close>.\<close>

type_synonym rule_operation_result = "operation option \<times> vpc_firewall_rule option \<times> go_error option"

definition unresolvable_error :: "string \<Rightarrow> string \<Rightarrow> go_error" where
  "unresolvable_error operationID detail =
     Wrapped '''' (Sentinel ErrFirewallRuleOperationUnresolvable) ('': operation '' @ operationID @ detail)"

definition GetFirewallRuleOperationResult ::
    "config \<Rightarrow> env \<Rightarrow> string \<Rightarrow> rule_operation_result prog" where
  "GetFirewallRuleOperationResult cfg env operationID = do {
     answer \<leftarrow> call_GetNetworkingVPCFirewallRulesOperation env (CrusoeProjectID cfg) operationID;
     State_Monad.return
       (case answer of
          ApiErr err httpResp \<Rightarrow>
            (case httpResp of
               Some resp \<Rightarrow>
                 (if StatusCode resp \<in> {400, 404, 410}
                  then (None, None, Some (unresolvable_error operationID ('': '' @ Status resp)))
                  else (None, None, Some (ExternalError err)))
             | None \<Rightarrow> (None, None, Some (ExternalError err)))
        | ApiOk resp op \<Rightarrow>
            (if StatusCode resp \<noteq> 200
             then (Some op, None, Some (Errorf (''failed to get firewall rule operation: '' @ Status resp)))
             else if opState op \<noteq> OpSuccess then (Some op, None, None)
             else
               (case OpResultToItem (env_unmarshal_firewall_rule env) (opResult op) of
                  Inl err \<Rightarrow>
                    (Some op, None, Some (unresolvable_error operationID ('' result: '' @ error_text err)))
                | Inr firewallRule \<Rightarrow>
                    (if fwId firewallRule = ''''
                     then (Some op, None,
                       Some (unresolvable_error operationID '' succeeded without a rule id''))
                     else (Some op, Some firewallRule, None)))))
   }"

lemma errors_Is_unresolvable [simp]:
  "errors_Is (unresolvable_error operationID detail) s \<longleftrightarrow> s = ErrFirewallRuleOperationUnresolvable"
  by (auto simp: unresolvable_error_def)

text \<open>
  The contract its callers rely on: a rule comes only with a succeeded operation and has an id;
  a succeeded operation without an error always comes with its rule; without an error there is
  an operation; and an error is either final (unresolvable) or transient.
\<close>

definition rule_operation_contract :: "rule_operation_result \<Rightarrow> bool" where
  "rule_operation_contract r =
     (case r of
        (Some op, Some rule, None) \<Rightarrow> opState op = OpSuccess \<and> fwId rule \<noteq> ''''
      | (Some op, None, None) \<Rightarrow> opState op \<noteq> OpSuccess
      | (_, None, Some err) \<Rightarrow> \<not> errors_Is err ErrFirewallRuleOperationInFlight
      | _ \<Rightarrow> False)"

lemma GetFirewallRuleOperationResult_emits:
  "emits (GetFirewallRuleOperationResult cfg env operationID)
     (\<lambda>r es. rule_operation_contract r \<and>
        (\<exists>answer. es = [GetNetworkingVPCFirewallRulesOperation (CrusoeProjectID cfg) operationID answer])) h"
  by (auto simp: emits_def GetFirewallRuleOperationResult_def rule_operation_contract_def wp call_defs
      split: api_result.split sum.split option.split)

text \<open>The record of the operation is gone, or its id is one that the API will never accept.\<close>

definition operation_lost :: "operation api_result \<Rightarrow> bool" where
  "operation_lost answer \<longleftrightarrow>
     (case answer of ApiErr _ (Some resp) \<Rightarrow> StatusCode resp \<in> {400, 404, 410} | _ \<Rightarrow> False)"

text \<open>The operation that an answer with status 200 shows, and the rule of one that succeeded.\<close>

definition operation_read :: "operation api_result \<Rightarrow> operation option" where
  "operation_read answer =
     (case answer of ApiErr _ _ \<Rightarrow> None | ApiOk resp op \<Rightarrow> if StatusCode resp = 200 then Some op else None)"

definition carried_rule :: "env \<Rightarrow> operation \<Rightarrow> vpc_firewall_rule option" where
  "carried_rule env op =
     (case OpResultToItem (env_unmarshal_firewall_rule env) (opResult op) of
        Inl _ \<Rightarrow> None | Inr rule \<Rightarrow> if fwId rule = '''' then None else Some rule)"

lemmas operation_answers = operation_lost_def operation_read_def carried_rule_def

text \<open>
  C37. \<open>GetFirewallRuleOperationResult\<close> asks for the operation once and classifies every answer
  exactly. It returns the operation of every answer without an error, whatever its status. It
  returns a rule exactly when the operation was read with status 200, has succeeded and carries a
  rule with a non-empty id, and then that rule. It returns no error exactly when the operation was
  read with status 200 and either has not succeeded (it failed or is pending) or carries its
  rule. The error is an unresolvable one exactly when the record is lost (HTTP 400, 404 or 410) or
  the operation succeeded without a rule that can be used; every other error (no response, other
  statuses) is transient, the client's own error where there is one, and no error says that the
  operation is in flight.
\<close>

theorem rule_operation_classification:
  "\<exists>op rule err.
     let answer = env_get_rule_operation env h (CrusoeProjectID cfg) operationID in
     run_state (GetFirewallRuleOperationResult cfg env operationID) h =
       ((op, rule, err),
        h @ [GetNetworkingVPCFirewallRulesOperation (CrusoeProjectID cfg) operationID answer]) \<and>
     rule_operation_contract (op, rule, err) \<and>
     op = (case answer of ApiErr _ _ \<Rightarrow> None | ApiOk _ found \<Rightarrow> Some found) \<and>
     rule = (case operation_read answer of
        None \<Rightarrow> None | Some found \<Rightarrow> if opState found = OpSuccess then carried_rule env found else None) \<and>
     (err = None \<longleftrightarrow> (\<exists>found. operation_read answer = Some found \<and>
        (if opState found = OpSuccess then rule = carried_rule env found \<and> rule \<noteq> None else rule = None))) \<and>
     ((\<exists>e. err = Some e \<and> errors_Is e ErrFirewallRuleOperationUnresolvable) \<longleftrightarrow>
        operation_lost answer \<or>
        (\<exists>found. operation_read answer = Some found \<and> opState found = OpSuccess \<and> carried_rule env found = None)) \<and>
     (case answer of
        ApiErr e _ \<Rightarrow> err = Some (ExternalError e) \<or> operation_lost answer | ApiOk _ _ \<Rightarrow> True)"
  unfolding GetFirewallRuleOperationResult_def
  by (cases "env_get_rule_operation env h (CrusoeProjectID cfg) operationID")
    (auto simp: rule_operation_contract_def operation_answers call_defs Let_def
      split: sum.split option.split)

section \<open>The polling loop\<close>

definition jitterMillisecond :: "env \<Rightarrow> int \<Rightarrow> duration prog" where
  "jitterMillisecond env max_ms = do {
     bigRand \<leftarrow> call_RandInt env max_ms;
     State_Monad.return (case bigRand of Inl _ \<Rightarrow> 0 | Inr n \<Rightarrow> n * Millisecond)
   }"

definition backoffRate :: rat where "backoffRate = 7 / 4"
definition maxBackoffSecondsFloat :: rat where "maxBackoffSecondsFloat = 8"
definition jitterRangeMilliSecond :: int where "jitterRangeMilliSecond = 1000"

definition next_backoff :: "rat \<Rightarrow> rat" where
  "next_backoff backoffSecondsFloat =
     (if backoffSecondsFloat * backoffRate > maxBackoffSecondsFloat then maxBackoffSecondsFloat
      else backoffSecondsFloat * backoffRate)"

text \<open>The three errors of the loop.\<close>

definition wait_get_error :: "operation \<Rightarrow> string \<Rightarrow> go_error" where
  "wait_get_error op err =
     Wrapped (''error getting operation with id '' @ opOperationId op @ '': '') (ExternalError err) ''''"

definition wait_close_error :: "string \<Rightarrow> go_error" where
  "wait_close_error closeErr =
     Wrapped ''failed to close http response body: '' (ExternalError closeErr) ''''"

definition wait_status_error :: "operation \<Rightarrow> string \<Rightarrow> go_error" where
  "wait_status_error op status =
     Wrapped (''error getting operation with id '' @ opOperationId op @ '' with HTTP status '' @ status @ '': '')
       (Sentinel ErrOperationGet) ''''"

text \<open>
  The loop body polls, sleeps and goes on with the updated operation. The backoff is a
  \<open>float64\<close> in the code; all its values (1, 1.75, 3.0625, 5.359375, then 8) are exact, so a
  rational models it. \<open>getFunc\<close> is the function parameter of the code.
\<close>

fun wait_loop ::
    "nat \<Rightarrow> env \<Rightarrow> (string \<Rightarrow> string \<Rightarrow> operation api_result prog) \<Rightarrow> string \<Rightarrow> rat \<Rightarrow> operation \<Rightarrow>
     (go_error + operation) outcome prog" where
  "wait_loop 0 env getFunc projectID backoff op =
     (if opState op = OpInProgress then State_Monad.return Unfinished
      else State_Monad.return (Returned (Inr op)))"
| "wait_loop (Suc fuel) env getFunc projectID backoff op =
     (if opState op = OpInProgress then do {
        answer \<leftarrow> getFunc projectID (opOperationId op);
        case answer of
          ApiErr err _ \<Rightarrow> State_Monad.return (Returned (Inl (wait_get_error op err)))
        | ApiOk httpResp updatedOp \<Rightarrow>
            (case bodyCloseErr httpResp of
               Some closeErr \<Rightarrow> State_Monad.return (Returned (Inl (wait_close_error closeErr)))
             | None \<Rightarrow>
                 (if StatusCode httpResp \<noteq> 200
                  then State_Monad.return (Returned (Inl (wait_status_error op (Status httpResp))))
                  else do {
                    jitter \<leftarrow> jitterMillisecond env jitterRangeMilliSecond;
                    _ \<leftarrow> time_Sleep (\<lfloor>backoff\<rfloor> * Second + jitter);
                    wait_loop fuel env getFunc projectID (next_backoff backoff) updatedOp
                  }))
      }
      else State_Monad.return (Returned (Inr op)))"

text \<open>A nil operation (\<open>None\<close>) is dereferenced by the loop condition.\<close>

definition WaitForOperation ::
    "nat \<Rightarrow> env \<Rightarrow> (string \<Rightarrow> string \<Rightarrow> operation api_result prog) \<Rightarrow> operation option \<Rightarrow> string \<Rightarrow>
     (go_error + operation) outcome prog" where
  "WaitForOperation fuel env getFunc op projectID =
     (case op of
        None \<Rightarrow> State_Monad.return (Panicked ''nil pointer dereference: op.State'')
      | Some op \<Rightarrow> wait_loop fuel env getFunc projectID 1 op)"

section \<open>The contract of a poll\<close>

text \<open>
  What the loop needs of \<open>getFunc\<close>: one call is one event, of the kind that reads an operation.
\<close>

locale operation_getter =
  fixes getFunc :: "string \<Rightarrow> string \<Rightarrow> operation api_result prog"
    and poll_event :: "event \<Rightarrow> bool"
  assumes getFunc_emits: "emits (getFunc p i) (\<lambda>_ es. \<exists>e. es = [e] \<and> poll_event e) h"
begin

definition loop_event :: "event \<Rightarrow> bool" where
  "loop_event e \<longleftrightarrow> poll_event e \<or> (\<exists>m a. e = RandInt m a) \<or> (\<exists>d. e = Sleep d)"

lemma wp_getFunc: "(\<And>r e. poll_event e \<Longrightarrow> Q r (h @ [e])) \<Longrightarrow> wp (getFunc p i) Q h"
  by (rule wp_emits [OF getFunc_emits]) blast

lemma wait_loop_emits:
  "emits (wait_loop fuel env getFunc p b op)
     (\<lambda>r es. (\<forall>e \<in> set es. loop_event e) \<and>
        (case r of Returned (Inr op') \<Rightarrow> opState op' \<noteq> OpInProgress
         | Returned (Inl _) \<Rightarrow> True | Unfinished \<Rightarrow> True | Panicked _ \<Rightarrow> False)) h"
proof (induction fuel arbitrary: b op h)
  case 0
  show ?case by (simp add: emits_def wp)
next
  case (Suc fuel)
  show ?case
    unfolding emits_def
    by (auto simp: wp call_defs jitterMillisecond_def loop_event_def
        intro!: wp_getFunc wp_emits [OF Suc.IH] split: api_result.split option.split)
qed

end

interpretation lb_getter: operation_getter "call_GetExternalLoadBalancerOperation env"
    "\<lambda>e. case e of GetExternalLoadBalancerOperation _ _ _ \<Rightarrow> True | _ \<Rightarrow> False" for env
  by unfold_locales (simp add: emits_def wp call_defs)

section \<open>Fuel\<close>

text \<open>More fuel never changes a result.\<close>

lemma wait_loop_fuel_mono:
  assumes "run_state (wait_loop fuel env g p b op) h = (r, h')" and "r \<noteq> Unfinished"
  shows "run_state (wait_loop (fuel + k) env g p b op) h = (r, h')"
  using assms
proof (induction fuel arbitrary: b op h)
  case 0
  then show ?case by (cases k) (auto split: if_splits)
next
  case (Suc fuel)
  then show ?case
    by (auto split: if_splits prod.splits api_result.splits option.splits)
qed

text \<open>How many times an operation has been polled in a history.\<close>

fun is_lb_poll :: "event \<Rightarrow> bool" where
  "is_lb_poll (GetExternalLoadBalancerOperation _ _ _) = True"
| "is_lb_poll _ = False"

definition count_polls :: "event list \<Rightarrow> nat" where
  "count_polls h = length (filter is_lb_poll h)"

text \<open>The only answers that make the loop go on.\<close>

definition keeps_polling :: "operation api_result \<Rightarrow> bool" where
  "keeps_polling answer =
     (case answer of
        ApiOk httpResp op \<Rightarrow>
          bodyCloseErr httpResp = None \<and> StatusCode httpResp = 200 \<and> opState op = OpInProgress
      | ApiErr _ _ \<Rightarrow> False)"

lemma count_polls_simps [simp]:
  "count_polls (h @ es) = count_polls h + count_polls es"
  "count_polls [] = 0"
  "count_polls (e # es) = (if is_lb_poll e then Suc (count_polls es) else count_polls es)"
  by (simp_all add: count_polls_def)

lemma wait_loop_settled_op:
  "opState op \<noteq> OpInProgress \<Longrightarrow> wait_loop fuel env g p b op = State_Monad.return (Returned (Inr op))"
  by (cases fuel) simp_all

lemma wait_loop_enough_fuel:
  assumes settles: "\<And>h i. n \<le> count_polls h \<Longrightarrow> \<not> keeps_polling (env_get_lb_operation env h p i)"
    and "n \<le> count_polls h + fuel"
  shows "fst (run_state (wait_loop (Suc fuel) env (call_GetExternalLoadBalancerOperation env) p b op) h)
    \<noteq> Unfinished"
  using assms(2)
proof (induction fuel arbitrary: b op h)
  case 0
  then have "\<not> keeps_polling (env_get_lb_operation env h p (opOperationId op))"
    by (intro settles) simp
  then show ?case
    by (auto simp: keeps_polling_def call_defs wait_loop_settled_op jitterMillisecond_def
        split: api_result.splits option.splits)
next
  case (Suc fuel)
  have IH: "fst (run_state (wait_loop (Suc fuel) env (call_GetExternalLoadBalancerOperation env) p b' op')
      (h @ es)) \<noteq> Unfinished" if "count_polls es = 1" for b' op' es
    using Suc.prems that by (intro Suc.IH) simp
  show ?case
    by (subst wait_loop.simps(2))
      (use IH in \<open>auto simp: call_defs jitterMillisecond_def simp del: wait_loop.simps
        split: api_result.splits option.splits\<close>)
qed

text \<open>
  The load balancer's polling loop never reports an operation that is still in progress,
  whatever the API answers: when it returns an operation its state has settled, and all it did
  to the world was to read that operation, draw random numbers and sleep.
\<close>

theorem wait_returns_settled:
  assumes "run_state (WaitForOperation fuel env (call_GetExternalLoadBalancerOperation env)
      (Some op) projectID) h = (Returned (Inr op'), h')"
  shows "opState op' \<noteq> OpInProgress \<and>
    (\<exists>es. h' = h @ es \<and> (\<forall>e \<in> set es. is_lb_poll e \<or> (\<exists>m a. e = RandInt m a) \<or> (\<exists>d. e = Sleep d)))"
proof -
  have poll: "is_lb_poll e \<longleftrightarrow> (case e of GetExternalLoadBalancerOperation _ _ _ \<Rightarrow> True | _ \<Rightarrow> False)"
    for e by (cases e) simp_all
  from assms have "run_state (wait_loop fuel env (call_GetExternalLoadBalancerOperation env)
      projectID 1 op) h = (Returned (Inr op'), h')"
    by (simp add: WaitForOperation_def)
  with lb_getter.wait_loop_emits show ?thesis
    by (rule emitsD) (auto simp: lb_getter.loop_event_def poll)
qed

theorem wait_returns_settled_witness:
  "opState (test_op OpSuccess) \<noteq> OpInProgress"
proof -
  have "run_state (WaitForOperation 0 offline_env (call_GetExternalLoadBalancerOperation offline_env)
      (Some (test_op OpSuccess)) ''project'') [] = (Returned (Inr (test_op OpSuccess)), [])"
    by (simp add: WaitForOperation_def test_op_def)
  from wait_returns_settled [OF this] show ?thesis by blast
qed

text \<open>
  The polling loop terminates: if from the n-th poll on the API stops answering "in
  progress" (it reports another state, an error or a bad status), then with n + 1 units of fuel
  or more the loop returns, always with the same result.
\<close>

theorem wait_terminates:
  assumes "\<And>h i. n \<le> count_polls h \<Longrightarrow> \<not> keeps_polling (env_get_lb_operation env h projectID i)"
  shows "\<exists>r h'. r \<noteq> Unfinished \<and>
    (\<forall>k. run_state (WaitForOperation (Suc n + k) env (call_GetExternalLoadBalancerOperation env)
      (Some op) projectID) h = (r, h'))"
proof -
  let ?run = "\<lambda>fuel. run_state (wait_loop fuel env (call_GetExternalLoadBalancerOperation env)
    projectID 1 op) h"
  obtain r h' where r: "?run (Suc n) = (r, h')" by fastforce
  moreover from assms have "fst (?run (Suc n)) \<noteq> Unfinished"
    by (intro wait_loop_enough_fuel [where n = n]) auto
  ultimately have "r \<noteq> Unfinished" by simp
  with wait_loop_fuel_mono [OF r] show ?thesis
    by (auto simp: WaitForOperation_def)
qed

theorem wait_terminates_witness:
  "\<exists>r h'. r \<noteq> Unfinished \<and>
    (\<forall>k. run_state (WaitForOperation (Suc 0 + k) offline_env
       (call_GetExternalLoadBalancerOperation offline_env) (Some (test_op OpInProgress)) ''project'') []
       = (r, h'))"
  by (rule wait_terminates) (simp add: offline_env_def keeps_polling_def)

section \<open>Backoff\<close>

lemma next_backoff_range: "1 \<le> b \<Longrightarrow> b \<le> 8 \<Longrightarrow> 1 \<le> next_backoff b \<and> next_backoff b \<le> 8"
  by (auto simp: next_backoff_def backoffRate_def maxBackoffSecondsFloat_def)

text \<open>The contract of \<open>rand.Int\<close>: a number from zero up to its bound, the bound excluded.\<close>

definition rand_in_range :: "env \<Rightarrow> bool" where
  "rand_in_range env \<longleftrightarrow> (\<forall>h m n. env_rand_int env h m = Inr n \<longrightarrow> 0 \<le> n \<and> n < m)"

lemma jitter_range:
  assumes "rand_in_range env"
    and "\<And>j e. 0 \<le> j \<Longrightarrow> j < Second \<Longrightarrow> (\<forall>d. e \<noteq> Sleep d) \<Longrightarrow> Q j (h @ [e])"
  shows "wp (jitterMillisecond env jitterRangeMilliSecond) Q h"
proof -
  have "0 \<le> n * Millisecond \<and> n * Millisecond < Second" if "env_rand_int env h 1000 = Inr n" for n
    using assms(1) that by (auto simp: rand_in_range_def duration_defs)
  then show ?thesis
    by (auto simp: jitterMillisecond_def jitterRangeMilliSecond_def wp call_defs Second_def
        intro!: assms(2) split: sum.split)
qed

lemma wait_loop_sleeps:
  assumes "rand_in_range env"
  shows "1 \<le> b \<Longrightarrow> b \<le> 8 \<Longrightarrow>
    emits (wait_loop fuel env (call_GetExternalLoadBalancerOperation env) p b op)
      (\<lambda>_ es. \<forall>d. Sleep d \<in> set es \<longrightarrow> Second \<le> d \<and> d < 9 * Second) h"
proof (induction fuel arbitrary: b op h)
  case 0
  show ?case by (simp add: emits_def wp)
next
  case (Suc fuel)
  from Suc.prems have fl: "1 \<le> \<lfloor>b\<rfloor>" "\<lfloor>b\<rfloor> \<le> 8" by (auto simp: le_floor_iff floor_le_iff)
  have sec: "Second \<le> \<lfloor>b\<rfloor> * Second" "\<lfloor>b\<rfloor> * Second \<le> 8 * Second"
    using fl unfolding Second_def by linarith+
  then have sleep: "Second \<le> \<lfloor>b\<rfloor> * Second + j" "\<lfloor>b\<rfloor> * Second + j < 9 * Second"
    if "0 \<le> j" "j < Second" for j using that sec by linarith+
  show ?case
    unfolding emits_def
    using next_backoff_range [OF Suc.prems]
    by (auto simp: wp call_defs sleep intro!: jitter_range [OF assms] wp_emits [OF Suc.IH]
        split: api_result.split option.split)
qed

text \<open>
  Between two polls the loop sleeps at least one second and less than nine: the truncated
  backoff, from 1 up to 8 seconds, plus a jitter of less than a second.
\<close>

theorem wait_sleep_bounds:
  assumes "rand_in_range env"
    and "run_state (WaitForOperation fuel env (call_GetExternalLoadBalancerOperation env)
      (Some op) projectID) h = (r, h @ es)"
    and "Sleep d \<in> set es"
  shows "Second \<le> d \<and> d < 9 * Second"
  using emits_appendD [OF wait_loop_sleeps [OF assms(1), of 1] assms(2) [unfolded WaitForOperation_def, simplified]]
    assms(3) by simp

theorem wait_sleep_bounds_witness:
  "Second \<le> 1 * Second + 5 * Millisecond \<and> 1 * Second + 5 * Millisecond < 9 * Second"
proof (rule wait_sleep_bounds)
  let ?env = "offline_env\<lparr>env_get_lb_operation := \<lambda>_ _ _. ApiOk ok_response (test_op OpSuccess),
    env_rand_int := \<lambda>_ m. if 5 < m then Inr 5 else Inl ''bad bound''\<rparr>"
  show "rand_in_range ?env" by (simp add: rand_in_range_def)
  show "run_state (WaitForOperation 1 ?env (call_GetExternalLoadBalancerOperation ?env)
      (Some (test_op OpInProgress)) ''project'') [] =
    (Returned (Inr (test_op OpSuccess)),
     [] @ [GetExternalLoadBalancerOperation ''project'' ''op'' (ApiOk ok_response (test_op OpSuccess)),
       RandInt 1000 (Inr 5), Sleep (1 * Second + 5 * Millisecond)])"
    by (simp add: WaitForOperation_def test_op_def ok_response_def call_defs jitterMillisecond_def
        jitterRangeMilliSecond_def)
qed simp

end
