(* ===== verification/Vpc.thy ===== *)
theory Vpc
  imports Operations
begin

text \<open>
  The VPC and location a load balancer goes into: \<open>isSubnetIDProvided\<close>,
  \<open>getVPCInfoForSelfManagedCluster\<close> and \<open>getVPCAndLocationInfo\<close> of
  \<open>internal/controller/util.go\<close>. A configured subnet means a self-managed cluster; otherwise the
  cluster's own subnet is read first.
\<close>

definition isSubnetIDProvided :: "config \<Rightarrow> bool" where
  "isSubnetIDProvided cfg = (CrusoeSubnetID cfg \<noteq> '''')"

definition subnet_missing_error :: go_error where
  "subnet_missing_error =
     Errorf ''CRUSOE_SUBNET_ID environment variable must be defined in helm values if used''"

definition subnet_lookup_error :: "string \<Rightarrow> go_error" where
  "subnet_lookup_error err =
     Wrapped ''failed to get subnet information from Crusoe API: '' (ExternalError err) ''''"

definition getVPCInfoForSelfManagedCluster ::
    "config \<Rightarrow> env \<Rightarrow> (go_error + string \<times> string \<times> string) prog" where
  "getVPCInfoForSelfManagedCluster cfg env =
     (let subnetID = CrusoeSubnetID cfg
      in if subnetID = '''' then State_Monad.return (Inl subnet_missing_error)
         else do {
           answer \<leftarrow> call_GetVPCSubnet env (CrusoeProjectID cfg) subnetID;
           State_Monad.return
             (case answer of
                ApiErr err _ \<Rightarrow> Inl (subnet_lookup_error err)
              | ApiOk _ subnet \<Rightarrow> Inr (subnetVpcNetworkId subnet, subnetID, subnetLocation subnet))
         })"

definition getVPCAndLocationInfo :: "config \<Rightarrow> env \<Rightarrow> (go_error + string \<times> string) prog" where
  "getVPCAndLocationInfo cfg env =
     (if isSubnetIDProvided cfg then do {
        answer \<leftarrow> getVPCInfoForSelfManagedCluster cfg env;
        State_Monad.return
          (case answer of
             Inl err \<Rightarrow> Inl err
           | Inr (vpcID, subnetID, location) \<Rightarrow> Inr (vpcID, location))
      }
      else do {
        cluster \<leftarrow> call_GetCluster env (CrusoeProjectID cfg) (CrusoeClusterID cfg);
        case cluster of
          ApiErr err _ \<Rightarrow> State_Monad.return (Inl (ExternalError err))
        | ApiOk _ cluster \<Rightarrow> do {
            answer \<leftarrow> call_GetVPCSubnet env (CrusoeProjectID cfg) (clusterSubnetId cluster);
            State_Monad.return
              (case answer of
                 ApiErr err _ \<Rightarrow> Inl (ExternalError err)
               | ApiOk _ subnet \<Rightarrow> Inr (subnetVpcNetworkId subnet, subnetLocation subnet))
          }
      })"

text \<open>The reads by which the pass learns about the cluster: its nodes, subnet and cluster record.\<close>

fun is_topology_read :: "event \<Rightarrow> bool" where
  "is_topology_read (ListNodes _) = True"
| "is_topology_read (GetVPCSubnet _ _ _) = True"
| "is_topology_read (GetCluster _ _ _) = True"
| "is_topology_read _ = False"

definition topology_reads :: "event list \<Rightarrow> bool" where
  "topology_reads es = (\<forall>e \<in> set es. is_topology_read e)"

lemma topology_reads_simps [simp]:
  "topology_reads []"
  "topology_reads (e # es) \<longleftrightarrow> is_topology_read e \<and> topology_reads es"
  "topology_reads (es @ es') \<longleftrightarrow> topology_reads es \<and> topology_reads es'"
  by (auto simp: topology_reads_def)

lemma is_topology_read_is_read: "is_topology_read e \<Longrightarrow> is_read e"
  by (cases e) simp_all

lemma topology_reads_only [simp]: "topology_reads es \<Longrightarrow> reads_only es"
  using is_topology_read_is_read by (auto simp: topology_reads_def reads_only_def)

text \<open>The VPC and location come from the subnet read last; everything done is reading.\<close>

definition vpc_from_subnet :: "config \<Rightarrow> string \<times> string \<Rightarrow> event list \<Rightarrow> bool" where
  "vpc_from_subnet cfg vl es \<longleftrightarrow>
     (\<exists>es' subnetID resp subnet.
        es = es' @ [GetVPCSubnet (CrusoeProjectID cfg) subnetID (ApiOk resp subnet)] \<and>
        vl = (subnetVpcNetworkId subnet, subnetLocation subnet) \<and>
        (isSubnetIDProvided cfg \<longrightarrow> subnetID = CrusoeSubnetID cfg))"

definition vpc_lookup_failed :: "event list \<Rightarrow> bool" where
  "vpc_lookup_failed es \<longleftrightarrow>
     (\<exists>p s err resp. GetVPCSubnet p s (ApiErr err resp) \<in> set es) \<or>
     (\<exists>p c err resp. GetCluster p c (ApiErr err resp) \<in> set es)"

lemma vpc_lookup_failed_append [simp]:
  "vpc_lookup_failed (es @ es') \<longleftrightarrow> vpc_lookup_failed es \<or> vpc_lookup_failed es'"
  by (auto simp: vpc_lookup_failed_def)

lemma getVPCAndLocationInfo_emits:
  "emits (getVPCAndLocationInfo cfg env)
     (\<lambda>r es. topology_reads es \<and>
        (case r of Inl err \<Rightarrow> \<not> errors_Is err ErrFirewallRuleOperationInFlight \<and> vpc_lookup_failed es
         | Inr vl \<Rightarrow> vpc_from_subnet cfg vl es \<and> \<not> vpc_lookup_failed es)) h"
  by (auto simp: emits_def getVPCAndLocationInfo_def getVPCInfoForSelfManagedCluster_def
      isSubnetIDProvided_def vpc_from_subnet_def vpc_lookup_failed_def subnet_lookup_error_def wp call_defs Let_def
      split: api_result.split)

end
