(* ===== verification/Ports.thy ===== *)
theory Ports
  imports Env
begin

text \<open>
  The protocol of a Service's load balancer and the ports that belong on it:
  \<open>effectivePortProtocol\<close>, \<open>DeriveLoadBalancerProtocol\<close>, \<open>servicePortsForProtocol\<close>,
  \<open>isKnownLoadBalancerProtocol\<close>, \<open>protocolName\<close>, and the warning events about protocols
  (\<open>recordWarning\<close>, \<open>warnOnProtocolDrift\<close>), from \<open>internal/controller/util.go\<close> and
  \<open>service_controller.go\<close>.
\<close>

section \<open>Definitions\<close>

definition ProtocolTCP :: string where "ProtocolTCP = ''TCP''"
definition ProtocolUDP :: string where "ProtocolUDP = ''UDP''"

lemma ProtocolTCP_UDP_distinct [simp]: "ProtocolTCP \<noteq> ProtocolUDP" "ProtocolUDP \<noteq> ProtocolTCP"
  by (simp_all add: ProtocolTCP_def ProtocolUDP_def)

definition effectivePortProtocol :: "service_port \<Rightarrow> string" where
  "effectivePortProtocol port = (if spProtocol port = '''' then ProtocolTCP else spProtocol port)"

definition unsupported_port_error :: "service_port \<Rightarrow> go_error" where
  "unsupported_port_error port =
     Wrapped '''' (Sentinel ErrUnsupportedPortProtocol)
       ('': port '' @ Sprintf_d (sint (spPort port)) @ '' uses '' @ effectivePortProtocol port)"

text \<open>The loop over the ports, with its two flags and its early return.\<close>

fun derive_loop :: "service_port list \<Rightarrow> bool \<Rightarrow> bool \<Rightarrow> go_error + (bool \<times> bool)" where
  "derive_loop [] hasTCP hasUDP = Inr (hasTCP, hasUDP)"
| "derive_loop (port # ports) hasTCP hasUDP =
     (if effectivePortProtocol port = ProtocolTCP then derive_loop ports True hasUDP
      else if effectivePortProtocol port = ProtocolUDP then derive_loop ports hasTCP True
      else Inl (unsupported_port_error port))"

definition DeriveLoadBalancerProtocol :: "service \<Rightarrow> go_error + string" where
  "DeriveLoadBalancerProtocol svc =
     (case derive_loop (svcPorts svc) False False of
        Inl err \<Rightarrow> Inl err
      | Inr (hasTCP, hasUDP) \<Rightarrow>
          (if hasTCP \<and> hasUDP then Inl (Sentinel ErrMixedPortProtocols)
           else if hasUDP then Inr LoadBalancerProtocolUDP
           else Inr LoadBalancerProtocolTCP))"

definition servicePortsForProtocol :: "service_port list \<Rightarrow> string \<Rightarrow> service_port list" where
  "servicePortsForProtocol ports lbProtocol =
     (let wanted = (if lbProtocol = LoadBalancerProtocolUDP then ProtocolUDP else ProtocolTCP)
      in filter (\<lambda>port. effectivePortProtocol port = wanted) ports)"

definition isKnownLoadBalancerProtocol :: "string \<Rightarrow> bool" where
  "isKnownLoadBalancerProtocol protocol =
     (protocol = LoadBalancerProtocolTCP \<or> protocol = LoadBalancerProtocolUDP)"

definition protocolName :: "string \<Rightarrow> string" where
  "protocolName lbProtocol = strings_TrimPrefix lbProtocol ''LOAD_BALANCER_PROTOCOL_''"

definition recordWarning :: "reconciler \<Rightarrow> service \<Rightarrow> string \<Rightarrow> string \<Rightarrow> unit prog" where
  "recordWarning rc svc reason message =
     (if \<not> rHasRecorder rc then State_Monad.return ()
      else record_event (object_key svc) reason message)"

definition warnOnProtocolDrift :: "reconciler \<Rightarrow> service \<Rightarrow> string \<Rightarrow> unit prog" where
  "warnOnProtocolDrift rc svc lbProtocol =
     (case DeriveLoadBalancerProtocol svc of
        Inl err \<Rightarrow>
          recordWarning rc svc EventReasonProtocolDrift
            (''The '' @ protocolName lbProtocol @ '' load balancer cannot serve these ports: ''
             @ error_text err @ ''. Only the '' @ protocolName lbProtocol
             @ '' ports are being load balanced.'')
      | Inr desired \<Rightarrow>
          (if desired \<noteq> lbProtocol
           then recordWarning rc svc EventReasonProtocolDrift
                  (''The load balancer was created for '' @ protocolName lbProtocol
                   @ '' and its protocol cannot be changed. Recreate the Service to use ''
                   @ protocolName desired @ ''.'')
           else State_Monad.return ()))"

section \<open>The ports a load balancer serves\<close>

definition port_supported :: "service_port \<Rightarrow> bool" where
  "port_supported port =
     (effectivePortProtocol port = ProtocolTCP \<or> effectivePortProtocol port = ProtocolUDP)"

definition has_protocol :: "string \<Rightarrow> service_port list \<Rightarrow> bool" where
  "has_protocol p ports = (\<exists>port \<in> set ports. effectivePortProtocol port = p)"

lemma has_protocol_simps [simp]:
  "\<not> has_protocol p []"
  "has_protocol p (port # ports) \<longleftrightarrow> effectivePortProtocol port = p \<or> has_protocol p ports"
  by (auto simp: has_protocol_def)

lemma derive_loop_eq:
  "derive_loop ports t u =
     (case find (\<lambda>port. \<not> port_supported port) ports of
        Some port \<Rightarrow> Inl (unsupported_port_error port)
      | None \<Rightarrow> Inr (t \<or> has_protocol ProtocolTCP ports, u \<or> has_protocol ProtocolUDP ports))"
  by (induction ports t u rule: derive_loop.induct) (auto simp: port_supported_def split: option.split)

lemma DeriveLoadBalancerProtocol_ok_iff:
  "DeriveLoadBalancerProtocol svc = Inr p \<longleftrightarrow>
     (\<forall>port \<in> set (svcPorts svc). port_supported port) \<and>
     \<not> (has_protocol ProtocolTCP (svcPorts svc) \<and> has_protocol ProtocolUDP (svcPorts svc)) \<and>
     p = (if has_protocol ProtocolUDP (svcPorts svc)
          then LoadBalancerProtocolUDP else LoadBalancerProtocolTCP)"
  by (auto simp: DeriveLoadBalancerProtocol_def derive_loop_eq find_None_iff find_Some_iff
      split: option.splits if_splits)

lemma DeriveLoadBalancerProtocol_known:
  "DeriveLoadBalancerProtocol svc = Inr p \<Longrightarrow> isKnownLoadBalancerProtocol p"
  by (auto simp: DeriveLoadBalancerProtocol_ok_iff isKnownLoadBalancerProtocol_def)

lemma servicePortsForProtocol_set:
  "port \<in> set (servicePortsForProtocol ports p) \<longleftrightarrow>
     port \<in> set ports \<and>
     effectivePortProtocol port = (if p = LoadBalancerProtocolUDP then ProtocolUDP else ProtocolTCP)"
  by (auto simp: servicePortsForProtocol_def)

lemma servicePortsForProtocol_idem [simp]:
  "servicePortsForProtocol (servicePortsForProtocol ports p) p = servicePortsForProtocol ports p"
  by (simp add: servicePortsForProtocol_def Let_def)

lemma servicePortsForProtocol_derived:
  assumes "DeriveLoadBalancerProtocol svc = Inr p"
  shows "servicePortsForProtocol (svcPorts svc) p = svcPorts svc"
  using assms
  by (auto simp: DeriveLoadBalancerProtocol_ok_iff servicePortsForProtocol_def has_protocol_def
      port_supported_def Let_def filter_id_conv split: if_splits)

lemma protocolName_known [simp]:
  "protocolName LoadBalancerProtocolTCP = ProtocolTCP"
  "protocolName LoadBalancerProtocolUDP = ProtocolUDP"
  by (simp_all add: protocolName_def strings_TrimPrefix_def LoadBalancerProtocolTCP_def
      LoadBalancerProtocolUDP_def ProtocolTCP_def ProtocolUDP_def)

text \<open>
  C36. \<open>DeriveLoadBalancerProtocol\<close> on every Service: the first port with a protocol other than
  TCP or UDP is reported; otherwise TCP and UDP together are rejected as mixed; otherwise the
  result is UDP if there is a UDP port, and TCP if there is none (also with no ports at all).
\<close>

theorem derive_protocol_spec:
  "DeriveLoadBalancerProtocol svc =
     (case find (\<lambda>port. \<not> port_supported port) (svcPorts svc) of
        Some port \<Rightarrow> Inl (unsupported_port_error port)
      | None \<Rightarrow>
          (if has_protocol ProtocolTCP (svcPorts svc) \<and> has_protocol ProtocolUDP (svcPorts svc)
           then Inl (Sentinel ErrMixedPortProtocols)
           else if has_protocol ProtocolUDP (svcPorts svc) then Inr LoadBalancerProtocolUDP
           else Inr LoadBalancerProtocolTCP))"
  by (simp add: DeriveLoadBalancerProtocol_def derive_loop_eq split: option.split)

section \<open>Warnings\<close>

text \<open>A warning is at most one event, on the Service it is about, with its reason.\<close>

definition only_warnings :: "service \<Rightarrow> string \<Rightarrow> event list \<Rightarrow> bool" where
  "only_warnings svc reason es \<longleftrightarrow>
     es = [] \<or> (\<exists>message. es = [RecordWarning (object_key svc) reason message])"

lemma recordWarning_emits:
  "emits (recordWarning rc svc reason message)
     (\<lambda>_ es. es = (if rHasRecorder rc then [RecordWarning (object_key svc) reason message] else [])) h"
  by (simp add: emits_def recordWarning_def wp call_defs)

lemma warnOnProtocolDrift_emits:
  "emits (warnOnProtocolDrift rc svc p) (\<lambda>_ es. only_warnings svc EventReasonProtocolDrift es) h"
  by (auto simp: emits_def warnOnProtocolDrift_def recordWarning_def only_warnings_def wp call_defs
      split: sum.split)

end
