(* ===== verification/Nodes.thy ===== *)
theory Nodes
  imports Ports Fixtures
begin

text \<open>
  Nodes as load balancer backends: \<open>isNodeReady\<close>, \<open>isNodeIncluded\<close> and
  \<open>parseListenPortsAndBackends\<close> of \<open>internal/controller/util.go\<close>, and the event filters of
  \<open>SetupWithManager\<close> in \<open>service_controller.go\<close>: \<open>nodeEventPredicate\<close>, the Service predicate
  and the map from a Node event to the Services to reconcile.
\<close>

section \<open>Definitions\<close>

definition NodeReady :: string where "NodeReady = ''Ready''"
definition ConditionTrue :: string where "ConditionTrue = ''True''"
definition NodeInternalIP :: string where "NodeInternalIP = ''InternalIP''"
definition LabelNodeExcludeBalancers :: string where
  "LabelNodeExcludeBalancers = ''node.kubernetes.io/exclude-from-external-load-balancers''"
definition ServiceTypeLoadBalancer :: string where "ServiceTypeLoadBalancer = ''LoadBalancer''"

fun conditions_ready :: "node_condition list \<Rightarrow> bool" where
  "conditions_ready [] = False"
| "conditions_ready (condition # rest) =
     (if condType condition = NodeReady \<and> condStatus condition = ConditionTrue then True
      else conditions_ready rest)"

definition isNodeReady :: "node \<Rightarrow> bool" where
  "isNodeReady n = conditions_ready (nodeConditions n)"

definition isNodeIncluded :: "node \<Rightarrow> bool" where
  "isNodeIncluded n =
     (case nodeLabels n LabelNodeExcludeBalancers of
        None \<Rightarrow> True
      | Some v \<Rightarrow>
          (case ParseBool v of
             None \<Rightarrow> False
           | Some exclude \<Rightarrow> \<not> exclude))"

text \<open>The internal addresses of the ready nodes that are not excluded, in the order listed.\<close>

definition backendIPs :: "node list \<Rightarrow> string list" where
  "backendIPs nodes =
     (let readyNodes = filter (\<lambda>n. isNodeReady n \<and> isNodeIncluded n) nodes
      in concat (map (\<lambda>n. map addrAddress
           (filter (\<lambda>address. addrType address = NodeInternalIP) (nodeAddresses n))) readyNodes))"

text \<open>One listener per port with a node port; every backend address on that node port.\<close>

fun listeners :: "string list \<Rightarrow> service_port list \<Rightarrow> listen_port_and_backend list" where
  "listeners ips [] = []"
| "listeners ips (port # ports) =
     (if spNodePort port = 0 then listeners ips ports
      else \<lparr>ListenPort = scast (spPort port),
            Backends = map (\<lambda>ip. \<lparr>backendIp = ip, backendPort = scast (spNodePort port)\<rparr>) ips\<rparr>
           # listeners ips ports)"

definition parseListenPortsAndBackends ::
    "env \<Rightarrow> service_port list \<Rightarrow> listen_port_and_backend list prog" where
  "parseListenPortsAndBackends env ports = do {
     nodeList \<leftarrow> call_ListNodes env;
     case nodeList of
       Inl err \<Rightarrow> State_Monad.return []
     | Inr nodes \<Rightarrow> State_Monad.return (listeners (backendIPs nodes) ports)
   }"

text \<open>A \<open>client.Object\<close> as the filters see it after a type assertion.\<close>

datatype object = NodeObject node | ServiceObject service | OtherObject

definition object_included :: "object \<Rightarrow> bool" where
  "object_included obj = (case obj of NodeObject n \<Rightarrow> isNodeIncluded n | _ \<Rightarrow> True)"

datatype watch_event =
    CreateEvent object
  | UpdateEvent object object
  | DeleteEvent object
  | GenericEvent object

fun nodeEventPredicate :: "watch_event \<Rightarrow> bool" where
  "nodeEventPredicate (CreateEvent obj) = object_included obj"
| "nodeEventPredicate (UpdateEvent objectOld objectNew) =
     (case (objectOld, objectNew) of
        (NodeObject oldNode, NodeObject newNode) \<Rightarrow>
          (let oldIncluded = isNodeIncluded oldNode;
               newIncluded = isNodeIncluded newNode
           in if oldIncluded \<noteq> newIncluded then True
              else if \<not> newIncluded then False
              else isNodeReady oldNode \<noteq> isNodeReady newNode)
      | _ \<Rightarrow> False)"
| "nodeEventPredicate (DeleteEvent obj) = True"
| "nodeEventPredicate (GenericEvent obj) = False"

definition loadBalancerPredicate :: "object \<Rightarrow> bool" where
  "loadBalancerPredicate obj =
     (case obj of ServiceObject svc \<Rightarrow> svcType svc = ServiceTypeLoadBalancer | _ \<Rightarrow> False)"

definition mapNodeToLBServices :: "env \<Rightarrow> object \<Rightarrow> namespaced_name list prog" where
  "mapNodeToLBServices env obj =
     (case obj of
        NodeObject n \<Rightarrow> do {
          svcList \<leftarrow> call_ListServices env;
          case svcList of
            Inl err \<Rightarrow> State_Monad.return []
          | Inr items \<Rightarrow>
              State_Monad.return (map object_key
                (filter (\<lambda>svc. svcType svc = ServiceTypeLoadBalancer) items))
        }
      | _ \<Rightarrow> State_Monad.return [])"

section \<open>Backends\<close>

text \<open>A node serves traffic when it is ready and not excluded.\<close>

definition serves_traffic :: "node \<Rightarrow> bool" where
  "serves_traffic n = (isNodeReady n \<and> isNodeIncluded n)"

lemma isNodeReady_iff:
  "isNodeReady n \<longleftrightarrow>
     (\<exists>c \<in> set (nodeConditions n). condType c = NodeReady \<and> condStatus c = ConditionTrue)"
proof -
  have "conditions_ready cs \<longleftrightarrow> (\<exists>c \<in> set cs. condType c = NodeReady \<and> condStatus c = ConditionTrue)"
    for cs by (induction cs) auto
  then show ?thesis by (simp add: isNodeReady_def)
qed

lemma set_backendIPs:
  "ip \<in> set (backendIPs nodes) \<longleftrightarrow>
     (\<exists>n \<in> set nodes. serves_traffic n \<and>
        (\<exists>a \<in> set (nodeAddresses n). addrType a = NodeInternalIP \<and> addrAddress a = ip))"
  by (auto simp: backendIPs_def serves_traffic_def)

lemma backendIPs_append: "backendIPs (ns @ ms) = backendIPs ns @ backendIPs ms"
  by (simp add: backendIPs_def)

lemma backendIPs_drop_idle: "\<not> serves_traffic n \<Longrightarrow> backendIPs (n # ns) = backendIPs ns"
  by (auto simp: backendIPs_def serves_traffic_def)

lemma listeners_eq_map:
  "listeners ips ports =
     map (\<lambda>port. \<lparr>ListenPort = scast (spPort port),
                  Backends = map (\<lambda>ip. \<lparr>backendIp = ip, backendPort = scast (spNodePort port)\<rparr>) ips\<rparr>)
       (filter (\<lambda>port. spNodePort port \<noteq> 0) ports)"
  by (induction ports) auto

lemma listeners_empty_iff:
  "listeners ips ports = [] \<longleftrightarrow> (\<forall>port \<in> set ports. spNodePort port = 0)"
  by (induction ports) auto

lemma sint_scast_32_64: "sint (scast (w :: 32 word) :: 64 word) = sint w"
  by (rule sint_up_scast) (simp add: is_up)

lemma parseListenPortsAndBackends_emits:
  "emits (parseListenPortsAndBackends env ports)
     (\<lambda>ls es. \<exists>answer. es = [ListNodes answer] \<and>
        ls = (case answer of Inl _ \<Rightarrow> [] | Inr nodes \<Rightarrow> listeners (backendIPs nodes) ports)) h"
  by (auto simp: emits_def parseListenPortsAndBackends_def wp call_defs split: sum.split)

text \<open>A node with one internal address, and an environment where it is the only one.\<close>

definition plain_node :: "string \<Rightarrow> bool \<Rightarrow> string \<Rightarrow> node" where
  "plain_node name ready ip =
     \<lparr>nodeName = name, nodeLabels = Map.empty,
      nodeConditions = [\<lparr>condType = NodeReady, condStatus = (if ready then ConditionTrue else ''False'')\<rparr>],
      nodeAddresses = [\<lparr>addrType = NodeInternalIP, addrAddress = ip\<rparr>]\<rparr>"

lemma plain_node_simps [simp]:
  "isNodeReady (plain_node name ready ip) = ready"
  "isNodeIncluded (plain_node name ready ip)"
  "nodeAddresses (plain_node name ready ip) = [\<lparr>addrType = NodeInternalIP, addrAddress = ip\<rparr>]"
  by (simp_all add: plain_node_def isNodeReady_def isNodeIncluded_def ConditionTrue_def)

definition nodes_env :: env where
  "nodes_env = offline_env\<lparr>env_list_nodes := (\<lambda>_. Inr [plain_node ''a'' True ''10.0.0.1''])\<rparr>"

lemma run_parseListenPortsAndBackends_nodes_env:
  "run_state (parseListenPortsAndBackends nodes_env ports) h =
     (listeners [''10.0.0.1''] ports, h @ [ListNodes (Inr [plain_node ''a'' True ''10.0.0.1''])])"
  by (simp add: parseListenPortsAndBackends_def call_defs nodes_env_def backendIPs_def)

text \<open>
  C35. The listeners sent to the API: reading them takes one listing of the nodes; if that
  fails there are none; otherwise a listener is there exactly for the ports that have a node
  port, with the port's number (widening to 64 bits keeps its value) and, as backends, the
  internal addresses of exactly the nodes that are ready and not excluded, all on that port's
  node port.
\<close>

theorem parse_listeners_spec:
  assumes "run_state (parseListenPortsAndBackends env ports) h = (ls, h')"
  shows "\<exists>answer. h' = h @ [ListNodes answer] \<and>
    (\<forall>err. answer = Inl err \<longrightarrow> ls = []) \<and>
    (\<forall>nodes. answer = Inr nodes \<longrightarrow>
       length ls = length (filter (\<lambda>port. spNodePort port \<noteq> 0) ports) \<and>
       (\<forall>port ip. port \<in> set ports \<longrightarrow> spNodePort port \<noteq> 0 \<longrightarrow>
          (\<exists>l \<in> set ls. sint (ListenPort l) = sint (spPort port) \<and>
             ((\<exists>b \<in> set (Backends l). backendIp b = ip) \<longleftrightarrow>
                (\<exists>n \<in> set nodes. serves_traffic n \<and>
                  (\<exists>a \<in> set (nodeAddresses n). addrType a = NodeInternalIP \<and> addrAddress a = ip))) \<and>
             (\<forall>b \<in> set (Backends l). sint (backendPort b) = sint (spNodePort port)))))"
proof -
  from parseListenPortsAndBackends_emits assms obtain answer where
    h': "h' = h @ [ListNodes answer]" and
    ls: "ls = (case answer of Inl _ \<Rightarrow> [] | Inr nodes \<Rightarrow> listeners (backendIPs nodes) ports)"
    by (rule emitsD) blast
  show ?thesis
    by (rule exI [of _ answer])
      (auto simp: h' ls listeners_eq_map sint_scast_32_64 set_backendIPs image_iff)
qed

theorem parse_listeners_spec_witness:
  "\<exists>l \<in> set (listeners [''10.0.0.1''] [tcp_port]). sint (ListenPort l) = 80 \<and>
     (\<exists>b \<in> set (Backends l). backendIp b = ''10.0.0.1'' \<and> sint (backendPort b) = 30080)"
  using parse_listeners_spec [OF run_parseListenPortsAndBackends_nodes_env [of "[tcp_port]" "[]"]]
  by (fastforce simp: tcp_port_def serves_traffic_def)

section \<open>Event filters\<close>

text \<open>
  No update the filter drops can change the backends, as long as the node keeps its
  addresses: with the old node replaced by the new one anywhere in the list of nodes, the
  backend addresses are the same.
\<close>

theorem dropped_node_update_keeps_backends:
  assumes "\<not> nodeEventPredicate (UpdateEvent (NodeObject old) (NodeObject new))"
    and "nodeAddresses old = nodeAddresses new"
  shows "backendIPs (before @ old # after) = backendIPs (before @ new # after)"
proof -
  from assms(1) have "serves_traffic old = serves_traffic new"
    by (auto simp: serves_traffic_def Let_def split: if_splits)
  with assms(2) have "backendIPs (old # after) = backendIPs (new # after)"
    by (auto simp: backendIPs_def serves_traffic_def)
  then show ?thesis by (simp add: backendIPs_append)
qed

theorem dropped_node_update_keeps_backends_witness:
  "backendIPs ([] @ plain_node ''a'' True ''10.0.0.1'' # [plain_node ''b'' True ''10.0.0.2'']) =
   backendIPs ([] @ plain_node ''a2'' True ''10.0.0.1'' # [plain_node ''b'' True ''10.0.0.2''])"
  by (rule dropped_node_update_keeps_backends) (simp_all add: Let_def)

lemma mapNodeToLBServices_emits:
  "emits (mapNodeToLBServices env (NodeObject n))
     (\<lambda>reqs es. \<exists>answer. es = [ListServices answer] \<and>
        reqs = (case answer of Inl _ \<Rightarrow> []
          | Inr items \<Rightarrow> map object_key (filter (\<lambda>svc. loadBalancerPredicate (ServiceObject svc)) items))) h"
  by (auto simp: emits_def mapNodeToLBServices_def loadBalancerPredicate_def wp call_defs
      split: sum.split)

end
