(* ===== verification/Sha256.thy ===== *)
theory Sha256
  imports GoStd
begin

unbundle bit_operations_syntax

text \<open>
  SHA-256 (\<open>crypto/sha256\<close>), on lists of bytes: padding, message schedule and compression,
  over \<open>32 word\<close>. The names of the controller's cloud resources and the signatures of its API
  requests are computed with it. The proofs use only that a digest has 32 bytes.
\<close>

type_synonym byte = "8 word"
type_synonym word32 = "32 word"

definition bytes_of_string :: "string \<Rightarrow> byte list" where
  "bytes_of_string s = map of_char s"

definition sha256_K :: "word32 list" where
  "sha256_K =
    [1116352408, 1899447441, 3049323471, 3921009573, 961987163, 1508970993, 2453635748, 2870763221,
     3624381080, 310598401, 607225278, 1426881987, 1925078388, 2162078206, 2614888103, 3248222580,
     3835390401, 4022224774, 264347078, 604807628, 770255983, 1249150122, 1555081692, 1996064986,
     2554220882, 2821834349, 2952996808, 3210313671, 3336571891, 3584528711, 113926993, 338241895,
     666307205, 773529912, 1294757372, 1396182291, 1695183700, 1986661051, 2177026350, 2456956037,
     2730485921, 2820302411, 3259730800, 3345764771, 3516065817, 3600352804, 4094571909, 275423344,
     430227734, 506948616, 659060556, 883997877, 958139571, 1322822218, 1537002063, 1747873779,
     1955562222, 2024104815, 2227730452, 2361852424, 2428436474, 2756734187, 3204031479, 3329325298]"

record sha_state =
  shaA :: word32
  shaB :: word32
  shaC :: word32
  shaD :: word32
  shaE :: word32
  shaF :: word32
  shaG :: word32
  shaH :: word32

definition sha256_init :: sha_state where
  "sha256_init =
    \<lparr>shaA = 1779033703, shaB = 3144134277, shaC = 1013904242, shaD = 2773480762,
     shaE = 1359893119, shaF = 2600822924, shaG = 528734635, shaH = 1541459225\<rparr>"

definition rotr :: "nat \<Rightarrow> word32 \<Rightarrow> word32" where
  "rotr n x = drop_bit n x OR push_bit (32 - n) x"

definition small_sigma0 :: "word32 \<Rightarrow> word32" where
  "small_sigma0 x = rotr 7 x XOR rotr 18 x XOR drop_bit 3 x"

definition small_sigma1 :: "word32 \<Rightarrow> word32" where
  "small_sigma1 x = rotr 17 x XOR rotr 19 x XOR drop_bit 10 x"

definition big_sigma0 :: "word32 \<Rightarrow> word32" where
  "big_sigma0 x = rotr 2 x XOR rotr 13 x XOR rotr 22 x"

definition big_sigma1 :: "word32 \<Rightarrow> word32" where
  "big_sigma1 x = rotr 6 x XOR rotr 11 x XOR rotr 25 x"

definition sha_Ch :: "word32 \<Rightarrow> word32 \<Rightarrow> word32 \<Rightarrow> word32" where
  "sha_Ch x y z = (x AND y) XOR (NOT x AND z)"

definition sha_Maj :: "word32 \<Rightarrow> word32 \<Rightarrow> word32 \<Rightarrow> word32" where
  "sha_Maj x y z = (x AND y) XOR (x AND z) XOR (y AND z)"

text \<open>Big-endian bytes.\<close>

definition be_word32 :: "word32 \<Rightarrow> byte list" where
  "be_word32 w = [ucast (drop_bit 24 w), ucast (drop_bit 16 w), ucast (drop_bit 8 w), ucast w]"

definition be_nat64 :: "nat \<Rightarrow> byte list" where
  "be_nat64 n =
     map (\<lambda>i. ucast (drop_bit (8 * i) (word_of_nat n :: 64 word))) [7, 6, 5, 4, 3, 2, 1, 0]"

fun words_of_bytes :: "byte list \<Rightarrow> word32 list" where
  "words_of_bytes (a # b # c # d # bs) =
     (push_bit 24 (ucast a) OR push_bit 16 (ucast b) OR push_bit 8 (ucast c) OR ucast d)
     # words_of_bytes bs"
| "words_of_bytes _ = []"

text \<open>One bit, zeros up to 56 bytes modulo 64, and the length in bits.\<close>

definition sha256_pad :: "byte list \<Rightarrow> byte list" where
  "sha256_pad m =
     m @ [0x80] @ replicate ((119 - length m mod 64) mod 64) 0 @ be_nat64 (8 * length m)"

text \<open>The schedule, newest word first: each step looks 2, 7, 15 and 16 words back.\<close>

fun schedule_steps :: "nat \<Rightarrow> word32 list \<Rightarrow> word32 list" where
  "schedule_steps 0 ws = ws"
| "schedule_steps (Suc n) ws =
     schedule_steps n
       ((small_sigma1 (ws ! 1) + ws ! 6 + small_sigma0 (ws ! 14) + ws ! 15) # ws)"

definition schedule :: "word32 list \<Rightarrow> word32 list" where
  "schedule block = rev (schedule_steps 48 (rev block))"

definition sha_round :: "word32 \<times> word32 \<Rightarrow> sha_state \<Rightarrow> sha_state" where
  "sha_round kw s =
     (let t1 = shaH s + big_sigma1 (shaE s) + sha_Ch (shaE s) (shaF s) (shaG s) + fst kw + snd kw;
          t2 = big_sigma0 (shaA s) + sha_Maj (shaA s) (shaB s) (shaC s)
      in \<lparr>shaA = t1 + t2, shaB = shaA s, shaC = shaB s, shaD = shaC s,
          shaE = shaD s + t1, shaF = shaE s, shaG = shaF s, shaH = shaG s\<rparr>)"

definition sha_add :: "sha_state \<Rightarrow> sha_state \<Rightarrow> sha_state" where
  "sha_add s t =
     \<lparr>shaA = shaA s + shaA t, shaB = shaB s + shaB t, shaC = shaC s + shaC t,
      shaD = shaD s + shaD t, shaE = shaE s + shaE t, shaF = shaF s + shaF t,
      shaG = shaG s + shaG t, shaH = shaH s + shaH t\<rparr>"

definition sha_compress :: "word32 list \<Rightarrow> sha_state \<Rightarrow> sha_state" where
  "sha_compress block s = sha_add s (fold sha_round (zip sha256_K (schedule block)) s)"

fun sha_blocks :: "nat \<Rightarrow> word32 list \<Rightarrow> sha_state \<Rightarrow> sha_state" where
  "sha_blocks 0 ws s = s"
| "sha_blocks (Suc n) ws s = sha_blocks n (drop 16 ws) (sha_compress (take 16 ws) s)"

definition sha_output :: "sha_state \<Rightarrow> byte list" where
  "sha_output s =
     be_word32 (shaA s) @ be_word32 (shaB s) @ be_word32 (shaC s) @ be_word32 (shaD s) @
     be_word32 (shaE s) @ be_word32 (shaF s) @ be_word32 (shaG s) @ be_word32 (shaH s)"

text \<open>\<open>sha256.Sum256\<close>.\<close>

definition sha256 :: "byte list \<Rightarrow> byte list" where
  "sha256 m =
     (let p = sha256_pad m
      in sha_output (sha_blocks (length p div 64) (words_of_bytes p) sha256_init))"

lemma length_sha256 [simp]: "length (sha256 m) = 32"
  by (simp add: sha256_def sha_output_def be_word32_def Let_def)

lemma length_sha256_pad: "length (sha256_pad m) mod 64 = 0"
proof -
  have "(n + (9 + (119 - n mod 64) mod 64)) mod 64 = 0" for n :: nat
  proof -
    define q r where "q = n div 64" and "r = n mod 64"
    then have n: "n = 64 * q + r" and r: "r < 64" by simp_all
    have "(119 - r) mod 64 = (if r \<le> 55 then 55 - r else 119 - r)"
      using r by (auto simp: mod_if)
    then have "n + (9 + (119 - r) mod 64) = 64 * (if r \<le> 55 then q + 1 else q + 2)"
      using r n by auto
    then show ?thesis by (simp add: r_def)
  qed
  from this [of "length m"] show ?thesis
    by (simp add: sha256_pad_def be_nat64_def ac_simps)
qed

text \<open>\<open>fmt.Sprintf("%x")\<close> of a byte slice: two lower-case digits per byte.\<close>

definition hex_digit :: "nat \<Rightarrow> char" where
  "hex_digit d = (if d < 10 then char_of (48 + d) else char_of (87 + d))"

definition hex_byte :: "byte \<Rightarrow> string" where
  "hex_byte b = [hex_digit (unat b div 16), hex_digit (unat b mod 16)]"

definition Sprintf_x :: "byte list \<Rightarrow> string" where
  "Sprintf_x bs = concat (map hex_byte bs)"

lemma length_Sprintf_x [simp]: "length (Sprintf_x bs) = 2 * length bs"
  by (induction bs) (simp_all add: Sprintf_x_def hex_byte_def)

end
