(* ===== verification/Names.thy ===== *)
theory Names
  imports Sha256 Types
begin

text \<open>
  The deterministic name shared by a Service's load balancer and its firewall rule:
  \<open>GenerateServiceHash\<close> of \<open>internal/utils/utils.go\<close> and
  \<open>GenerateLoadBalancerResourceName\<close> of \<open>internal/controller/util.go\<close>, and the contract the
  look-ups by name rely on, as the locale \<open>resource_naming\<close>.
\<close>

section \<open>Definitions\<close>

text \<open>\<open>%.8x\<close> prints at most eight bytes, so all four.\<close>

definition GenerateServiceHash :: "string \<Rightarrow> string" where
  "GenerateServiceHash serviceUID =
     (let hash = sha256 (bytes_of_string serviceUID) in Sprintf_x (take 8 (take 4 hash)))"

definition GenerateLoadBalancerResourceName ::
    "string \<Rightarrow> string \<Rightarrow> string \<Rightarrow> go_error + string" where
  "GenerateLoadBalancerResourceName namespace serviceName serviceUID =
     (let hash = GenerateServiceHash serviceUID;
          name = namespace @ ''-'' @ serviceName @ ''-'' @ hash
      in if length name \<ge> 50 then
           (let maxServiceNameLen = 49 - int (length namespace) - int (length hash) - 2
            in if maxServiceNameLen < 5 then
                 Inl (Errorf (''namespace '' @ [CHR 0x27] @ namespace @ [CHR 0x27]
                   @ '' is too long to create valid LB name''))
               else
                 (let truncatedServiceName =
                        (if int (length serviceName) > maxServiceNameLen
                         then take (nat maxServiceNameLen) serviceName else serviceName)
                  in Inr (namespace @ ''-'' @ truncatedServiceName @ ''-'' @ hash)))
         else Inr name)"

section \<open>The contract of a resource name\<close>

text \<open>
  What the look-ups by name need of a naming scheme: a name is short enough for the API, and
  it ends in a separator and a fixed-length digest of the Service's UID.
\<close>

locale resource_naming =
  fixes gen :: "string \<Rightarrow> string \<Rightarrow> string \<Rightarrow> go_error + string"
    and digest :: "string \<Rightarrow> string"
    and digest_length :: nat
  assumes digest_fixed_length: "length (digest uid) = digest_length"
    and gen_suffix: "gen ns name uid = Inr r \<Longrightarrow> \<exists>body. r = body @ ''-'' @ digest uid"
    and gen_prefix: "gen ns name uid = Inr r \<Longrightarrow> \<exists>rest. r = ns @ ''-'' @ rest"
    and gen_short: "gen ns name uid = Inr r \<Longrightarrow> length r < 50"
begin

lemma name_determines_digest:
  assumes "gen ns name uid = Inr r" and "gen ns' name' uid' = Inr r"
  shows "digest uid = digest uid'"
proof -
  from assms gen_suffix obtain body body' where
    "r = body @ ''-'' @ digest uid" and "r = body' @ ''-'' @ digest uid'" by meson
  then have "drop (length r - digest_length) r = digest uid"
    and "drop (length r - digest_length) r = digest uid'"
    by (simp_all add: digest_fixed_length)
  then show ?thesis by simp
qed

text \<open>So resources of Services with different digests have different names.\<close>

lemma distinct_digests_distinct_names:
  "digest uid \<noteq> digest uid' \<Longrightarrow> gen ns name uid = Inr r \<Longrightarrow> gen ns' name' uid' = Inr r' \<Longrightarrow> r \<noteq> r'"
  using name_determines_digest by blast

end

lemma length_GenerateServiceHash [simp]: "length (GenerateServiceHash uid) = 8"
  by (simp add: GenerateServiceHash_def)

text \<open>The name written out: the Service name is cut to what 49 bytes leave for it.\<close>

lemma GenerateLoadBalancerResourceName_eq:
  "GenerateLoadBalancerResourceName ns name uid =
     (if length ns + length name + 10 < 50 then Inr (ns @ ''-'' @ name @ ''-'' @ GenerateServiceHash uid)
      else if 34 < length ns then
        Inl (Errorf (''namespace '' @ [CHR 0x27] @ ns @ [CHR 0x27]
          @ '' is too long to create valid LB name''))
      else Inr (ns @ ''-'' @ take (39 - length ns) name @ ''-'' @ GenerateServiceHash uid))"
proof -
  have len: "length (ns @ ''-'' @ name @ ''-'' @ GenerateServiceHash uid) = length ns + length name + 10"
    by simp
  have cut: "nat (39 - int (length ns)) = 39 - length ns" by arith
  show ?thesis
    unfolding GenerateLoadBalancerResourceName_def Let_def len length_GenerateServiceHash
    by (simp add: cut)
qed

interpretation lb_naming: resource_naming GenerateLoadBalancerResourceName GenerateServiceHash "8"
  by unfold_locales
    (auto simp: GenerateLoadBalancerResourceName_eq min_def split: if_splits)

section \<open>Properties\<close>

text \<open>
  A generated name has fewer than 50 bytes, starts with the namespace and a hyphen, ends
  with a hyphen and the eight hexadecimal digits of the UID's hash, and in between has the
  Service name, or a prefix of it of at least five bytes when the full name is too long. An
  error is returned exactly when the full name is too long and the namespace is longer than 34
  bytes.
\<close>

theorem resource_name_spec:
  "((\<exists>err. GenerateLoadBalancerResourceName ns name uid = Inl err) \<longleftrightarrow>
      50 \<le> length ns + 1 + length name + 1 + 8 \<and> 34 < length ns) \<and>
   (case GenerateLoadBalancerResourceName ns name uid of
      Inl _ \<Rightarrow> True
    | Inr r \<Rightarrow> length r < 50 \<and>
        (\<exists>part. r = ns @ ''-'' @ part @ ''-'' @ GenerateServiceHash uid \<and>
           prefix part name \<and> (part = name \<or> 5 \<le> length part \<and> length r = 49)))"
  by (auto simp: GenerateLoadBalancerResourceName_eq take_is_prefix)

text \<open>
  C38. Two Services can share a resource name only if their UIDs have the same hash: a load
  balancer or firewall rule found under a Service's name is that Service's own unless the
  32-bit hashes collide.
\<close>

theorem resource_name_unique:
  assumes "GenerateLoadBalancerResourceName ns name uid = Inr r"
    and "GenerateLoadBalancerResourceName ns' name' uid' = Inr r"
  shows "GenerateServiceHash uid = GenerateServiceHash uid'"
  using assms by (rule lb_naming.name_determines_digest)

theorem resource_name_unique_witness:
  "\<exists>r. GenerateLoadBalancerResourceName ''default'' ''web'' ''u'' = Inr r \<and>
       GenerateServiceHash ''u'' = GenerateServiceHash ''u''"
proof -
  define r where "r = ''default-web-'' @ GenerateServiceHash ''u''"
  have "GenerateLoadBalancerResourceName ''default'' ''web'' ''u'' = Inr r"
    by (simp add: GenerateLoadBalancerResourceName_eq r_def)
  with resource_name_unique [OF this this] show ?thesis by blast
qed

end
