(* ===== verification/FirewallArgs.thy ===== *)
theory FirewallArgs
  imports Vpc Nodes Names
begin

text \<open>
  The firewall rule a Service should have, and whether an existing rule is it:
  \<open>firewallRuleArgs\<close>, \<open>GetFirewallRuleArgs\<close> and \<open>CompareFirewallRule\<close> of
  \<open>internal/controller/util.go\<close>. The comparison rests on the contract of sorting, stated as the
  locale \<open>slice_sorter\<close>.
\<close>

section \<open>Definitions\<close>

record firewall_rule_args =
  argProjectID :: string
  argVpcID :: string
  argRuleName :: string
  argDestinationPorts :: "string list"
  argProtocols :: "string list"
  argSources :: "firewall_rule_object list"

definition cidr_source :: "string \<Rightarrow> firewall_rule_object" where
  "cidr_source cidr = \<lparr>froCidr = cidr, froResourceId = ''''\<rparr>"

definition firewallRuleSources :: "service \<Rightarrow> firewall_rule_object list" where
  "firewallRuleSources svc =
     (if length (svcLoadBalancerSourceRanges svc) > 0
      then map cidr_source (svcLoadBalancerSourceRanges svc)
      else [cidr_source ''0.0.0.0/0''])"

definition firewallRuleProtocols :: "service_port list \<Rightarrow> string list" where
  "firewallRuleProtocols ports =
     foldl append_new [] (map (\<lambda>port. strings_ToLower (effectivePortProtocol port)) ports)"

definition firewallRuleDestinationPorts :: "listen_port_and_backend list \<Rightarrow> string list" where
  "firewallRuleDestinationPorts listenPortsAndBackends =
     foldl append_new []
       (concat (map (\<lambda>l. map (\<lambda>b. Sprintf_d (sint (backendPort b))) (Backends l)) listenPortsAndBackends))"

definition vpc_info_error :: "go_error \<Rightarrow> go_error" where
  "vpc_info_error err = Wrapped ''failed to get VPC info for the firewall rule: '' err ''''"

definition GetFirewallRuleArgs ::
    "config \<Rightarrow> env \<Rightarrow> service \<Rightarrow> (go_error + firewall_rule_args option) prog" where
  "GetFirewallRuleArgs cfg env svc =
     (let projectID = CrusoeProjectID cfg
      in if projectID = '''' then State_Monad.return (Inr None)
         else do {
           vpc \<leftarrow> getVPCAndLocationInfo cfg env;
           case vpc of
             Inl err \<Rightarrow> State_Monad.return (Inl (vpc_info_error err))
           | Inr (vpcID, _) \<Rightarrow>
               (case GenerateLoadBalancerResourceName (svcNamespace svc) (svcName svc) (svcUID svc) of
                  Inl err \<Rightarrow> State_Monad.return (Inr None)
                | Inr ruleName \<Rightarrow>
                    (let sources = firewallRuleSources svc;
                         lbProtocol = annotation svc AnnotationLoadBalancerProtocol;
                         known = isKnownLoadBalancerProtocol lbProtocol;
                         ports = (if known then servicePortsForProtocol (svcPorts svc) lbProtocol
                                  else svcPorts svc)
                     in if known \<and> length ports = 0 \<and> length (svcPorts svc) > 0
                        then State_Monad.return (Inr None)
                        else do {
                          listenPortsAndBackends \<leftarrow> parseListenPortsAndBackends env ports;
                          let destinationPorts = firewallRuleDestinationPorts listenPortsAndBackends;
                          if length destinationPorts = 0 then State_Monad.return (Inr None)
                          else State_Monad.return (Inr (Some
                            \<lparr>argProjectID = projectID, argVpcID = vpcID, argRuleName = ruleName,
                             argDestinationPorts = destinationPorts,
                             argProtocols = firewallRuleProtocols ports, argSources = sources\<rparr>))
                        }))
         })"

text \<open>
  \<open>sort.Strings\<close>, and \<open>sort.Slice\<close> by CIDR. The latter is not guaranteed to be stable;
  the result of the comparison does not depend on that, because the sources of the arguments
  with equal CIDRs are equal.
\<close>

definition sort_Strings :: "string list \<Rightarrow> string list" where
  "sort_Strings xs = sort xs"

definition sort_Sources :: "firewall_rule_object list \<Rightarrow> firewall_rule_object list" where
  "sort_Sources xs = sort_key froCidr xs"

text \<open>\<open>CompareFirewallRule\<close> sorts both sides in place, so it returns them as well.\<close>

definition CompareFirewallRule ::
    "vpc_firewall_rule \<Rightarrow> firewall_rule_args \<Rightarrow> bool \<times> vpc_firewall_rule \<times> firewall_rule_args" where
  "CompareFirewallRule rule args =
     (let rule = rule\<lparr>fwDestinationPorts := sort_Strings (fwDestinationPorts rule),
                       fwSources := sort_Sources (fwSources rule),
                       fwProtocols := sort_Strings (fwProtocols rule)\<rparr>;
          args = args\<lparr>argDestinationPorts := sort_Strings (argDestinationPorts args),
                       argSources := sort_Sources (argSources args),
                       argProtocols := sort_Strings (argProtocols args)\<rparr>
      in (fwName rule = argRuleName args \<and> fwVpcNetworkId rule = argVpcID args \<and>
          fwDestinationPorts rule = argDestinationPorts args \<and>
          fwProtocols rule = argProtocols args \<and> fwSources rule = argSources args,
          rule, args))"

section \<open>Sorting before comparing\<close>

locale slice_sorter =
  fixes srt :: "'a list \<Rightarrow> 'a list" and key :: "'a \<Rightarrow> 'k :: linorder"
  assumes srt_mset: "mset (srt xs) = mset xs"
    and srt_sorted: "sorted (map key (srt xs))"
begin

lemma set_srt: "set (srt xs) = set xs"
  by (metis srt_mset set_mset_mset)

text \<open>Where the key tells elements apart, sorted slices are equal exactly for equal contents.\<close>

lemma srt_eq_iff:
  assumes "inj_on key (set xs)"
  shows "srt ys = srt xs \<longleftrightarrow> mset ys = mset xs"
proof
  assume "mset ys = mset xs"
  then have m: "mset (srt ys) = mset (srt xs)" by (simp add: srt_mset)
  have "map key (srt ys) = map key (srt xs)"
  proof (rule properties_for_sort [symmetric, THEN trans, OF _ _ refl, THEN trans])
    show "mset (map key (srt ys)) = mset (map key (srt ys))" by simp
    show "sorted (map key (srt ys))" by (rule srt_sorted)
    show "sort (map key (srt ys)) = map key (srt xs)"
      using m by (intro properties_for_sort) (simp_all add: srt_sorted)
  qed
  moreover have "inj_on key (set (srt ys) \<union> set (srt xs))"
    using assms m by (metis set_mset_mset set_srt sup.idem)
  ultimately show "srt ys = srt xs" by (rule map_inj_on)
next
  assume "srt ys = srt xs"
  then show "mset ys = mset xs" by (metis srt_mset)
qed

end

interpretation strings_sorter: slice_sorter sort_Strings "\<lambda>s. s"
  by unfold_locales (simp_all add: sort_Strings_def)

interpretation sources_sorter: slice_sorter sort_Sources froCidr
  by unfold_locales (simp_all add: sort_Sources_def)

definition cidr_only :: "firewall_rule_object list \<Rightarrow> bool" where
  "cidr_only sources = (\<forall>s \<in> set sources. froResourceId s = '''')"

lemma cidr_only_inj: "cidr_only sources \<Longrightarrow> inj_on froCidr (set sources)"
  by (auto simp: cidr_only_def inj_on_def)

lemma firewallRuleSources_cidr_only [simp]: "cidr_only (firewallRuleSources svc)"
  by (auto simp: cidr_only_def firewallRuleSources_def cidr_source_def)

text \<open>
  C33. For the arguments \<open>GetFirewallRuleArgs\<close> builds (their sources are CIDRs), a rule matches
  exactly when it has the name and the VPC and, counting repetitions but not order, the same
  destination ports, protocols and sources.
\<close>

theorem compare_firewall_rule_spec:
  assumes "cidr_only (argSources args)"
  shows "fst (CompareFirewallRule rule args) \<longleftrightarrow>
    fwName rule = argRuleName args \<and> fwVpcNetworkId rule = argVpcID args \<and>
    mset (fwDestinationPorts rule) = mset (argDestinationPorts args) \<and>
    mset (fwProtocols rule) = mset (argProtocols args) \<and>
    mset (fwSources rule) = mset (argSources args)"
  using sources_sorter.srt_eq_iff [OF cidr_only_inj [OF assms]]
  by (simp add: CompareFirewallRule_def Let_def strings_sorter.srt_eq_iff)

definition test_args :: firewall_rule_args where
  "test_args =
     \<lparr>argProjectID = ''project'', argVpcID = ''vpc'', argRuleName = ''rule'',
      argDestinationPorts = [''30080'', ''30443''], argProtocols = [''tcp''],
      argSources = [cidr_source ''10.0.0.0/8'', cidr_source ''192.168.0.0/16'']\<rparr>"

definition test_rule :: vpc_firewall_rule where
  "test_rule =
     \<lparr>fwId = ''r'', fwName = ''rule'', fwVpcNetworkId = ''vpc'',
      fwDestinationPorts = [''30443'', ''30080''], fwProtocols = [''tcp''],
      fwSources = [cidr_source ''192.168.0.0/16'', cidr_source ''10.0.0.0/8'']\<rparr>"

theorem compare_firewall_rule_spec_witness: "fst (CompareFirewallRule test_rule test_args)"
  by (subst compare_firewall_rule_spec)
    (simp_all add: test_rule_def test_args_def cidr_only_def cidr_source_def)

text \<open>The arguments after the comparison are a reordering of those before it.\<close>

lemma CompareFirewallRule_args:
  assumes "CompareFirewallRule rule args = (b, rule', args')"
  shows "argProjectID args' = argProjectID args" "argVpcID args' = argVpcID args"
    "argRuleName args' = argRuleName args"
    "mset (argDestinationPorts args') = mset (argDestinationPorts args)"
    "mset (argProtocols args') = mset (argProtocols args)"
    "mset (argSources args') = mset (argSources args)"
  using assms
  by (auto simp: CompareFirewallRule_def Let_def strings_sorter.srt_mset sources_sorter.srt_mset)

section \<open>What the arguments are\<close>

text \<open>The ports the rule is about: those of the recorded protocol, or all of them.\<close>

definition managed_ports :: "service \<Rightarrow> service_port list" where
  "managed_ports svc =
     (let lbProtocol = annotation svc AnnotationLoadBalancerProtocol
      in if isKnownLoadBalancerProtocol lbProtocol
         then servicePortsForProtocol (svcPorts svc) lbProtocol else svcPorts svc)"

lemma set_firewallRuleDestinationPorts:
  "set (firewallRuleDestinationPorts (listeners ips ports)) =
     (if ips = [] then {} else
       {Sprintf_d (sint (spNodePort port)) | port. port \<in> set ports \<and> spNodePort port \<noteq> 0})"
  by (cases ips)
    (auto simp: firewallRuleDestinationPorts_def foldl_append_new_set listeners_eq_map
      sint_scast_32_64 image_iff)

lemma firewallRuleDestinationPorts_Nil [simp]: "firewallRuleDestinationPorts [] = []"
  by (simp add: firewallRuleDestinationPorts_def)

lemma set_firewallRuleProtocols:
  "set (firewallRuleProtocols ports) = (\<lambda>port. strings_ToLower (effectivePortProtocol port)) ` set ports"
  by (auto simp: firewallRuleProtocols_def foldl_append_new_set)

definition rule_args_for :: "config \<Rightarrow> service \<Rightarrow> string \<Rightarrow> node list \<Rightarrow> firewall_rule_args \<Rightarrow> bool" where
  "rule_args_for cfg svc vpcID nodes args \<longleftrightarrow>
     argProjectID args = CrusoeProjectID cfg \<and> argProjectID args \<noteq> '''' \<and> argVpcID args = vpcID \<and>
     GenerateLoadBalancerResourceName (svcNamespace svc) (svcName svc) (svcUID svc) = Inr (argRuleName args) \<and>
     argDestinationPorts args = firewallRuleDestinationPorts (listeners (backendIPs nodes) (managed_ports svc)) \<and>
     argDestinationPorts args \<noteq> [] \<and>
     argProtocols args = firewallRuleProtocols (managed_ports svc) \<and>
     argSources args = firewallRuleSources svc"

text \<open>
  The deliberate skips, which a retry cannot change: there is no project, no valid name, no port
  of the recorded protocol, or no destination port over the nodes that were listed.
\<close>

definition rule_args_skipped :: "config \<Rightarrow> service \<Rightarrow> event list \<Rightarrow> bool" where
  "rule_args_skipped cfg svc es \<longleftrightarrow>
     CrusoeProjectID cfg = '''' \<and> es = [] \<or>
     (\<exists>err. GenerateLoadBalancerResourceName (svcNamespace svc) (svcName svc) (svcUID svc) = Inl err) \<or>
     managed_ports svc = [] \<and> svcPorts svc \<noteq> [] \<or>
     (\<exists>es' nodes. es = es' @ [ListNodes (Inr nodes)] \<and>
        firewallRuleDestinationPorts (listeners (backendIPs nodes) (managed_ports svc)) = [])"

text \<open>
  The other way to end without arguments: the nodes could not be listed. Whether the Service should
  have a rule is unknown then, and the code returns as if it should not.
\<close>

definition nodes_unlisted :: "event list \<Rightarrow> bool" where
  "nodes_unlisted es \<longleftrightarrow> (\<exists>es' err. es = es' @ [ListNodes (Inl err)])"

lemma GetFirewallRuleArgs_emits:
  "emits (GetFirewallRuleArgs cfg env svc)
     (\<lambda>r es. topology_reads es \<and>
        (case r of
           Inl err \<Rightarrow> \<not> errors_Is err ErrFirewallRuleOperationInFlight \<and> vpc_lookup_failed es
         | Inr None \<Rightarrow> \<not> vpc_lookup_failed es \<and> (rule_args_skipped cfg svc es \<or> nodes_unlisted es)
         | Inr (Some args) \<Rightarrow> \<not> vpc_lookup_failed es \<and>
             (\<exists>es' vpcID location nodes. es = es' @ [ListNodes (Inr nodes)] \<and>
                vpc_from_subnet cfg (vpcID, location) es' \<and> rule_args_for cfg svc vpcID nodes args))) h"
proof (cases "CrusoeProjectID cfg = ''''")
  case True
  then show ?thesis by (simp add: emits_def GetFirewallRuleArgs_def rule_args_skipped_def vpc_lookup_failed_def wp)
next
  case False
  have ports: "(if isKnownLoadBalancerProtocol (annotation svc AnnotationLoadBalancerProtocol)
      then servicePortsForProtocol (svcPorts svc) (annotation svc AnnotationLoadBalancerProtocol)
      else svcPorts svc) = managed_ports svc"
    by (simp add: managed_ports_def)
  show ?thesis
    unfolding emits_def GetFirewallRuleArgs_def Let_def ports
    using False
    by (auto simp: wp vpc_info_error_def rule_args_for_def rule_args_skipped_def nodes_unlisted_def vpc_lookup_failed_def
        intro!: wp_emits [OF getVPCAndLocationInfo_emits] wp_emits [OF parseListenPortsAndBackends_emits]
        split: sum.splits)
qed

text \<open>Where there are arguments, there was no reason to skip.\<close>

lemma rule_args_not_skipped:
  assumes "es = es' @ [ListNodes (Inr nodes)]" and "rule_args_for cfg svc vpcID nodes args"
  shows "\<not> rule_args_skipped cfg svc es" "\<not> nodes_unlisted es"
proof -
  have "managed_ports svc \<noteq> []"
    using assms(2) unfolding rule_args_for_def by (metis firewallRuleDestinationPorts_Nil listeners.simps(1))
  then show "\<not> rule_args_skipped cfg svc es"
    using assms by (auto simp: rule_args_skipped_def rule_args_for_def)
  show "\<not> nodes_unlisted es" using assms(1) by (auto simp: nodes_unlisted_def)
qed

text \<open>
  C32. \<open>GetFirewallRuleArgs\<close> only reads, and has three results. It returns an error exactly when the
  look-up of the VPC failed. It returns no arguments exactly when the VPC was found (or there is no
  project to look in) and either nothing is to be done (no project, no valid name, no port of the
  recorded protocol, no destination port over the nodes listed) or the nodes could not be listed:
  that answer is unknown too, but it is not reported as an error. Otherwise the rule has the project,
  the Service's resource name, the VPC of the subnet read, one destination port for each node port of
  the managed ports, without repetitions, their protocols in lower case, and the Service's source
  ranges or \<open>0.0.0.0/0\<close>.
\<close>

theorem firewall_rule_args_spec:
  assumes "run_state (GetFirewallRuleArgs cfg env svc) h = (r, h @ es)"
  shows "reads_only es \<and>
    ((\<exists>err. r = Inl err) \<longleftrightarrow> vpc_lookup_failed es) \<and>
    (r = Inr None \<longleftrightarrow> \<not> vpc_lookup_failed es \<and> (rule_args_skipped cfg svc es \<or> nodes_unlisted es)) \<and>
    (\<forall>args. r = Inr (Some args) \<longrightarrow>
         argProjectID args = CrusoeProjectID cfg \<and>
         GenerateLoadBalancerResourceName (svcNamespace svc) (svcName svc) (svcUID svc)
           = Inr (argRuleName args) \<and>
         (\<exists>p s resp subnet. GetVPCSubnet p s (ApiOk resp subnet) \<in> set es \<and>
            argVpcID args = subnetVpcNetworkId subnet) \<and>
         distinct (argDestinationPorts args) \<and> argDestinationPorts args \<noteq> [] \<and>
         set (argDestinationPorts args) =
           {Sprintf_d (sint (spNodePort port)) | port. port \<in> set (managed_ports svc) \<and> spNodePort port \<noteq> 0} \<and>
         distinct (argProtocols args) \<and>
         set (argProtocols args) =
           (\<lambda>port. strings_ToLower (effectivePortProtocol port)) ` set (managed_ports svc) \<and>
         argSources args = firewallRuleSources svc)"
proof -
  have dist: "distinct (firewallRuleDestinationPorts ls)" "distinct (firewallRuleProtocols ports)" for ls ports
    by (simp_all add: firewallRuleDestinationPorts_def firewallRuleProtocols_def
        foldl_append_new_distinct)
  have ports: "set (firewallRuleDestinationPorts (listeners ips ports)) =
      {Sprintf_d (sint (spNodePort port)) | port. port \<in> set ports \<and> spNodePort port \<noteq> 0}"
    if "firewallRuleDestinationPorts (listeners ips ports) \<noteq> []" for ips ports
  proof -
    have "set (firewallRuleDestinationPorts (listeners ips ports)) \<noteq> {}" using that by simp
    then have "ips \<noteq> []" by (auto simp only: set_firewallRuleDestinationPorts split: if_splits)
    then show ?thesis by (simp only: set_firewallRuleDestinationPorts if_False)
  qed
  note contract = emits_appendD [OF GetFirewallRuleArgs_emits assms]
  show ?thesis
  proof (cases "\<exists>args. r = Inr (Some args)")
    case False
    with contract show ?thesis by (cases r) (auto split: option.splits)
  next
    case True
    then obtain args where r: "r = Inr (Some args)" by blast
    from contract r have reads: "reads_only es" "\<not> vpc_lookup_failed es" by auto
    from contract r obtain es' vpcID location nodes where
      es: "es = es' @ [ListNodes (Inr nodes)]" and
      vpc: "vpc_from_subnet cfg (vpcID, location) es'" and
      args: "rule_args_for cfg svc vpcID nodes args" by auto
    note not_skipped = rule_args_not_skipped [OF es args]
    note args = args [unfolded rule_args_for_def]
    have dp: "argDestinationPorts args =
        firewallRuleDestinationPorts (listeners (backendIPs nodes) (managed_ports svc))"
      and ne: "argDestinationPorts args \<noteq> []"
      and pr: "argProtocols args = firewallRuleProtocols (managed_ports svc)"
      using args by blast+
    have "\<exists>p s resp subnet. GetVPCSubnet p s (ApiOk resp subnet) \<in> set es \<and>
        argVpcID args = subnetVpcNetworkId subnet"
    proof -
      from vpc obtain as subnetID resp subnet where
        "es' = as @ [GetVPCSubnet (CrusoeProjectID cfg) subnetID (ApiOk resp subnet)]"
        "vpcID = subnetVpcNetworkId subnet"
        unfolding vpc_from_subnet_def by blast
      then have "GetVPCSubnet (CrusoeProjectID cfg) subnetID (ApiOk resp subnet) \<in> set es"
        "argVpcID args = subnetVpcNetworkId subnet"
        using es args by simp_all
      then show ?thesis by blast
    qed
    moreover have "set (argDestinationPorts args) =
        {Sprintf_d (sint (spNodePort port)) | port. port \<in> set (managed_ports svc) \<and> spNodePort port \<noteq> 0}"
      using ports [OF ne [unfolded dp]] unfolding dp .
    moreover have "distinct (argDestinationPorts args)" "distinct (argProtocols args)"
        "set (argProtocols args) =
          (\<lambda>port. strings_ToLower (effectivePortProtocol port)) ` set (managed_ports svc)"
      unfolding dp pr by (rule dist set_firewallRuleProtocols)+
    ultimately show ?thesis
      unfolding r using reads args not_skipped by auto
  qed
qed

definition rule_env :: env where
  "rule_env = nodes_env\<lparr>env_get_subnet :=
     (\<lambda>_ _ _. ApiOk ok_response \<lparr>subnetVpcNetworkId = ''vpc'', subnetLocation = ''loc''\<rparr>)\<rparr>"

definition test_name :: string where
  "test_name = ''default-web-'' @ GenerateServiceHash ''u''"

lemma test_svc_simps [simp]:
  "GenerateLoadBalancerResourceName (svcNamespace test_svc) (svcName test_svc) (svcUID test_svc)
     = Inr test_name"
  "svcPorts test_svc = [tcp_port]" "svcLoadBalancerSourceRanges test_svc = []"
  "svcAnnotations test_svc = Map.empty" "annotation test_svc k = ''''"
  "svcDeletionTimestamp test_svc = None"
  by (simp_all add: test_svc_def test_name_def GenerateLoadBalancerResourceName_eq annotation_def)

definition test_svc_args :: firewall_rule_args where
  "test_svc_args =
     \<lparr>argProjectID = ''project'', argVpcID = ''vpc'', argRuleName = test_name,
      argDestinationPorts = [Sprintf_d 30080],
      argProtocols = firewallRuleProtocols [tcp_port], argSources = firewallRuleSources test_svc\<rparr>"

lemma firewallRuleDestinationPorts_tcp_port:
  "firewallRuleDestinationPorts (listeners [''10.0.0.1''] [tcp_port]) = [Sprintf_d 30080]"
  by (simp add: firewallRuleDestinationPorts_def tcp_port_def)

definition test_svc_args_reads :: "event list" where
  "test_svc_args_reads =
     [GetVPCSubnet ''project'' ''subnet''
        (ApiOk ok_response \<lparr>subnetVpcNetworkId = ''vpc'', subnetLocation = ''loc''\<rparr>),
      ListNodes (Inr [plain_node ''a'' True ''10.0.0.1''])]"

text \<open>Any environment that answers these two reads like \<open>rule_env\<close> gives these arguments.\<close>

lemma run_GetFirewallRuleArgs_test_svc:
  assumes "env_get_subnet env = env_get_subnet rule_env" "env_list_nodes env = env_list_nodes rule_env"
    and "svcNamespace svc = svcNamespace test_svc" "svcName svc = svcName test_svc"
      "svcUID svc = svcUID test_svc" "svcPorts svc = [tcp_port]"
      "annotation svc AnnotationLoadBalancerProtocol = ''''" "svcLoadBalancerSourceRanges svc = []"
  shows "run_state (GetFirewallRuleArgs test_config env svc) h =
     (Inr (Some test_svc_args), h @ test_svc_args_reads)"
proof -
  have "firewallRuleSources svc = firewallRuleSources test_svc"
    using assms by (simp add: firewallRuleSources_def)
  then show ?thesis
    using assms
    by (simp add: GetFirewallRuleArgs_def getVPCAndLocationInfo_def getVPCInfoForSelfManagedCluster_def
        isSubnetIDProvided_def parseListenPortsAndBackends_def call_defs rule_env_def nodes_env_def
        test_config_def Let_def isKnownLoadBalancerProtocol_def LoadBalancerProtocolTCP_def
        LoadBalancerProtocolUDP_def backendIPs_def test_svc_args_def test_svc_args_reads_def
        firewallRuleDestinationPorts_tcp_port del: listeners.simps)
qed

theorem firewall_rule_args_spec_witness:
  "argVpcID test_svc_args = ''vpc'' \<and>
   argDestinationPorts test_svc_args = [Sprintf_d 30080] \<and>
   set (argDestinationPorts test_svc_args) = {Sprintf_d (sint (30080 :: 32 word))}"
  using firewall_rule_args_spec [OF run_GetFirewallRuleArgs_test_svc [of rule_env test_svc "[]"]]
  by (simp add: test_svc_args_def managed_ports_def tcp_port_def)

end
