(* ===== verification/FirewallRules.thy ===== *)
theory FirewallRules
  imports FirewallArgs
begin

text \<open>
  The VPC firewall rule behind a Service: \<open>findFirewallRuleByName\<close>,
  \<open>adoptFirewallRuleByName\<close>, \<open>ensureFirewallRule\<close> and \<open>deleteFirewallRule\<close> of
  \<open>internal/controller/util.go\<close>. Creating a rule is asynchronous: the id of the create operation
  is kept in one annotation of the Service, the id of the rule, once known, in another, and each
  pass moves the rule one step further.

  \<open>ensureFirewallRule\<close> is split at its early returns: \<open>ensure_check_rule\<close> is the branch for a
  recorded rule, \<open>ensure_resume_operation\<close> the branch for a recorded operation, and both say
  whether the function has returned or falls through to \<open>ensure_create\<close>.
\<close>

section \<open>Definitions\<close>

text \<open>
  \<open>r.Patch(ctx, svc, client.MergeFrom(orig))\<close>: on success the client overwrites \<open>svc\<close> with the
  server's answer, on failure it leaves it as it is.
\<close>

definition patch_service :: "env \<Rightarrow> service \<Rightarrow> service \<Rightarrow> (service \<times> go_error option) prog" where
  "patch_service env orig svc = do {
     answer \<leftarrow> call_PatchService env orig svc;
     State_Monad.return
       (case answer of Inl err \<Rightarrow> (svc, Some (KubeError err)) | Inr svc \<Rightarrow> (svc, None))
   }"

fun find_rule_loop :: "vpc_firewall_rule list \<Rightarrow> string \<Rightarrow> string option" where
  "find_rule_loop [] ruleName = None"
| "find_rule_loop (rule # rules) ruleName =
     (if fwName rule = ruleName then Some (fwId rule) else find_rule_loop rules ruleName)"

definition findFirewallRuleByName ::
    "env \<Rightarrow> string \<Rightarrow> string \<Rightarrow> (go_error + string option) prog" where
  "findFirewallRuleByName env projectID ruleName = do {
     answer \<leftarrow> call_ListVPCFirewallRules env projectID;
     State_Monad.return
       (case answer of
          ApiErr err _ \<Rightarrow> Inl (ExternalError err)
        | ApiOk _ rules \<Rightarrow> Inr (find_rule_loop rules ruleName))
   }"

definition drop_rule_annotations :: "service \<Rightarrow> service" where
  "drop_rule_annotations svc =
     delete_annotation FirewallRuleOperationIdKey (delete_annotation FirewallRuleIdKey svc)"

text \<open>The Service as patched, whether a rule was found, and the error.\<close>

definition adoptFirewallRuleByName ::
    "env \<Rightarrow> service \<Rightarrow> service \<Rightarrow> firewall_rule_args \<Rightarrow> (service \<times> bool \<times> go_error option) prog" where
  "adoptFirewallRuleByName env svc svcCopy args = do {
     answer \<leftarrow> findFirewallRuleByName env (argProjectID args) (argRuleName args);
     case answer of
       Inl err \<Rightarrow> State_Monad.return (svc, False, Some err)
     | Inr None \<Rightarrow> State_Monad.return (svc, False, None)
     | Inr (Some ruleID) \<Rightarrow> do {
         (svc, err) \<leftarrow> patch_service env svcCopy
           (delete_annotation FirewallRuleOperationIdKey (set_annotation FirewallRuleIdKey ruleID svc));
         State_Monad.return (svc, True, err)
       }
   }"

type_synonym ensure_result = "service \<times> duration \<times> go_error option"

text \<open>How a branch of \<open>ensureFirewallRule\<close> ends: it returns, or falls through to the create.\<close>

datatype ensure_next = EnsureDone ensure_result | EnsureCreate service | EnsurePanic string

definition rule_patch_request :: "firewall_rule_args \<Rightarrow> vpc_firewall_rules_patch_request" where
  "rule_patch_request args =
     \<lparr>fwPatchName = argRuleName args,
      fwPatchDestinations = [\<lparr>froCidr = '''', froResourceId = argVpcID args\<rparr>],
      fwPatchDestinationPorts = argDestinationPorts args, fwPatchProtocols = argProtocols args,
      fwPatchSources = argSources args\<rparr>"

definition rule_post_request :: "firewall_rule_args \<Rightarrow> vpc_firewall_rules_post_request" where
  "rule_post_request args =
     \<lparr>fwPostName = argRuleName args, fwPostAction = ''ALLOW'',
      fwPostDestinations = [\<lparr>froCidr = '''', froResourceId = argVpcID args\<rparr>],
      fwPostDestinationPorts = argDestinationPorts args, fwPostProtocols = argProtocols args,
      fwPostVpcNetworkId = argVpcID args, fwPostDirection = ''INGRESS'',
      fwPostSources = argSources args\<rparr>"

definition ensure_check_rule ::
    "env \<Rightarrow> service \<Rightarrow> firewall_rule_args \<Rightarrow> string \<Rightarrow> ensure_next prog" where
  "ensure_check_rule env svc args ruleID = do {
     answer \<leftarrow> call_GetVPCFirewallRule env (argProjectID args) ruleID;
     case answer of
       ApiErr err httpResp \<Rightarrow>
         State_Monad.return
           (case httpResp of
              Some resp \<Rightarrow>
                (if StatusCode resp = 404 then EnsureCreate (drop_rule_annotations svc)
                 else EnsureDone (svc, 0, Some (ExternalError err)))
            | None \<Rightarrow> EnsureDone (svc, 0, Some (ExternalError err)))
     | ApiOk _ rule \<Rightarrow>
         (case CompareFirewallRule rule args of
            (matches, _, args) \<Rightarrow>
              if matches then State_Monad.return (EnsureDone (svc, 0, None))
              else do {
                patched \<leftarrow> call_PatchVPCFirewallRule env (rule_patch_request args) (argProjectID args) ruleID;
                State_Monad.return
                  (case patched of
                     ApiErr err _ \<Rightarrow> EnsureDone (svc, 0, Some (ExternalError err))
                   | ApiOk _ _ \<Rightarrow> EnsureDone (svc, 0, None))
              })
   }"

text \<open>The failed operation: adopt the rule it clashed with, or wait out the cooldown.\<close>

definition already_exists :: "operation \<Rightarrow> bool" where
  "already_exists op =
     strings_Contains (strings_ToLower (json_Marshal_ptr (opResult op))) ''already exists''"

definition ensure_failed_cooldown :: "env \<Rightarrow> service \<Rightarrow> operation \<Rightarrow> ensure_next prog" where
  "ensure_failed_cooldown env svc op = do {
     now \<leftarrow> call_Now env;
     let wait = firewallRuleRetryWait env op now;
     State_Monad.return
       (if wait > 0 then EnsureDone (svc, wait, None)
        else EnsureCreate (delete_annotation FirewallRuleOperationIdKey svc))
   }"

definition ensure_failed ::
    "env \<Rightarrow> service \<Rightarrow> service \<Rightarrow> firewall_rule_args \<Rightarrow> operation \<Rightarrow> ensure_next prog" where
  "ensure_failed env svc svcCopy args op =
     (if already_exists op then do {
        (svc, adopted, adoptErr) \<leftarrow> adoptFirewallRuleByName env svc svcCopy args;
        case adoptErr of
          Some err \<Rightarrow> State_Monad.return (EnsureDone (svc, 0, Some err))
        | None \<Rightarrow>
            if adopted then State_Monad.return (EnsureDone (svc, 0, None))
            else ensure_failed_cooldown env svc op
      }
      else ensure_failed_cooldown env svc op)"

text \<open>The unresolvable operation: adopt the rule by its name, or create it again.\<close>

definition ensure_unresolvable ::
    "env \<Rightarrow> service \<Rightarrow> service \<Rightarrow> firewall_rule_args \<Rightarrow> ensure_next prog" where
  "ensure_unresolvable env svc svcCopy args = do {
     (svc, adopted, adoptErr) \<leftarrow> adoptFirewallRuleByName env svc svcCopy args;
     State_Monad.return
       (case adoptErr of
          Some err \<Rightarrow> EnsureDone (svc, 0, Some err)
        | None \<Rightarrow>
            if adopted then EnsureDone (svc, 0, None)
            else EnsureCreate (delete_annotation FirewallRuleOperationIdKey svc))
   }"

definition nil_dereference :: string where
  "nil_dereference = ''nil pointer dereference''"

text \<open>The switch over the operation's result, and reading the operation before it.\<close>

definition ensure_operation_result ::
    "env \<Rightarrow> service \<Rightarrow> service \<Rightarrow> firewall_rule_args \<Rightarrow> string \<Rightarrow> rule_operation_result \<Rightarrow>
     ensure_next prog" where
  "ensure_operation_result env svc svcCopy args operationID result =
     (case result of
        (op, firewallRule, err) \<Rightarrow>
          (case (if err = None \<and> op = None
                 then Some (unresolvable_error operationID '' returned no record'') else err) of
             Some err \<Rightarrow>
               (if errors_Is err ErrFirewallRuleOperationUnresolvable
                then ensure_unresolvable env svc svcCopy args
                else State_Monad.return (EnsureDone (svc, 0, Some err)))
           | None \<Rightarrow>
               (case op of
                  None \<Rightarrow> State_Monad.return (EnsurePanic nil_dereference)
                | Some op \<Rightarrow>
                    (if opState op = OpFailed then ensure_failed env svc svcCopy args op
                     else if opState op = OpSuccess then
                       (case firewallRule of
                          None \<Rightarrow> State_Monad.return (EnsurePanic nil_dereference)
                        | Some rule \<Rightarrow> do {
                            (svc, err) \<leftarrow> patch_service env svcCopy
                              (set_annotation FirewallRuleIdKey (fwId rule) svc);
                            State_Monad.return (EnsureDone (svc, 0, err))
                          })
                     else State_Monad.return (EnsureDone (svc, firewallRuleRequeueInterval, None))))))"

definition ensure_resume_operation ::
    "config \<Rightarrow> env \<Rightarrow> service \<Rightarrow> service \<Rightarrow> firewall_rule_args \<Rightarrow> string \<Rightarrow> ensure_next prog" where
  "ensure_resume_operation cfg env svc svcCopy args operationID = do {
     result \<leftarrow> GetFirewallRuleOperationResult cfg env operationID;
     ensure_operation_result env svc svcCopy args operationID result
   }"

definition ensure_create ::
    "env \<Rightarrow> service \<Rightarrow> service \<Rightarrow> firewall_rule_args \<Rightarrow> ensure_result outcome prog" where
  "ensure_create env svc svcCopy args = do {
     answer \<leftarrow> call_CreateVPCFirewallRule env (rule_post_request args) (argProjectID args);
     case answer of
       ApiErr err _ \<Rightarrow> State_Monad.return (Returned (svc, 0, Some (ExternalError err)))
     | ApiOk _ None \<Rightarrow> State_Monad.return (Panicked nil_dereference)
     | ApiOk _ (Some op) \<Rightarrow> do {
         (svc, err) \<leftarrow> patch_service env svcCopy
           (set_annotation FirewallRuleOperationIdKey (opOperationId op) svc);
         State_Monad.return (Returned (svc, firewallRuleRequeueInterval, err))
       }
   }"

text \<open>Whether the Service opts into firewall rule management.\<close>

definition rule_managed :: "service \<Rightarrow> bool" where
  "rule_managed svc =
     (case svcAnnotations svc ManageFirewallRuleKey of
        None \<Rightarrow> False | Some val \<Rightarrow> val = ManageFirewallRuleEnabled)"

text \<open>The recorded rule comes before the recorded operation.\<close>

definition ensure_branch ::
    "config \<Rightarrow> env \<Rightarrow> service \<Rightarrow> service \<Rightarrow> firewall_rule_args \<Rightarrow> ensure_next prog" where
  "ensure_branch cfg env svc svcCopy args =
     (case svcAnnotations svc FirewallRuleIdKey of
        Some ruleID \<Rightarrow> ensure_check_rule env svc args ruleID
      | None \<Rightarrow>
          (case svcAnnotations svc FirewallRuleOperationIdKey of
             Some operationID \<Rightarrow> ensure_resume_operation cfg env svc svcCopy args operationID
           | None \<Rightarrow> State_Monad.return (EnsureCreate svc)))"

definition ensureFirewallRule :: "config \<Rightarrow> env \<Rightarrow> service \<Rightarrow> ensure_result outcome prog" where
  "ensureFirewallRule cfg env svc =
     (let svcCopy = svc
      in if \<not> rule_managed svc then State_Monad.return (Returned (svc, 0, None))
         else do {
           answer \<leftarrow> GetFirewallRuleArgs cfg env svc;
           case answer of
             Inl err \<Rightarrow> State_Monad.return (Returned (svc, 0, Some err))
           | Inr None \<Rightarrow> State_Monad.return (Returned (svc, 0, None))
           | Inr (Some args) \<Rightarrow> do {
               next \<leftarrow> ensure_branch cfg env svc svcCopy args;
               case next of
                 EnsureDone result \<Rightarrow> State_Monad.return (Returned result)
               | EnsurePanic message \<Rightarrow> State_Monad.return (Panicked message)
               | EnsureCreate svc \<Rightarrow> ensure_create env svc svcCopy args
             }
         })"

text \<open>The deletion: the rule's id from the annotations, the operation, or the name.\<close>

datatype resolved = ResolvedId string | ResolveByName | ResolveFailed go_error

definition in_flight_error :: "string \<Rightarrow> go_error" where
  "in_flight_error operationID =
     Wrapped '''' (Sentinel ErrFirewallRuleOperationInFlight) ('': operation '' @ operationID)"

definition delete_hold_expired :: "env \<Rightarrow> service \<Rightarrow> bool prog" where
  "delete_hold_expired env svc =
     (case svcDeletionTimestamp svc of
        None \<Rightarrow> State_Monad.return False
      | Some t \<Rightarrow> do {
          now \<leftarrow> call_Now env;
          State_Monad.return (Time_Sub now t > firewallRuleInFlightHoldLimit)
        })"

text \<open>The switch over the operation's result, and reading the operation before it.\<close>

definition delete_operation_result :: "string \<Rightarrow> bool \<Rightarrow> rule_operation_result \<Rightarrow> resolved" where
  "delete_operation_result operationID holdExpired result =
     (case result of
        (_, Some rule, None) \<Rightarrow> ResolvedId (fwId rule)
      | (Some op, None, None) \<Rightarrow>
          (if opState op \<noteq> OpFailed \<and> \<not> holdExpired
           then ResolveFailed (in_flight_error operationID) else ResolveByName)
      | (None, None, None) \<Rightarrow> ResolveByName
      | (_, _, Some err) \<Rightarrow>
          (if errors_Is err ErrFirewallRuleOperationUnresolvable then ResolveByName
           else ResolveFailed err))"

definition delete_resolve_operation ::
    "config \<Rightarrow> env \<Rightarrow> service \<Rightarrow> string \<Rightarrow> resolved prog" where
  "delete_resolve_operation cfg env svc operationID = do {
     holdExpired \<leftarrow> delete_hold_expired env svc;
     result \<leftarrow> GetFirewallRuleOperationResult cfg env operationID;
     State_Monad.return (delete_operation_result operationID holdExpired result)
   }"

definition delete_rule_by_id ::
    "config \<Rightarrow> env \<Rightarrow> service \<Rightarrow> string \<Rightarrow> (service \<times> go_error option) prog" where
  "delete_rule_by_id cfg env svc ruleID = do {
     answer \<leftarrow> call_DeleteVPCFirewallRule env (CrusoeProjectID cfg) ruleID;
     case answer of
       ApiErr err httpResp \<Rightarrow>
         (case httpResp of
            Some resp \<Rightarrow>
              (if StatusCode resp = 404 then patch_service env svc (drop_rule_annotations svc)
               else State_Monad.return (svc, Some (ExternalError err)))
          | None \<Rightarrow> State_Monad.return (svc, Some (ExternalError err)))
     | ApiOk _ _ \<Rightarrow> patch_service env svc (drop_rule_annotations svc)
   }"

definition delete_rule_by_name :: "config \<Rightarrow> env \<Rightarrow> service \<Rightarrow> (service \<times> go_error option) prog" where
  "delete_rule_by_name cfg env svc =
     (case GenerateLoadBalancerResourceName (svcNamespace svc) (svcName svc) (svcUID svc) of
        Inl nameErr \<Rightarrow> State_Monad.return (svc, None)
      | Inr ruleName \<Rightarrow> do {
          answer \<leftarrow> findFirewallRuleByName env (CrusoeProjectID cfg) ruleName;
          case answer of
            Inl findErr \<Rightarrow> State_Monad.return (svc, Some findErr)
          | Inr None \<Rightarrow> State_Monad.return (svc, None)
          | Inr (Some foundID) \<Rightarrow> delete_rule_by_id cfg env svc foundID
        })"

definition delete_resolved ::
    "config \<Rightarrow> env \<Rightarrow> service \<Rightarrow> resolved \<Rightarrow> (service \<times> go_error option) prog" where
  "delete_resolved cfg env svc resolved =
     (case resolved of
        ResolvedId ruleID \<Rightarrow>
          (if ruleID = '''' then delete_rule_by_name cfg env svc
           else delete_rule_by_id cfg env svc ruleID)
      | ResolveByName \<Rightarrow> delete_rule_by_name cfg env svc
      | ResolveFailed err \<Rightarrow> State_Monad.return (svc, Some err))"

definition deleteFirewallRule :: "config \<Rightarrow> env \<Rightarrow> service \<Rightarrow> (service \<times> go_error option) prog" where
  "deleteFirewallRule cfg env svc =
     (if \<not> rule_managed svc then State_Monad.return (svc, None)
      else if CrusoeProjectID cfg = '''' then State_Monad.return (svc, None)
      else
        (let ruleID = annotation svc FirewallRuleIdKey;
             operationID = annotation svc FirewallRuleOperationIdKey
         in if ruleID = '''' \<and> operationID \<noteq> '''' then do {
              resolved \<leftarrow> delete_resolve_operation cfg env svc operationID;
              delete_resolved cfg env svc resolved
            }
            else if ruleID = '''' then delete_rule_by_name cfg env svc
            else delete_rule_by_id cfg env svc ruleID))"

section \<open>What an operation has come to\<close>

text \<open>
  The abstract view of a rule's create operation: its answer cannot be read now, will never
  yield a rule, or is a pending, a failed or a successful operation.
\<close>

datatype operation_view =
    OpUnreadable
  | OpUnresolvable
  | OpPending
  | OpDead operation
  | OpLanded vpc_firewall_rule

definition view_operation :: "env \<Rightarrow> operation api_result \<Rightarrow> operation_view" where
  "view_operation env answer =
     (case answer of
        ApiErr _ None \<Rightarrow> OpUnreadable
      | ApiErr _ (Some resp) \<Rightarrow>
          (if StatusCode resp \<in> {400, 404, 410} then OpUnresolvable else OpUnreadable)
      | ApiOk resp op \<Rightarrow>
          (if StatusCode resp \<noteq> 200 then OpUnreadable
           else if opState op = OpFailed then OpDead op
           else if opState op \<noteq> OpSuccess then OpPending
           else
             (case env_unmarshal_firewall_rule env (json_Marshal_ptr (opResult op)) of
                None \<Rightarrow> OpUnresolvable
              | Some rule \<Rightarrow> (if fwId rule = '''' then OpUnresolvable else OpLanded rule))))"

definition viewed_as :: "rule_operation_result \<Rightarrow> operation_view \<Rightarrow> bool" where
  "viewed_as r view \<longleftrightarrow>
     (case view of
        OpUnreadable \<Rightarrow> \<exists>op err. r = (op, None, Some err) \<and>
          \<not> errors_Is err ErrFirewallRuleOperationUnresolvable \<and>
          \<not> errors_Is err ErrFirewallRuleOperationInFlight
      | OpUnresolvable \<Rightarrow> \<exists>op err. r = (op, None, Some err) \<and>
          errors_Is err ErrFirewallRuleOperationUnresolvable
      | OpPending \<Rightarrow> \<exists>op. r = (Some op, None, None) \<and> opState op \<noteq> OpFailed \<and> opState op \<noteq> OpSuccess
      | OpDead op \<Rightarrow> r = (Some op, None, None) \<and> opState op = OpFailed
      | OpLanded rule \<Rightarrow> \<exists>op. r = (Some op, Some rule, None) \<and> opState op = OpSuccess \<and> fwId rule \<noteq> '''')"

lemma GetFirewallRuleOperationResult_view:
  "emits (GetFirewallRuleOperationResult cfg env operationID)
     (\<lambda>r es. \<exists>answer.
        es = [GetNetworkingVPCFirewallRulesOperation (CrusoeProjectID cfg) operationID answer] \<and>
        viewed_as r (view_operation env answer)) h"
  by (auto simp: emits_def GetFirewallRuleOperationResult_def OpResultToItem_def view_operation_def
      viewed_as_def wp call_defs split: api_result.split sum.split option.split)

section \<open>The conversations of ensureFirewallRule\<close>

text \<open>
  The specification of \<open>ensureFirewallRule\<close> as a relation: \<open>rule_branch\<close> lists, for a Service
  that wants the rule \<open>args\<close>, every conversation with the two APIs up to a return or the
  create, and what it leads to; \<open>rule_session\<close> adds the beginning and the create itself. The
  code is shown to follow it, so a property of the code can be read off its rules.
\<close>

definition api_error :: "'a api_result \<Rightarrow> go_error option" where
  "api_error answer = (case answer of ApiErr err _ \<Rightarrow> Some (ExternalError err) | ApiOk _ _ \<Rightarrow> None)"

definition patch_outcome :: "service \<Rightarrow> kube_error + service \<Rightarrow> service \<times> go_error option" where
  "patch_outcome svc answer =
     (case answer of Inl err \<Rightarrow> (svc, Some (KubeError err)) | Inr svc \<Rightarrow> (svc, None))"

definition answered_404 :: "'a api_result \<Rightarrow> bool" where
  "answered_404 answer = (\<exists>err resp. answer = ApiErr err (Some resp) \<and> StatusCode resp = 404)"

definition adopted_service :: "string \<Rightarrow> service \<Rightarrow> service" where
  "adopted_service ruleID svc =
     delete_annotation FirewallRuleOperationIdKey (set_annotation FirewallRuleIdKey ruleID svc)"

text \<open>Looking the rule up by name without adopting one: a failure, or no such rule.\<close>

inductive lookup_missed :: "firewall_rule_args \<Rightarrow> event \<Rightarrow> bool" for args where
  lookup_none: "find_rule_loop rules (argRuleName args) = None \<Longrightarrow>
    lookup_missed args (ListVPCFirewallRules (argProjectID args) (ApiOk resp rules))"

definition after_failure :: "env \<Rightarrow> service \<Rightarrow> operation \<Rightarrow> time \<Rightarrow> ensure_next" where
  "after_failure env svc op now =
     (if firewallRuleRetryWait env op now > 0
      then EnsureDone (svc, firewallRuleRetryWait env op now, None)
      else EnsureCreate (delete_annotation FirewallRuleOperationIdKey svc))"

inductive rule_branch ::
    "config \<Rightarrow> env \<Rightarrow> service \<Rightarrow> firewall_rule_args \<Rightarrow> event list \<Rightarrow> ensure_next \<Rightarrow> bool"
    for cfg env svc args where
  unrecorded:
    "svcAnnotations svc FirewallRuleIdKey = None \<Longrightarrow> svcAnnotations svc FirewallRuleOperationIdKey = None \<Longrightarrow>
     rule_branch cfg env svc args [] (EnsureCreate svc)"
| rule_gone:
    "svcAnnotations svc FirewallRuleIdKey = Some ruleID \<Longrightarrow> answered_404 answer \<Longrightarrow>
     rule_branch cfg env svc args [GetVPCFirewallRule (argProjectID args) ruleID answer]
       (EnsureCreate (drop_rule_annotations svc))"
| rule_unreadable:
    "svcAnnotations svc FirewallRuleIdKey = Some ruleID \<Longrightarrow> answer = ApiErr err resp \<Longrightarrow>
     \<not> answered_404 answer \<Longrightarrow>
     rule_branch cfg env svc args [GetVPCFirewallRule (argProjectID args) ruleID answer]
       (EnsureDone (svc, 0, Some (ExternalError err)))"
| rule_matches:
    "svcAnnotations svc FirewallRuleIdKey = Some ruleID \<Longrightarrow> fst (CompareFirewallRule rule args) \<Longrightarrow>
     rule_branch cfg env svc args [GetVPCFirewallRule (argProjectID args) ruleID (ApiOk resp rule)]
       (EnsureDone (svc, 0, None))"
| rule_drifted:
    "svcAnnotations svc FirewallRuleIdKey = Some ruleID \<Longrightarrow>
     CompareFirewallRule rule args = (False, rule', args') \<Longrightarrow>
     rule_branch cfg env svc args
       [GetVPCFirewallRule (argProjectID args) ruleID (ApiOk resp rule),
        PatchVPCFirewallRule (rule_patch_request args') (argProjectID args) ruleID patched]
       (EnsureDone (svc, 0, api_error patched))"
| operation_unreadable:
    "svcAnnotations svc FirewallRuleIdKey = None \<Longrightarrow>
     svcAnnotations svc FirewallRuleOperationIdKey = Some operationID \<Longrightarrow>
     view_operation env answer = OpUnreadable \<Longrightarrow>
     \<not> errors_Is err ErrFirewallRuleOperationUnresolvable \<Longrightarrow>
     rule_branch cfg env svc args
       [GetNetworkingVPCFirewallRulesOperation (CrusoeProjectID cfg) operationID answer]
       (EnsureDone (svc, 0, Some err))"
| operation_pending:
    "svcAnnotations svc FirewallRuleIdKey = None \<Longrightarrow>
     svcAnnotations svc FirewallRuleOperationIdKey = Some operationID \<Longrightarrow>
     view_operation env answer = OpPending \<Longrightarrow>
     rule_branch cfg env svc args
       [GetNetworkingVPCFirewallRulesOperation (CrusoeProjectID cfg) operationID answer]
       (EnsureDone (svc, firewallRuleRequeueInterval, None))"
| operation_landed:
    "svcAnnotations svc FirewallRuleIdKey = None \<Longrightarrow>
     svcAnnotations svc FirewallRuleOperationIdKey = Some operationID \<Longrightarrow>
     view_operation env answer = OpLanded rule \<Longrightarrow>
     patch_outcome (set_annotation FirewallRuleIdKey (fwId rule) svc) patched = (svc', err) \<Longrightarrow>
     rule_branch cfg env svc args
       [GetNetworkingVPCFirewallRulesOperation (CrusoeProjectID cfg) operationID answer,
        PatchService svc (set_annotation FirewallRuleIdKey (fwId rule) svc) patched]
       (EnsureDone (svc', 0, err))"
| lookup_failed:
    "svcAnnotations svc FirewallRuleIdKey = None \<Longrightarrow>
     svcAnnotations svc FirewallRuleOperationIdKey = Some operationID \<Longrightarrow>
     view = view_operation env answer \<Longrightarrow>
     view = OpUnresolvable \<or> (view = OpDead op \<and> already_exists op) \<Longrightarrow>
     rule_branch cfg env svc args
       [GetNetworkingVPCFirewallRulesOperation (CrusoeProjectID cfg) operationID answer,
        ListVPCFirewallRules (argProjectID args) (ApiErr err resp)]
       (EnsureDone (svc, 0, Some (ExternalError err)))"
| rule_adopted:
    "svcAnnotations svc FirewallRuleIdKey = None \<Longrightarrow>
     svcAnnotations svc FirewallRuleOperationIdKey = Some operationID \<Longrightarrow>
     view = view_operation env answer \<Longrightarrow>
     view = OpUnresolvable \<or> (view = OpDead op \<and> already_exists op) \<Longrightarrow>
     find_rule_loop rules (argRuleName args) = Some ruleID \<Longrightarrow>
     patch_outcome (adopted_service ruleID svc) patched = (svc', err) \<Longrightarrow>
     rule_branch cfg env svc args
       [GetNetworkingVPCFirewallRulesOperation (CrusoeProjectID cfg) operationID answer,
        ListVPCFirewallRules (argProjectID args) (ApiOk resp rules),
        PatchService svc (adopted_service ruleID svc) patched]
       (EnsureDone (svc', 0, err))"
| operation_lost:
    "svcAnnotations svc FirewallRuleIdKey = None \<Longrightarrow>
     svcAnnotations svc FirewallRuleOperationIdKey = Some operationID \<Longrightarrow>
     view_operation env answer = OpUnresolvable \<Longrightarrow> lookup_missed args e \<Longrightarrow>
     rule_branch cfg env svc args
       [GetNetworkingVPCFirewallRulesOperation (CrusoeProjectID cfg) operationID answer, e]
       (EnsureCreate (delete_annotation FirewallRuleOperationIdKey svc))"
| operation_failed:
    "svcAnnotations svc FirewallRuleIdKey = None \<Longrightarrow>
     svcAnnotations svc FirewallRuleOperationIdKey = Some operationID \<Longrightarrow>
     view_operation env answer = OpDead op \<Longrightarrow> \<not> already_exists op \<Longrightarrow>
     rule_branch cfg env svc args
       [GetNetworkingVPCFirewallRulesOperation (CrusoeProjectID cfg) operationID answer, Now now]
       (after_failure env svc op now)"
| operation_clashed:
    "svcAnnotations svc FirewallRuleIdKey = None \<Longrightarrow>
     svcAnnotations svc FirewallRuleOperationIdKey = Some operationID \<Longrightarrow>
     view_operation env answer = OpDead op \<Longrightarrow> already_exists op \<Longrightarrow> lookup_missed args e \<Longrightarrow>
     rule_branch cfg env svc args
       [GetNetworkingVPCFirewallRulesOperation (CrusoeProjectID cfg) operationID answer, e, Now now]
       (after_failure env svc op now)"

text \<open>Adopting a rule ends in one of three ways.\<close>

lemma adoptFirewallRuleByName_emits:
  "emits (adoptFirewallRuleByName env svc svcCopy args)
     (\<lambda>r es.
        (\<exists>err resp. es = [ListVPCFirewallRules (argProjectID args) (ApiErr err resp)] \<and>
           r = (svc, False, Some (ExternalError err))) \<or>
        (\<exists>e. es = [e] \<and> lookup_missed args e \<and> r = (svc, False, None)) \<or>
        (\<exists>resp rules ruleID patched svc' err.
           find_rule_loop rules (argRuleName args) = Some ruleID \<and>
           patch_outcome (adopted_service ruleID svc) patched = (svc', err) \<and>
           es = [ListVPCFirewallRules (argProjectID args) (ApiOk resp rules),
                 PatchService svcCopy (adopted_service ruleID svc) patched] \<and>
           r = (svc', True, err))) h"
  by (auto simp: emits_def adoptFirewallRuleByName_def findFirewallRuleByName_def patch_service_def
      adopted_service_def patch_outcome_def wp call_defs intro: lookup_missed.intros
      split: api_result.split option.split sum.split)

lemma patch_service_emits:
  "emits (patch_service env orig svc)
     (\<lambda>r es. \<exists>answer. es = [PatchService orig svc answer] \<and> r = patch_outcome svc answer) h"
  by (auto simp: emits_def patch_service_def patch_outcome_def wp call_defs split: sum.split)

lemma rule_drifted_patched:
  assumes "svcAnnotations svc FirewallRuleIdKey = Some ruleID"
    and "CompareFirewallRule rule args = (False, rule', args')" and "err = api_error patched"
  shows "rule_branch cfg env svc args
       [GetVPCFirewallRule (argProjectID args) ruleID (ApiOk resp rule),
        PatchVPCFirewallRule (rule_patch_request args') (argProjectID args') ruleID patched]
       (EnsureDone (svc, 0, err))"
  unfolding CompareFirewallRule_args(1) [OF assms(2)] assms(3) by (rule rule_drifted) (fact assms)+

lemma ensure_check_rule_follows:
  assumes "svcAnnotations svc FirewallRuleIdKey = Some ruleID"
  shows "emits (ensure_check_rule env svc args ruleID) (\<lambda>next es. rule_branch cfg env svc args es next) h"
  unfolding emits_def ensure_check_rule_def
  using assms
  by (auto simp: wp call_defs answered_404_def api_error_def
      intro!: rule_gone rule_unreadable rule_matches rule_drifted_patched
      split: api_result.split option.split prod.split)

lemma ensure_unresolvable_follows:
  assumes "svcAnnotations svc FirewallRuleIdKey = None"
    and "svcAnnotations svc FirewallRuleOperationIdKey = Some operationID"
    and "view_operation env answer = OpUnresolvable"
  shows "emits (ensure_unresolvable env svc svc args)
     (\<lambda>next es. rule_branch cfg env svc args
        (GetNetworkingVPCFirewallRulesOperation (CrusoeProjectID cfg) operationID answer # es) next) h"
  unfolding emits_def ensure_unresolvable_def
  using assms
  by (auto simp: wp intro!: wp_emits [OF adoptFirewallRuleByName_emits] lookup_failed operation_lost
      intro: rule_adopted split: option.split)

lemma ensure_failed_cooldown_emits:
  "emits (ensure_failed_cooldown env svc op)
     (\<lambda>next es. \<exists>now. es = [Now now] \<and> next = after_failure env svc op now) h"
  by (simp add: emits_def ensure_failed_cooldown_def after_failure_def wp call_defs Let_def)

lemma ensure_failed_follows:
  assumes "svcAnnotations svc FirewallRuleIdKey = None"
    and "svcAnnotations svc FirewallRuleOperationIdKey = Some operationID"
    and "view_operation env answer = OpDead op"
  shows "emits (ensure_failed env svc svc args op)
     (\<lambda>next es. rule_branch cfg env svc args
        (GetNetworkingVPCFirewallRulesOperation (CrusoeProjectID cfg) operationID answer # es) next) h"
  unfolding emits_def ensure_failed_def
  using assms
  by (auto simp: wp intro!: wp_emits [OF adoptFirewallRuleByName_emits]
      wp_emits [OF ensure_failed_cooldown_emits] lookup_failed operation_failed operation_clashed
      intro: rule_adopted split: option.split)

lemma ensure_operation_result_follows:
  assumes "svcAnnotations svc FirewallRuleIdKey = None"
    and "svcAnnotations svc FirewallRuleOperationIdKey = Some operationID"
    and "viewed_as result (view_operation env answer)"
  shows "emits (ensure_operation_result env svc svc args operationID result)
     (\<lambda>next es. rule_branch cfg env svc args
        (GetNetworkingVPCFirewallRulesOperation (CrusoeProjectID cfg) operationID answer # es) next) h"
proof (cases "view_operation env answer")
  case OpUnresolvable
  then show ?thesis
    using assms ensure_unresolvable_follows by (auto simp: viewed_as_def ensure_operation_result_def)
next
  case (OpDead op)
  then show ?thesis
    using assms ensure_failed_follows by (auto simp: viewed_as_def ensure_operation_result_def)
qed (use assms in \<open>auto simp: emits_def viewed_as_def ensure_operation_result_def wp
      intro!: wp_emits [OF patch_service_emits] operation_unreadable operation_pending operation_landed\<close>)

lemma ensure_resume_operation_follows:
  assumes "svcAnnotations svc FirewallRuleIdKey = None"
    and "svcAnnotations svc FirewallRuleOperationIdKey = Some operationID"
  shows "emits (ensure_resume_operation cfg env svc svc args operationID)
     (\<lambda>next es. rule_branch cfg env svc args es next) h"
  unfolding emits_def ensure_resume_operation_def
  using assms
  by (auto simp: wp intro!: wp_emits [OF GetFirewallRuleOperationResult_view]
      wp_emits [OF ensure_operation_result_follows])

text \<open>The whole session: the opt-in, the arguments, a branch, and the create.\<close>

definition args_reads :: "config \<Rightarrow> service \<Rightarrow> event list \<Rightarrow> firewall_rule_args \<Rightarrow> bool" where
  "args_reads cfg svc es args \<longleftrightarrow> topology_reads es \<and>
     (\<exists>es' vpcID location nodes. es = es' @ [ListNodes (Inr nodes)] \<and>
        vpc_from_subnet cfg (vpcID, location) es' \<and> rule_args_for cfg svc vpcID nodes args)"

text \<open>How a session ends: with the branch, or with the create and the patch after it.\<close>

inductive branch_end ::
    "service \<Rightarrow> firewall_rule_args \<Rightarrow> ensure_next \<Rightarrow> event list \<Rightarrow> ensure_result outcome \<Rightarrow> bool"
    for svc args where
  settled: "branch_end svc args (EnsureDone result) [] (Returned result)"
| create_refused:
    "branch_end svc args (EnsureCreate svc')
       [CreateVPCFirewallRule (rule_post_request args) (argProjectID args) (ApiErr err resp)]
       (Returned (svc', 0, Some (ExternalError err)))"
| create_undecoded:
    "branch_end svc args (EnsureCreate svc')
       [CreateVPCFirewallRule (rule_post_request args) (argProjectID args) (ApiOk resp None)]
       (Panicked nil_dereference)"
| created:
    "marked = set_annotation FirewallRuleOperationIdKey (opOperationId op) svc' \<Longrightarrow>
     patch_outcome marked patched = (svc'', err) \<Longrightarrow>
     branch_end svc args (EnsureCreate svc')
       [CreateVPCFirewallRule (rule_post_request args) (argProjectID args) (ApiOk resp (Some op)),
        PatchService svc marked patched]
       (Returned (svc'', firewallRuleRequeueInterval, err))"

inductive rule_session ::
    "config \<Rightarrow> env \<Rightarrow> service \<Rightarrow> event list \<Rightarrow> ensure_result outcome \<Rightarrow> bool"
    for cfg env svc where
  unmanaged:
    "\<not> rule_managed svc \<Longrightarrow> rule_session cfg env svc [] (Returned (svc, 0, None))"
| args_unknown:
    "rule_managed svc \<Longrightarrow> topology_reads es \<Longrightarrow> vpc_lookup_failed es \<Longrightarrow>
     \<not> errors_Is err ErrFirewallRuleOperationInFlight \<Longrightarrow>
     rule_session cfg env svc es (Returned (svc, 0, Some err))"
| args_skipped:
    "rule_managed svc \<Longrightarrow> topology_reads es \<Longrightarrow> rule_args_skipped cfg svc es \<or> nodes_unlisted es \<Longrightarrow>
     rule_session cfg env svc es (Returned (svc, 0, None))"
| branched:
    "rule_managed svc \<Longrightarrow> args_reads cfg svc es args \<Longrightarrow> rule_branch cfg env svc args branch next \<Longrightarrow>
     branch_end svc args next rest r \<Longrightarrow>
     rule_session cfg env svc (es @ branch @ rest) r"

lemma rule_branch_no_panic: "\<not> rule_branch cfg env svc args es (EnsurePanic m)"
  by (auto elim!: rule_branch.cases simp: after_failure_def split: if_splits)

lemma ensure_create_emits:
  "emits (ensure_create env svc' svc args) (\<lambda>r rest. branch_end svc args (EnsureCreate svc') rest r) h"
  by (auto simp: emits_def ensure_create_def patch_service_def wp call_defs patch_outcome_def
      split: api_result.split option.split sum.split intro!: create_refused create_undecoded created)

lemma ensure_branch_follows:
  "emits (ensure_branch cfg env svc svc args) (\<lambda>next es. rule_branch cfg env svc args es next) h"
proof (cases "svcAnnotations svc FirewallRuleIdKey")
  case None
  then show ?thesis
    by (cases "svcAnnotations svc FirewallRuleOperationIdKey")
      (auto simp: emits_def ensure_branch_def wp intro: unrecorded
        intro!: ensure_resume_operation_follows [unfolded emits_def])
qed (simp add: ensure_branch_def ensure_check_rule_follows)

lemma GetFirewallRuleArgs_reads:
  "emits (GetFirewallRuleArgs cfg env svc)
     (\<lambda>r es.
        (\<exists>err. r = Inl err \<and> topology_reads es \<and> vpc_lookup_failed es \<and>
           \<not> errors_Is err ErrFirewallRuleOperationInFlight) \<or>
        (r = Inr None \<and> topology_reads es \<and> (rule_args_skipped cfg svc es \<or> nodes_unlisted es)) \<or>
        (\<exists>args. r = Inr (Some args) \<and> args_reads cfg svc es args)) h"
  by (rule emits_mono [OF GetFirewallRuleArgs_emits])
    (auto simp: args_reads_def split: sum.splits option.splits)

lemma ensureFirewallRule_follows:
  "emits (ensureFirewallRule cfg env svc) (\<lambda>r es. rule_session cfg env svc es r) h"
proof (cases "rule_managed svc")
  case False
  then show ?thesis by (auto simp: emits_def ensureFirewallRule_def wp intro: unmanaged)
next
  case True
  have branch: "wp (case next of
        EnsureDone result \<Rightarrow> State_Monad.return (Returned result)
      | EnsurePanic message \<Rightarrow> State_Monad.return (Panicked message)
      | EnsureCreate svc' \<Rightarrow> ensure_create env svc' svc args)
    (\<lambda>r h'. \<exists>es. h' = h @ es \<and> rule_session cfg env svc es r) (h @ es @ branch)"
    if "args_reads cfg svc es args" "rule_branch cfg env svc args branch next" for es args branch "next"
  proof (cases "next")
    case (EnsureDone result)
    then show ?thesis using branched [OF True that] settled by (fastforce simp: wp)
  next
    case (EnsureCreate svc')
    then show ?thesis
      using branched [OF True that] by (auto intro!: wp_emits [OF ensure_create_emits])
  qed (use that in \<open>simp add: rule_branch_no_panic\<close>)
  show ?thesis
    unfolding emits_def ensureFirewallRule_def Let_def
    using True
    by (auto simp: wp intro!: wp_emits [OF GetFirewallRuleArgs_reads] wp_emits [OF ensure_branch_follows]
          branch args_unknown args_skipped)
qed

end
