(* ===== verification/FirewallSafety.thy ===== *)
theory FirewallSafety
  imports FirewallRules
begin

text \<open>
  What \<open>ensureFirewallRule\<close> promises, read off the rules of \<open>rule_session\<close>: when a rule is
  created, what happens to a pending, a failed and a landed operation, that a matching rule is
  left alone and a differing one repaired, and the life cycle of the two annotations.
\<close>

inductive_cases rule_sessionE: "rule_session cfg env svc es r"
inductive_cases rule_branchE: "rule_branch cfg env svc args es next"
inductive_cases branch_endE: "branch_end svc args next rest r"
inductive_cases lookup_missedE: "lookup_missed args e"
inductive_simps lookup_missed_list: "lookup_missed args (ListVPCFirewallRules projectID answer)"

lemma args_reads_name:
  "args_reads cfg svc es args \<Longrightarrow>
     GenerateLoadBalancerResourceName (svcNamespace svc) (svcName svc) (svcUID svc) = Inr (argRuleName args)"
  "args_reads cfg svc es args \<Longrightarrow> argProjectID args = CrusoeProjectID cfg"
  by (auto simp: args_reads_def rule_args_for_def)

lemma lookup_missed_read: "lookup_missed args e \<Longrightarrow> is_read e"
  by (auto elim: lookup_missedE)

lemma rule_branch_no_create:
  "rule_branch cfg env svc args es next \<Longrightarrow> filter is_create_rule es = []"
  by (auto elim!: rule_branchE lookup_missedE)

text \<open>The reasons for which a branch leads to a create.\<close>

definition create_reason :: "env \<Rightarrow> service \<Rightarrow> firewall_rule_args \<Rightarrow> event list \<Rightarrow> bool" where
  "create_reason env svc args es \<longleftrightarrow>
     (case (svcAnnotations svc FirewallRuleIdKey, svcAnnotations svc FirewallRuleOperationIdKey) of
        (None, None) \<Rightarrow> True
      | (Some ruleID, _) \<Rightarrow>
          \<exists>answer. GetVPCFirewallRule (argProjectID args) ruleID answer \<in> set es \<and> answered_404 answer
      | (None, Some operationID) \<Rightarrow>
          \<exists>answer. GetNetworkingVPCFirewallRulesOperation (argProjectID args) operationID answer \<in> set es \<and>
            (case view_operation env answer of
               OpUnresolvable \<Rightarrow> \<exists>e \<in> set es. lookup_missed args e
             | OpDead op \<Rightarrow>
                 (\<exists>now. Now now \<in> set es \<and> firewallRuleRetryWait env op now = 0) \<and>
                 (if already_exists op then \<exists>e \<in> set es. lookup_missed args e else True)
             | _ \<Rightarrow> False))"

lemma firewallRuleRetryWait_nonneg: "\<not> 0 < firewallRuleRetryWait env op now \<longleftrightarrow> firewallRuleRetryWait env op now = 0"
  by (auto simp: firewallRuleRetryWait_cases min_def firewallRuleCreateRetryDelay_def duration_defs
      split: option.splits if_splits)

lemma rule_branch_create_reason:
  assumes "rule_branch cfg env svc args es (EnsureCreate svc')" and "argProjectID args = CrusoeProjectID cfg"
  shows "create_reason env svc args es"
  using assms
  by (auto elim!: rule_branchE lookup_missedE simp: create_reason_def after_failure_def
      firewallRuleRetryWait_nonneg lookup_missed_list split: if_splits)

lemma create_reason_mono:
  "create_reason env svc args es \<Longrightarrow> set es \<subseteq> set es' \<Longrightarrow> create_reason env svc args es'"
  by (auto simp: create_reason_def split: option.splits operation_view.splits if_splits) blast+

lemma args_reads_topology: "args_reads cfg svc es args \<Longrightarrow> e \<in> set es \<Longrightarrow> is_topology_read e"
  by (auto simp: args_reads_def topology_reads_def)

lemma args_reads_only: "args_reads cfg svc es args \<Longrightarrow> reads_only es"
  by (auto simp: args_reads_def)

text \<open>An event beyond the reads of the arguments comes from a branch or its end.\<close>

lemma rule_session_branch:
  assumes "rule_session cfg env svc es r" and "e \<in> set es" and "\<not> is_topology_read e"
  obtains args es1 branch "next" rest where
    "rule_managed svc" "args_reads cfg svc es1 args" "es = es1 @ branch @ rest"
    "rule_branch cfg env svc args branch next" "branch_end svc args next rest r"
  using assms by cases (auto simp: topology_reads_def)

lemma branch_end_create:
  assumes "branch_end svc args next rest r" and "CreateVPCFirewallRule req p answer \<in> set rest"
  obtains svc' where "next = EnsureCreate svc'" "req = rule_post_request args" "p = argProjectID args"
    "length (filter is_create_rule rest) = 1"
  using assms by (auto elim!: branch_endE)

text \<open>Every session with a create in it has one, at the end of a branch that had a reason.\<close>

lemma rule_session_create:
  assumes "rule_session cfg env svc es r" and "CreateVPCFirewallRule req p answer \<in> set es"
  shows "rule_managed svc \<and> length (filter is_create_rule es) = 1 \<and>
    (\<exists>args es1 es2. es = es1 @ es2 \<and> args_reads cfg svc es1 args \<and>
       req = rule_post_request args \<and> p = argProjectID args \<and> create_reason env svc args es)"
proof -
  from assms obtain args es1 branch "next" rest where
    s: "rule_managed svc" "args_reads cfg svc es1 args" "es = es1 @ branch @ rest"
    "rule_branch cfg env svc args branch next" "branch_end svc args next rest r"
    by (auto elim: rule_session_branch)
  have none: "filter is_create_rule es1 = []" "filter is_create_rule branch = []"
    using reads_only_harmless(6) [OF args_reads_only [OF s(2)]] rule_branch_no_create [OF s(4)]
    by (auto simp: filter_empty_conv)
  then have "CreateVPCFirewallRule req p answer \<in> set rest"
    using assms(2) s(3) by (auto simp: filter_empty_conv)
  with s(5) obtain svc' where c: "next = EnsureCreate svc'" "req = rule_post_request args"
    "p = argProjectID args" "length (filter is_create_rule rest) = 1"
    by (rule branch_end_create)
  have "create_reason env svc args es"
    by (rule create_reason_mono [OF rule_branch_create_reason [OF s(4) [unfolded c(1)] args_reads_name(2) [OF s(2)]]])
      (use s(3) in auto)
  then show ?thesis using s c none by auto
qed

text \<open>Reading the operation can only be the first event of the branch.\<close>

lemma rule_branch_operation:
  assumes "rule_branch cfg env svc args es next"
    and "GetNetworkingVPCFirewallRulesOperation p operationID answer \<in> set es"
  shows "svcAnnotations svc FirewallRuleIdKey = None"
    "svcAnnotations svc FirewallRuleOperationIdKey = Some operationID"
    "\<exists>rest. es = GetNetworkingVPCFirewallRulesOperation p operationID answer # rest"
  using assms by (auto elim!: rule_branchE lookup_missedE)

lemma rule_session_operation:
  assumes "rule_session cfg env svc es r"
    and "GetNetworkingVPCFirewallRulesOperation p operationID answer \<in> set es"
  obtains args es1 branch "next" rest where
    "args_reads cfg svc es1 args"
    "es = es1 @ (GetNetworkingVPCFirewallRulesOperation p operationID answer # branch) @ rest"
    "rule_branch cfg env svc args
       (GetNetworkingVPCFirewallRulesOperation p operationID answer # branch) next"
    "branch_end svc args next rest r"
proof -
  from assms obtain args es1 branch "next" rest where
    s: "args_reads cfg svc es1 args" "es = es1 @ branch @ rest"
    "rule_branch cfg env svc args branch next" "branch_end svc args next rest r"
    by (auto elim: rule_session_branch)
  have "GetNetworkingVPCFirewallRulesOperation p operationID answer \<notin> set es1"
    using args_reads_topology [OF s(1)] by force
  moreover have "GetNetworkingVPCFirewallRulesOperation p operationID answer \<notin> set rest"
    using s(4) by (auto elim!: branch_endE)
  ultimately have "GetNetworkingVPCFirewallRulesOperation p operationID answer \<in> set branch"
    using assms(2) s(2) by auto
  then obtain branch' where
    "branch = GetNetworkingVPCFirewallRulesOperation p operationID answer # branch'"
    using rule_branch_operation(3) [OF s(3)] by blast
  with s that show thesis by blast
qed

section \<open>Fixtures\<close>

definition managed_svc :: service where
  "managed_svc = set_annotation ManageFirewallRuleKey ManageFirewallRuleEnabled test_svc"

definition rules_env :: env where
  "rules_env = rule_env
     \<lparr>env_create_rule := (\<lambda>_ _ _. ApiOk ok_response (Some (test_op OpInProgress))),
      env_patch_service := (\<lambda>_ _ svc. Inr svc),
      env_get_rule_operation := (\<lambda>_ _ _. ApiOk ok_response (test_op OpInProgress)),
      env_get_rule := (\<lambda>_ _ _. ApiOk ok_response
         \<lparr>fwId = ''r'', fwName = test_name, fwVpcNetworkId = ''vpc'', fwDestinationPorts = [],
          fwProtocols = [''tcp''], fwSources = []\<rparr>),
      env_patch_rule := (\<lambda>_ _ _ _. ApiOk ok_response ())\<rparr>"

lemma managed_svc_simps [simp]:
  "svcAnnotations managed_svc = [ManageFirewallRuleKey \<mapsto> ManageFirewallRuleEnabled]"
  "rule_managed (managed_svc\<lparr>svcAnnotations := (svcAnnotations managed_svc)(k \<mapsto> v)\<rparr>) \<longleftrightarrow>
     (k = ManageFirewallRuleKey \<longrightarrow> v = ManageFirewallRuleEnabled)"
  "rule_managed managed_svc"
  by (simp_all add: managed_svc_def rule_managed_def set_annotation_def)

lemma run_GetFirewallRuleArgs_fixture:
  assumes "env_get_subnet env = env_get_subnet rule_env" "env_list_nodes env = env_list_nodes rule_env"
    and "svc = managed_svc \<or> svc = set_annotation k v managed_svc" "k \<noteq> AnnotationLoadBalancerProtocol"
  shows "run_state (GetFirewallRuleArgs test_config env svc) h =
     (Inr (Some test_svc_args), h @ test_svc_args_reads)"
  using assms
  by (intro run_GetFirewallRuleArgs_test_svc)
    (auto simp: managed_svc_def set_annotation_def annotation_def test_svc_def)

lemma run_GetFirewallRuleArgs_rules_env [simp]:
  "run_state (GetFirewallRuleArgs test_config rules_env managed_svc) h =
     (Inr (Some test_svc_args), h @ test_svc_args_reads)"
  by (rule run_GetFirewallRuleArgs_fixture [of _ _ FirewallRuleIdKey]) (simp_all add: rules_env_def)

text \<open>The Service while its rule is being created, and with a rule recorded.\<close>

definition creating_svc :: service where
  "creating_svc = set_annotation FirewallRuleOperationIdKey ''op'' managed_svc"

definition recorded_svc :: service where
  "recorded_svc = set_annotation FirewallRuleIdKey ''r'' managed_svc"

lemma svcAnnotations_fixtures [simp]:
  "svcAnnotations creating_svc = [ManageFirewallRuleKey \<mapsto> ManageFirewallRuleEnabled, FirewallRuleOperationIdKey \<mapsto> ''op'']"
  "svcAnnotations recorded_svc = [ManageFirewallRuleKey \<mapsto> ManageFirewallRuleEnabled, FirewallRuleIdKey \<mapsto> ''r'']"
  by (simp_all add: creating_svc_def recorded_svc_def)

lemma run_GetFirewallRuleArgs_svcs [simp]:
  assumes "env_get_subnet env = env_get_subnet rule_env" "env_list_nodes env = env_list_nodes rule_env"
  shows "run_state (GetFirewallRuleArgs test_config env creating_svc) h =
     (Inr (Some test_svc_args), h @ test_svc_args_reads)"
    "run_state (GetFirewallRuleArgs test_config env recorded_svc) h =
     (Inr (Some test_svc_args), h @ test_svc_args_reads)"
  unfolding creating_svc_def recorded_svc_def
  by (rule run_GetFirewallRuleArgs_fixture [OF assms disjI2 [OF refl]]; simp)+

text \<open>The environment once the operation is in a given state, with a given listing and clock.\<close>

definition resume_env :: "operation \<Rightarrow> vpc_firewall_rule list \<Rightarrow> time \<Rightarrow> env" where
  "resume_env op rules now = rules_env
     \<lparr>env_get_rule_operation := (\<lambda>_ _ _. ApiOk ok_response op),
      env_list_rules := (\<lambda>_ _. ApiOk ok_response rules),
      env_now := (\<lambda>_. now),
      env_time_Parse := (\<lambda>s. if s = ''0'' then Some 0 else None)\<rparr>"

lemma resume_env_topology [simp]:
  "env_get_subnet (resume_env op rules now) = env_get_subnet rule_env"
  "env_list_nodes (resume_env op rules now) = env_list_nodes rule_env"
  "env_get_subnet rules_env = env_get_subnet rule_env" "env_list_nodes rules_env = env_list_nodes rule_env"
  by (simp_all add: resume_env_def rules_env_def)

lemma rule_managed_fixtures [simp]: "rule_managed creating_svc" "rule_managed recorded_svc"
  by (simp_all add: rule_managed_def)

lemma StatusCode_ok_response [simp]: "StatusCode ok_response = 200"
  by (simp add: ok_response_def)

lemma fixture_fields [simp]:
  "CrusoeProjectID test_config = ''project''" "argProjectID test_svc_args = ''project''"
  "argRuleName test_svc_args = test_name" "opState (test_op s) = s" "opOperationId (test_op s) = ''op''"
  by (simp_all add: test_config_def test_svc_args_def test_op_def)

text \<open>Running the function on the fixtures, up to the answers of the environment.\<close>

lemmas run_rules =
  ensureFirewallRule_def ensure_branch_def ensure_create_def ensure_check_rule_def
  ensure_resume_operation_def ensure_operation_result_def ensure_unresolvable_def ensure_failed_def
  ensure_failed_cooldown_def adoptFirewallRuleByName_def findFirewallRuleByName_def
  patch_service_def GetFirewallRuleOperationResult_def call_defs

text \<open>The operation pending, failed at time 0, gone, and landed.\<close>

abbreviation pending_op :: operation where
  "pending_op \<equiv> test_op OpInProgress"

definition failed_op :: operation where
  "failed_op = (test_op OpFailed)\<lparr>opCompletedAt := ''0''\<rparr>"

definition landed_op :: operation where
  "landed_op = test_op OpSuccess"

definition listed_rule :: vpc_firewall_rule where
  "listed_rule =
     \<lparr>fwId = ''r'', fwName = test_name, fwVpcNetworkId = ''vpc'', fwDestinationPorts = [],
      fwProtocols = [''tcp''], fwSources = []\<rparr>"

definition landed_env :: env where
  "landed_env = (resume_env landed_op [] 0)\<lparr>env_unmarshal_firewall_rule := (\<lambda>_. Some listed_rule)\<rparr>"

definition op_reads :: "operation \<Rightarrow> event list" where
  "op_reads op = test_svc_args_reads @
     [GetNetworkingVPCFirewallRulesOperation ''project'' ''op'' (ApiOk ok_response op)]"

lemma op_fixture_fields [simp]:
  "opState failed_op = OpFailed" "opState landed_op = OpSuccess" "opResult failed_op = None"
  "opCompletedAt failed_op = ''0''" "opResult landed_op = None" "fwId listed_rule = ''r''"
  "fwName listed_rule = test_name"
  by (simp_all add: failed_op_def landed_op_def test_op_def listed_rule_def)

lemma resume_env_answers [simp]:
  "env_get_rule_operation (resume_env op rules now) h a b = ApiOk ok_response op"
  "env_list_rules (resume_env op rules now) h a = ApiOk ok_response rules"
  "env_now (resume_env op rules now) h = now"
  "env_patch_service (resume_env op rules now) h orig svc = Inr svc"
  "env_get_rule_operation landed_env h a b = ApiOk ok_response landed_op"
  "env_patch_service landed_env h orig svc = Inr svc"
  "env_unmarshal_firewall_rule landed_env s = Some listed_rule"
  "env_get_subnet landed_env = env_get_subnet rule_env" "env_list_nodes landed_env = env_list_nodes rule_env"
  "env_unmarshal_firewall_rule (resume_env op rules now) s = None"
  by (simp_all add: resume_env_def rules_env_def landed_env_def rule_env_def nodes_env_def offline_env_def)

lemma already_exists_failed_op [simp]: "\<not> already_exists failed_op"
  by (simp add: already_exists_def) code_simp

lemma failed_op_wait:
  "firewallRuleRetryWait (resume_env failed_op rules (60 * Second)) failed_op (60 * Second) = 60 * Second"
  by (simp add: firewallRuleRetryWait_cases resume_env_def Time_Sub_def firewallRuleCreateRetryDelay_def
      duration_defs max_int64_def min_int64_def)

lemma run_ensureFirewallRule_pending:
  "run_state (ensureFirewallRule test_config (resume_env pending_op [] 0) creating_svc) h =
     (Returned (creating_svc, firewallRuleRequeueInterval, None), h @ op_reads pending_op)"
  by (simp add: run_rules op_reads_def)

lemma run_ensureFirewallRule_failed:
  "run_state (ensureFirewallRule test_config (resume_env failed_op [] (60 * Second)) creating_svc) h =
     (Returned (creating_svc, 60 * Second, None), h @ op_reads failed_op @ [Now (60 * Second)])"
  by (simp add: run_rules op_reads_def failed_op_wait) (simp add: Second_def)

lemma run_ensureFirewallRule_landed:
  "run_state (ensureFirewallRule test_config landed_env creating_svc) h =
     (Returned (set_annotation FirewallRuleIdKey ''r'' creating_svc, 0, None),
      h @ op_reads landed_op @
      [PatchService creating_svc (set_annotation FirewallRuleIdKey ''r'' creating_svc)
         (Inr (set_annotation FirewallRuleIdKey ''r'' creating_svc))])"
  by (simp add: run_rules OpResultToItem_def op_reads_def)

lemma run_ensureFirewallRule_adopts:
  "run_state (ensureFirewallRule test_config (resume_env landed_op [listed_rule] 0) creating_svc) h =
     (Returned (adopted_service ''r'' creating_svc, 0, None),
      h @ op_reads landed_op @
      [ListVPCFirewallRules ''project'' (ApiOk ok_response [listed_rule]),
       PatchService creating_svc (adopted_service ''r'' creating_svc) (Inr (adopted_service ''r'' creating_svc))])"
  by (simp add: run_rules OpResultToItem_def op_reads_def adopted_service_def)




lemma run_ensureFirewallRule_creates:
  "run_state (ensureFirewallRule test_config rules_env managed_svc) [] =
     (Returned (set_annotation FirewallRuleOperationIdKey ''op'' managed_svc, firewallRuleRequeueInterval, None),
      test_svc_args_reads @
      [CreateVPCFirewallRule (rule_post_request test_svc_args) ''project''
         (ApiOk ok_response (Some (test_op OpInProgress))),
       PatchService managed_svc (set_annotation FirewallRuleOperationIdKey ''op'' managed_svc)
         (Inr (set_annotation FirewallRuleOperationIdKey ''op'' managed_svc))])"
  by (simp add: run_rules) (simp add: rules_env_def)

section \<open>Properties\<close>

text \<open>
  C7. A firewall rule is created at most once in a pass, only for a Service that opted in, under
  the Service's resource name, and only for a reason: nothing is recorded; the recorded rule is
  gone (404); the recorded operation can never yield a rule and no rule has the name; or it
  failed, its cooldown is over, and, if it failed for a name clash, no rule has the name.
\<close>

theorem rule_created_only_when_needed:
  assumes "run_state (ensureFirewallRule cfg env svc) h = (r, h @ es)"
    and "CreateVPCFirewallRule req p answer \<in> set es"
  shows "rule_managed svc \<and> length (filter is_create_rule es) = 1 \<and>
    (\<exists>args. req = rule_post_request args \<and> p = CrusoeProjectID cfg \<and> argProjectID args = p \<and>
       GenerateLoadBalancerResourceName (svcNamespace svc) (svcName svc) (svcUID svc)
         = Inr (argRuleName args) \<and>
       create_reason env svc args es)"
  using rule_session_create [OF emits_appendD [OF ensureFirewallRule_follows assms(1)] assms(2)]
    args_reads_name by metis

theorem rule_created_only_when_needed_witness:
  "length (filter is_create_rule (snd (run_state (ensureFirewallRule test_config rules_env managed_svc) []))) = 1 \<and>
   (\<exists>args. create_reason rules_env managed_svc args
      (snd (run_state (ensureFirewallRule test_config rules_env managed_svc) [])))"
  using rule_created_only_when_needed [of test_config rules_env managed_svc "[]"]
  unfolding run_ensureFirewallRule_creates by fastforce

text \<open>
  A create operation that is still pending, or whose state cannot be read for now, is left
  alone: the pass only reads, the Service stays as it is, and the pass asks to come back, after
  ten seconds for a pending operation and by returning an error for an unreadable one.
\<close>

theorem unsettled_operation_untouched:
  assumes "run_state (ensureFirewallRule cfg env svc) h = (r, h @ es)"
    and "GetNetworkingVPCFirewallRulesOperation p operationID answer \<in> set es"
    and "view_operation env answer \<in> {OpPending, OpUnreadable}"
  shows "reads_only es \<and>
    (case r of
       Returned (svc', wait, err) \<Rightarrow>
         svc' = svc \<and>
         (if view_operation env answer = OpPending
          then wait = firewallRuleRequeueInterval \<and> err = None else err \<noteq> None)
     | _ \<Rightarrow> False)"
  using emits_appendD [OF ensureFirewallRule_follows assms(1)] assms(2)
proof (rule rule_session_operation)
  fix args es1 branch "next" rest
  assume "args_reads cfg svc es1 args"
    "es = es1 @ (GetNetworkingVPCFirewallRulesOperation p operationID answer # branch) @ rest"
    "rule_branch cfg env svc args
       (GetNetworkingVPCFirewallRulesOperation p operationID answer # branch) next"
    "branch_end svc args next rest r"
  with assms(3) args_reads_only [of cfg svc es1 args] show ?thesis
    by (auto elim!: rule_branchE branch_endE)
qed

theorem unsettled_operation_untouched_witness:
  "reads_only (op_reads pending_op)"
  using unsettled_operation_untouched
    [OF run_ensureFirewallRule_pending [of "[]"], of "''project''" "''op''" "ApiOk ok_response pending_op"]
  by (simp add: view_operation_def op_reads_def)

text \<open>
  A create operation that succeeded is recorded: after reading it, the pass writes the id of
  its rule, and nothing else, to the Service, changes nothing in the cloud, and reports exactly
  the failure of that write.
\<close>

theorem landed_rule_recorded:
  assumes "run_state (ensureFirewallRule cfg env svc) h = (r, h @ es)"
    and "GetNetworkingVPCFirewallRulesOperation p operationID answer \<in> set es"
    and "view_operation env answer = OpLanded rule"
  shows "\<exists>patched.
    filter (\<lambda>e. \<not> is_read e) es =
      [PatchService svc (set_annotation FirewallRuleIdKey (fwId rule) svc) patched] \<and>
    (case (r, patched) of
       (Returned (svc', wait, err), Inr answer) \<Rightarrow> svc' = answer \<and> wait = 0 \<and> err = None
     | (Returned (svc', wait, err), Inl e) \<Rightarrow> err = Some (KubeError e)
     | _ \<Rightarrow> False)"
  using emits_appendD [OF ensureFirewallRule_follows assms(1)] assms(2)
proof (rule rule_session_operation)
  fix args es1 branch "next" rest
  assume s: "args_reads cfg svc es1 args"
    "es = es1 @ (GetNetworkingVPCFirewallRulesOperation p operationID answer # branch) @ rest"
    "rule_branch cfg env svc args
       (GetNetworkingVPCFirewallRulesOperation p operationID answer # branch) next"
    "branch_end svc args next rest r"
  have "filter (\<lambda>e. \<not> is_read e) es1 = []"
    using args_reads_only [OF s(1)] by (auto simp: reads_only_def filter_empty_conv)
  with s assms(3) show ?thesis
    by (auto elim!: rule_branchE branch_endE simp: patch_outcome_def split: sum.splits)
qed

theorem landed_rule_recorded_witness:
  "\<exists>patched. filter (\<lambda>e. \<not> is_read e)
      (snd (run_state (ensureFirewallRule test_config landed_env creating_svc) [])) =
      [PatchService creating_svc (set_annotation FirewallRuleIdKey ''r'' creating_svc) patched]"
  using landed_rule_recorded
    [OF run_ensureFirewallRule_landed [of "[]"], of "''project''" "''op''" "ApiOk ok_response landed_op" listed_rule]
  by (auto simp: view_operation_def op_reads_def run_ensureFirewallRule_landed)

text \<open>
  C23. A failed create operation is not resubmitted within its cooldown: unless the failure is a
  name clash, the pass reads the clock once; while the cooldown lasts it only reads, keeps the
  operation's id and comes back when the cooldown ends (at most two minutes later); after it, it
  submits a new create.
\<close>

theorem failed_operation_cooldown:
  assumes "run_state (ensureFirewallRule cfg env svc) h = (r, h @ es)"
    and "GetNetworkingVPCFirewallRulesOperation p operationID answer \<in> set es"
    and "view_operation env answer = OpDead op" and "\<not> already_exists op"
  shows "\<exists>now. Now now \<in> set es \<and>
    (if firewallRuleRetryWait env op now > 0
     then reads_only es \<and> r = Returned (svc, firewallRuleRetryWait env op now, None) \<and>
       firewallRuleRetryWait env op now \<le> 2 * Minute
     else \<exists>e \<in> set es. is_create_rule e)"
  using emits_appendD [OF ensureFirewallRule_follows assms(1)] assms(2)
proof (rule rule_session_operation)
  fix args es1 branch "next" rest
  assume s: "args_reads cfg svc es1 args"
    "es = es1 @ (GetNetworkingVPCFirewallRulesOperation p operationID answer # branch) @ rest"
    "rule_branch cfg env svc args
       (GetNetworkingVPCFirewallRulesOperation p operationID answer # branch) next"
    "branch_end svc args next rest r"
  have "firewallRuleRetryWait env op now \<le> 2 * Minute" for now
    by (auto simp: firewallRuleRetryWait_cases firewallRuleCreateRetryDelay_def duration_defs split: option.split)
  note le = this
  from s(3) assms(3,4) obtain now where b: "branch = [Now now]" "next = after_failure env svc op now"
    by (auto elim!: rule_branchE)
  show ?thesis
    by (rule exI [of _ now])
      (use s le b args_reads_only [OF s(1)] args_reads_name(2) [OF s(1)] in
        \<open>auto elim!: branch_endE simp: after_failure_def split: if_splits\<close>)
qed

theorem failed_operation_cooldown_witness:
  "reads_only (op_reads failed_op) \<and>
   firewallRuleRetryWait (resume_env failed_op [] (60 * Second)) failed_op (60 * Second) \<le> 2 * Minute"
  using failed_operation_cooldown
    [OF run_ensureFirewallRule_failed [of "[]"], of "''project''" "''op''" "ApiOk ok_response failed_op" failed_op]
  by (auto simp: view_operation_def op_reads_def test_svc_args_reads_def failed_op_wait split: if_splits)

text \<open>
  C25. When the operation can never yield a rule, or failed because the rule's name is taken, the
  rule is looked up by its name first: if the listing has a rule of that name, the pass records
  the id of the first such rule, drops the operation's id, and creates nothing; a failed listing
  is returned as an error with nothing written; only if no rule has the name can it be created.
\<close>

theorem lost_rule_adopted_by_name:
  assumes "run_state (ensureFirewallRule cfg env svc) h = (r, h @ es)"
    and "GetNetworkingVPCFirewallRulesOperation p operationID answer \<in> set es"
    and "case view_operation env answer of OpUnresolvable \<Rightarrow> True | OpDead op \<Rightarrow> already_exists op | _ \<Rightarrow> False"
  shows "\<exists>listed name. ListVPCFirewallRules p listed \<in> set es \<and>
    GenerateLoadBalancerResourceName (svcNamespace svc) (svcName svc) (svcUID svc) = Inr name \<and>
    (case listed of
       ApiErr err _ \<Rightarrow> reads_only es \<and> r = Returned (svc, 0, Some (ExternalError err))
     | ApiOk _ rules \<Rightarrow>
         (case find (\<lambda>rule. fwName rule = name) rules of
            None \<Rightarrow> reads_only es \<or> (\<exists>e \<in> set es. is_create_rule e)
          | Some rule \<Rightarrow> \<exists>patched.
              filter (\<lambda>e. \<not> is_read e) es =
                [PatchService svc (adopted_service (fwId rule) svc) patched]))"
  using emits_appendD [OF ensureFirewallRule_follows assms(1)] assms(2)
proof (rule rule_session_operation)
  fix args es1 branch "next" rest
  assume s: "args_reads cfg svc es1 args"
    "es = es1 @ (GetNetworkingVPCFirewallRulesOperation p operationID answer # branch) @ rest"
    "rule_branch cfg env svc args
       (GetNetworkingVPCFirewallRulesOperation p operationID answer # branch) next"
    "branch_end svc args next rest r"
  have find: "find_rule_loop rules name = map_option fwId (find (\<lambda>rule. fwName rule = name) rules)" for rules name
    by (induction rules) auto
  have reads: "filter (\<lambda>e. \<not> is_read e) es1 = []" "reads_only es1"
    using args_reads_only [OF s(1)] by (auto simp: reads_only_def filter_empty_conv)
  note name = args_reads_name [OF s(1)]
  from s(3) show ?thesis
  proof cases
    case (lookup_failed view op err resp)
    then show ?thesis
      using s(2,4) reads(2) name by (intro exI [of _ "ApiErr err resp"]) (auto elim!: branch_endE)
  next
    case (rule_adopted view op rules ruleID patched svc' err resp)
    then show ?thesis
      using s(2,4) reads name by (intro exI [of _ "ApiOk resp rules"]) (auto elim!: branch_endE simp: find)
  next
    case (operation_lost e)
    from \<open>lookup_missed args e\<close> obtain rules resp where
      "find_rule_loop rules (argRuleName args) = None"
      "e = ListVPCFirewallRules (argProjectID args) (ApiOk resp rules)" by (rule lookup_missedE)
    then show ?thesis
      using s(2,4) name operation_lost
      by (intro exI [of _ "ApiOk resp rules"]) (auto elim!: branch_endE simp: find)
  next
    case (operation_clashed op e now)
    from \<open>lookup_missed args e\<close> obtain rules resp where
      "find_rule_loop rules (argRuleName args) = None"
      "e = ListVPCFirewallRules (argProjectID args) (ApiOk resp rules)" by (rule lookup_missedE)
    then show ?thesis
      using s(2,4) name operation_clashed reads(2)
      by (intro exI [of _ "ApiOk resp rules"])
        (auto elim!: branch_endE simp: find after_failure_def split: if_splits)
  qed (use assms(3) in simp_all)
qed

theorem lost_rule_adopted_by_name_witness:
  "\<exists>listed. ListVPCFirewallRules ''project'' listed \<in>
      set (snd (run_state (ensureFirewallRule test_config (resume_env landed_op [listed_rule] 0) creating_svc) []))"
  using lost_rule_adopted_by_name
    [OF run_ensureFirewallRule_adopts [of "[]"], of "''project''" "''op''" "ApiOk ok_response landed_op"]
  by (auto simp: view_operation_def run_ensureFirewallRule_adopts op_reads_def)

section \<open>Recorded rules\<close>

lemma rule_branch_get_rule:
  assumes "rule_branch cfg env svc args es next" and "GetVPCFirewallRule p ruleID answer \<in> set es"
  shows "svcAnnotations svc FirewallRuleIdKey = Some ruleID" "p = argProjectID args"
    "\<exists>rest. es = GetVPCFirewallRule p ruleID answer # rest"
  using assms by (auto elim!: rule_branchE lookup_missedE)





section \<open>The life cycle of the annotations\<close>

datatype rule_state = RuleNone | RuleCreating string | RuleRecorded string

definition rule_state :: "service \<Rightarrow> rule_state" where
  "rule_state svc =
     (case svcAnnotations svc FirewallRuleIdKey of
        Some ruleID \<Rightarrow> RuleRecorded ruleID
      | None \<Rightarrow>
          (case svcAnnotations svc FirewallRuleOperationIdKey of
             Some operationID \<Rightarrow> RuleCreating operationID
           | None \<Rightarrow> RuleNone))"

text \<open>A Service with the two annotations of its rule replaced.\<close>

definition rule_edit :: "string option \<Rightarrow> string option \<Rightarrow> service \<Rightarrow> service" where
  "rule_edit ruleID operationID svc =
     svc\<lparr>svcAnnotations := (svcAnnotations svc)
       (FirewallRuleIdKey := ruleID, FirewallRuleOperationIdKey := operationID)\<rparr>"

lemma rule_state_edit [simp]:
  "rule_state (rule_edit ruleID operationID svc) =
     (case ruleID of Some i \<Rightarrow> RuleRecorded i
      | None \<Rightarrow> (case operationID of Some j \<Rightarrow> RuleCreating j | None \<Rightarrow> RuleNone))"
  by (simp add: rule_state_def rule_edit_def split: option.split)

lemma rule_edit_simps [simp]:
  "rule_edit i j (rule_edit i' j' svc) = rule_edit i j svc"
  "svcAnnotations (rule_edit i j svc) FirewallRuleIdKey = i"
  "svcAnnotations (rule_edit i j svc) FirewallRuleOperationIdKey = j"
  by (simp_all add: rule_edit_def fun_upd_twist)

lemma rule_edit_exists [simp]: "\<exists>i' j'. rule_edit i j svc = rule_edit i' j' svc"
  by blast

lemma rule_edits:
  "set_annotation FirewallRuleOperationIdKey v svc = rule_edit (svcAnnotations svc FirewallRuleIdKey) (Some v) svc"
  "set_annotation FirewallRuleIdKey v svc = rule_edit (Some v) (svcAnnotations svc FirewallRuleOperationIdKey) svc"
  "adopted_service v svc = rule_edit (Some v) None svc"
  "drop_rule_annotations svc = rule_edit None None svc"
  "delete_annotation FirewallRuleOperationIdKey svc = rule_edit (svcAnnotations svc FirewallRuleIdKey) None svc"
  by (simp_all add: set_annotation_def delete_annotation_def rule_edit_def adopted_service_def
      drop_rule_annotations_def fun_upd_idem fun_upd_twist)

lemma rule_state_simps:
  "svcAnnotations svc FirewallRuleIdKey = Some ruleID \<Longrightarrow> rule_state svc = RuleRecorded ruleID"
  "svcAnnotations svc FirewallRuleIdKey = None \<Longrightarrow>
     svcAnnotations svc FirewallRuleOperationIdKey = Some operationID \<Longrightarrow> rule_state svc = RuleCreating operationID"
  "svcAnnotations svc FirewallRuleIdKey = None \<Longrightarrow>
     svcAnnotations svc FirewallRuleOperationIdKey = None \<Longrightarrow> rule_state svc = RuleNone"
  by (simp_all add: rule_state_def)

fun rule_moves :: "rule_state \<Rightarrow> rule_state \<Rightarrow> bool" where
  "rule_moves RuleNone (RuleCreating _) = True"
| "rule_moves (RuleCreating _) (RuleRecorded _) = True"
| "rule_moves (RuleCreating _) (RuleCreating _) = True"
| "rule_moves (RuleRecorded _) (RuleCreating _) = True"
| "rule_moves _ _ = False"

definition rule_patch_ok :: "service \<Rightarrow> service \<Rightarrow> service \<Rightarrow> bool" where
  "rule_patch_ok svc orig modified \<longleftrightarrow>
     orig = svc \<and> rule_moves (rule_state svc) (rule_state modified) \<and>
     (\<exists>ruleID operationID. modified = rule_edit ruleID operationID svc)"

lemma rule_branch_patch:
  assumes "rule_branch cfg env svc args es next" and "PatchService orig modified answer \<in> set es"
  shows "rule_patch_ok svc orig modified" "length (filter is_service_write es) = 1"
    "\<exists>result. next = EnsureDone result"
  using assms
  by (auto elim!: rule_branchE lookup_missedE simp: event_class rule_patch_ok_def rule_edits rule_state_simps)

lemma rule_branch_create_from:
  assumes "rule_branch cfg env svc args es (EnsureCreate svc')"
  shows "filter is_service_write es = []"
    "rule_patch_ok svc svc (set_annotation FirewallRuleOperationIdKey v svc')"
  using assms
  by (auto elim!: rule_branchE lookup_missedE simp: event_class rule_patch_ok_def rule_edits
      rule_state_simps after_failure_def split: if_splits)

text \<open>
  C14. The annotations follow a life cycle: a pass patches the Service at most once; the patch is
  against the Service it was given and touches no annotation but the two of the rule; and it goes
  from nothing to a create operation, from an operation to a rule or to a new operation, or from
  a rule that is gone to a new operation. It never drops what is recorded without replacement.
\<close>

theorem rule_annotations_life_cycle:
  assumes "run_state (ensureFirewallRule cfg env svc) h = (r, h @ es)"
    and "PatchService orig modified answer \<in> set es"
  shows "orig = svc \<and> length (filter is_service_write es) = 1 \<and>
    rule_moves (rule_state svc) (rule_state modified) \<and>
    (\<exists>ruleID operationID. modified = rule_edit ruleID operationID svc)"
proof -
  have "rule_session cfg env svc es r" by (rule emits_appendD [OF ensureFirewallRule_follows assms(1)])
  with assms(2) obtain args es1 branch "next" rest where
    s: "args_reads cfg svc es1 args" "es = es1 @ branch @ rest"
    "rule_branch cfg env svc args branch next" "branch_end svc args next rest r"
    by (auto elim: rule_session_branch)
  have reads: "filter is_service_write es1 = []" "PatchService orig modified answer \<notin> set es1"
    using reads_only_harmless [OF args_reads_only [OF s(1)]] by (force simp: filter_empty_conv)+
  show ?thesis
  proof (cases "PatchService orig modified answer \<in> set branch")
    case True
    from rule_branch_patch [OF s(3) True] s(2,4) reads(1) show ?thesis
      by (auto elim!: branch_endE simp: rule_patch_ok_def)
  next
    case False
    with assms(2) reads(2) s(2) have "PatchService orig modified answer \<in> set rest" by simp
    with s(4) obtain svc' v created where e: "next = EnsureCreate svc'"
      "modified = set_annotation FirewallRuleOperationIdKey v svc'" "orig = svc"
      "rest = [CreateVPCFirewallRule (rule_post_request args) (argProjectID args) created,
               PatchService orig modified answer]"
      by (auto elim!: branch_endE)
    from rule_branch_create_from [OF s(3) [unfolded e(1)]] reads(1) s(2) e show ?thesis
      by (auto simp: rule_patch_ok_def event_class)
  qed
qed

theorem rule_annotations_life_cycle_witness:
  "rule_moves (rule_state creating_svc) (rule_state (set_annotation FirewallRuleIdKey ''r'' creating_svc))"
  using rule_annotations_life_cycle [OF run_ensureFirewallRule_landed [of "[]"],
      of creating_svc "set_annotation FirewallRuleIdKey ''r'' creating_svc"
        "Inr (set_annotation FirewallRuleIdKey ''r'' creating_svc)"] by simp

text \<open>
  \<open>ensureFirewallRule\<close> always comes back, and it panics in exactly one case: the API accepted
  a create with a response the client could not decode into an operation. The pointer is then
  dereferenced although the rule may exist, and its operation is not recorded.
\<close>

theorem ensure_panics_iff_create_undecoded:
  assumes "run_state (ensureFirewallRule cfg env svc) h = (r, h @ es)"
  shows "r \<noteq> Unfinished \<and>
    ((\<exists>message. r = Panicked message) \<longleftrightarrow> (\<exists>req p resp. CreateVPCFirewallRule req p (ApiOk resp None) \<in> set es))"
proof -
  have "rule_session cfg env svc es r" by (rule emits_appendD [OF ensureFirewallRule_follows assms])
  then show ?thesis
  proof cases
    case (branched es1 args branch "next" rest)
    have "CreateVPCFirewallRule req p answer \<notin> set (es1 @ branch)" for req p answer
      using args_reads_topology [OF branched(3), of "CreateVPCFirewallRule req p answer"]
        rule_branch_no_create [OF branched(4)] by (auto simp: filter_empty_conv)
    with branched(1,5) show ?thesis by (auto elim!: branch_endE)
  qed (auto simp: topology_reads_def)
qed

lemma run_ensureFirewallRule_undecoded:
  "run_state (ensureFirewallRule test_config (rules_env\<lparr>env_create_rule := (\<lambda>_ _ _. ApiOk ok_response None)\<rparr>) managed_svc) h =
     (Panicked nil_dereference,
      h @ test_svc_args_reads @
      [CreateVPCFirewallRule (rule_post_request test_svc_args) ''project'' (ApiOk ok_response None)])"
proof -
  have "run_state (GetFirewallRuleArgs test_config (rules_env\<lparr>env_create_rule := (\<lambda>_ _ _. ApiOk ok_response None)\<rparr>)
      managed_svc) h = (Inr (Some test_svc_args), h @ test_svc_args_reads)"
    by (rule run_GetFirewallRuleArgs_fixture [of _ _ FirewallRuleIdKey]) simp_all
  then show ?thesis by (simp add: run_rules)
qed

theorem ensure_panics_iff_create_undecoded_witness:
  "\<exists>message. fst (run_state (ensureFirewallRule test_config
     (rules_env\<lparr>env_create_rule := (\<lambda>_ _ _. ApiOk ok_response None)\<rparr>) managed_svc) []) = Panicked message"
  using ensure_panics_iff_create_undecoded [OF run_ensureFirewallRule_undecoded [of "[]"]]
  by (auto simp: run_ensureFirewallRule_undecoded)

end
