(* ===== verification/FirewallDelete.thy ===== *)
theory FirewallDelete
  imports FirewallSafety
begin

text \<open>
  What \<open>deleteFirewallRule\<close> promises. As for \<open>ensureFirewallRule\<close>, its conversations are
  specified by relations: \<open>rule_target\<close> says which rule is to go and by which reads it was
  found, \<open>rule_cleanup\<close> adds the deletion itself. The properties are read off their rules.
\<close>

section \<open>The conversations of deleteFirewallRule\<close>

text \<open>Whether the hold on a pending operation has expired, by one reading of the clock.\<close>

inductive hold_read :: "service \<Rightarrow> event list \<Rightarrow> bool \<Rightarrow> bool" for svc where
  "svcDeletionTimestamp svc = None \<Longrightarrow> hold_read svc [] False"
| "svcDeletionTimestamp svc = Some t \<Longrightarrow>
     hold_read svc [Now now] (Time_Sub now t > firewallRuleInFlightHoldLimit)"

datatype target = TargetRule string | NoTarget | TargetUnknown go_error

text \<open>What \<open>FirewallRuleIdKey\<close> and the operation leave to the look-up by name.\<close>

inductive rule_untraced :: "config \<Rightarrow> env \<Rightarrow> service \<Rightarrow> event list \<Rightarrow> bool" for cfg env svc where
  nothing_recorded:
    "annotation svc FirewallRuleOperationIdKey = '''' \<Longrightarrow> rule_untraced cfg env svc []"
| operation_useless:
    "annotation svc FirewallRuleOperationIdKey = operationID \<Longrightarrow> operationID \<noteq> '''' \<Longrightarrow>
     hold_read svc hold expired \<Longrightarrow> view = view_operation env answer \<Longrightarrow>
     view = OpUnresolvable \<or> view = OpDead op \<or> (view = OpPending \<and> expired) \<Longrightarrow>
     rule_untraced cfg env svc
       (hold @ [GetNetworkingVPCFirewallRulesOperation (CrusoeProjectID cfg) operationID answer])"

inductive name_lookup :: "config \<Rightarrow> service \<Rightarrow> event list \<Rightarrow> target \<Rightarrow> bool" for cfg svc where
  name_invalid:
    "GenerateLoadBalancerResourceName (svcNamespace svc) (svcName svc) (svcUID svc) = Inl err \<Longrightarrow>
     name_lookup cfg svc [] NoTarget"
| name_unlisted:
    "GenerateLoadBalancerResourceName (svcNamespace svc) (svcName svc) (svcUID svc) = Inr name \<Longrightarrow>
     name_lookup cfg svc [ListVPCFirewallRules (CrusoeProjectID cfg) (ApiErr err resp)]
       (TargetUnknown (ExternalError err))"
| name_missed:
    "GenerateLoadBalancerResourceName (svcNamespace svc) (svcName svc) (svcUID svc) = Inr name \<Longrightarrow>
     find_rule_loop rules name = None \<Longrightarrow>
     name_lookup cfg svc [ListVPCFirewallRules (CrusoeProjectID cfg) (ApiOk resp rules)] NoTarget"
| name_found:
    "GenerateLoadBalancerResourceName (svcNamespace svc) (svcName svc) (svcUID svc) = Inr name \<Longrightarrow>
     find_rule_loop rules name = Some ruleID \<Longrightarrow>
     name_lookup cfg svc [ListVPCFirewallRules (CrusoeProjectID cfg) (ApiOk resp rules)] (TargetRule ruleID)"

inductive rule_target :: "config \<Rightarrow> env \<Rightarrow> service \<Rightarrow> event list \<Rightarrow> target \<Rightarrow> bool" for cfg env svc where
  recorded:
    "annotation svc FirewallRuleIdKey = ruleID \<Longrightarrow> ruleID \<noteq> '''' \<Longrightarrow>
     rule_target cfg env svc [] (TargetRule ruleID)"
| landed:
    "annotation svc FirewallRuleIdKey = '''' \<Longrightarrow>
     annotation svc FirewallRuleOperationIdKey = operationID \<Longrightarrow> operationID \<noteq> '''' \<Longrightarrow>
     hold_read svc hold expired \<Longrightarrow> view_operation env answer = OpLanded rule \<Longrightarrow>
     rule_target cfg env svc
       (hold @ [GetNetworkingVPCFirewallRulesOperation (CrusoeProjectID cfg) operationID answer])
       (TargetRule (fwId rule))"
| held:
    "annotation svc FirewallRuleIdKey = '''' \<Longrightarrow>
     annotation svc FirewallRuleOperationIdKey = operationID \<Longrightarrow> operationID \<noteq> '''' \<Longrightarrow>
     hold_read svc hold False \<Longrightarrow> view_operation env answer = OpPending \<Longrightarrow>
     rule_target cfg env svc
       (hold @ [GetNetworkingVPCFirewallRulesOperation (CrusoeProjectID cfg) operationID answer])
       (TargetUnknown (in_flight_error operationID))"
| unreadable:
    "annotation svc FirewallRuleIdKey = '''' \<Longrightarrow>
     annotation svc FirewallRuleOperationIdKey = operationID \<Longrightarrow> operationID \<noteq> '''' \<Longrightarrow>
     hold_read svc hold expired \<Longrightarrow> view_operation env answer = OpUnreadable \<Longrightarrow>
     \<not> errors_Is err ErrFirewallRuleOperationInFlight \<Longrightarrow>
     rule_target cfg env svc
       (hold @ [GetNetworkingVPCFirewallRulesOperation (CrusoeProjectID cfg) operationID answer])
       (TargetUnknown err)"
| by_name:
    "annotation svc FirewallRuleIdKey = '''' \<Longrightarrow> rule_untraced cfg env svc es \<Longrightarrow>
     name_lookup cfg svc es' target \<Longrightarrow> rule_target cfg env svc (es @ es') target"

inductive rule_cleanup ::
    "config \<Rightarrow> env \<Rightarrow> service \<Rightarrow> event list \<Rightarrow> service \<times> go_error option \<Rightarrow> bool" for cfg env svc where
  unmanaged: "\<not> rule_managed svc \<Longrightarrow> rule_cleanup cfg env svc [] (svc, None)"
| no_project:
    "rule_managed svc \<Longrightarrow> CrusoeProjectID cfg = '''' \<Longrightarrow> rule_cleanup cfg env svc [] (svc, None)"
| no_rule:
    "rule_managed svc \<Longrightarrow> CrusoeProjectID cfg \<noteq> '''' \<Longrightarrow> rule_target cfg env svc es NoTarget \<Longrightarrow>
     rule_cleanup cfg env svc es (svc, None)"
| unknown_rule:
    "rule_managed svc \<Longrightarrow> CrusoeProjectID cfg \<noteq> '''' \<Longrightarrow> rule_target cfg env svc es (TargetUnknown err) \<Longrightarrow>
     rule_cleanup cfg env svc es (svc, Some err)"
| delete_failed:
    "rule_managed svc \<Longrightarrow> CrusoeProjectID cfg \<noteq> '''' \<Longrightarrow> rule_target cfg env svc es (TargetRule ruleID) \<Longrightarrow>
     answer = ApiErr err resp \<Longrightarrow> \<not> answered_404 answer \<Longrightarrow>
     rule_cleanup cfg env svc (es @ [DeleteVPCFirewallRule (CrusoeProjectID cfg) ruleID answer])
       (svc, Some (ExternalError err))"
| deleted:
    "rule_managed svc \<Longrightarrow> CrusoeProjectID cfg \<noteq> '''' \<Longrightarrow> rule_target cfg env svc es (TargetRule ruleID) \<Longrightarrow>
     api_error answer = None \<or> answered_404 answer \<Longrightarrow>
     result = patch_outcome (drop_rule_annotations svc) patched \<Longrightarrow>
     rule_cleanup cfg env svc
       (es @ [DeleteVPCFirewallRule (CrusoeProjectID cfg) ruleID answer,
              PatchService svc (drop_rule_annotations svc) patched]) result"

inductive_cases hold_readE: "hold_read svc es expired"
inductive_cases rule_untracedE: "rule_untraced cfg env svc es"
inductive_cases name_lookupE: "name_lookup cfg svc es target"
inductive_cases rule_targetE: "rule_target cfg env svc es target"

section \<open>deleteFirewallRule follows the conversations\<close>

lemma delete_hold_expired_emits:
  "emits (delete_hold_expired env svc) (\<lambda>expired es. hold_read svc es expired) h"
  by (cases "svcDeletionTimestamp svc")
    (auto simp: emits_def delete_hold_expired_def wp call_defs intro: hold_read.intros)

definition resolved_as :: "string \<Rightarrow> bool \<Rightarrow> operation_view \<Rightarrow> resolved \<Rightarrow> bool" where
  "resolved_as operationID expired view r \<longleftrightarrow>
     (case view of
        OpUnreadable \<Rightarrow> \<exists>err. r = ResolveFailed err \<and> \<not> errors_Is err ErrFirewallRuleOperationInFlight
      | OpUnresolvable \<Rightarrow> r = ResolveByName
      | OpPending \<Rightarrow> r = (if expired then ResolveByName else ResolveFailed (in_flight_error operationID))
      | OpDead op \<Rightarrow> r = ResolveByName
      | OpLanded rule \<Rightarrow> r = ResolvedId (fwId rule) \<and> fwId rule \<noteq> '''')"

lemma delete_operation_result_view:
  "viewed_as result view \<Longrightarrow>
     resolved_as operationID expired view (delete_operation_result operationID expired result)"
  by (cases view) (auto simp: viewed_as_def resolved_as_def delete_operation_result_def split: option.split)

lemma delete_resolve_operation_emits:
  "emits (delete_resolve_operation cfg env svc operationID)
     (\<lambda>r es. \<exists>hold expired answer. hold_read svc hold expired \<and>
        es = hold @ [GetNetworkingVPCFirewallRulesOperation (CrusoeProjectID cfg) operationID answer] \<and>
        resolved_as operationID expired (view_operation env answer) r) h"
  unfolding emits_def delete_resolve_operation_def
  by (auto simp: wp intro!: wp_emits [OF delete_hold_expired_emits]
      wp_emits [OF GetFirewallRuleOperationResult_view]) (metis delete_operation_result_view)

lemma delete_rule_by_id_emits:
  assumes "rule_managed svc" "CrusoeProjectID cfg \<noteq> ''''" "rule_target cfg env svc es (TargetRule ruleID)"
  shows "emits (delete_rule_by_id cfg env svc ruleID) (\<lambda>r es'. rule_cleanup cfg env svc (es @ es') r) h"
  using assms
  by (auto simp: emits_def delete_rule_by_id_def wp call_defs answered_404_def api_error_def
      intro!: wp_emits [OF patch_service_emits] delete_failed deleted split: api_result.split option.split)

lemma delete_rule_by_name_emits:
  assumes "rule_managed svc" "CrusoeProjectID cfg \<noteq> ''''" "annotation svc FirewallRuleIdKey = ''''"
    and "rule_untraced cfg env svc es"
  shows "emits (delete_rule_by_name cfg env svc) (\<lambda>r es'. rule_cleanup cfg env svc (es @ es') r) h"
proof (cases "GenerateLoadBalancerResourceName (svcNamespace svc) (svcName svc) (svcUID svc)")
  case (Inl err)
  from rule_target.by_name [OF assms(3,4) name_invalid [OF Inl]] assms(1,2) no_rule show ?thesis
    by (auto simp: emits_def delete_rule_by_name_def Inl wp)
next
  case (Inr name)
  define list where "list answer = ListVPCFirewallRules (CrusoeProjectID cfg) answer" for answer
  note target = rule_target.by_name [OF assms(3,4)]
  have deleted: "wp (delete_rule_by_id cfg env svc ruleID)
      (\<lambda>r h'. \<exists>es'. h' = h @ es' \<and> rule_cleanup cfg env svc (es @ es') r) (h @ [list (ApiOk resp rules)])"
    if "find_rule_loop rules name = Some ruleID" for ruleID resp rules
    by (rule wp_emits [OF delete_rule_by_id_emits [OF assms(1,2)
            target [OF name_found [OF Inr that]]]])
      (auto simp: list_def)
  show ?thesis
    unfolding emits_def delete_rule_by_name_def findFirewallRuleByName_def
    using assms(1,2) Inr
    by (auto simp: wp call_defs list_def [symmetric] deleted split: api_result.split option.split
        intro!: no_rule unknown_rule target [OF name_missed [OF Inr], folded list_def]
          target [OF name_unlisted [OF Inr], folded list_def])
qed

lemma delete_resolved_emits:
  assumes "rule_managed svc" "CrusoeProjectID cfg \<noteq> ''''" "annotation svc FirewallRuleIdKey = ''''"
    and "annotation svc FirewallRuleOperationIdKey = operationID" "operationID \<noteq> ''''"
    and "hold_read svc hold expired" "resolved_as operationID expired (view_operation env answer) resolved"
    and es: "es = hold @ [GetNetworkingVPCFirewallRulesOperation (CrusoeProjectID cfg) operationID answer]"
  shows "emits (delete_resolved cfg env svc resolved) (\<lambda>r es'. rule_cleanup cfg env svc (es @ es') r) h"
proof -
  have by_name: ?thesis if "resolved = ResolveByName"
    "view_operation env answer \<in> {OpUnresolvable} \<union> range OpDead \<or> view_operation env answer = OpPending \<and> expired"
    using delete_rule_by_name_emits [OF assms(1-3) operation_useless [OF assms(4-6) refl, of env answer]] that
    by (auto simp: delete_resolved_def es)
  show ?thesis
  proof (cases "view_operation env answer")
    case OpUnreadable
    with assms(7) obtain err where "resolved = ResolveFailed err"
      "\<not> errors_Is err ErrFirewallRuleOperationInFlight" by (auto simp: resolved_as_def)
    with unknown_rule [OF assms(1,2) unreadable [OF assms(3-6) OpUnreadable]] show ?thesis
      by (auto simp: emits_def delete_resolved_def wp es)
  next
    case OpPending
    show ?thesis
    proof (cases expired)
      case False
      with unknown_rule [OF assms(1,2) held [OF assms(3-5) _ OpPending]] assms(6,7) OpPending show ?thesis
        by (auto simp: emits_def delete_resolved_def wp es resolved_as_def)
    qed (use by_name OpPending assms(7) in \<open>auto simp: resolved_as_def\<close>)
  next
    case (OpLanded rule)
    with delete_rule_by_id_emits [OF assms(1,2) landed [OF assms(3-6) OpLanded]] assms(7) show ?thesis
      by (auto simp: delete_resolved_def resolved_as_def es)
  qed (use by_name assms(7) in \<open>auto simp: resolved_as_def\<close>)
qed

lemma deleteFirewallRule_follows:
  "emits (deleteFirewallRule cfg env svc) (\<lambda>r es. rule_cleanup cfg env svc es r) h"
proof (cases "rule_managed svc \<and> CrusoeProjectID cfg \<noteq> ''''")
  case False
  then show ?thesis
    by (auto simp: emits_def deleteFirewallRule_def wp intro: rule_cleanup.unmanaged no_project)
next
  case True
  then have m: "rule_managed svc" "CrusoeProjectID cfg \<noteq> ''''" by auto
  show ?thesis
  proof (cases "annotation svc FirewallRuleIdKey = ''''")
    case False
    with delete_rule_by_id_emits [OF m recorded [OF refl False]] m show ?thesis
      by (simp add: deleteFirewallRule_def)
  next
    case noid: True
    show ?thesis
    proof (cases "annotation svc FirewallRuleOperationIdKey = ''''")
      case True
      with delete_rule_by_name_emits [OF m noid nothing_recorded] noid m show ?thesis
        by (simp add: deleteFirewallRule_def)
    next
      case False
      have rest: "wp (delete_resolved cfg env svc resolved)
          (\<lambda>r h'. \<exists>es. h' = h @ es \<and> rule_cleanup cfg env svc es r) (h @ es)"
        if "hold_read svc hold expired"
          "es = hold @ [GetNetworkingVPCFirewallRulesOperation (CrusoeProjectID cfg)
             (annotation svc FirewallRuleOperationIdKey) answer]"
          "resolved_as (annotation svc FirewallRuleOperationIdKey) expired (view_operation env answer) resolved"
        for hold expired answer resolved es
        by (rule wp_emits [OF delete_resolved_emits [OF m noid refl False that(1,3,2)]]) auto
      show ?thesis
        unfolding emits_def deleteFirewallRule_def
        using m noid False
        by (auto simp: Let_def wp intro!: wp_emits [OF delete_resolve_operation_emits] rest)
    qed
  qed
qed

section \<open>Properties\<close>

inductive_cases rule_cleanupE: "rule_cleanup cfg env svc es r"

lemma find_rule_loop_find: "find_rule_loop rules name = map_option fwId (find (\<lambda>rule. fwName rule = name) rules)"
  by (induction rules) auto

lemma find_rule_loop_None: "find_rule_loop rules name = None \<longleftrightarrow> (\<forall>rule \<in> set rules. fwName rule \<noteq> name)"
  by (induction rules) auto

lemma find_rule_loop_Some:
  "find_rule_loop rules name = Some ruleID \<Longrightarrow> \<exists>rule \<in> set rules. fwName rule = name \<and> fwId rule = ruleID"
  by (induction rules) (auto split: if_splits)

lemma hold_read_harmless: "hold_read svc es expired \<Longrightarrow> reads_only es"
  by (auto elim!: hold_readE)

lemma rule_untraced_reads: "rule_untraced cfg env svc es \<Longrightarrow> reads_only es"
  by (auto elim!: rule_untracedE hold_read_harmless)

lemma name_lookup_reads: "name_lookup cfg svc es target \<Longrightarrow> reads_only es"
  by (auto elim!: name_lookupE)

lemma rule_target_reads: "rule_target cfg env svc es target \<Longrightarrow> reads_only es"
  by (auto elim!: rule_targetE hold_read_harmless rule_untraced_reads name_lookup_reads)

text \<open>Where no rule is left to delete.\<close>

definition no_rule_found :: "config \<Rightarrow> service \<Rightarrow> event list \<Rightarrow> bool" where
  "no_rule_found cfg svc es \<longleftrightarrow>
     annotation svc FirewallRuleIdKey = '''' \<and>
     (case GenerateLoadBalancerResourceName (svcNamespace svc) (svcName svc) (svcUID svc) of
        Inl _ \<Rightarrow> True
      | Inr name \<Rightarrow> \<exists>resp rules. ListVPCFirewallRules (CrusoeProjectID cfg) (ApiOk resp rules) \<in> set es \<and>
          (\<forall>rule \<in> set rules. fwName rule \<noteq> name))"

lemma rule_target_none: "rule_target cfg env svc es NoTarget \<Longrightarrow> no_rule_found cfg svc es"
  by (auto elim!: rule_targetE name_lookupE simp: no_rule_found_def find_rule_loop_None) blast

text \<open>The rule that is the Service's own: recorded, produced by its operation, or of its name.\<close>

definition own_rule :: "config \<Rightarrow> env \<Rightarrow> service \<Rightarrow> event list \<Rightarrow> string \<Rightarrow> bool" where
  "own_rule cfg env svc es ruleID \<longleftrightarrow>
     (if annotation svc FirewallRuleIdKey \<noteq> '''' then ruleID = annotation svc FirewallRuleIdKey
      else
        (\<exists>read rule. GetNetworkingVPCFirewallRulesOperation (CrusoeProjectID cfg)
            (annotation svc FirewallRuleOperationIdKey) read \<in> set es \<and>
           view_operation env read = OpLanded rule \<and> fwId rule = ruleID) \<or>
        (\<exists>name resp rules. GenerateLoadBalancerResourceName (svcNamespace svc) (svcName svc) (svcUID svc) = Inr name \<and>
           ListVPCFirewallRules (CrusoeProjectID cfg) (ApiOk resp rules) \<in> set es \<and>
           (\<exists>rule \<in> set rules. fwName rule = name \<and> fwId rule = ruleID)))"

lemma own_rule_append: "own_rule cfg env svc es ruleID \<Longrightarrow> own_rule cfg env svc (es @ es') ruleID"
  by (auto simp: own_rule_def split: if_splits) blast+

lemma rule_target_own:
  assumes "rule_target cfg env svc es (TargetRule ruleID)"
  shows "own_rule cfg env svc es ruleID"
  using assms
proof cases
  case (by_name xs ys)
  from \<open>name_lookup cfg svc ys (TargetRule ruleID)\<close> obtain name rules resp where
    "GenerateLoadBalancerResourceName (svcNamespace svc) (svcName svc) (svcUID svc) = Inr name"
    "find_rule_loop rules name = Some ruleID"
    "ys = [ListVPCFirewallRules (CrusoeProjectID cfg) (ApiOk resp rules)]"
    by (auto elim: name_lookupE)
  then have "\<exists>name resp rules.
      GenerateLoadBalancerResourceName (svcNamespace svc) (svcName svc) (svcUID svc) = Inr name \<and>
      ListVPCFirewallRules (CrusoeProjectID cfg) (ApiOk resp rules) \<in> set es \<and>
      (\<exists>rule \<in> set rules. fwName rule = name \<and> fwId rule = ruleID)"
    using by_name(1) find_rule_loop_Some by (metis in_set_conv_decomp append_is_Nil_conv append_assoc)
  with by_name(2) show ?thesis unfolding own_rule_def by (metis (full_types))
qed (auto simp: own_rule_def)

text \<open>
  Whether the controller takes care of the Service's rule: the Service opts in, by the annotation it
  has now, and there is a project to look in.
\<close>

definition rule_in_care :: "config \<Rightarrow> service \<Rightarrow> bool" where
  "rule_in_care cfg svc \<longleftrightarrow> rule_managed svc \<and> CrusoeProjectID cfg \<noteq> ''''"

definition deletion_done :: "unit api_result \<Rightarrow> bool" where
  "deletion_done answer \<longleftrightarrow> api_error answer = None \<or> answered_404 answer"

text \<open>
  C8. What \<open>deleteFirewallRule\<close> has done when it returns without an error. For a Service that opts in,
  in a configured project, no rule of it was left at that moment: its own rule (recorded, produced by
  its operation, or of its name) was deleted or answered with 404 and the API server took the patch
  that drops the two annotations; or no id is recorded and the project lists no rule of the
  Service's name (or the name cannot exist), and then it only read. For a Service that does not opt in
  now, and where there is no project, it has done nothing at all: a rule that is recorded stays in the
  cloud, and its annotations stay on the Service.
\<close>

theorem rule_cleanup_complete:
  assumes "run_state (deleteFirewallRule cfg env svc) h = ((svc', None), h @ es)"
  shows "if rule_in_care cfg svc
    then (no_rule_found cfg svc es \<and> reads_only es \<and> svc' = svc) \<or>
      (\<exists>es' ruleID answer. reads_only es' \<and> own_rule cfg env svc es' ruleID \<and> deletion_done answer \<and>
         es = es' @ [DeleteVPCFirewallRule (CrusoeProjectID cfg) ruleID answer,
                     PatchService svc (drop_rule_annotations svc) (Inr svc')])
    else es = [] \<and> svc' = svc"
  using emits_appendD [OF deleteFirewallRule_follows assms]
  by cases
    (auto simp: rule_in_care_def deletion_done_def patch_outcome_def
      dest: rule_target_none rule_target_reads rule_target_own split: sum.splits)

text \<open>
  C15. Only the Service's own rule is ever deleted, at most once in a pass: the rule whose id is
  recorded, else the rule its create operation produced, else a listed rule with the Service's
  resource name.
\<close>

theorem only_own_rule_deleted:
  assumes "run_state (deleteFirewallRule cfg env svc) h = (r, h @ es)"
    and "DeleteVPCFirewallRule p ruleID answer \<in> set es"
  shows "p = CrusoeProjectID cfg \<and> rule_managed svc \<and> length (filter is_cloud_change es) = 1 \<and>
    own_rule cfg env svc es ruleID"
proof -
  have follows: "rule_cleanup cfg env svc es r" by (rule emits_appendD [OF deleteFirewallRule_follows assms(1)])
  have reads: "filter is_cloud_change xs = []" "DeleteVPCFirewallRule p ruleID answer \<notin> set xs"
    if "rule_target cfg env svc xs target" for xs target
    using reads_only_harmless [OF rule_target_reads [OF that]] by (force simp: filter_empty_conv)+
  from follows show ?thesis
    by cases (use assms(2) reads in \<open>auto simp: event_class intro!: own_rule_append [OF rule_target_own]\<close>)
qed

text \<open>
  C24. A deletion is held back for a create operation in flight only while that operation reads
  as pending, and only for five minutes after the deletion was requested; holding it back
  changes nothing.
\<close>

theorem in_flight_hold_bounded:
  assumes "run_state (deleteFirewallRule cfg env svc) h = ((svc', Some err), h @ es)"
    and "errors_Is err ErrFirewallRuleOperationInFlight"
  shows "reads_only es \<and> svc' = svc \<and> rule_managed svc \<and>
    (\<exists>answer. GetNetworkingVPCFirewallRulesOperation (CrusoeProjectID cfg)
       (annotation svc FirewallRuleOperationIdKey) answer \<in> set es \<and>
       view_operation env answer = OpPending) \<and>
    (case svcDeletionTimestamp svc of
       None \<Rightarrow> True | Some t \<Rightarrow> \<exists>now. Now now \<in> set es \<and> Time_Sub now t \<le> 5 * Minute)"
proof -
  have "rule_cleanup cfg env svc es (svc', Some err)"
    by (rule emits_appendD [OF deleteFirewallRule_follows assms(1)])
  then show ?thesis
  proof cases
    case unknown_rule
    from unknown_rule(4) show ?thesis
    proof cases
      case (held operationID hold answer)
      with unknown_rule show ?thesis
        by (auto elim!: hold_readE simp: firewallRuleInFlightHoldLimit_def)
    qed (use assms(2) in \<open>auto elim!: name_lookupE\<close>)
  qed (use assms(2) in \<open>auto simp: patch_outcome_def split: sum.splits\<close>)
qed

section \<open>Witnesses\<close>

definition deleting :: "service \<Rightarrow> service" where
  "deleting svc = svc\<lparr>svcDeletionTimestamp := Some 1\<rparr>"

definition delete_env :: env where
  "delete_env = (resume_env pending_op [] (60 * Second))\<lparr>env_delete_rule := (\<lambda>_ _ _. ApiOk ok_response ())\<rparr>"

lemma deleting_simps [simp]:
  "svcAnnotations (deleting svc) = svcAnnotations svc" "rule_managed (deleting svc) = rule_managed svc"
  "annotation (deleting svc) k = annotation svc k" "svcDeletionTimestamp (deleting svc) = Some 1"
  by (simp_all add: deleting_def rule_managed_def annotation_def)

lemma annotation_fixtures [simp]:
  "annotation recorded_svc FirewallRuleIdKey = ''r''"
  "annotation creating_svc FirewallRuleIdKey = ''''" "annotation creating_svc FirewallRuleOperationIdKey = ''op''"
  by (simp_all add: annotation_def)

lemmas run_deletes = deleteFirewallRule_def delete_resolved_def delete_resolve_operation_def
  delete_hold_expired_def delete_operation_result_def delete_rule_by_id_def

lemma run_deleteFirewallRule_recorded:
  "run_state (deleteFirewallRule test_config delete_env (deleting recorded_svc)) h =
     ((drop_rule_annotations (deleting recorded_svc), None),
      h @ [DeleteVPCFirewallRule ''project'' ''r'' (ApiOk ok_response ()),
           PatchService (deleting recorded_svc) (drop_rule_annotations (deleting recorded_svc))
             (Inr (drop_rule_annotations (deleting recorded_svc)))])"
  by (simp add: run_deletes run_rules delete_env_def)

lemma run_deleteFirewallRule_held:
  "run_state (deleteFirewallRule test_config delete_env (deleting creating_svc)) h =
     ((deleting creating_svc, Some (in_flight_error ''op'')),
      h @ [Now (60 * Second),
           GetNetworkingVPCFirewallRulesOperation ''project'' ''op'' (ApiOk ok_response pending_op)])"
  by (simp add: run_deletes run_rules delete_env_def Time_Sub_def firewallRuleInFlightHoldLimit_def
      duration_defs max_int64_def min_int64_def)

theorem rule_cleanup_complete_witness:
  "\<exists>es' ruleID answer. own_rule test_config delete_env (deleting recorded_svc) es' ruleID \<and> deletion_done answer \<and>
     snd (run_state (deleteFirewallRule test_config delete_env (deleting recorded_svc)) []) =
       es' @ [DeleteVPCFirewallRule ''project'' ruleID answer,
              PatchService (deleting recorded_svc) (drop_rule_annotations (deleting recorded_svc))
                (Inr (drop_rule_annotations (deleting recorded_svc)))]"
proof -
  have p: "CrusoeProjectID test_config = ''project''" by (simp add: test_config_def)
  then have "rule_in_care test_config (deleting recorded_svc)" by (simp add: rule_in_care_def)
  then show ?thesis
    using rule_cleanup_complete [OF run_deleteFirewallRule_recorded [of "[]"]]
    by (auto simp: run_deleteFirewallRule_recorded no_rule_found_def p)
qed

theorem only_own_rule_deleted_witness:
  "\<exists>es. own_rule test_config delete_env (deleting recorded_svc) es ''r''"
  using only_own_rule_deleted [OF run_deleteFirewallRule_recorded [of "[]"], of "''project''" "''r''"] by auto

theorem in_flight_hold_bounded_witness:
  "Time_Sub (60 * Second) 1 \<le> 5 * Minute"
  using in_flight_hold_bounded [OF run_deleteFirewallRule_held [of "[]"]] by (simp add: in_flight_error_def)

end
