(* ===== verification/HealthCheck.thy ===== *)
theory HealthCheck
  imports Types
begin

text \<open>
  Health check options from a Service's annotations:
  \<open>ParseHealthCheckOptionsFromAnnotations\<close> of \<open>internal/controller/util.go\<close>.
\<close>

text \<open>One annotation: absent or unparsable leaves the field at zero.\<close>

definition health_annotation :: "annotations \<Rightarrow> string \<Rightarrow> int" where
  "health_annotation ann key =
     (case ann key of
        None \<Rightarrow> 0
      | Some text \<Rightarrow> (case Atoi text of None \<Rightarrow> 0 | Some parsed \<Rightarrow> parsed))"

definition ParseHealthCheckOptionsFromAnnotations :: "annotations \<Rightarrow> health_check_options option" where
  "ParseHealthCheckOptionsFromAnnotations ann =
     (let healthCheckOptions =
            \<lparr>FailureCount = health_annotation ann AnnotationHealthCheckFailureCount,
             Interval = health_annotation ann AnnotationHealthCheckInterval,
             SuccessCount = health_annotation ann AnnotationHealthCheckSuccessCount,
             Timeout = health_annotation ann AnnotationHealthCheckTimeout\<rparr>
      in if FailureCount healthCheckOptions = 0 \<and> Interval healthCheckOptions = 0 \<and>
            SuccessCount healthCheckOptions = 0 \<and> Timeout healthCheckOptions = 0
         then None else Some healthCheckOptions)"

definition health_keys :: "string list" where
  "health_keys = [AnnotationHealthCheckFailureCount, AnnotationHealthCheckInterval,
     AnnotationHealthCheckSuccessCount, AnnotationHealthCheckTimeout]"

lemma health_annotation_nonzero_iff:
  "health_annotation ann key \<noteq> 0 \<longleftrightarrow> (\<exists>text v. ann key = Some text \<and> Atoi text = Some v \<and> v \<noteq> 0)"
  by (auto simp: health_annotation_def split: option.split)

lemma health_annotation_range:
  "min_int64 \<le> health_annotation ann key \<and> health_annotation ann key \<le> max_int64"
  using Atoi_range by (auto simp: health_annotation_def min_int64_def max_int64_def split: option.split)

text \<open>
  Options are sent exactly when one of the four annotations holds a non-zero number, and
  then each field is the number its annotation holds, or zero, always within \<open>int64\<close>; an
  annotation that is no number (or overflows) counts as absent.
\<close>

theorem health_check_options_spec:
  "case ParseHealthCheckOptionsFromAnnotations ann of
     None \<Rightarrow> \<not> (\<exists>key \<in> set health_keys. \<exists>text v. ann key = Some text \<and> Atoi text = Some v \<and> v \<noteq> 0)
   | Some opts \<Rightarrow>
       (\<exists>key \<in> set health_keys. \<exists>text v. ann key = Some text \<and> Atoi text = Some v \<and> v \<noteq> 0) \<and>
       list_all2 (\<lambda>value key. value = health_annotation ann key \<and> min_int64 \<le> value \<and> value \<le> max_int64)
         [FailureCount opts, Interval opts, SuccessCount opts, Timeout opts] health_keys"
  unfolding health_annotation_nonzero_iff [symmetric]
  by (simp add: ParseHealthCheckOptionsFromAnnotations_def health_keys_def Let_def
      health_annotation_range)

text \<open>The value a user writes reaches the API: the annotation's text is parsed back.\<close>

lemma health_annotation_printed:
  "min_int64 \<le> v \<Longrightarrow> v \<le> max_int64 \<Longrightarrow> ann key = Some (Sprintf_d v) \<Longrightarrow> health_annotation ann key = v"
  by (simp add: health_annotation_def Atoi_Sprintf_d)

end
