(* ===== verification/GoUrl.thy ===== *)
theory GoUrl
  imports GoStd
begin

text \<open>
  Query escaping as in Go's \<open>net/url\<close>: \<open>QueryEscape\<close>, \<open>QueryUnescape\<close> and \<open>Values.Encode\<close> for
  one key. Letters, digits and \<open>-_.~\<close> stay as they are, a space becomes a plus sign, every other
  byte a percent sign and two hexadecimal digits.
\<close>

section \<open>Definitions\<close>

definition upper_hex :: "nat \<Rightarrow> char" where
  "upper_hex n = (if n < 10 then char_of (48 + n) else char_of (55 + n))"

definition hex_value :: "char \<Rightarrow> nat option" where
  "hex_value c =
     (let n = of_char c :: nat
      in if 48 \<le> n \<and> n \<le> 57 then Some (n - 48)
         else if 97 \<le> n \<and> n \<le> 102 then Some (n - 87)
         else if 65 \<le> n \<and> n \<le> 70 then Some (n - 55) else None)"

definition is_unreserved :: "char \<Rightarrow> bool" where
  "is_unreserved c =
     (let n = of_char c :: nat
      in 48 \<le> n \<and> n \<le> 57 \<or> 65 \<le> n \<and> n \<le> 90 \<or> 97 \<le> n \<and> n \<le> 122 \<or> n \<in> {45, 46, 95, 126})"

definition percent_char :: char where "percent_char = CHR 0x25"
definition space_char :: char where "space_char = CHR 0x20"

definition escape_char :: "char \<Rightarrow> string" where
  "escape_char c =
     (if c = space_char then [plus_char]
      else if is_unreserved c then [c]
      else [percent_char, upper_hex (of_char c div 16), upper_hex (of_char c mod 16)])"

definition QueryEscape :: "string \<Rightarrow> string" where
  "QueryEscape s = concat (map escape_char s)"

text \<open>\<open>None\<close> is the error for a percent sign without two hexadecimal digits after it.\<close>

fun QueryUnescape :: "string \<Rightarrow> string option" where
  "QueryUnescape [] = Some []"
| "QueryUnescape (c # s) =
     (if c = percent_char then
        (case s of
           x # y # s' \<Rightarrow>
             (case (hex_value x, hex_value y) of
                (Some a, Some b) \<Rightarrow> map_option (\<lambda>t. char_of (16 * a + b) # t) (QueryUnescape s')
              | _ \<Rightarrow> None)
         | _ \<Rightarrow> None)
      else if c = plus_char then map_option (\<lambda>t. space_char # t) (QueryUnescape s)
      else map_option (\<lambda>t. c # t) (QueryUnescape s))"

text \<open>\<open>url.Values{k: {v}}.Encode()\<close>.\<close>

definition Values_Encode1 :: "string \<Rightarrow> string \<Rightarrow> string" where
  "Values_Encode1 k v = QueryEscape k @ ''='' @ QueryEscape v"

section \<open>Round trip\<close>

lemma hex_value_upper_hex: "n < 16 \<Longrightarrow> hex_value (upper_hex n) = Some n"
  by (auto simp: hex_value_def upper_hex_def Let_def of_char_of)

lemma of_char_div_16: "of_char c div 16 < (16 :: nat)"
  by (rule less_mult_imp_div_less) simp

lemma upper_hex_unreserved: "n < 16 \<Longrightarrow> is_unreserved (upper_hex n)"
  by (auto simp: upper_hex_def is_unreserved_def Let_def)

lemma QueryEscape_simps [simp]:
  "QueryEscape [] = []" "QueryEscape (c # s) = escape_char c @ QueryEscape s"
  "QueryEscape (s @ t) = QueryEscape s @ QueryEscape t"
  by (simp_all add: QueryEscape_def)

lemma special_chars:
  "percent_char \<noteq> plus_char" "plus_char \<noteq> percent_char"
  "\<not> is_unreserved percent_char" "\<not> is_unreserved plus_char" "\<not> is_unreserved space_char"
  by (simp_all add: percent_char_def plus_char_def space_char_def is_unreserved_def)

lemma QueryUnescape_escape_char:
  "QueryUnescape (escape_char c @ s) = map_option (\<lambda>t. c # t) (QueryUnescape s)"
proof -
  have n: "of_char c < (256 :: nat)" by simp
  then have "char_of (16 * (of_char c div 16) + of_char c mod 16 :: nat) = c" by simp
  then show ?thesis
    using special_chars of_char_div_16 [of c] by (auto simp: escape_char_def hex_value_upper_hex)
qed

text \<open>Escaping loses nothing, so distinct names have distinct queries.\<close>

lemma QueryUnescape_QueryEscape [simp]: "QueryUnescape (QueryEscape s) = Some s"
  by (induction s) (simp_all add: QueryUnescape_escape_char)

lemma QueryEscape_inj: "QueryEscape s = QueryEscape t \<longleftrightarrow> s = t"
  by (metis QueryUnescape_QueryEscape option.inject)

text \<open>Escaped text has no separator of a query in it.\<close>

lemma escape_char_range: "c \<in> set (escape_char d) \<Longrightarrow> is_unreserved c \<or> c = plus_char \<or> c = percent_char"
  using upper_hex_unreserved of_char_div_16 [of d] by (auto simp: escape_char_def split: if_splits)

lemma QueryEscape_range: "c \<in> set (QueryEscape s) \<Longrightarrow> is_unreserved c \<or> c = plus_char \<or> c = percent_char"
  by (induction s) (auto dest: escape_char_range)

end
