(* ===== verification/LoadBalancer.thy ===== *)
theory LoadBalancer
  imports FirewallDelete HealthCheck GoUrl
begin

text \<open>
  The load balancer behind a Service: the look-up by name of \<open>internal/crusoe/lookup.go\<close>;
  \<open>handleCreate\<close>, \<open>recordLoadBalancer\<close>, \<open>cachedServiceIsStale\<close>, \<open>findExistingLoadBalancer\<close>,
  \<open>setLoadBalancerIngress\<close> and \<open>ensureLoadBalancerIngress\<close> of \<open>service_controller.go\<close>; and
  \<open>updateLoadBalancer\<close> of \<open>util.go\<close>.

  A handler returns a \<open>reconcile_result\<close>, the pair of a \<open>ctrl.Result\<close> and an error. It ends in
  an \<open>outcome\<close>, since it may panic, and \<open>handleCreate\<close> takes the fuel of the polling loop.
\<close>

type_synonym reconcile_result = "ctrl_result \<times> go_error option"

section \<open>The look-up by name\<close>

definition lookup_url_error :: "string \<Rightarrow> go_error" where
  "lookup_url_error err = Wrapped ''failed to build load balancer list URL: '' (ExternalError err) ''''"

definition lookup_request_error :: "string \<Rightarrow> go_error" where
  "lookup_request_error err =
     Wrapped ''failed to build load balancer list request: '' (ExternalError err) ''''"

definition lookup_list_error :: "string \<Rightarrow> go_error" where
  "lookup_list_error err = Wrapped ''failed to list load balancers: '' (ExternalError err) ''''"

definition lookup_status_error :: "string \<Rightarrow> go_error" where
  "lookup_status_error status = Wrapped '''' (Sentinel ErrUnexpectedListStatus) ('': '' @ status)"

definition lookup_decode_error :: "string \<Rightarrow> go_error" where
  "lookup_decode_error err = Wrapped ''failed to decode load balancer list: '' (ExternalError err) ''''"

definition lookup_request :: "load_balancer_lookup \<Rightarrow> string \<Rightarrow> http_get_request" where
  "lookup_request l url =
     \<lparr>reqURL = url, reqAccept = ''application/json'',
      reqUserAgent = (if lookupUserAgent l \<noteq> '''' then Some (lookupUserAgent l) else None)\<rparr>"

definition lookup_path :: "string \<Rightarrow> string list" where
  "lookup_path projectID = [''projects'', projectID, ''networking'', ''load-balancers'']"

definition lookup_ByName ::
    "env \<Rightarrow> load_balancer_lookup \<Rightarrow> string \<Rightarrow> string \<Rightarrow> (go_error + external_load_balancer list) prog" where
  "lookup_ByName env l projectID name =
     (case env_url_JoinPath env (lookupBasePath l) (lookup_path projectID) of
        Inl err \<Rightarrow> State_Monad.return (Inl (lookup_url_error err))
      | Inr endpoint \<Rightarrow>
          (let endpoint = endpoint @ ''?'' @ Values_Encode1 ''name'' name
           in case env_NewRequest env endpoint of
                Some err \<Rightarrow> State_Monad.return (Inl (lookup_request_error err))
              | None \<Rightarrow> do {
                  answer \<leftarrow> call_HTTPDo env (lookup_request l endpoint);
                  State_Monad.return
                    (case answer of
                       Inl err \<Rightarrow> Inl (lookup_list_error err)
                     | Inr resp \<Rightarrow>
                         (if listStatusCode resp \<noteq> 200 then Inl (lookup_status_error (listStatus resp))
                          else
                            (case listBody resp of
                               Inl err \<Rightarrow> Inl (lookup_decode_error err)
                             | Inr items \<Rightarrow> Inr (filter (\<lambda>lb. elbName lb = name) items))))
                }))"

definition find_existing_error :: "string \<Rightarrow> go_error \<Rightarrow> go_error" where
  "find_existing_error name err =
     Wrapped (''failed to look up existing load balancer '' @ name @ '': '') err ''''"

definition findExistingLoadBalancer ::
    "reconciler \<Rightarrow> env \<Rightarrow> string \<Rightarrow> string \<Rightarrow> (go_error + external_load_balancer option) prog" where
  "findExistingLoadBalancer rc env projectID name =
     (case rLoadBalancerLookup rc of
        None \<Rightarrow> State_Monad.return (Inr None)
      | Some l \<Rightarrow> do {
          matches \<leftarrow> lookup_ByName env l projectID name;
          State_Monad.return
            (case matches of
               Inl err \<Rightarrow> Inl (find_existing_error name err)
             | Inr [] \<Rightarrow> Inr None
             | Inr (lb # _) \<Rightarrow> Inr (Some lb))
        })"

section \<open>Reading the Service again\<close>

text \<open>Without an API reader the cached client is asked again.\<close>

definition fresh_get :: "reconciler \<Rightarrow> env \<Rightarrow> namespaced_name \<Rightarrow> (kube_error + service) prog" where
  "fresh_get rc env key =
     (if rHasAPIReader rc then call_ReaderGetService env key else call_GetService env key)"

definition cachedServiceIsStale :: "reconciler \<Rightarrow> env \<Rightarrow> service \<Rightarrow> (go_error + bool) prog" where
  "cachedServiceIsStale rc env svc = do {
     answer \<leftarrow> fresh_get rc env (object_key svc);
     State_Monad.return
       (case answer of
          Inl err \<Rightarrow>
            (if IsNotFound err then Inr True
             else if IsForbidden err then Inr False
             else Inl (KubeError err))
        | Inr fresh \<Rightarrow>
            (let recorded = (svcAnnotations fresh loadbalancerIDLabelKey \<noteq> None)
             in Inr (recorded \<or> \<not> DeletionTimestamp_IsZero fresh)))
   }"

section \<open>The external IP\<close>

definition status_patch_error :: "kube_error \<Rightarrow> go_error" where
  "status_patch_error err =
     Wrapped ''failed to patch service status with external IP: '' (KubeError err) ''''"

definition setLoadBalancerIngress ::
    "env \<Rightarrow> service \<Rightarrow> string \<Rightarrow> (service \<times> go_error option) prog" where
  "setLoadBalancerIngress env svc vip = do {
     let orig = svc;
     let svc = svc\<lparr>svcIngress := [\<lparr>ingressIP = vip\<rparr>]\<rparr>;
     answer \<leftarrow> call_PatchServiceStatus env orig svc;
     State_Monad.return
       (case answer of Inl err \<Rightarrow> (svc, Some (status_patch_error err)) | Inr svc \<Rightarrow> (svc, None))
   }"

definition ensureLoadBalancerIngress :: "config \<Rightarrow> env \<Rightarrow> service \<Rightarrow> (service \<times> duration) prog" where
  "ensureLoadBalancerIngress cfg env svc =
     (if length (svcIngress svc) > 0 then State_Monad.return (svc, 0)
      else do {
        answer \<leftarrow> call_GetExternalLoadBalancer env (CrusoeProjectID cfg) (annotation svc loadbalancerIDLabelKey);
        case answer of
          ApiErr err _ \<Rightarrow> State_Monad.return (svc, loadBalancerIngressRequeueInterval)
        | ApiOk _ loadBalancer \<Rightarrow>
            (if elbVip loadBalancer = '''' then State_Monad.return (svc, loadBalancerIngressRequeueInterval)
             else do {
               (svc, err) \<leftarrow> setLoadBalancerIngress env svc (elbVip loadBalancer);
               State_Monad.return
                 (case err of None \<Rightarrow> (svc, 0) | Some _ \<Rightarrow> (svc, loadBalancerIngressRequeueInterval))
             })
      })"

section \<open>Updating the load balancer\<close>

definition update_status_error :: "int \<Rightarrow> go_error" where
  "update_status_error code = Errorf (''unexpected status from LB API: '' @ Sprintf_d code)"

definition updateLoadBalancer ::
    "reconciler \<Rightarrow> config \<Rightarrow> env \<Rightarrow> service \<Rightarrow> go_error option prog" where
  "updateLoadBalancer rc cfg env svc =
     (let loadBalancerID = annotation svc loadbalancerIDLabelKey;
          lbProtocol = annotation svc AnnotationLoadBalancerProtocol;
          known = isKnownLoadBalancerProtocol lbProtocol;
          ports = (if known then servicePortsForProtocol (svcPorts svc) lbProtocol else svcPorts svc)
      in do {
        _ \<leftarrow> (if known then warnOnProtocolDrift rc svc lbProtocol else State_Monad.return ());
        if known \<and> length ports = 0 \<and> length (svcPorts svc) > 0 then State_Monad.return None
        else do {
          listenPortsAndBackends \<leftarrow> parseListenPortsAndBackends env ports;
          let lbUpdatePayload =
            \<lparr>patchId = loadBalancerID,
             patchHealthCheckOptions = ParseHealthCheckOptionsFromAnnotations (svcAnnotations svc),
             patchListenPortsAndBackends = listenPortsAndBackends\<rparr>;
          answer \<leftarrow> call_UpdateExternalLoadBalancer env lbUpdatePayload (CrusoeProjectID cfg) loadBalancerID;
          State_Monad.return
            (case answer of
               ApiErr err _ \<Rightarrow> Some (ExternalError err)
             | ApiOk httpResp _ \<Rightarrow>
                 (if StatusCode httpResp < 200 \<or> StatusCode httpResp \<ge> 300
                  then Some (update_status_error (StatusCode httpResp)) else None))
        }
      })"

section \<open>Creating the load balancer\<close>

definition recordLoadBalancer ::
    "config \<Rightarrow> env \<Rightarrow> service \<Rightarrow> external_load_balancer \<Rightarrow> string \<Rightarrow> reconcile_result outcome prog" where
  "recordLoadBalancer cfg env svc loadBalancer protocol = do {
     (svc, err) \<leftarrow> patch_service env svc
       (set_annotation AnnotationLoadBalancerProtocol protocol
         (set_annotation loadbalancerIDLabelKey (elbId loadBalancer) svc));
     case err of
       Some err \<Rightarrow> State_Monad.return (Returned (empty_result, Some err))
     | None \<Rightarrow>
         (if elbVip loadBalancer = ''''
          then State_Monad.return (Returned (requeue_after loadBalancerIngressRequeueInterval, None))
          else do {
            (svc, err) \<leftarrow> setLoadBalancerIngress env svc (elbVip loadBalancer);
            case err of
              Some err \<Rightarrow> State_Monad.return (Returned (empty_result, Some err))
            | None \<Rightarrow> do {
                ensured \<leftarrow> ensureFirewallRule cfg env svc;
                State_Monad.return
                  (case ensured of
                     Returned (_, _, Some err) \<Rightarrow> Returned (requeue_after firewallRuleRequeueInterval, None)
                   | Returned (_, requeueAfter, None) \<Rightarrow> Returned (requeue_after requeueAfter, None)
                   | Panicked message \<Rightarrow> Panicked message
                   | Unfinished \<Rightarrow> Unfinished)
              }
          })
   }"

definition create_api_error :: "string \<Rightarrow> go_error" where
  "create_api_error err = Wrapped ''failed to create load balancer: '' (ExternalError err) ''''"

definition create_status_error :: "int \<Rightarrow> go_error" where
  "create_status_error code = Errorf (''unexpected status code from API: '' @ Sprintf_d code)"

definition create_failed_error :: "operation \<Rightarrow> go_error" where
  "create_failed_error op =
     Errorf (''load balancer create operation '' @ opOperationId op @ '' finished '' @ opState op
       @ '': '' @ operationResultText op)"

definition client_error :: "http_response \<Rightarrow> bool" where
  "client_error resp = (StatusCode resp \<ge> 400 \<and> StatusCode resp < 500)"

text \<open>After the create operation has settled.\<close>

definition create_settled ::
    "reconciler \<Rightarrow> config \<Rightarrow> env \<Rightarrow> service \<Rightarrow> string \<Rightarrow> operation \<Rightarrow> reconcile_result outcome prog" where
  "create_settled rc cfg env svc protocol op =
     (if opState op \<noteq> OpSuccess then do {
        let details = operationResultText op;
        _ \<leftarrow> recordWarning rc svc EventReasonLoadBalancerCreateFailed
          (''Creating the load balancer failed: '' @ details @ ''. Retrying with backoff.'');
        State_Monad.return (Returned (empty_result, Some (create_failed_error op)))
      }
      else
        (case OpResultToItem (env_unmarshal_load_balancer env) (opResult op) of
           Inl err \<Rightarrow> State_Monad.return (Returned (empty_result, Some err))
         | Inr loadBalancer \<Rightarrow> recordLoadBalancer cfg env svc loadBalancer protocol))"

text \<open>From the create request on.\<close>

definition create_submit ::
    "nat \<Rightarrow> reconciler \<Rightarrow> config \<Rightarrow> env \<Rightarrow> service \<Rightarrow> external_load_balancer_post_request \<Rightarrow>
     reconcile_result outcome prog" where
  "create_submit fuel rc cfg env svc apiPayload = do {
     answer \<leftarrow> call_CreateExternalLoadBalancer env apiPayload (CrusoeProjectID cfg);
     case answer of
       ApiErr err httpResp \<Rightarrow>
         State_Monad.return (Returned (empty_result,
           case httpResp of
             Some resp \<Rightarrow> (if client_error resp then None else Some (create_api_error err))
           | None \<Rightarrow> Some (create_api_error err)))
     | ApiOk resp op \<Rightarrow>
         (if StatusCode resp \<noteq> 200 \<and> StatusCode resp \<noteq> 201 then
            State_Monad.return (Returned (empty_result,
              if client_error resp then None else Some (create_status_error (StatusCode resp))))
          else do {
            waited \<leftarrow> WaitForOperation fuel env (call_GetExternalLoadBalancerOperation env) op (CrusoeProjectID cfg);
            case waited of
              Panicked message \<Rightarrow> State_Monad.return (Panicked message)
            | Unfinished \<Rightarrow> State_Monad.return Unfinished
            | Returned (Inl err) \<Rightarrow> State_Monad.return (Returned (empty_result, Some err))
            | Returned (Inr op) \<Rightarrow> create_settled rc cfg env svc (postProtocol apiPayload) op
          })
   }"

definition rejected_message :: "go_error \<Rightarrow> string" where
  "rejected_message err =
     ''Cannot create a load balancer: '' @ error_text err @ ''.'' @
     (if errors_Is err ErrMixedPortProtocols then '' Split the Service into one Service per protocol.''
      else '''')"

text \<open>From the fresh read on.\<close>

definition create_or_adopt ::
    "nat \<Rightarrow> reconciler \<Rightarrow> config \<Rightarrow> env \<Rightarrow> service \<Rightarrow> string \<Rightarrow> reconcile_result outcome prog" where
  "create_or_adopt fuel rc cfg env svc protocol = do {
     listenPortsAndBackends \<leftarrow>
       parseListenPortsAndBackends env (servicePortsForProtocol (svcPorts svc) protocol);
     let healthCheckOptions = ParseHealthCheckOptionsFromAnnotations (svcAnnotations svc);
     vpc \<leftarrow> getVPCAndLocationInfo cfg env;
     case vpc of
       Inl err \<Rightarrow> State_Monad.return (Returned (empty_result, Some err))
     | Inr (vpcID, location) \<Rightarrow>
         (case GenerateLoadBalancerResourceName (svcNamespace svc) (svcName svc) (svcUID svc) of
            Inl err \<Rightarrow> State_Monad.return (Returned (empty_result, Some err))
          | Inr lbName \<Rightarrow> do {
              existing \<leftarrow> findExistingLoadBalancer rc env (CrusoeProjectID cfg) lbName;
              case existing of
                Inl err \<Rightarrow> State_Monad.return (Returned (empty_result, Some err))
              | Inr (Some lb) \<Rightarrow>
                  recordLoadBalancer cfg env svc lb
                    (if isKnownLoadBalancerProtocol (elbProtocol lb) then elbProtocol lb else protocol)
              | Inr None \<Rightarrow>
                  create_submit fuel rc cfg env svc
                    \<lparr>postVpcId = vpcID, postName = lbName, postLocation = location,
                     postProtocol = protocol, postListenPortsAndBackends = listenPortsAndBackends,
                     postHealthCheckOptions = healthCheckOptions\<rparr>
            })
   }"

definition handleCreate ::
    "nat \<Rightarrow> reconciler \<Rightarrow> config \<Rightarrow> env \<Rightarrow> service \<Rightarrow> reconcile_result outcome prog" where
  "handleCreate fuel rc cfg env svc =
     (case DeriveLoadBalancerProtocol svc of
        Inl err \<Rightarrow> do {
          _ \<leftarrow> recordWarning rc svc EventReasonUnsupportedPortProtocol (rejected_message err);
          State_Monad.return (Returned (empty_result, None))
        }
      | Inr protocol \<Rightarrow> do {
          stale \<leftarrow> cachedServiceIsStale rc env svc;
          case stale of
            Inl err \<Rightarrow> State_Monad.return (Returned (empty_result, Some err))
          | Inr True \<Rightarrow> State_Monad.return (Returned (requeue_after staleCacheRequeueInterval, None))
          | Inr False \<Rightarrow> create_or_adopt fuel rc cfg env svc protocol
        })"

end
