(* ===== verification/LoadBalancerSafety.thy ===== *)
theory LoadBalancerSafety
  imports LoadBalancer
begin

text \<open>
  What the handlers of a load balancer promise. Their conversations with the API server and the
  Crusoe API are specified by relations, \<open>record_session\<close>, \<open>submit_session\<close> and
  \<open>create_session\<close>, which the code is shown to follow; the properties are read off their rules.
\<close>

section \<open>The look-up\<close>

text \<open>A listing that shows, or does not show, a load balancer of a name.\<close>

definition listing :: "event \<Rightarrow> external_load_balancer list option" where
  "listing e =
     (case e of
        HTTPDo req (Inr resp) \<Rightarrow>
          (if listStatusCode resp = 200
           then (case listBody resp of Inr items \<Rightarrow> Some items | Inl _ \<Rightarrow> None) else None)
      | _ \<Rightarrow> None)"

definition lookup_of :: "env \<Rightarrow> load_balancer_lookup \<Rightarrow> string \<Rightarrow> string \<Rightarrow> event \<Rightarrow> bool" where
  "lookup_of env l projectID name e =
     (case e of
        HTTPDo req _ \<Rightarrow>
          (case env_url_JoinPath env (lookupBasePath l) (lookup_path projectID) of
             Inl _ \<Rightarrow> False
           | Inr endpoint \<Rightarrow> reqURL req = endpoint @ ''?name='' @ QueryEscape name)
      | _ \<Rightarrow> False)"

lemma name_query: "Values_Encode1 ''name'' name = ''name='' @ QueryEscape name"
proof -
  have "QueryEscape ''name'' = ''name''" by (simp add: QueryEscape_def) code_simp
  then show ?thesis by (simp add: Values_Encode1_def)
qed

text \<open>The request cannot even be built.\<close>

definition lookup_unsendable :: "env \<Rightarrow> load_balancer_lookup \<Rightarrow> string \<Rightarrow> bool" where
  "lookup_unsendable env l projectID \<longleftrightarrow>
     (\<exists>err. env_url_JoinPath env (lookupBasePath l) (lookup_path projectID) = Inl err) \<or>
     (\<exists>url. env_NewRequest env url \<noteq> None)"

lemma lookup_ByName_emits:
  "emits (lookup_ByName env l projectID name)
     (\<lambda>r es. case r of
        Inl err \<Rightarrow> es = [] \<and> lookup_unsendable env l projectID \<or>
          (\<exists>e. es = [e] \<and> lookup_of env l projectID name e \<and> listing e = None)
      | Inr lbs \<Rightarrow> \<exists>e items. es = [e] \<and> lookup_of env l projectID name e \<and> listing e = Some items \<and>
          lbs = filter (\<lambda>lb. elbName lb = name) items) h"
  by (auto simp: emits_def lookup_ByName_def Let_def wp call_defs lookup_request_def name_query
      lookup_of_def listing_def lookup_unsendable_def split: sum.split option.split)

text \<open>
  The ways \<open>findExistingLoadBalancer\<close> ends: nothing to look with, nothing found, found, failed.
\<close>

inductive lookup_session ::
    "reconciler \<Rightarrow> env \<Rightarrow> string \<Rightarrow> string \<Rightarrow> event list \<Rightarrow> (go_error + external_load_balancer option) \<Rightarrow> bool"
    for rc env projectID name where
  no_lookup: "rLoadBalancerLookup rc = None \<Longrightarrow> lookup_session rc env projectID name [] (Inr None)"
| none_found:
    "rLoadBalancerLookup rc = Some l \<Longrightarrow> lookup_of env l projectID name e \<Longrightarrow> listing e = Some items \<Longrightarrow>
     filter (\<lambda>lb. elbName lb = name) items = [] \<Longrightarrow>
     lookup_session rc env projectID name [e] (Inr None)"
| found:
    "rLoadBalancerLookup rc = Some l \<Longrightarrow> lookup_of env l projectID name e \<Longrightarrow> listing e = Some items \<Longrightarrow>
     filter (\<lambda>lb. elbName lb = name) items = lb # lbs \<Longrightarrow>
     lookup_session rc env projectID name [e] (Inr (Some lb))"
| lookup_failed:
    "rLoadBalancerLookup rc = Some l \<Longrightarrow>
     es = [] \<and> lookup_unsendable env l projectID \<or>
       (\<exists>e. es = [e] \<and> lookup_of env l projectID name e \<and> listing e = None) \<Longrightarrow>
     lookup_session rc env projectID name es (Inl err)"

lemma findExistingLoadBalancer_follows:
  "emits (findExistingLoadBalancer rc env projectID name) (\<lambda>r es. lookup_session rc env projectID name es r) h"
proof (cases "rLoadBalancerLookup rc")
  case None
  then show ?thesis by (simp add: emits_def findExistingLoadBalancer_def wp no_lookup)
next
  case (Some l)
  have found: "lookup_session rc env projectID name [e]
      (case filter (\<lambda>lb. elbName lb = name) items of [] \<Rightarrow> Inr None | lb # _ \<Rightarrow> Inr (Some lb))"
    if "lookup_of env l projectID name e" "listing e = Some items" for e items
    using that Some
    by (cases "filter (\<lambda>lb. elbName lb = name) items") (auto intro: none_found found)
  show ?thesis
    unfolding emits_def findExistingLoadBalancer_def Some option.case
    by (auto simp: wp Some intro!: wp_emits [OF lookup_ByName_emits] found lookup_failed split: sum.splits)
qed

section \<open>The fresh read\<close>

definition fresh_answer :: "reconciler \<Rightarrow> namespaced_name \<Rightarrow> event \<Rightarrow> (kube_error + service) option" where
  "fresh_answer rc key e =
     (case e of
        ReaderGetService k answer \<Rightarrow> if rHasAPIReader rc \<and> k = key then Some answer else None
      | GetService k answer \<Rightarrow> if \<not> rHasAPIReader rc \<and> k = key then Some answer else None
      | _ \<Rightarrow> None)"

text \<open>What the read says: a load balancer may be created, the cache is stale, or it failed.\<close>

definition permits_create :: "kube_error + service \<Rightarrow> bool" where
  "permits_create answer =
     (case answer of
        Inl err \<Rightarrow> IsForbidden err
      | Inr fresh \<Rightarrow> svcAnnotations fresh loadbalancerIDLabelKey = None \<and> DeletionTimestamp_IsZero fresh)"

lemma cachedServiceIsStale_emits:
  "emits (cachedServiceIsStale rc env svc)
     (\<lambda>r es. \<exists>e answer. es = [e] \<and> fresh_answer rc (object_key svc) e = Some answer \<and> is_read e \<and>
        (r = Inr False \<longleftrightarrow> permits_create answer)) h"
proof -
  have "IsNotFound err \<Longrightarrow> \<not> IsForbidden err" for err by (cases err) simp_all
  then show ?thesis
    by (auto simp: emits_def cachedServiceIsStale_def fresh_get_def fresh_answer_def permits_create_def
        wp call_defs split: sum.split option.split)
qed

section \<open>Recording a load balancer\<close>

definition marked_service :: "service \<Rightarrow> string \<Rightarrow> string \<Rightarrow> service" where
  "marked_service svc ident protocol =
     set_annotation AnnotationLoadBalancerProtocol protocol (set_annotation loadbalancerIDLabelKey ident svc)"

definition with_ip :: "string \<Rightarrow> service \<Rightarrow> service" where
  "with_ip vip svc = svc\<lparr>svcIngress := [\<lparr>ingressIP = vip\<rparr>]\<rparr>"

definition after_rule :: "ensure_result outcome \<Rightarrow> reconcile_result outcome" where
  "after_rule ensured =
     (case ensured of
        Returned (_, _, Some err) \<Rightarrow> Returned (requeue_after firewallRuleRequeueInterval, None)
      | Returned (_, requeueAfter, None) \<Rightarrow> Returned (requeue_after requeueAfter, None)
      | Panicked message \<Rightarrow> Panicked message
      | Unfinished \<Rightarrow> Unfinished)"

inductive record_session ::
    "config \<Rightarrow> env \<Rightarrow> service \<Rightarrow> external_load_balancer \<Rightarrow> string \<Rightarrow> event list \<Rightarrow> reconcile_result outcome \<Rightarrow> bool"
    for cfg env svc lb protocol where
  record_unsaved:
    "marked = marked_service svc (elbId lb) protocol \<Longrightarrow>
     record_session cfg env svc lb protocol [PatchService svc marked (Inl err)]
       (Returned (empty_result, Some (KubeError err)))"
| no_vip:
    "marked = marked_service svc (elbId lb) protocol \<Longrightarrow> elbVip lb = '''' \<Longrightarrow>
     record_session cfg env svc lb protocol [PatchService svc marked (Inr written)]
       (Returned (requeue_after loadBalancerIngressRequeueInterval, None))"
| unpublished:
    "marked = marked_service svc (elbId lb) protocol \<Longrightarrow> elbVip lb \<noteq> '''' \<Longrightarrow>
     record_session cfg env svc lb protocol
       [PatchService svc marked (Inr written),
        PatchServiceStatus written (with_ip (elbVip lb) written) (Inl err)]
       (Returned (empty_result, Some (status_patch_error err)))"
| published:
    "marked = marked_service svc (elbId lb) protocol \<Longrightarrow> elbVip lb \<noteq> '''' \<Longrightarrow>
     rule_session cfg env shown es ensured \<Longrightarrow>
     record_session cfg env svc lb protocol
       (PatchService svc marked (Inr written) #
        PatchServiceStatus written (with_ip (elbVip lb) written) (Inr shown) # es)
       (after_rule ensured)"

lemma setLoadBalancerIngress_emits:
  "emits (setLoadBalancerIngress env svc vip)
     (\<lambda>r es. \<exists>answer. es = [PatchServiceStatus svc (with_ip vip svc) answer] \<and>
        r = (case answer of Inl err \<Rightarrow> (with_ip vip svc, Some (status_patch_error err)) | Inr svc \<Rightarrow> (svc, None))) h"
  by (auto simp: emits_def setLoadBalancerIngress_def with_ip_def wp call_defs Let_def split: sum.split)

lemma recordLoadBalancer_follows:
  "emits (recordLoadBalancer cfg env svc lb protocol)
     (\<lambda>r es. record_session cfg env svc lb protocol es r) h"
  unfolding emits_def recordLoadBalancer_def marked_service_def [symmetric]
  by (auto simp: wp patch_outcome_def after_rule_def [symmetric]
      intro!: wp_emits [OF patch_service_emits] wp_emits [OF setLoadBalancerIngress_emits]
        wp_emits [OF ensureFirewallRule_follows] record_unsaved no_vip unpublished
        published [OF refl]
      split: sum.splits option.splits)

section \<open>Submitting the create\<close>

definition polling :: "event list \<Rightarrow> bool" where
  "polling es \<longleftrightarrow> (\<forall>e \<in> set es. is_lb_poll e \<or> (\<exists>m a. e = RandInt m a) \<or> (\<exists>d. e = Sleep d))"

text \<open>
  The operation that a wait ends with: the one last polled, where every poll of the pass asks for
  the operation at hand, which is in progress, and is answered with status 200.
\<close>

definition poll_answered :: "operation api_result \<Rightarrow> bool" where
  "poll_answered answer =
     (case answer of
        ApiErr _ _ \<Rightarrow> False | ApiOk resp _ \<Rightarrow> bodyCloseErr resp = None \<and> StatusCode resp = 200)"

fun last_polled :: "string \<Rightarrow> operation \<Rightarrow> event list \<Rightarrow> operation option" where
  "last_polled projectID op [] = Some op"
| "last_polled projectID op (e # es) =
     (case e of
        GetExternalLoadBalancerOperation p i answer \<Rightarrow>
          (case answer of
             ApiErr _ _ \<Rightarrow> None
           | ApiOk resp updated \<Rightarrow>
               (if p = projectID \<and> i = opOperationId op \<and> opState op = OpInProgress \<and> poll_answered answer
                then last_polled projectID updated es else None))
      | _ \<Rightarrow> last_polled projectID op es)"

definition settled_by :: "string \<Rightarrow> operation \<Rightarrow> event list \<Rightarrow> operation \<Rightarrow> bool" where
  "settled_by projectID op polls op' \<longleftrightarrow> last_polled projectID op polls = Some op'"

lemma settled_by_polled:
  "settled_by projectID op polls op' \<Longrightarrow>
     op' = op \<or> (\<exists>p i resp. GetExternalLoadBalancerOperation p i (ApiOk resp op') \<in> set polls)"
proof (induction polls arbitrary: op)
  case (Cons e polls)
  then show ?case
    by (auto simp: settled_by_def split: event.splits api_result.splits if_splits)
qed (simp add: settled_by_def)

definition poll_refused :: "event list \<Rightarrow> bool" where
  "poll_refused polls \<longleftrightarrow>
     (\<exists>p i answer. GetExternalLoadBalancerOperation p i answer \<in> set polls \<and> \<not> poll_answered answer)"

lemma wait_loop_result:
  "emits (wait_loop fuel env (call_GetExternalLoadBalancerOperation env) projectID backoff op)
     (\<lambda>r es. case r of
        Returned (Inr op') \<Rightarrow> settled_by projectID op es op'
      | Returned (Inl _) \<Rightarrow> poll_refused es
      | _ \<Rightarrow> True) h"
proof (induction fuel arbitrary: backoff op h)
  case 0
  show ?case by (simp add: emits_def wp settled_by_def)
next
  case (Suc fuel)
  let ?polled = "\<lambda>resp updated m r d es.
    GetExternalLoadBalancerOperation projectID (opOperationId op) (ApiOk resp updated) # RandInt m r # Sleep d # es"
  have later: "case r of
        Returned (Inr op') \<Rightarrow> settled_by projectID op (?polled resp updated m a d es) op'
      | Returned (Inl _) \<Rightarrow> poll_refused (?polled resp updated m a d es)
      | _ \<Rightarrow> True"
    if "case r of Returned (Inr op') \<Rightarrow> settled_by projectID updated es op'
      | Returned (Inl _) \<Rightarrow> poll_refused es | _ \<Rightarrow> True"
      "opState op = OpInProgress" "bodyCloseErr resp = None" "StatusCode resp = 200"
    for r :: "(go_error + operation) outcome" and resp updated m a d es
    using that by (auto simp: settled_by_def poll_refused_def poll_answered_def split: outcome.splits sum.splits)
  show ?case
    unfolding emits_def
    by (auto simp: wp call_defs jitterMillisecond_def settled_by_def [of _ _ "[]"] poll_refused_def poll_answered_def
        intro!: wp_emits [OF Suc.IH] later split: api_result.split option.split)
qed

lemma WaitForOperation_emits:
  "emits (WaitForOperation fuel env (call_GetExternalLoadBalancerOperation env) (Some op) projectID)
     (\<lambda>r es. polling es \<and>
        (case r of
           Returned (Inr op') \<Rightarrow> opState op' \<noteq> OpInProgress \<and> settled_by projectID op es op'
         | Returned (Inl _) \<Rightarrow> poll_refused es
         | Panicked _ \<Rightarrow> False
         | Unfinished \<Rightarrow> True)) h"
proof -
  have poll: "is_lb_poll e \<longleftrightarrow> (case e of GetExternalLoadBalancerOperation _ _ _ \<Rightarrow> True | _ \<Rightarrow> False)"
    for e by (cases e) simp_all
  show ?thesis
    unfolding WaitForOperation_def option.case
    by (rule emits_mono [OF emits_conj [OF lb_getter.wait_loop_emits wait_loop_result]])
      (auto simp: polling_def lb_getter.loop_event_def poll split: outcome.splits sum.splits)
qed

definition accepted_status :: "http_response \<Rightarrow> bool" where
  "accepted_status resp = (StatusCode resp = 200 \<or> StatusCode resp = 201)"

inductive submit_session ::
    "reconciler \<Rightarrow> config \<Rightarrow> env \<Rightarrow> service \<Rightarrow> external_load_balancer_post_request \<Rightarrow> event list \<Rightarrow>
     reconcile_result outcome \<Rightarrow> bool"
    for rc cfg env svc req where
  refused:
    "err = (case resp of Some resp \<Rightarrow> (if client_error resp then None else Some (create_api_error msg))
            | None \<Rightarrow> Some (create_api_error msg)) \<Longrightarrow>
     submit_session rc cfg env svc req
       [CreateExternalLoadBalancer req (CrusoeProjectID cfg) (ApiErr msg resp)] (Returned (empty_result, err))"
| odd_status:
    "\<not> accepted_status resp \<Longrightarrow>
     err = (if client_error resp then None else Some (create_status_error (StatusCode resp))) \<Longrightarrow>
     submit_session rc cfg env svc req
       [CreateExternalLoadBalancer req (CrusoeProjectID cfg) (ApiOk resp op)] (Returned (empty_result, err))"
| undecoded:
    "accepted_status resp \<Longrightarrow>
     submit_session rc cfg env svc req
       [CreateExternalLoadBalancer req (CrusoeProjectID cfg) (ApiOk resp None)] (Panicked message)"
| still_polling:
    "accepted_status resp \<Longrightarrow> polling polls \<Longrightarrow>
     submit_session rc cfg env svc req
       (CreateExternalLoadBalancer req (CrusoeProjectID cfg) (ApiOk resp (Some op)) # polls) Unfinished"
| poll_failed:
    "accepted_status resp \<Longrightarrow> polling polls \<Longrightarrow> poll_refused polls \<Longrightarrow>
     submit_session rc cfg env svc req
       (CreateExternalLoadBalancer req (CrusoeProjectID cfg) (ApiOk resp (Some op)) # polls)
       (Returned (empty_result, Some err))"
| create_failed:
    "accepted_status resp \<Longrightarrow> polling polls \<Longrightarrow> settled_by (CrusoeProjectID cfg) op polls op' \<Longrightarrow>
     opState op' \<noteq> OpSuccess \<Longrightarrow> opState op' \<noteq> OpInProgress \<Longrightarrow>
     only_warnings svc EventReasonLoadBalancerCreateFailed warnings \<Longrightarrow>
     (warnings \<noteq> [] \<longleftrightarrow> rHasRecorder rc) \<Longrightarrow>
     submit_session rc cfg env svc req
       (CreateExternalLoadBalancer req (CrusoeProjectID cfg) (ApiOk resp (Some op)) # polls @ warnings)
       (Returned (empty_result, Some (create_failed_error op')))"
| undecodable_result:
    "accepted_status resp \<Longrightarrow> polling polls \<Longrightarrow> settled_by (CrusoeProjectID cfg) op polls op' \<Longrightarrow>
     opState op' = OpSuccess \<Longrightarrow> OpResultToItem (env_unmarshal_load_balancer env) (opResult op') = Inl err \<Longrightarrow>
     submit_session rc cfg env svc req
       (CreateExternalLoadBalancer req (CrusoeProjectID cfg) (ApiOk resp (Some op)) # polls)
       (Returned (empty_result, Some err))"
| created_lb:
    "accepted_status resp \<Longrightarrow> polling polls \<Longrightarrow> settled_by (CrusoeProjectID cfg) op polls op' \<Longrightarrow>
     opState op' = OpSuccess \<Longrightarrow> OpResultToItem (env_unmarshal_load_balancer env) (opResult op') = Inr lb \<Longrightarrow>
     record_session cfg env svc lb (postProtocol req) es r \<Longrightarrow>
     submit_session rc cfg env svc req
       (CreateExternalLoadBalancer req (CrusoeProjectID cfg) (ApiOk resp (Some op)) # polls @ es) r"

lemma create_settled_follows:
  assumes "accepted_status resp" "polling polls" "settled_by (CrusoeProjectID cfg) op polls op'" "opState op' \<noteq> OpInProgress"
  shows "emits (create_settled rc cfg env svc (postProtocol req) op')
     (\<lambda>r es. submit_session rc cfg env svc req
        (CreateExternalLoadBalancer req (CrusoeProjectID cfg) (ApiOk resp (Some op)) # polls @ es) r) h"
proof (cases "opState op' = OpSuccess")
  case True
  then show ?thesis
    using undecodable_result [OF assms(1-3) True] created_lb [OF assms(1-3) True]
    by (auto simp: emits_def create_settled_def wp
        intro!: wp_emits [OF recordLoadBalancer_follows] split: sum.split)
next
  case False
  then show ?thesis
    using assms
    by (auto simp: emits_def create_settled_def wp Let_def only_warnings_def
        intro!: wp_emits [OF recordWarning_emits] create_failed)
qed

lemma WaitForOperation_nil:
  "emits (WaitForOperation fuel env g None projectID) (\<lambda>r es. es = [] \<and> (\<exists>message. r = Panicked message)) h"
  by (simp add: emits_def WaitForOperation_def wp)

lemma create_submit_follows:
  "emits (create_submit fuel rc cfg env svc req) (\<lambda>r es. submit_session rc cfg env svc req es r) h"
proof -
  let ?create = "CreateExternalLoadBalancer req (CrusoeProjectID cfg)"
  have waited: "wp (case waited of
        Panicked message \<Rightarrow> State_Monad.return (Panicked message)
      | Unfinished \<Rightarrow> State_Monad.return Unfinished
      | Returned (Inl err) \<Rightarrow> State_Monad.return (Returned (empty_result, Some err))
      | Returned (Inr op') \<Rightarrow> create_settled rc cfg env svc (postProtocol req) op')
    (\<lambda>r h'. \<exists>es. h' = h @ es \<and> submit_session rc cfg env svc req es r)
    (h @ ?create (ApiOk resp (Some op)) # polls)"
    if "accepted_status resp" "polling polls"
      "case waited of
           Returned (Inr op') \<Rightarrow> opState op' \<noteq> OpInProgress \<and> settled_by (CrusoeProjectID cfg) op polls op'
         | Returned (Inl _) \<Rightarrow> poll_refused polls
         | Panicked _ \<Rightarrow> False
         | Unfinished \<Rightarrow> True"
    for waited resp op polls
    using that
    by (cases waited)
      (auto simp: wp intro!: wp_emits [OF create_settled_follows] still_polling poll_failed split: sum.splits)
  show ?thesis
  proof (cases "env_create_lb env h req (CrusoeProjectID cfg)")
    case (ApiErr msg resp)
    then show ?thesis
      by (auto simp: emits_def create_submit_def wp call_defs intro!: refused)
  next
    case (ApiOk resp op)
    then show ?thesis
    proof (cases "accepted_status resp")
      case False
      with ApiOk show ?thesis
        by (auto simp: emits_def create_submit_def accepted_status_def wp call_defs intro!: odd_status)
    next
      case True
      have "wp (WaitForOperation fuel env (call_GetExternalLoadBalancerOperation env) op (CrusoeProjectID cfg))
          (\<lambda>waited. wp (case waited of
              Panicked message \<Rightarrow> State_Monad.return (Panicked message)
            | Unfinished \<Rightarrow> State_Monad.return Unfinished
            | Returned (Inl err) \<Rightarrow> State_Monad.return (Returned (empty_result, Some err))
            | Returned (Inr op') \<Rightarrow> create_settled rc cfg env svc (postProtocol req) op')
          (\<lambda>r h'. \<exists>es. h' = h @ es \<and> submit_session rc cfg env svc req es r))
        (h @ [?create (ApiOk resp op)])"
        using True
        by (cases op)
          (auto simp: wp intro!: wp_emits [OF WaitForOperation_nil] wp_emits [OF WaitForOperation_emits]
            undecoded waited)
      with ApiOk True show ?thesis
        by (auto simp: emits_def create_submit_def accepted_status_def wp
            call_CreateExternalLoadBalancer_def)
    qed
  qed
qed

section \<open>Creating or adopting\<close>

text \<open>
  The request for a load balancer: listeners for the ports of its protocol over the nodes listed
  first (none if the listing failed), in the VPC and the location of the subnet read after that.
\<close>

definition request_from :: "config \<Rightarrow> service \<Rightarrow> event list \<Rightarrow> external_load_balancer_post_request \<Rightarrow> bool" where
  "request_from cfg svc reads req \<longleftrightarrow>
     (\<exists>nodes reads'. reads = ListNodes nodes # reads' \<and>
        vpc_from_subnet cfg (postVpcId req, postLocation req) reads' \<and>
        postListenPortsAndBackends req =
          (case nodes of
             Inl _ \<Rightarrow> []
           | Inr ns \<Rightarrow> listeners (backendIPs ns) (servicePortsForProtocol (svcPorts svc) (postProtocol req))) \<and>
        postHealthCheckOptions req = ParseHealthCheckOptionsFromAnnotations (svcAnnotations svc))"

inductive create_session ::
    "reconciler \<Rightarrow> config \<Rightarrow> env \<Rightarrow> service \<Rightarrow> event list \<Rightarrow> reconcile_result outcome \<Rightarrow> bool"
    for rc cfg env svc where
  rejected:
    "DeriveLoadBalancerProtocol svc = Inl err \<Longrightarrow>
     only_warnings svc EventReasonUnsupportedPortProtocol es \<Longrightarrow>
     create_session rc cfg env svc es (Returned (empty_result, None))"
| not_fresh:
    "DeriveLoadBalancerProtocol svc = Inr protocol \<Longrightarrow>
     fresh_answer rc (object_key svc) e = Some answer \<Longrightarrow> is_read e \<Longrightarrow> \<not> permits_create answer \<Longrightarrow>
     result = (requeue_after staleCacheRequeueInterval, None) \<or> (\<exists>err. result = (empty_result, Some err)) \<Longrightarrow>
     create_session rc cfg env svc [e] (Returned result)"
| unprepared:
    "DeriveLoadBalancerProtocol svc = Inr protocol \<Longrightarrow>
     fresh_answer rc (object_key svc) e = Some answer \<Longrightarrow> is_read e \<Longrightarrow> permits_create answer \<Longrightarrow>
     topology_reads es \<Longrightarrow>
     vpc_lookup_failed es \<or>
       (\<exists>err. GenerateLoadBalancerResourceName (svcNamespace svc) (svcName svc) (svcUID svc) = Inl err) \<Longrightarrow>
     create_session rc cfg env svc (e # es) (Returned (empty_result, Some err))"
| lookup_broken:
    "DeriveLoadBalancerProtocol svc = Inr protocol \<Longrightarrow>
     fresh_answer rc (object_key svc) e = Some answer \<Longrightarrow> is_read e \<Longrightarrow> permits_create answer \<Longrightarrow>
     topology_reads reads \<Longrightarrow>
     GenerateLoadBalancerResourceName (svcNamespace svc) (svcName svc) (svcUID svc) = Inr name \<Longrightarrow>
     lookup_session rc env (CrusoeProjectID cfg) name looked (Inl err) \<Longrightarrow>
     create_session rc cfg env svc (e # reads @ looked) (Returned (empty_result, Some err'))"
| adopted:
    "DeriveLoadBalancerProtocol svc = Inr protocol \<Longrightarrow>
     fresh_answer rc (object_key svc) e = Some answer \<Longrightarrow> is_read e \<Longrightarrow> permits_create answer \<Longrightarrow>
     topology_reads reads \<Longrightarrow>
     GenerateLoadBalancerResourceName (svcNamespace svc) (svcName svc) (svcUID svc) = Inr name \<Longrightarrow>
     lookup_session rc env (CrusoeProjectID cfg) name looked (Inr (Some lb)) \<Longrightarrow>
     protocol' = (if isKnownLoadBalancerProtocol (elbProtocol lb) then elbProtocol lb else protocol) \<Longrightarrow>
     record_session cfg env svc lb protocol' es r \<Longrightarrow>
     create_session rc cfg env svc (e # reads @ looked @ es) r"
| submitted:
    "DeriveLoadBalancerProtocol svc = Inr protocol \<Longrightarrow>
     fresh_answer rc (object_key svc) e = Some answer \<Longrightarrow> is_read e \<Longrightarrow> permits_create answer \<Longrightarrow>
     topology_reads reads \<Longrightarrow>
     GenerateLoadBalancerResourceName (svcNamespace svc) (svcName svc) (svcUID svc) = Inr name \<Longrightarrow>
     lookup_session rc env (CrusoeProjectID cfg) name looked (Inr None) \<Longrightarrow>
     postName req = name \<Longrightarrow> postProtocol req = protocol \<Longrightarrow>
     submit_session rc cfg env svc req es r \<Longrightarrow> request_from cfg svc reads req \<Longrightarrow>
     create_session rc cfg env svc (e # reads @ looked @ es) r"

lemma lookup_session_reads: "lookup_session rc env projectID name es r \<Longrightarrow> reads_only es"
  by (auto elim!: lookup_session.cases simp: lookup_of_def split: event.splits)

lemma parseListenPortsAndBackends_reads:
  "emits (parseListenPortsAndBackends env ports) (\<lambda>ls es. topology_reads es) h"
  by (rule emits_mono [OF parseListenPortsAndBackends_emits]) auto

lemma create_or_adopt_follows:
  assumes "DeriveLoadBalancerProtocol svc = Inr protocol"
    and "fresh_answer rc (object_key svc) e = Some answer" "is_read e" "permits_create answer"
  shows "emits (create_or_adopt fuel rc cfg env svc protocol)
     (\<lambda>r es. create_session rc cfg env svc (e # es) r) h"
proof (cases "GenerateLoadBalancerResourceName (svcNamespace svc) (svcName svc) (svcUID svc)")
  case (Inl err)
  show ?thesis
    unfolding emits_def create_or_adopt_def
    using assms Inl topology_reads_only
    by (auto simp: wp Let_def intro!: wp_emits [OF parseListenPortsAndBackends_reads]
        wp_emits [OF getVPCAndLocationInfo_emits] unprepared split: sum.splits)
next
  case (Inr name)
  note unprepared' = unprepared [OF assms]
  note adopted' = adopted [OF assms _ Inr _ refl]
  note submitted' = submitted [OF assms _ Inr]
  have broken: "create_session rc cfg env svc (e # reads1 @ reads2 @ looked) (Returned (empty_result, Some err'))"
    if "topology_reads reads1" "topology_reads reads2"
      "lookup_session rc env (CrusoeProjectID cfg) name looked (Inl err)" for reads1 reads2 looked err err'
    using lookup_broken [OF assms, of "reads1 @ reads2"] Inr that by simp
  have looked: "wp (case existing of
        Some lb \<Rightarrow>
          recordLoadBalancer cfg env svc lb
            (if isKnownLoadBalancerProtocol (elbProtocol lb) then elbProtocol lb else protocol)
      | None \<Rightarrow> create_submit fuel rc cfg env svc req)
    (\<lambda>r h'. \<exists>es. h' = h @ es \<and> create_session rc cfg env svc (e # es) r) (h @ reads1 @ reads2 @ looked)"
    if "topology_reads reads1" "topology_reads reads2"
      "lookup_session rc env (CrusoeProjectID cfg) name looked (Inr existing)"
      "postName req = name" "postProtocol req = protocol" "request_from cfg svc (reads1 @ reads2) req"
    for existing reads1 reads2 looked req
    using that adopted' [where reads = "reads1 @ reads2" and looked = looked]
      submitted' [where reads = "reads1 @ reads2" and looked = looked]
    by (cases existing)
      (auto intro!: wp_emits [OF recordLoadBalancer_follows] wp_emits [OF create_submit_follows])
  show ?thesis
    unfolding emits_def create_or_adopt_def
    using Inr
    by (auto simp: wp Let_def request_from_def
        intro!: wp_emits [OF parseListenPortsAndBackends_emits] wp_emits [OF getVPCAndLocationInfo_emits]
          wp_emits [OF findExistingLoadBalancer_follows] looked [where ?reads1.0 = "[ListNodes _]", simplified]
          unprepared' broken [where ?reads1.0 = "[ListNodes _]", simplified] split: sum.splits)
      (simp_all add: vpc_lookup_failed_def)
qed

lemma handleCreate_follows:
  "emits (handleCreate fuel rc cfg env svc) (\<lambda>r es. create_session rc cfg env svc es r) h"
proof (cases "DeriveLoadBalancerProtocol svc")
  case (Inl err)
  then show ?thesis
    by (auto simp: emits_def handleCreate_def wp only_warnings_def
        intro!: wp_emits [OF recordWarning_emits] rejected)
next
  case (Inr protocol)
  have "wp (case stale of
        Inl err \<Rightarrow> State_Monad.return (Returned (empty_result, Some err))
      | Inr True \<Rightarrow> State_Monad.return (Returned (requeue_after staleCacheRequeueInterval, None))
      | Inr False \<Rightarrow> create_or_adopt fuel rc cfg env svc protocol)
    (\<lambda>r h'. \<exists>es. h' = h @ es \<and> create_session rc cfg env svc es r) (h @ [e])"
    if "fresh_answer rc (object_key svc) e = Some answer" "is_read e"
      "stale = Inr False \<longleftrightarrow> permits_create answer" for stale e answer
  proof (cases "stale = Inr False")
    case True
    with that create_or_adopt_follows [OF Inr that(1,2)] show ?thesis
      by (auto intro!: wp_emits [where P = "\<lambda>r es. create_session rc cfg env svc (e # es) r"])
  next
    case False
    with that not_fresh [OF Inr that(1,2)] show ?thesis
      by (auto simp: wp split: sum.split bool.split)
  qed
  then show ?thesis
    using Inr
    by (auto simp: emits_def handleCreate_def wp intro!: wp_emits [OF cachedServiceIsStale_emits])
qed

end
