(* ===== verification/CreateSafety.thy ===== *)
theory CreateSafety
  imports LoadBalancerSafety
begin

text \<open>
  The properties of \<open>handleCreate\<close>: when a load balancer is created and when one is adopted,
  that its id is recorded before anything is built on it, and which failures are retried.
\<close>

inductive_cases record_sessionE: "record_session cfg env svc lb protocol es r"
inductive_cases submit_sessionE: "submit_session rc cfg env svc req es r"
inductive_cases create_sessionE: "create_session rc cfg env svc es r"
inductive_cases lookup_sessionE: "lookup_session rc env projectID name es r"

section \<open>The events of the sessions\<close>

text \<open>The events of the firewall rule's sessions.\<close>

fun is_rule_event :: "event \<Rightarrow> bool" where
  "is_rule_event (GetVPCSubnet _ _ _) = True"
| "is_rule_event (GetCluster _ _ _) = True"
| "is_rule_event (ListNodes _) = True"
| "is_rule_event (ListVPCFirewallRules _ _) = True"
| "is_rule_event (GetVPCFirewallRule _ _ _) = True"
| "is_rule_event (PatchVPCFirewallRule _ _ _ _) = True"
| "is_rule_event (CreateVPCFirewallRule _ _ _) = True"
| "is_rule_event (GetNetworkingVPCFirewallRulesOperation _ _ _) = True"
| "is_rule_event (Now _) = True"
| "is_rule_event (PatchService _ _ _) = True"
| "is_rule_event _ = False"

lemma topology_reads_rule_event: "topology_reads es \<Longrightarrow> e \<in> set es \<Longrightarrow> is_rule_event e"
  by (cases e) (auto simp: topology_reads_def)

lemma rule_branch_events: "rule_branch cfg env svc args es next \<Longrightarrow> e \<in> set es \<Longrightarrow> is_rule_event e"
  by (auto elim!: rule_branchE lookup_missedE)

lemma rule_session_events:
  assumes "rule_session cfg env svc es r" and "e \<in> set es"
  shows "is_rule_event e"
  using assms
proof cases
  case (branched es1 args branch "next" rest)
  then show ?thesis
    using assms(2) topology_reads_rule_event [of es1 e] rule_branch_events [OF branched(4), of e]
    by (auto simp: args_reads_def elim!: branch_endE)
qed (auto dest: topology_reads_rule_event)

fun is_record_event :: "event \<Rightarrow> bool" where
  "is_record_event (PatchServiceStatus _ _ _) = True"
| "is_record_event e = is_rule_event e"

lemma rule_event_record: "is_rule_event e \<Longrightarrow> is_record_event e"
  by (cases e) simp_all

lemma record_session_events:
  "record_session cfg env svc lb protocol es r \<Longrightarrow> e \<in> set es \<Longrightarrow> is_record_event e"
  by (auto elim!: record_sessionE) (erule (1) rule_event_record [OF rule_session_events])

lemma record_event_harmless: "is_record_event e \<Longrightarrow> \<not> is_create_lb e"
  by (cases e) simp_all

lemma record_session_patch:
  "record_session cfg env svc lb protocol es r \<Longrightarrow>
     \<exists>answer rest. es = PatchService svc (marked_service svc (elbId lb) protocol) answer # rest"
  by (auto elim!: record_sessionE)

lemma record_session_no_create: "record_session cfg env svc lb protocol es r \<Longrightarrow> filter is_create_lb es = []"
  using record_event_harmless record_session_events by (auto simp: filter_empty_conv)

lemma lb_poll_harmless: "is_lb_poll e \<Longrightarrow> \<not> is_create_lb e"
  by (cases e) simp_all

lemma polling_no_create: "polling es \<Longrightarrow> filter is_create_lb es = []"
  using lb_poll_harmless by (auto simp: polling_def filter_empty_conv)

lemma warnings_no_create: "only_warnings svc reason es \<Longrightarrow> filter is_create_lb es = []"
  by (auto simp: only_warnings_def)

text \<open>A submission is the create and then anything but another.\<close>

lemma submit_session_create:
  assumes "submit_session rc cfg env svc req es r"
  obtains answer rest where "es = CreateExternalLoadBalancer req (CrusoeProjectID cfg) answer # rest"
    "filter is_create_lb rest = []"
  using assms polling_no_create warnings_no_create record_session_no_create
  by cases fastforce+

lemma reads_no_create: "reads_only es \<Longrightarrow> filter is_create_lb es = []"
  by (simp add: filter_empty_conv reads_only_harmless)

text \<open>A session with a create in it is a submission after reads that found nothing.\<close>

lemma create_session_create:
  assumes "create_session rc cfg env svc es r" and "CreateExternalLoadBalancer req p answer \<in> set es"
  obtains protocol e fresh reads name looked submitted rest where
    "DeriveLoadBalancerProtocol svc = Inr (postProtocol req)"
    "fresh_answer rc (object_key svc) e = Some fresh" "is_read e" "permits_create fresh" "topology_reads reads"
    "GenerateLoadBalancerResourceName (svcNamespace svc) (svcName svc) (svcUID svc) = Inr (postName req)"
    "lookup_session rc env (CrusoeProjectID cfg) (postName req) looked (Inr None)"
    "submit_session rc cfg env svc req submitted r" "es = e # reads @ looked @ submitted"
    "p = CrusoeProjectID cfg" "submitted = CreateExternalLoadBalancer req p answer # rest"
    "filter is_create_lb rest = []" "request_from cfg svc reads req"
proof -
  have no: "CreateExternalLoadBalancer req p answer \<notin> set xs" if "filter is_create_lb xs = []" for xs
    using that by (auto simp: filter_empty_conv)
  from assms(1) show thesis
  proof cases
    case (submitted protocol e fresh reads name looked req' xs)
    have "CreateExternalLoadBalancer req p answer \<in> set xs"
      using assms(2) submitted no [OF reads_no_create] lookup_session_reads [OF submitted(8)] by auto
    moreover obtain answer' rest where
      s: "xs = CreateExternalLoadBalancer req' (CrusoeProjectID cfg) answer' # rest"
      "filter is_create_lb rest = []"
      by (rule submit_session_create [OF submitted(11)])
    ultimately have "req' = req" "p = CrusoeProjectID cfg" "answer' = answer"
      using no [OF s(2)] by auto
    with submitted s show thesis by (intro that) auto
  next
    case (adopted protocol e fresh reads name looked lb protocol' xs)
    then show thesis
      using assms(2) no [OF reads_no_create] lookup_session_reads [OF adopted(8)]
        no [OF record_session_no_create [OF adopted(10)]] by auto
  next
    case (lookup_broken protocol e fresh reads name looked)
    then show thesis
      using assms(2) no [OF reads_no_create] lookup_session_reads [OF lookup_broken(9)] by auto
  qed (use assms(2) no [OF reads_no_create] no [OF warnings_no_create] in auto)
qed

section \<open>Properties\<close>

text \<open>
  C3. A load balancer is created at most once in a pass, and only after reading: the Service was
  read again, from the API server where there is a reader, and that read showed neither a
  recorded load balancer nor a deletion (or was forbidden), and the look-up by name, where there
  is one, listed no load balancer with the Service's name. The request carries that name, the
  protocol derived from the ports, listeners for the ports of that protocol over the nodes listed
  right before (none if the listing failed), and the VPC and the location of the subnet read.
\<close>

theorem lb_created_only_when_needed:
  assumes "run_state (handleCreate fuel rc cfg env svc) h = (r, h @ es)"
    and "CreateExternalLoadBalancer req p answer \<in> set es"
  shows "\<exists>before after.
    es = before @ CreateExternalLoadBalancer req p answer # after \<and> reads_only before \<and>
    filter is_create_lb after = [] \<and> p = CrusoeProjectID cfg \<and>
    DeriveLoadBalancerProtocol svc = Inr (postProtocol req) \<and>
    GenerateLoadBalancerResourceName (svcNamespace svc) (svcName svc) (svcUID svc) = Inr (postName req) \<and>
    (\<exists>e \<in> set before. \<exists>fresh. fresh_answer rc (object_key svc) e = Some fresh \<and> permits_create fresh) \<and>
    (case rLoadBalancerLookup rc of
       None \<Rightarrow> True
     | Some l \<Rightarrow> \<exists>e \<in> set before. \<exists>items. lookup_of env l p (postName req) e \<and> listing e = Some items \<and>
         filter (\<lambda>lb. elbName lb = postName req) items = []) \<and>
    (\<exists>e reads looked. before = e # reads @ looked \<and> request_from cfg svc reads req)"
  using emits_appendD [OF handleCreate_follows assms(1)] assms(2)
proof (rule create_session_create)
  fix protocol e fresh reads name looked submitted rest
  assume s: "DeriveLoadBalancerProtocol svc = Inr (postProtocol req)"
    "fresh_answer rc (object_key svc) e = Some fresh" "is_read e" "permits_create fresh" "topology_reads reads"
    "GenerateLoadBalancerResourceName (svcNamespace svc) (svcName svc) (svcUID svc) = Inr (postName req)"
    "lookup_session rc env (CrusoeProjectID cfg) (postName req) looked (Inr None)"
    "submit_session rc cfg env svc req submitted r" "es = e # reads @ looked @ submitted"
    "p = CrusoeProjectID cfg" "submitted = CreateExternalLoadBalancer req p answer # rest"
    "filter is_create_lb rest = []" "request_from cfg svc reads req"
  show ?thesis
    by (rule exI [of _ "e # reads @ looked"], rule exI [of _ rest])
      (use s lookup_session_reads [OF s(7)] in \<open>auto elim!: lookup_sessionE split: option.split\<close>)
qed

text \<open>
  C28. A refused create ends the pass, and is retried only if that can help: an error with an HTTP
  status from 400 to 499 is final (no error, no requeue), every other error is returned for a
  retry with backoff.
\<close>

theorem client_errors_not_retried:
  assumes "run_state (handleCreate fuel rc cfg env svc) h = (r, h @ es)"
    and "CreateExternalLoadBalancer req p (ApiErr msg resp) \<in> set es"
  shows "last es = CreateExternalLoadBalancer req p (ApiErr msg resp) \<and>
    (\<exists>err. r = Returned (empty_result, err) \<and>
       (err = None \<longleftrightarrow> (case resp of None \<Rightarrow> False | Some http \<Rightarrow> 400 \<le> StatusCode http \<and> StatusCode http \<le> 499)))"
  using emits_appendD [OF handleCreate_follows assms(1)] assms(2)
  by (rule create_session_create)
    (auto elim!: submit_sessionE simp: client_error_def split: option.splits if_splits)

text \<open>
  C10. A create that was accepted is never dropped silently: when the pass returns without an
  error, the operation of this very create has succeeded (as it was answered, or as it was last
  polled by its id in the project), its result decodes to a load balancer, and right after the polls
  that load balancer's id and the protocol of the request were written to the Service, and the API
  server took the write.
\<close>

theorem accepted_create_recorded:
  assumes "run_state (handleCreate fuel rc cfg env svc) h = (Returned (result, None), h @ es)"
    and "CreateExternalLoadBalancer req p (ApiOk resp op) \<in> set es"
    and "StatusCode resp = 200 \<or> StatusCode resp = 201"
  shows "\<exists>submitted polls settled lb written before after.
    op = Some submitted \<and> settled_by (CrusoeProjectID cfg) submitted polls settled \<and>
    opState settled = OpSuccess \<and>
    OpResultToItem (env_unmarshal_load_balancer env) (opResult settled) = Inr lb \<and>
    es = before @ CreateExternalLoadBalancer req p (ApiOk resp op) # polls @
      PatchService svc (marked_service svc (elbId lb) (postProtocol req)) (Inr written) # after"
  using emits_appendD [OF handleCreate_follows assms(1)] assms(2)
proof (rule create_session_create)
  fix protocol e fresh reads name looked submitted rest
  assume s: "submit_session rc cfg env svc req submitted (Returned (result, None))"
    "es = e # reads @ looked @ submitted" "p = CrusoeProjectID cfg"
    "submitted = CreateExternalLoadBalancer req p (ApiOk resp op) # rest"
  from s(1) show ?thesis
  proof cases
    case (created_lb resp' polls op'' op' lb rest')
    from created_lb(7) obtain written after where
      "rest' = PatchService svc (marked_service svc (elbId lb) (postProtocol req)) (Inr written) # after"
      by (auto elim!: record_sessionE)
    with created_lb s(2-4) show ?thesis
      by (intro exI [of _ op''] exI [of _ polls] exI [of _ op'] exI [of _ lb] exI [of _ written]
          exI [of _ "e # reads @ looked"] exI [of _ after]) simp
  qed (use s(4) assms(3) in \<open>auto simp: accepted_status_def split: if_splits\<close>)
qed

text \<open>Where a look-up can occur in a session.\<close>

definition is_lookup :: "event \<Rightarrow> bool" where
  "is_lookup e = (case e of HTTPDo _ _ \<Rightarrow> True | _ \<Rightarrow> False)"

lemma lookup_of_is_lookup: "lookup_of env l projectID name e \<Longrightarrow> is_lookup e"
  by (auto simp: lookup_of_def is_lookup_def split: event.splits)

lemma record_event_no_lookup: "is_record_event e \<Longrightarrow> \<not> is_lookup e"
  by (cases e) (simp_all add: is_lookup_def)

lemma topology_read_no_lookup: "is_topology_read e \<Longrightarrow> \<not> is_lookup e"
  by (cases e) (simp_all add: is_lookup_def)

lemma lb_poll_no_lookup: "is_lb_poll e \<Longrightarrow> \<not> is_lookup e"
  by (cases e) (simp_all add: is_lookup_def)

lemma no_lookup_in:
  "topology_reads es \<Longrightarrow> \<forall>e \<in> set es. \<not> is_lookup e"
  "polling es \<Longrightarrow> \<forall>e \<in> set es. \<not> is_lookup e"
  "only_warnings svc reason es \<Longrightarrow> \<forall>e \<in> set es. \<not> is_lookup e"
  "record_session cfg env svc lb protocol es r \<Longrightarrow> \<forall>e \<in> set es. \<not> is_lookup e"
  using topology_read_no_lookup lb_poll_no_lookup
  by (auto simp: topology_reads_def polling_def only_warnings_def is_lookup_def
      dest!: record_event_no_lookup [OF record_session_events])

lemma submit_session_no_lookup:
  assumes "submit_session rc cfg env svc req es r"
  shows "\<forall>e \<in> set es. \<not> is_lookup e"
  using assms no_lookup_in by cases (fastforce simp: is_lookup_def)+

lemma fresh_answer_no_lookup: "fresh_answer rc key e = Some answer \<Longrightarrow> \<not> is_lookup e"
  by (auto simp: fresh_answer_def is_lookup_def split: event.splits)

text \<open>
  C9. A load balancer that the look-up lists under the Service's name is adopted, never
  duplicated: the pass creates none, and what it records on the Service is the id of the first
  one listed, with the protocol that one has, or the derived one if it reports none that is
  known.
\<close>

theorem existing_lb_adopted:
  assumes "run_state (handleCreate fuel rc cfg env svc) h = (r, h @ es)"
    and "rLoadBalancerLookup rc = Some l" and "e \<in> set es"
    and "GenerateLoadBalancerResourceName (svcNamespace svc) (svcName svc) (svcUID svc) = Inr name"
    and "lookup_of env l (CrusoeProjectID cfg) name e" and "listing e = Some items"
    and "filter (\<lambda>lb. elbName lb = name) items = lb # others"
  shows "filter is_create_lb es = [] \<and>
    (\<exists>derived answer. DeriveLoadBalancerProtocol svc = Inr derived \<and>
       PatchService svc (marked_service svc (elbId lb)
         (if isKnownLoadBalancerProtocol (elbProtocol lb) then elbProtocol lb else derived)) answer \<in> set es)"
proof -
  note lookup = lookup_of_is_lookup [OF assms(5)]
  from emits_appendD [OF handleCreate_follows assms(1)] show ?thesis
  proof cases
    case (rejected err)
    then show ?thesis using no_lookup_in(3) lookup assms(3) by blast
  next
    case (not_fresh protocol e' answer result)
    then show ?thesis using fresh_answer_no_lookup lookup assms(3) by auto
  next
    case (unprepared protocol e' answer reads err)
    then show ?thesis using fresh_answer_no_lookup no_lookup_in(1) lookup assms(3) by auto
  next
    case (lookup_broken protocol e' answer reads name' looked err err')
    then have "e \<in> set looked" using fresh_answer_no_lookup no_lookup_in(1) lookup assms(3) by auto
    with lookup_broken(9) assms(6) show ?thesis by (auto elim!: lookup_sessionE)
  next
    case (adopted protocol e' answer reads name' looked lb' protocol' es')
    then have "e \<in> set looked"
      using fresh_answer_no_lookup no_lookup_in(1,4) lookup assms(3) by (metis Un_iff set_ConsD set_append)
    with adopted(7,8) assms(4,6,7) have lb': "lb' = lb" by (auto elim!: lookup_sessionE)
    have "filter is_create_lb es = []"
      using reads_no_create [OF topology_reads_only [OF adopted(6)]] reads_no_create [OF lookup_session_reads [OF adopted(8)]]
        record_session_no_create [OF adopted(10)] is_read_harmless [OF adopted(4)] adopted(1)
      by (simp add: event_class)
    moreover from adopted(10) obtain answer where
      "PatchService svc (marked_service svc (elbId lb) protocol') answer \<in> set es'"
      unfolding lb' using record_session_patch by (metis list.set_intros(1))
    ultimately show ?thesis using adopted(1,2,9) lb' by auto
  next
    case (submitted protocol e' answer reads name' looked req es')
    then have "e \<in> set looked"
      using fresh_answer_no_lookup no_lookup_in(1) submit_session_no_lookup lookup assms(3)
      by (metis Un_iff set_ConsD set_append)
    with submitted(7,8) assms(4,6,7) show ?thesis by (auto elim!: lookup_sessionE)
  qed
qed

text \<open>The patch that records an id, and what must not come before it.\<close>

definition id_recorded :: "service \<Rightarrow> event \<Rightarrow> bool" where
  "id_recorded svc e =
     (case e of
        PatchService orig modified (Inr _) \<Rightarrow>
          orig = svc \<and> svcAnnotations modified loadbalancerIDLabelKey \<noteq> None
      | _ \<Rightarrow> False)"

definition builds_on_lb :: "event \<Rightarrow> bool" where
  "builds_on_lb e = (is_status_patch e \<or> is_create_rule e \<or> is_patch_rule e \<or> is_delete_rule e)"

lemma marked_service_id [simp]:
  "svcAnnotations (marked_service svc ident protocol) loadbalancerIDLabelKey = Some ident"
  "svcAnnotations (marked_service svc ident protocol) AnnotationLoadBalancerProtocol = Some protocol"
  by (simp_all add: marked_service_def)

lemma record_session_order:
  "record_session cfg env svc lb protocol es r \<Longrightarrow> preceded_by (id_recorded svc) builds_on_lb es"
  by (auto elim!: record_sessionE simp: id_recorded_def builds_on_lb_def)

lemma reads_order: "reads_only es \<Longrightarrow> preceded_by Q builds_on_lb es"
  by (rule preceded_by_none) (simp add: builds_on_lb_def reads_only_harmless)

lemma lb_poll_order: "is_lb_poll e \<Longrightarrow> \<not> builds_on_lb e"
  by (cases e) (simp_all add: builds_on_lb_def)

lemma polling_order: "polling es \<Longrightarrow> preceded_by Q builds_on_lb es"
  using lb_poll_order by (intro preceded_by_none) (auto simp: polling_def builds_on_lb_def)

lemma warnings_order: "only_warnings svc reason es \<Longrightarrow> preceded_by Q builds_on_lb es"
  by (auto simp: only_warnings_def builds_on_lb_def)

lemma submit_session_order:
  assumes "submit_session rc cfg env svc req es r"
  shows "preceded_by (id_recorded svc) builds_on_lb es"
  using assms polling_order warnings_order record_session_order
  by cases (fastforce simp: builds_on_lb_def preceded_by_append)+

text \<open>
  C11. Nothing is built on a load balancer whose id is not safely on the Service: in every pass
  of \<open>handleCreate\<close>, the status patch with the external IP and every change to a firewall rule
  come after a patch that recorded a load balancer's id and that the API server accepted.
\<close>

theorem id_recorded_first:
  assumes "run_state (handleCreate fuel rc cfg env svc) h = (r, h @ es)"
  shows "preceded_by (id_recorded svc) builds_on_lb es"
proof -
  have read: "\<not> builds_on_lb e" if "is_read e" for e
    using reads_order [of "[e]"] that by simp
  from emits_appendD [OF handleCreate_follows assms] show ?thesis
    by cases
      (use read reads_order warnings_order lookup_session_reads topology_reads_only record_session_order
        submit_session_order in \<open>simp_all add: preceded_by_append\<close>)
qed

text \<open>
  A Service whose ports no load balancer can serve is turned down without touching the cloud
  or the cluster and without a retry: the pass only emits a warning event on it.
\<close>

theorem unservable_service_rejected:
  assumes "DeriveLoadBalancerProtocol svc = Inl err"
  shows "run_state (handleCreate fuel rc cfg env svc) h =
    (Returned (empty_result, None),
     h @ (if rHasRecorder rc
          then [RecordWarning (object_key svc) EventReasonUnsupportedPortProtocol (rejected_message err)] else []))"
  using assms by (simp add: handleCreate_def recordWarning_def call_defs)

section \<open>Witnesses\<close>

definition test_lb :: external_load_balancer where
  "test_lb = \<lparr>elbId = ''lb'', elbName = test_name, elbVip = ''1.2.3.4'', elbProtocol = LoadBalancerProtocolTCP\<rparr>"

definition list_answer :: "external_load_balancer list \<Rightarrow> list_response" where
  "list_answer items = \<lparr>listStatusCode = 200, listStatus = ''200 OK'', listBody = Inr items\<rparr>"

text \<open>
  A world with one node, in which the look-up lists \<open>items\<close>, a create is answered with \<open>answer\<close>,
  every write is accepted, and the cached Service is \<open>cached\<close> of the history.
\<close>

definition lb_world ::
    "(event list \<Rightarrow> service) \<Rightarrow> external_load_balancer list \<Rightarrow> operation option api_result \<Rightarrow> env" where
  "lb_world cached items answer = rule_env
     \<lparr>env_get_service := (\<lambda>h _. Inr (cached h)),
      env_reader_get_service := (\<lambda>_ _. Inr test_svc),
      env_http_do := (\<lambda>_ _. Inr (list_answer items)),
      env_create_lb := (\<lambda>_ _ _. answer),
      env_delete_lb := (\<lambda>_ _ _. (Some ok_response, None)),
      env_unmarshal_load_balancer := (\<lambda>_. Some test_lb),
      env_update_service := (\<lambda>_ svc. Inr svc),
      env_patch_service := (\<lambda>_ _ svc. Inr svc),
      env_patch_service_status := (\<lambda>_ _ svc. Inr svc)\<rparr>"

abbreviation lb_env :: "external_load_balancer list \<Rightarrow> operation option api_result \<Rightarrow> env" where
  "lb_env \<equiv> lb_world (\<lambda>_. test_svc)"

lemma lb_world_answers [simp]:
  "env_get_service (lb_world cached items answer) h key = Inr (cached h)"
  "env_reader_get_service (lb_world cached items answer) h key = Inr test_svc"
  "env_http_do (lb_world cached items answer) h req = Inr (list_answer items)"
  "env_create_lb (lb_world cached items answer) h post p = answer"
  "env_delete_lb (lb_world cached items answer) h p ident = (Some ok_response, None)"
  "env_unmarshal_load_balancer (lb_world cached items answer) s = Some test_lb"
  "env_update_service (lb_world cached items answer) h svc = Inr svc"
  "env_patch_service (lb_world cached items answer) h orig svc = Inr svc"
  "env_patch_service_status (lb_world cached items answer) h orig svc = Inr svc"
  "env_list_nodes (lb_world cached items answer) h = Inr [plain_node ''a'' True ''10.0.0.1'']"
  "env_get_subnet (lb_world cached items answer) h a b =
     ApiOk ok_response \<lparr>subnetVpcNetworkId = ''vpc'', subnetLocation = ''loc''\<rparr>"
  "env_url_JoinPath (lb_world cached items answer) base parts = Inr base"
  "env_NewRequest (lb_world cached items answer) url = None"
  "env_ContainsFinalizer (lb_world cached items answer) svc f = (f \<in> set (svcFinalizers svc))"
  "env_RemoveFinalizer (lb_world cached items answer) svc f =
     svc\<lparr>svcFinalizers := filter (\<lambda>g. g \<noteq> f) (svcFinalizers svc)\<rparr>"
  by (simp_all add: lb_world_def rule_env_def nodes_env_def offline_env_def)

definition lookup_event :: "external_load_balancer list \<Rightarrow> event" where
  "lookup_event items = HTTPDo
     \<lparr>reqURL = ''https://api?'' @ Values_Encode1 ''name'' test_name, reqAccept = ''application/json'',
      reqUserAgent = Some ''agent''\<rparr> (Inr (list_answer items))"

definition prepare_events :: "external_load_balancer list \<Rightarrow> event list" where
  "prepare_events items =
     [ReaderGetService (object_key test_svc) (Inr test_svc),
      ListNodes (Inr [plain_node ''a'' True ''10.0.0.1'']),
      GetVPCSubnet ''project'' ''subnet''
        (ApiOk ok_response \<lparr>subnetVpcNetworkId = ''vpc'', subnetLocation = ''loc''\<rparr>),
      lookup_event items]"

definition test_post :: external_load_balancer_post_request where
  "test_post =
     \<lparr>postVpcId = ''vpc'', postName = test_name, postLocation = ''loc'', postProtocol = LoadBalancerProtocolTCP,
      postListenPortsAndBackends = listeners [''10.0.0.1''] [tcp_port], postHealthCheckOptions = None\<rparr>"

definition record_events :: "event list" where
  "record_events =
     (let marked = marked_service test_svc ''lb'' LoadBalancerProtocolTCP
      in [PatchService test_svc marked (Inr marked),
          PatchServiceStatus marked (with_ip ''1.2.3.4'' marked) (Inr (with_ip ''1.2.3.4'' marked))])"

lemma derive_test_svc [simp]: "DeriveLoadBalancerProtocol test_svc = Inr LoadBalancerProtocolTCP"
  by (simp add: DeriveLoadBalancerProtocol_def tcp_port_def effectivePortProtocol_def ProtocolTCP_def)

lemma test_svc_facts [simp]:
  "servicePortsForProtocol [tcp_port] LoadBalancerProtocolTCP = [tcp_port]"
  "DeletionTimestamp_IsZero test_svc" "backendIPs [plain_node ''a'' True ''10.0.0.1''] = [''10.0.0.1'']"
  "ParseHealthCheckOptionsFromAnnotations Map.empty = None"
  "\<not> rule_managed (with_ip vip (marked_service test_svc ident protocol))"
  by (simp_all add: servicePortsForProtocol_def tcp_port_def effectivePortProtocol_def ProtocolTCP_def
      DeletionTimestamp_IsZero_def backendIPs_def ParseHealthCheckOptionsFromAnnotations_def
      health_annotation_def rule_managed_def with_ip_def marked_service_def)

lemma witness_facts [simp]:
  "spNodePort tcp_port \<noteq> 0"
  "listStatusCode (list_answer items) = 200" "listBody (list_answer items) = Inr items"
  "elbName test_lb = test_name" "elbVip test_lb = ''1.2.3.4''" "elbId test_lb = ''lb''"
  "elbProtocol test_lb = LoadBalancerProtocolTCP" "isKnownLoadBalancerProtocol LoadBalancerProtocolTCP"
  "StatusCode ok_response = 200" "opState (test_op state) = state" "opResult (test_op state) = None"
  by (simp_all add: tcp_port_def list_answer_def test_lb_def ok_response_def test_op_def
      isKnownLoadBalancerProtocol_def)

lemma test_reconciler_facts [simp]:
  "rHasAPIReader test_reconciler" "rHasRecorder test_reconciler"
  "rLoadBalancerLookup test_reconciler =
     Some \<lparr>lookupBasePath = ''https://api'', lookupUserAgent = ''agent''\<rparr>"
  "CrusoeProjectID test_config = ''project''" "CrusoeSubnetID test_config = ''subnet''"
  by (simp_all add: test_reconciler_def test_config_def)

lemma wait_settled [simp]:
  "WaitForOperation fuel env g (Some (test_op OpSuccess)) projectID =
     State_Monad.return (Returned (Inr (test_op OpSuccess)))"
  by (cases fuel) (simp_all add: WaitForOperation_def)

lemma create_settled_test [simp]:
  "create_settled rc cfg (lb_world cached items answer) svc protocol (test_op OpSuccess) =
     recordLoadBalancer cfg (lb_world cached items answer) svc test_lb protocol"
  by (simp add: create_settled_def OpResultToItem_def)

lemma run_record_test [simp]:
  "run_state (recordLoadBalancer cfg (lb_world cached items answer) test_svc test_lb LoadBalancerProtocolTCP) h =
     (Returned (requeue_after 0, None), h @ record_events)"
proof -
  have "ensureFirewallRule cfg env (with_ip vip (marked_service test_svc ident protocol)) =
      State_Monad.return (Returned (with_ip vip (marked_service test_svc ident protocol), 0, None))"
    for cfg env vip ident protocol
    by (simp add: ensureFirewallRule_def)
  then show ?thesis
    by (simp add: recordLoadBalancer_def patch_service_def setLoadBalancerIngress_def call_defs Let_def
        record_events_def marked_service_def [symmetric] with_ip_def [symmetric])
qed

text \<open>The run up to the look-up, in both environments.\<close>

lemmas run_prepares =
  handleCreate_def create_or_adopt_def cachedServiceIsStale_def fresh_get_def parseListenPortsAndBackends_def
  getVPCAndLocationInfo_def getVPCInfoForSelfManagedCluster_def isSubnetIDProvided_def
  findExistingLoadBalancer_def lookup_ByName_def lookup_request_def prepare_events_def lookup_event_def
  call_defs Let_def

lemma run_handleCreate_submits:
  "run_state (handleCreate fuel test_reconciler test_config (lb_world cached [] answer) test_svc) h =
     run_state (create_submit fuel test_reconciler test_config (lb_world cached [] answer) test_svc test_post)
       (h @ prepare_events [])"
  by (simp add: run_prepares test_post_def)

lemma run_handleCreate_creates:
  "run_state (handleCreate 0 test_reconciler test_config
      (lb_world cached [] (ApiOk ok_response (Some (test_op OpSuccess)))) test_svc) h =
     (Returned (requeue_after 0, None),
      h @ prepare_events [] @
      CreateExternalLoadBalancer test_post ''project'' (ApiOk ok_response (Some (test_op OpSuccess))) # record_events)"
  by (simp add: run_handleCreate_submits create_submit_def call_defs test_post_def)

lemma run_handleCreate_refused:
  "run_state (handleCreate 0 test_reconciler test_config
      (lb_env [] (ApiErr msg (Some (status_response 400)))) test_svc) h =
     (Returned (empty_result, None),
      h @ prepare_events [] @
      [CreateExternalLoadBalancer test_post ''project'' (ApiErr msg (Some (status_response 400)))])"
  by (simp add: run_handleCreate_submits create_submit_def call_defs client_error_def status_response_def)

lemma run_handleCreate_adopts:
  "run_state (handleCreate fuel test_reconciler test_config (lb_env [test_lb] answer) test_svc) h =
     (Returned (requeue_after 0, None), h @ prepare_events [test_lb] @ record_events)"
  by (simp add: run_prepares)

text \<open>The witnesses of the properties above.\<close>

theorem lb_created_only_when_needed_witness:
  "DeriveLoadBalancerProtocol test_svc = Inr (postProtocol test_post)"
proof -
  have "CreateExternalLoadBalancer test_post ''project'' (ApiOk ok_response (Some (test_op OpSuccess)))
      \<in> set (prepare_events [] @
        CreateExternalLoadBalancer test_post ''project'' (ApiOk ok_response (Some (test_op OpSuccess))) # record_events)"
    by simp
  from lb_created_only_when_needed [OF run_handleCreate_creates this] show ?thesis by blast
qed

theorem client_errors_not_retried_witness:
  "\<exists>err. (Returned (empty_result, None) :: reconcile_result outcome) = Returned (empty_result, err) \<and> err = None"
proof -
  let ?refused = "CreateExternalLoadBalancer test_post ''project'' (ApiErr ''bad'' (Some (status_response 400)))"
  have "?refused \<in> set (prepare_events [] @ [?refused])" by simp
  from client_errors_not_retried [OF run_handleCreate_refused this] show ?thesis
    by (simp add: status_response_def)
qed

theorem accepted_create_recorded_witness:
  "\<exists>polls settled lb written. settled_by ''project'' (test_op OpSuccess) polls settled \<and>
     opState settled = OpSuccess \<and> OpResultToItem (\<lambda>_. Some test_lb) (opResult settled) = Inr lb \<and>
     PatchService test_svc (marked_service test_svc (elbId lb) LoadBalancerProtocolTCP) (Inr written)
       \<in> set record_events"
proof -
  let ?created = "CreateExternalLoadBalancer test_post ''project'' (ApiOk ok_response (Some (test_op OpSuccess)))"
  let ?es = "prepare_events [] @ ?created # record_events"
  have "?created \<in> set ?es" by simp
  from accepted_create_recorded [OF run_handleCreate_creates [unfolded requeue_after_def] this]
  obtain polls settled lb written before after where
    s: "settled_by ''project'' (test_op OpSuccess) polls settled" "opState settled = OpSuccess"
      "OpResultToItem (\<lambda>_. Some test_lb) (opResult settled) = Inr lb"
      "?es = before @ ?created # polls @
         PatchService test_svc (marked_service test_svc (elbId lb) LoadBalancerProtocolTCP) (Inr written) # after"
    by (auto simp: OpResultToItem_def test_post_def)
  have "PatchService test_svc (marked_service test_svc (elbId lb) LoadBalancerProtocolTCP) (Inr written) \<in> set ?es"
    unfolding s(4) by simp
  then show ?thesis using s(1-3) by (auto simp: prepare_events_def lookup_event_def)
qed

theorem existing_lb_adopted_witness:
  "filter is_create_lb (prepare_events [test_lb] @ record_events) = [] \<and>
   (\<exists>derived answer. DeriveLoadBalancerProtocol test_svc = Inr derived \<and>
      PatchService test_svc (marked_service test_svc ''lb'' LoadBalancerProtocolTCP) answer
        \<in> set (prepare_events [test_lb] @ record_events))"
proof -
  let ?es = "prepare_events [test_lb] @ record_events"
  have looked: "lookup_event [test_lb] \<in> set ?es" "listing (lookup_event [test_lb]) = Some [test_lb]"
    "lookup_of (lb_env [test_lb] answer) \<lparr>lookupBasePath = ''https://api'', lookupUserAgent = ''agent''\<rparr>
       (CrusoeProjectID test_config) test_name (lookup_event [test_lb])" for answer
    by (simp_all add: prepare_events_def listing_def lookup_of_def lookup_event_def name_query)
  have named: "GenerateLoadBalancerResourceName (svcNamespace test_svc) (svcName test_svc) (svcUID test_svc)
      = Inr test_name" by simp
  show ?thesis
    using existing_lb_adopted [OF run_handleCreate_adopts _ looked(1) named looked(3,2), of _ "[]"] by simp
qed

theorem id_recorded_first_witness:
  "preceded_by (id_recorded test_svc) builds_on_lb (prepare_events [test_lb] @ record_events)"
  by (rule id_recorded_first [OF run_handleCreate_adopts])

definition mixed_svc :: service where
  "mixed_svc = test_svc\<lparr>svcPorts := [tcp_port, tcp_port\<lparr>spProtocol := ''UDP''\<rparr>]\<rparr>"

theorem unservable_service_rejected_witness:
  "\<exists>message. run_state (handleCreate 0 test_reconciler test_config offline_env mixed_svc) [] =
     (Returned (empty_result, None),
      [RecordWarning (object_key mixed_svc) EventReasonUnsupportedPortProtocol message])"
proof -
  have "\<exists>err. DeriveLoadBalancerProtocol mixed_svc = Inl err"
    by (simp add: DeriveLoadBalancerProtocol_def mixed_svc_def effectivePortProtocol_def)
      (simp add: tcp_port_def ProtocolTCP_def ProtocolUDP_def)
  then obtain err where "DeriveLoadBalancerProtocol mixed_svc = Inl err" ..
  from unservable_service_rejected [OF this] show ?thesis by simp
qed

end
