(* ===== verification/UpdateSafety.thy ===== *)
theory UpdateSafety
  imports CreateSafety
begin

text \<open>
  What \<open>updateLoadBalancer\<close> and \<open>ensureLoadBalancerIngress\<close> promise, the two steps of an update
  that concern the load balancer. Their conversations are specified by \<open>update_session\<close> and
  \<open>ingress_session\<close>, the code is shown to follow them, and the properties are read off.
\<close>

section \<open>The conversations of an update\<close>

text \<open>The ports a load balancer serves: all of them, unless it records a protocol.\<close>

definition served_ports :: "service \<Rightarrow> service_port list" where
  "served_ports svc =
     (let lbProtocol = annotation svc AnnotationLoadBalancerProtocol
      in if isKnownLoadBalancerProtocol lbProtocol then servicePortsForProtocol (svcPorts svc) lbProtocol
         else svcPorts svc)"

definition update_request :: "service \<Rightarrow> kube_error + node list \<Rightarrow> external_load_balancer_patch_request" where
  "update_request svc nodes =
     \<lparr>patchId = annotation svc loadbalancerIDLabelKey,
      patchHealthCheckOptions = ParseHealthCheckOptionsFromAnnotations (svcAnnotations svc),
      patchListenPortsAndBackends =
        (case nodes of Inl _ \<Rightarrow> [] | Inr nodes \<Rightarrow> listeners (backendIPs nodes) (served_ports svc))\<rparr>"

definition update_outcome :: "unit api_result \<Rightarrow> go_error option" where
  "update_outcome answer =
     (case answer of
        ApiErr err _ \<Rightarrow> Some (ExternalError err)
      | ApiOk resp _ \<Rightarrow>
          (if StatusCode resp < 200 \<or> StatusCode resp \<ge> 300
           then Some (update_status_error (StatusCode resp)) else None))"

text \<open>Every port has been edited away from the recorded protocol.\<close>

definition nothing_served :: "service \<Rightarrow> bool" where
  "nothing_served svc \<longleftrightarrow>
     isKnownLoadBalancerProtocol (annotation svc AnnotationLoadBalancerProtocol) \<and>
     served_ports svc = [] \<and> svcPorts svc \<noteq> []"

inductive update_session ::
    "config \<Rightarrow> service \<Rightarrow> event list \<Rightarrow> go_error option \<Rightarrow> bool" for cfg svc where
  left_alone:
    "nothing_served svc \<Longrightarrow> only_warnings svc EventReasonProtocolDrift warnings \<Longrightarrow>
     update_session cfg svc warnings None"
| pushed:
    "\<not> nothing_served svc \<Longrightarrow> only_warnings svc EventReasonProtocolDrift warnings \<Longrightarrow>
     req = update_request svc nodes \<Longrightarrow> err = update_outcome answer \<Longrightarrow>
     update_session cfg svc
       (warnings @ [ListNodes nodes, UpdateExternalLoadBalancer req (CrusoeProjectID cfg) (patchId req) answer]) err"

inductive ingress_session ::
    "config \<Rightarrow> service \<Rightarrow> event list \<Rightarrow> service \<times> duration \<Rightarrow> bool" for cfg svc where
  ip_present: "svcIngress svc \<noteq> [] \<Longrightarrow> ingress_session cfg svc [] (svc, 0)"
| lb_unreadable:
    "svcIngress svc = [] \<Longrightarrow>
     ingress_session cfg svc
       [GetExternalLoadBalancer (CrusoeProjectID cfg) (annotation svc loadbalancerIDLabelKey) (ApiErr err resp)]
       (svc, loadBalancerIngressRequeueInterval)"
| vip_unassigned:
    "svcIngress svc = [] \<Longrightarrow> elbVip lb = '''' \<Longrightarrow>
     ingress_session cfg svc
       [GetExternalLoadBalancer (CrusoeProjectID cfg) (annotation svc loadbalancerIDLabelKey) (ApiOk resp lb)]
       (svc, loadBalancerIngressRequeueInterval)"
| ip_restored:
    "svcIngress svc = [] \<Longrightarrow> elbVip (lb :: external_load_balancer) = vip \<Longrightarrow> vip \<noteq> '''' \<Longrightarrow>
     r = (case patched of Inl _ \<Rightarrow> (with_ip vip svc, loadBalancerIngressRequeueInterval)
          | Inr svc' \<Rightarrow> (svc', 0)) \<Longrightarrow>
     ingress_session cfg svc
       [GetExternalLoadBalancer (CrusoeProjectID cfg) (annotation svc loadbalancerIDLabelKey) (ApiOk resp lb),
        PatchServiceStatus svc (with_ip vip svc) patched] r"

inductive_cases update_sessionE: "update_session cfg svc es err"
inductive_cases ingress_sessionE: "ingress_session cfg svc es r"

lemma ensureLoadBalancerIngress_follows:
  "emits (ensureLoadBalancerIngress cfg env svc) (\<lambda>r es. ingress_session cfg svc es r) h"
  unfolding emits_def ensureLoadBalancerIngress_def setLoadBalancerIngress_def
  by (auto simp: wp call_defs Let_def with_ip_def [symmetric] split: api_result.split sum.split
      intro!: ip_present lb_unreadable vip_unassigned ip_restored)

definition drift_warning :: "reconciler \<Rightarrow> service \<Rightarrow> unit prog" where
  "drift_warning rc svc =
     (if isKnownLoadBalancerProtocol (annotation svc AnnotationLoadBalancerProtocol)
      then warnOnProtocolDrift rc svc (annotation svc AnnotationLoadBalancerProtocol)
      else State_Monad.return ())"

lemma drift_warning_emits:
  "emits (drift_warning rc svc) (\<lambda>_ es. only_warnings svc EventReasonProtocolDrift es) h"
  using warnOnProtocolDrift_emits by (auto simp: emits_def drift_warning_def wp only_warnings_def)

text \<open>\<open>updateLoadBalancer\<close> in terms of the ports served.\<close>

lemma updateLoadBalancer_eq:
  "updateLoadBalancer rc cfg env svc = do {
      _ \<leftarrow> drift_warning rc svc;
      if nothing_served svc then State_Monad.return None
      else do {
        ls \<leftarrow> parseListenPortsAndBackends env (served_ports svc);
        answer \<leftarrow> call_UpdateExternalLoadBalancer env
          \<lparr>patchId = annotation svc loadbalancerIDLabelKey,
           patchHealthCheckOptions = ParseHealthCheckOptionsFromAnnotations (svcAnnotations svc),
           patchListenPortsAndBackends = ls\<rparr> (CrusoeProjectID cfg) (annotation svc loadbalancerIDLabelKey);
        State_Monad.return (update_outcome answer)
      }}"
  by (cases "isKnownLoadBalancerProtocol (annotation svc AnnotationLoadBalancerProtocol)")
    (simp_all add: updateLoadBalancer_def drift_warning_def nothing_served_def served_ports_def
      update_outcome_def Let_def)

lemma updateLoadBalancer_follows:
  "emits (updateLoadBalancer rc cfg env svc) (\<lambda>err es. update_session cfg svc es err) h"
  unfolding emits_def updateLoadBalancer_eq
  by (auto simp: wp call_defs
      intro!: wp_emits [OF drift_warning_emits] wp_emits [OF parseListenPortsAndBackends_emits]
        left_alone pushed [OF _ _ refl refl, unfolded update_request_def, simplified])

section \<open>Properties\<close>

text \<open>
  C21. What an update sends. It goes to the load balancer recorded on the Service, after one listing
  of the nodes, and its listeners are those of the served ports over the backends listed (none if the
  listing failed). For a load balancer that records a protocol, the served ports are the Service's
  ports of that protocol, and there is at least one unless the Service has no port at all: where every
  port was edited away from the protocol nothing is sent. A legacy load balancer, which records no
  protocol that is known, keeps getting every port of the Service as a listener.
\<close>

theorem update_sends_served_ports:
  assumes "run_state (updateLoadBalancer rc cfg env svc) h = (err, h @ es)"
    and "UpdateExternalLoadBalancer req p ident answer \<in> set es"
  shows "p = CrusoeProjectID cfg \<and> ident = annotation svc loadbalancerIDLabelKey \<and> patchId req = ident \<and>
    (\<exists>nodes. ListNodes nodes \<in> set es \<and>
       patchListenPortsAndBackends req =
         (case nodes of Inl _ \<Rightarrow> [] | Inr ns \<Rightarrow> listeners (backendIPs ns) (served_ports svc))) \<and>
    (if isKnownLoadBalancerProtocol (annotation svc AnnotationLoadBalancerProtocol)
     then (svcPorts svc \<noteq> [] \<longrightarrow> served_ports svc \<noteq> []) \<and>
       served_ports svc = filter (\<lambda>port. effectivePortProtocol port =
          (if annotation svc AnnotationLoadBalancerProtocol = LoadBalancerProtocolUDP
           then ProtocolUDP else ProtocolTCP)) (svcPorts svc)
     else served_ports svc = svcPorts svc)"
  using emits_appendD [OF updateLoadBalancer_follows assms(1)]
proof cases
  case (pushed warnings req' nodes answer')
  have known: "served_ports svc = filter (\<lambda>port. effectivePortProtocol port =
      (if annotation svc AnnotationLoadBalancerProtocol = LoadBalancerProtocolUDP
       then ProtocolUDP else ProtocolTCP)) (svcPorts svc)" "svcPorts svc \<noteq> [] \<longrightarrow> served_ports svc \<noteq> []"
    if "isKnownLoadBalancerProtocol (annotation svc AnnotationLoadBalancerProtocol)"
  proof -
    show "svcPorts svc \<noteq> [] \<longrightarrow> served_ports svc \<noteq> []"
      using that pushed(2) by (auto simp: nothing_served_def)
  qed (use that in \<open>simp add: served_ports_def servicePortsForProtocol_def Let_def\<close>)
  have legacy: "served_ports svc = svcPorts svc"
    if "\<not> isKnownLoadBalancerProtocol (annotation svc AnnotationLoadBalancerProtocol)"
    using that by (simp add: served_ports_def Let_def)
  have sent: "req = update_request svc nodes" "p = CrusoeProjectID cfg" "ident = patchId req"
    using assms(2) pushed(1,3) pushed(4) by (auto simp: only_warnings_def)
  then have to: "p = CrusoeProjectID cfg \<and> ident = annotation svc loadbalancerIDLabelKey \<and> patchId req = ident"
    by (simp add: update_request_def)
  have "ListNodes nodes \<in> set es" using pushed(1) by simp
  then have listed: "\<exists>nodes. ListNodes nodes \<in> set es \<and> patchListenPortsAndBackends req =
      (case nodes of Inl _ \<Rightarrow> [] | Inr ns \<Rightarrow> listeners (backendIPs ns) (served_ports svc))"
    unfolding sent(1) update_request_def by auto
  show ?thesis
  proof (cases "isKnownLoadBalancerProtocol (annotation svc AnnotationLoadBalancerProtocol)")
    case True
    show ?thesis unfolding if_P [OF True] using to listed known [OF True] by blast
  next
    case False
    show ?thesis unfolding if_not_P [OF False] using to listed legacy [OF False] by blast
  qed
qed (use assms(2) in \<open>auto simp: only_warnings_def\<close>)

text \<open>
  C22. When every port has been edited away from the load balancer's protocol, the update leaves
  the load balancer as it is: it reports success, reads and changes nothing, and says so in
  exactly one warning event where there is a recorder.
\<close>

theorem drifted_ports_leave_lb_unchanged:
  assumes "isKnownLoadBalancerProtocol (annotation svc AnnotationLoadBalancerProtocol)"
    and "\<forall>port \<in> set (svcPorts svc). effectivePortProtocol port \<noteq>
      (if annotation svc AnnotationLoadBalancerProtocol = LoadBalancerProtocolUDP then ProtocolUDP else ProtocolTCP)"
    and "svcPorts svc \<noteq> []"
  shows "\<exists>message. run_state (updateLoadBalancer rc cfg env svc) h =
    (None, h @ (if rHasRecorder rc
                then [RecordWarning (object_key svc) EventReasonProtocolDrift message] else []))"
proof -
  let ?p = "annotation svc AnnotationLoadBalancerProtocol"
  have none: "servicePortsForProtocol (svcPorts svc) ?p = []"
    using assms(2) by (auto simp: servicePortsForProtocol_def Let_def filter_empty_conv)
  then have "DeriveLoadBalancerProtocol svc \<noteq> Inr ?p"
    using assms(3) servicePortsForProtocol_derived by auto
  with none assms(1,3) show ?thesis
    by (auto simp: updateLoadBalancer_eq drift_warning_def nothing_served_def served_ports_def
        warnOnProtocolDrift_def recordWarning_def call_defs split: sum.split)
qed

text \<open>
  C29. Restoring the external IP, exactly. A Service that has one is left alone, without a read.
  Otherwise the load balancer recorded on the Service is read once. If it reports a VIP, that VIP is
  published, in one patch of the status that sets it as the only external IP; if the API server takes
  the patch, the pass goes on with the Service it returned and asks for nothing. If the load balancer
  cannot be read, or has no VIP yet, nothing is written. In these cases, and when the patch is refused,
  the pass asks to come back after the retry interval.
\<close>

theorem external_ip_restored:
  "if svcIngress svc \<noteq> []
   then run_state (ensureLoadBalancerIngress cfg env svc) h = ((svc, 0), h)
   else \<exists>svc' delay read written.
     run_state (ensureLoadBalancerIngress cfg env svc) h = ((svc', delay), h @ read # written) \<and>
     (let lbID = annotation svc loadbalancerIDLabelKey;
          answer = env_get_lb env h (CrusoeProjectID cfg) lbID in
      read = GetExternalLoadBalancer (CrusoeProjectID cfg) lbID answer \<and>
      (case answer of
         ApiErr _ _ \<Rightarrow> written = [] \<and> svc' = svc \<and> delay = loadBalancerIngressRequeueInterval
       | ApiOk _ lb \<Rightarrow>
           if elbVip lb = '''' then written = [] \<and> svc' = svc \<and> delay = loadBalancerIngressRequeueInterval
           else \<exists>patched.
             written = [PatchServiceStatus svc (svc\<lparr>svcIngress := [\<lparr>ingressIP = elbVip lb\<rparr>]\<rparr>) patched] \<and>
             (case patched of
                Inl _ \<Rightarrow> delay = loadBalancerIngressRequeueInterval \<and>
                  svc' = svc\<lparr>svcIngress := [\<lparr>ingressIP = elbVip lb\<rparr>]\<rparr>
              | Inr taken \<Rightarrow> delay = 0 \<and> svc' = taken)))"
proof (cases "svcIngress svc = []")
  case True
  let ?lb = "annotation svc loadbalancerIDLabelKey"
  let ?read = "GetExternalLoadBalancer (CrusoeProjectID cfg) ?lb (env_get_lb env h (CrusoeProjectID cfg) ?lb)"
  note run = ensureLoadBalancerIngress_def setLoadBalancerIngress_def call_defs Let_def
  show ?thesis
  proof (cases "env_get_lb env h (CrusoeProjectID cfg) ?lb")
    case (ApiErr err resp)
    then show ?thesis using True by (simp add: run)
  next
    case (ApiOk resp lb)
    let ?shown = "svc\<lparr>svcIngress := [\<lparr>ingressIP = elbVip lb\<rparr>]\<rparr>"
    show ?thesis
      using True ApiOk
      by (cases "elbVip lb = ''''"; cases "env_patch_service_status env (h @ [?read]) svc ?shown")
        (simp_all add: run)
  qed
qed (simp add: ensureLoadBalancerIngress_def)

section \<open>Witnesses\<close>

definition lb_svc :: service where
  "lb_svc = marked_service test_svc ''lb'' LoadBalancerProtocolTCP"

lemma lb_svc_simps [simp]:
  "annotation lb_svc loadbalancerIDLabelKey = ''lb''"
  "svcAnnotations lb_svc loadbalancerIDLabelKey = Some ''lb''"
  "annotation lb_svc AnnotationLoadBalancerProtocol = LoadBalancerProtocolTCP"
  "svcPorts lb_svc = [tcp_port]" "svcIngress lb_svc = []" "served_ports lb_svc = [tcp_port]"
  "\<not> nothing_served lb_svc" "DeriveLoadBalancerProtocol lb_svc = Inr LoadBalancerProtocolTCP"
  by (simp_all add: lb_svc_def marked_service_def annotation_def set_annotation_def served_ports_def
      nothing_served_def test_svc_def DeriveLoadBalancerProtocol_ok_iff port_supported_def)
    (simp_all add: tcp_port_def effectivePortProtocol_def ProtocolTCP_def ProtocolUDP_def)

lemma lb_svc_unannotated [simp]:
  "ParseHealthCheckOptionsFromAnnotations (svcAnnotations lb_svc) = None"
  by (simp add: lb_svc_def marked_service_def test_svc_def ParseHealthCheckOptionsFromAnnotations_def
      health_annotation_def annotation_keys AnnotationHealthCheckFailureCount_def
      AnnotationHealthCheckInterval_def AnnotationHealthCheckSuccessCount_def AnnotationHealthCheckTimeout_def)

definition update_env :: env where
  "update_env = (lb_env [] (ApiErr ''unused'' None))
     \<lparr>env_update_lb := (\<lambda>_ _ _ _. ApiOk ok_response ()),
      env_get_lb := (\<lambda>_ _ _. ApiOk ok_response test_lb)\<rparr>"

lemma update_env_simps [simp]:
  "env_update_lb update_env h req p ident = ApiOk ok_response ()"
  "env_get_lb update_env h p ident = ApiOk ok_response test_lb"
  "env_list_nodes update_env h = Inr [plain_node ''a'' True ''10.0.0.1'']"
  "env_patch_service_status update_env h orig svc = Inr svc"
  by (simp_all add: update_env_def)

definition test_update :: external_load_balancer_patch_request where
  "test_update =
     \<lparr>patchId = ''lb'', patchHealthCheckOptions = None,
      patchListenPortsAndBackends = listeners [''10.0.0.1''] [tcp_port]\<rparr>"

definition update_events :: "event list" where
  "update_events =
     [ListNodes (Inr [plain_node ''a'' True ''10.0.0.1'']),
      UpdateExternalLoadBalancer test_update ''project'' ''lb'' (ApiOk ok_response ())]"

lemma run_updateLoadBalancer:
  "run_state (updateLoadBalancer test_reconciler test_config update_env lb_svc) h = (None, h @ update_events)"
  by (simp add: updateLoadBalancer_eq drift_warning_def warnOnProtocolDrift_def parseListenPortsAndBackends_def
      call_defs test_update_def update_outcome_def update_events_def)

lemma run_ensureLoadBalancerIngress:
  "run_state (ensureLoadBalancerIngress test_config update_env lb_svc) h =
     ((with_ip ''1.2.3.4'' lb_svc, 0),
      h @ [GetExternalLoadBalancer ''project'' ''lb'' (ApiOk ok_response test_lb),
           PatchServiceStatus lb_svc (with_ip ''1.2.3.4'' lb_svc) (Inr (with_ip ''1.2.3.4'' lb_svc))])"
  by (simp add: ensureLoadBalancerIngress_def setLoadBalancerIngress_def call_defs with_ip_def Let_def)

theorem update_sends_served_ports_witness:
  "\<exists>nodes. ListNodes nodes \<in> set update_events \<and>
     patchListenPortsAndBackends test_update =
       (case nodes of Inl _ \<Rightarrow> [] | Inr ns \<Rightarrow> listeners (backendIPs ns) (served_ports lb_svc))"
proof -
  have "UpdateExternalLoadBalancer test_update ''project'' ''lb'' (ApiOk ok_response ()) \<in> set update_events"
    by (simp add: update_events_def)
  from update_sends_served_ports [OF run_updateLoadBalancer this] show ?thesis by blast
qed

theorem drifted_ports_leave_lb_unchanged_witness:
  "\<exists>message. run_state (updateLoadBalancer test_reconciler test_config update_env
       (lb_svc\<lparr>svcPorts := [tcp_port\<lparr>spProtocol := ''UDP''\<rparr>]\<rparr>)) [] =
     (None, [RecordWarning (object_key lb_svc) EventReasonProtocolDrift message])"
proof -
  let ?svc = "lb_svc\<lparr>svcPorts := [tcp_port\<lparr>spProtocol := ''UDP''\<rparr>]\<rparr>"
  have same: "annotation ?svc k = annotation lb_svc k" "object_key ?svc = object_key lb_svc" for k
    by (simp_all add: annotation_def object_key_def)
  have "isKnownLoadBalancerProtocol (annotation ?svc AnnotationLoadBalancerProtocol)"
    "\<forall>port \<in> set (svcPorts ?svc). effectivePortProtocol port \<noteq>
      (if annotation ?svc AnnotationLoadBalancerProtocol = LoadBalancerProtocolUDP then ProtocolUDP else ProtocolTCP)"
    "svcPorts ?svc \<noteq> []"
    unfolding same by (simp_all add: effectivePortProtocol_def ProtocolTCP_def)
  from drifted_ports_leave_lb_unchanged [OF this, of test_reconciler test_config update_env "[]"]
  show ?thesis by (simp add: same)
qed

end
