(* ===== verification/Reconciler.thy ===== *)
theory Reconciler
  imports UpdateSafety
begin

text \<open>
  The reconcile loop of \<open>internal/controller/service_controller.go\<close>: \<open>handleDelete\<close>,
  \<open>handleUpdate\<close> and \<open>Reconcile\<close>, which fetches the Service, guards it with the finalizer and
  dispatches to create, update or delete. As in the other theories the passes are specified by
  relations (\<open>delete_session\<close>, \<open>update_pass\<close>, \<open>reconcile_session\<close>) that the code is shown to
  follow.
\<close>

section \<open>Deleting\<close>

definition delete_response_error :: "string \<Rightarrow> string \<Rightarrow> go_error" where
  "delete_response_error loadBalancerID status =
     Errorf (''unexpected response deleting load balancer '' @ loadBalancerID @ '': '' @ status)"

text \<open>What the answer to the delete request means for the Service.\<close>

definition delete_answered :: "string \<Rightarrow> http_response option \<times> string option \<Rightarrow> reconcile_result" where
  "delete_answered loadBalancerID answer =
     (case answer of
        (None, Some err) \<Rightarrow> (empty_result, Some (ExternalError err))
      | (Some httpResp, Some err) \<Rightarrow>
          (if StatusCode httpResp = 404 then (empty_result, None)
           else if StatusCode httpResp = 200 \<or> StatusCode httpResp = 204 then (empty_result, None)
           else (empty_result, Some (ExternalError err)))
      | (Some httpResp, None) \<Rightarrow>
          (if StatusCode httpResp = 200 \<or> StatusCode httpResp = 204 then (empty_result, None)
           else (empty_result, Some (delete_response_error loadBalancerID (Status httpResp))))
      | (None, None) \<Rightarrow> (empty_result, Some (delete_response_error loadBalancerID ''no response'')))"

definition handleDelete :: "config \<Rightarrow> env \<Rightarrow> service \<Rightarrow> (service \<times> reconcile_result) prog" where
  "handleDelete cfg env svc =
     (let loadBalancerID = annotation svc loadbalancerIDLabelKey
      in do {
        (svc, err) \<leftarrow> deleteFirewallRule cfg env svc;
        case err of
          Some err \<Rightarrow>
            (if errors_Is err ErrFirewallRuleOperationInFlight
             then State_Monad.return (svc, requeue_after firewallRuleRequeueInterval, None)
             else State_Monad.return (svc, empty_result, Some err))
        | None \<Rightarrow>
            (if loadBalancerID = '''' then State_Monad.return (svc, empty_result, None)
             else do {
               answer \<leftarrow> call_DeleteExternalLoadBalancer env (CrusoeProjectID cfg) loadBalancerID;
               State_Monad.return (svc, delete_answered loadBalancerID answer)
             })
      })"

section \<open>Updating\<close>

definition updateRetryInterval :: duration where
  "updateRetryInterval = 10 * Second"

definition update_requeue :: "duration \<Rightarrow> ensure_result outcome \<Rightarrow> reconcile_result outcome" where
  "update_requeue ingressRequeue ensured =
     (case ensured of
        Returned (_, _, Some err) \<Rightarrow> Returned (empty_result, Some err)
      | Returned (_, requeueAfter, None) \<Rightarrow>
          (let next = earliestRequeue [requeueAfter, ingressRequeue]
           in if next > 0 then Returned (requeue_after next, None) else Returned (empty_result, None))
      | Panicked message \<Rightarrow> Panicked message
      | Unfinished \<Rightarrow> Unfinished)"

definition handleUpdate :: "reconciler \<Rightarrow> config \<Rightarrow> env \<Rightarrow> service \<Rightarrow> reconcile_result outcome prog" where
  "handleUpdate rc cfg env svc = do {
     (svc, ingressRequeue) \<leftarrow> ensureLoadBalancerIngress cfg env svc;
     err \<leftarrow> updateLoadBalancer rc cfg env svc;
     case err of
       Some _ \<Rightarrow> State_Monad.return (Returned (requeue_after updateRetryInterval, None))
     | None \<Rightarrow> do {
         ensured \<leftarrow> ensureFirewallRule cfg env svc;
         State_Monad.return (update_requeue ingressRequeue ensured)
       }
   }"

section \<open>Reconcile\<close>

text \<open>The branch for a Service marked for deletion.\<close>

definition reconcile_deletion :: "config \<Rightarrow> env \<Rightarrow> service \<Rightarrow> reconcile_result prog" where
  "reconcile_deletion cfg env svc =
     (if env_ContainsFinalizer env svc finalizer then do {
        (svc, result, err) \<leftarrow> handleDelete cfg env svc;
        case err of
          Some err \<Rightarrow> State_Monad.return (empty_result, Some err)
        | None \<Rightarrow>
            (if \<not> Result_IsZero result then State_Monad.return (result, None)
             else do {
               updated \<leftarrow> call_UpdateService env (env_RemoveFinalizer env svc finalizer);
               State_Monad.return
                 (case updated of Inl err \<Rightarrow> (empty_result, Some (KubeError err)) | Inr _ \<Rightarrow> (empty_result, None))
             })
      }
      else State_Monad.return (empty_result, None))"

text \<open>Adding the finalizer if it is not present; the Service comes back as the API server has it.\<close>

definition add_finalizer :: "env \<Rightarrow> service \<Rightarrow> (kube_error + service) prog" where
  "add_finalizer env svc =
     (if \<not> env_ContainsFinalizer env svc finalizer
      then call_UpdateService env (env_AddFinalizer env svc finalizer)
      else State_Monad.return (Inr svc))"

definition Reconcile ::
    "nat \<Rightarrow> reconciler \<Rightarrow> config \<Rightarrow> env \<Rightarrow> namespaced_name \<Rightarrow> reconcile_result outcome prog" where
  "Reconcile fuel rc cfg env key = do {
     fetched \<leftarrow> call_GetService env key;
     case fetched of
       Inl err \<Rightarrow>
         State_Monad.return (Returned (empty_result, if IsNotFound err then None else Some (KubeError err)))
     | Inr svc \<Rightarrow>
         (if \<not> DeletionTimestamp_IsZero svc then do {
            result \<leftarrow> reconcile_deletion cfg env svc;
            State_Monad.return (Returned result)
          }
          else if svcLoadBalancerClass svc \<noteq> None then State_Monad.return (Returned (empty_result, None))
          else do {
            guarded \<leftarrow> add_finalizer env svc;
            case guarded of
              Inl err \<Rightarrow> State_Monad.return (Returned (empty_result, Some (KubeError err)))
            | Inr svc \<Rightarrow>
                (if svcAnnotations svc loadbalancerIDLabelKey = None
                 then handleCreate fuel rc cfg env svc
                 else handleUpdate rc cfg env svc)
          })
   }"

section \<open>The conversations of a pass\<close>

inductive delete_session ::
    "config \<Rightarrow> env \<Rightarrow> service \<Rightarrow> event list \<Rightarrow> service \<times> reconcile_result \<Rightarrow> bool" for cfg env svc where
  rule_pending:
    "rule_cleanup cfg env svc es (svc', Some err) \<Longrightarrow>
     result = (if errors_Is err ErrFirewallRuleOperationInFlight
               then (requeue_after firewallRuleRequeueInterval, None) else (empty_result, Some err)) \<Longrightarrow>
     delete_session cfg env svc es (svc', result)"
| no_lb_recorded:
    "rule_cleanup cfg env svc es (svc', None) \<Longrightarrow> annotation svc loadbalancerIDLabelKey = '''' \<Longrightarrow>
     delete_session cfg env svc es (svc', empty_result, None)"
| lb_delete:
    "rule_cleanup cfg env svc es (svc', None) \<Longrightarrow>
     annotation svc loadbalancerIDLabelKey = ident \<Longrightarrow> ident \<noteq> '''' \<Longrightarrow>
     delete_session cfg env svc (es @ [DeleteExternalLoadBalancer (CrusoeProjectID cfg) ident answer])
       (svc', delete_answered ident answer)"

inductive update_pass ::
    "config \<Rightarrow> env \<Rightarrow> service \<Rightarrow> event list \<Rightarrow> reconcile_result outcome \<Rightarrow> bool" for cfg env svc where
  lb_not_updated:
    "ingress_session cfg svc es1 (svc', delay) \<Longrightarrow> update_session cfg svc' es2 (Some err) \<Longrightarrow>
     update_pass cfg env svc (es1 @ es2) (Returned (requeue_after updateRetryInterval, None))"
| lb_updated:
    "ingress_session cfg svc es1 (svc', delay) \<Longrightarrow> update_session cfg svc' es2 None \<Longrightarrow>
     rule_session cfg env svc' es3 ensured \<Longrightarrow> r = update_requeue delay ensured \<Longrightarrow>
     update_pass cfg env svc (es1 @ es2 @ es3) r"

inductive guard_step :: "env \<Rightarrow> service \<Rightarrow> event list \<Rightarrow> (kube_error + service) \<Rightarrow> bool" for env svc where
  has_finalizer: "env_ContainsFinalizer env svc finalizer \<Longrightarrow> guard_step env svc [] (Inr svc)"
| adds_finalizer:
    "\<not> env_ContainsFinalizer env svc finalizer \<Longrightarrow>
     guard_step env svc [UpdateService (env_AddFinalizer env svc finalizer) answer] answer"

inductive reconcile_session ::
    "reconciler \<Rightarrow> config \<Rightarrow> env \<Rightarrow> namespaced_name \<Rightarrow> event list \<Rightarrow> reconcile_result outcome \<Rightarrow> bool"
    for rc cfg env key where
  unreadable:
    "\<not> IsNotFound err \<Longrightarrow>
     reconcile_session rc cfg env key [GetService key (Inl err)] (Returned (empty_result, Some (KubeError err)))"
| gone:
    "IsNotFound err \<Longrightarrow> reconcile_session rc cfg env key [GetService key (Inl err)] (Returned (empty_result, None))"
| let_go:
    "\<not> DeletionTimestamp_IsZero svc \<Longrightarrow> \<not> env_ContainsFinalizer env svc finalizer \<Longrightarrow>
     reconcile_session rc cfg env key [GetService key (Inr svc)] (Returned (empty_result, None))"
| cleaning:
    "\<not> DeletionTimestamp_IsZero svc \<Longrightarrow> env_ContainsFinalizer env svc finalizer \<Longrightarrow>
     delete_session cfg env svc es (svc', result, err) \<Longrightarrow> err \<noteq> None \<or> \<not> Result_IsZero result \<Longrightarrow>
     reconcile_session rc cfg env key (GetService key (Inr svc) # es)
       (Returned (if err = None then result else empty_result, err))"
| cleaned:
    "\<not> DeletionTimestamp_IsZero svc \<Longrightarrow> env_ContainsFinalizer env svc finalizer \<Longrightarrow>
     delete_session cfg env svc es (svc', result, None) \<Longrightarrow> Result_IsZero result \<Longrightarrow>
     err = (case answer of Inl err \<Rightarrow> Some (KubeError err) | Inr _ \<Rightarrow> None) \<Longrightarrow>
     reconcile_session rc cfg env key
       (GetService key (Inr svc) # es @ [UpdateService (env_RemoveFinalizer env svc' finalizer) answer])
       (Returned (empty_result, err))"
| foreign:
    "DeletionTimestamp_IsZero svc \<Longrightarrow> svcLoadBalancerClass svc \<noteq> None \<Longrightarrow>
     reconcile_session rc cfg env key [GetService key (Inr svc)] (Returned (empty_result, None))"
| not_guarded:
    "DeletionTimestamp_IsZero svc \<Longrightarrow> svcLoadBalancerClass svc = None \<Longrightarrow> guard_step env svc es (Inl err) \<Longrightarrow>
     reconcile_session rc cfg env key (GetService key (Inr svc) # es)
       (Returned (empty_result, Some (KubeError err)))"
| creating:
    "DeletionTimestamp_IsZero svc \<Longrightarrow> svcLoadBalancerClass svc = None \<Longrightarrow> guard_step env svc es (Inr svc') \<Longrightarrow>
     svcAnnotations svc' loadbalancerIDLabelKey = None \<Longrightarrow> create_session rc cfg env svc' es' r \<Longrightarrow>
     reconcile_session rc cfg env key (GetService key (Inr svc) # es @ es') r"
| updating:
    "DeletionTimestamp_IsZero svc \<Longrightarrow> svcLoadBalancerClass svc = None \<Longrightarrow> guard_step env svc es (Inr svc') \<Longrightarrow>
     svcAnnotations svc' loadbalancerIDLabelKey \<noteq> None \<Longrightarrow> update_pass cfg env svc' es' r \<Longrightarrow>
     reconcile_session rc cfg env key (GetService key (Inr svc) # es @ es') r"

inductive_cases delete_sessionE: "delete_session cfg env svc es r"
inductive_cases update_passE: "update_pass cfg env svc es r"
inductive_cases guard_stepE: "guard_step env svc es r"
inductive_cases reconcile_sessionE: "reconcile_session rc cfg env key es r"

section \<open>The code follows them\<close>

lemma handleDelete_follows:
  "emits (handleDelete cfg env svc) (\<lambda>r es. delete_session cfg env svc es r) h"
  unfolding emits_def handleDelete_def Let_def
  by (auto simp: wp call_defs intro!: wp_emits [OF deleteFirewallRule_follows] lb_delete
      split: option.split) (erule (1) no_lb_recorded, (erule rule_pending, simp)+)

lemma handleUpdate_follows:
  "emits (handleUpdate rc cfg env svc) (\<lambda>r es. update_pass cfg env svc es r) h"
  unfolding emits_def handleUpdate_def
  by (auto simp: wp intro!: wp_emits [OF ensureLoadBalancerIngress_follows]
      wp_emits [OF updateLoadBalancer_follows] wp_emits [OF ensureFirewallRule_follows]
      split: option.split) (erule (2) lb_updated, rule refl, erule (1) lb_not_updated)

lemma add_finalizer_follows:
  "emits (add_finalizer env svc) (\<lambda>r es. guard_step env svc es r) h"
  by (auto simp: emits_def add_finalizer_def wp call_defs intro: guard_step.intros)

text \<open>A deletion pass, after the fetch.\<close>

lemma reconcile_deletion_follows:
  assumes "\<not> DeletionTimestamp_IsZero svc"
  shows "emits (reconcile_deletion cfg env svc)
     (\<lambda>r es. reconcile_session rc cfg env key (GetService key (Inr svc) # es) (Returned r)) h"
proof (cases "env_ContainsFinalizer env svc finalizer")
  case False
  with assms show ?thesis by (auto simp: emits_def reconcile_deletion_def wp intro: let_go)
next
  case True
  have pending: "reconcile_session rc cfg env key (GetService key (Inr svc) # es) (Returned (empty_result, Some err))"
    if "delete_session cfg env svc es (svc', result, Some err)" for es svc' result err
    using cleaning [OF assms True that, of rc key] by simp
  have requeued: "reconcile_session rc cfg env key (GetService key (Inr svc) # es) (Returned (result, None))"
    if "delete_session cfg env svc es (svc', result, None)" "\<not> Result_IsZero result" for es svc' result
    using cleaning [OF assms True that(1), of rc key] that(2) by simp
  have "wp (handleDelete cfg env svc) (\<lambda>(svc', result, err) s.
      wp (case err of
            Some err \<Rightarrow> State_Monad.return (empty_result, Some err)
          | None \<Rightarrow>
              (if \<not> Result_IsZero result then State_Monad.return (result, None)
               else do {
                 updated \<leftarrow> call_UpdateService env (env_RemoveFinalizer env svc' finalizer);
                 State_Monad.return
                   (case updated of Inl err \<Rightarrow> (empty_result, Some (KubeError err)) | Inr _ \<Rightarrow> (empty_result, None))
               }))
        (\<lambda>r h'. \<exists>es. h' = h @ es \<and>
          reconcile_session rc cfg env key (GetService key (Inr svc) # es) (Returned r)) s) h"
    by (rule wp_emits [OF handleDelete_follows])
      (auto simp: wp call_defs split: option.split sum.split intro: pending requeued
        intro!: cleaned [OF assms True])
  with True show ?thesis
    by (simp add: emits_def reconcile_deletion_def wp case_prod_unfold)
qed

text \<open>Create or update, after the fetch.\<close>

lemma reconcile_guarded_follows:
  assumes "DeletionTimestamp_IsZero svc" "svcLoadBalancerClass svc = None"
  shows "wp (add_finalizer env svc) (\<lambda>guarded.
      wp (case guarded of
            Inl err \<Rightarrow> State_Monad.return (Returned (empty_result, Some (KubeError err)))
          | Inr svc' \<Rightarrow>
              (if svcAnnotations svc' loadbalancerIDLabelKey = None
               then handleCreate fuel rc cfg env svc' else handleUpdate rc cfg env svc'))
        (\<lambda>r h'. \<exists>es. h' = h @ es \<and> reconcile_session rc cfg env key es r))
    (h @ [GetService key (Inr svc)])"
  (is "wp _ (\<lambda>guarded. wp (?step guarded) ?Q) _")
proof (rule wp_emits [OF add_finalizer_follows])
  fix guarded es
  assume g: "guard_step env svc es guarded"
  have create: "wp (handleCreate fuel rc cfg env svc') ?Q ((h @ [GetService key (Inr svc)]) @ es)"
    if "guarded = Inr svc'" "svcAnnotations svc' loadbalancerIDLabelKey = None" for svc'
    using creating [OF assms, of env es svc'] g that by (auto intro!: wp_emits [OF handleCreate_follows])
  have update: "wp (handleUpdate rc cfg env svc') ?Q ((h @ [GetService key (Inr svc)]) @ es)"
    if "guarded = Inr svc'" "svcAnnotations svc' loadbalancerIDLabelKey \<noteq> None" for svc'
    using updating [OF assms, of env es svc'] g that by (auto intro!: wp_emits [OF handleUpdate_follows])
  show "wp (?step guarded) ?Q ((h @ [GetService key (Inr svc)]) @ es)"
  proof (cases guarded)
    case (Inl err)
    with not_guarded [OF assms] g show ?thesis by (simp add: wp)
  next
    case (Inr svc')
    with create update show ?thesis by simp
  qed
qed

lemma Reconcile_follows:
  "emits (Reconcile fuel rc cfg env key) (\<lambda>r es. reconcile_session rc cfg env key es r) h"
proof (cases "env_get_service env h key")
  case (Inl err)
  then show ?thesis
    by (simp add: emits_def Reconcile_def wp call_defs unreadable gone)
next
  case (Inr svc)
  show ?thesis
  proof (cases "DeletionTimestamp_IsZero svc")
    case False
    with Inr show ?thesis
      by (auto simp: emits_def Reconcile_def wp call_GetService_def
          intro!: wp_emits [OF reconcile_deletion_follows])
  next
    case True
    show ?thesis
    proof (cases "svcLoadBalancerClass svc")
      case None
      with Inr True reconcile_guarded_follows [OF True None] show ?thesis
        by (simp add: emits_def Reconcile_def wp call_GetService_def)
    qed (use Inr True in \<open>simp add: emits_def Reconcile_def wp call_GetService_def foreign\<close>)
  qed
qed

end
