(* ===== verification/ReconcilerSafety.thy ===== *)
theory ReconcilerSafety
  imports Reconciler
begin

text \<open>
  The properties of a whole pass of the controller: what has to be dealt with before the finalizer is
  removed, that the finalizer is in place before anything is created, which Services are left
  alone, and what a deletion or an update may change.
\<close>

section \<open>Cleaning up\<close>

text \<open>
  Judging by the answers in a pass: the firewall rule of the Service was deleted, or there is none.
\<close>

definition rule_cleaned :: "config \<Rightarrow> env \<Rightarrow> service \<Rightarrow> event list \<Rightarrow> bool" where
  "rule_cleaned cfg env svc es \<longleftrightarrow>
     no_rule_found cfg svc es \<or>
     (\<exists>ruleID answer. DeleteVPCFirewallRule (CrusoeProjectID cfg) ruleID answer \<in> set es \<and>
        own_rule cfg env svc es ruleID \<and> deletion_done answer)"

text \<open>The calls that concern a firewall rule, and a pass that makes none and keeps the annotations.\<close>

fun is_rule_call :: "event \<Rightarrow> bool" where
  "is_rule_call (ListVPCFirewallRules _ _) = True"
| "is_rule_call (GetVPCFirewallRule _ _ _) = True"
| "is_rule_call (PatchVPCFirewallRule _ _ _ _) = True"
| "is_rule_call (CreateVPCFirewallRule _ _ _) = True"
| "is_rule_call (DeleteVPCFirewallRule _ _ _) = True"
| "is_rule_call (GetNetworkingVPCFirewallRulesOperation _ _ _) = True"
| "is_rule_call _ = False"

definition rule_untouched :: "event list \<Rightarrow> bool" where
  "rule_untouched es \<longleftrightarrow> (\<forall>e \<in> set es. \<not> is_rule_call e \<and> \<not> is_service_patch e)"

text \<open>
  What has to have happened to the rule before the pass may go on: it was cleaned up if the Service
  opts in, and is left to the user, with its annotations, if it does not.
\<close>

definition rule_settled :: "config \<Rightarrow> env \<Rightarrow> service \<Rightarrow> event list \<Rightarrow> bool" where
  "rule_settled cfg env svc es \<longleftrightarrow>
     (if rule_in_care cfg svc then rule_cleaned cfg env svc es else rule_untouched es)"

lemma no_rule_found_mono: "no_rule_found cfg svc es \<Longrightarrow> set es \<subseteq> set es' \<Longrightarrow> no_rule_found cfg svc es'"
  by (auto simp: no_rule_found_def split: sum.splits)

lemma own_rule_mono: "own_rule cfg env svc es ruleID \<Longrightarrow> set es \<subseteq> set es' \<Longrightarrow> own_rule cfg env svc es' ruleID"
  by (auto simp: own_rule_def split: if_splits) blast+

lemma rule_cleaned_mono:
  assumes "rule_cleaned cfg env svc es" and "set es \<subseteq> set es'"
  shows "rule_cleaned cfg env svc es'"
  using assms no_rule_found_mono [OF _ assms(2)] own_rule_mono [OF _ assms(2)]
  unfolding rule_cleaned_def by blast

lemma rule_settled_more:
  assumes "rule_settled cfg env svc es" and "set es \<subseteq> set es'" and "rule_untouched (filter (\<lambda>e. e \<notin> set es) es')"
  shows "rule_settled cfg env svc es'"
  using assms rule_cleaned_mono [OF _ assms(2)] by (auto simp: rule_settled_def rule_untouched_def)

lemma rule_settled_Cons:
  "rule_settled cfg env svc es \<Longrightarrow> \<not> is_rule_call e \<Longrightarrow> \<not> is_service_patch e \<Longrightarrow> rule_settled cfg env svc (e # es)"
  by (erule rule_settled_more) (auto simp: rule_untouched_def)

lemma rule_settled_append:
  "rule_settled cfg env svc es \<Longrightarrow> rule_untouched es' \<Longrightarrow> rule_settled cfg env svc (es @ es')"
  by (erule rule_settled_more) (auto simp: rule_untouched_def)

lemma rule_cleanup_settled:
  assumes "rule_cleanup cfg env svc es (svc', None)"
  shows "rule_settled cfg env svc es"
    and "svc' = svc \<or> PatchService svc (drop_rule_annotations svc) (Inr svc') \<in> set es"
proof -
  show "svc' = svc \<or> PatchService svc (drop_rule_annotations svc) (Inr svc') \<in> set es"
    using assms by (auto elim!: rule_cleanupE simp: patch_outcome_def split: sum.splits)
  show "rule_settled cfg env svc es"
    using assms
  proof cases
    case (no_rule)
    then show ?thesis by (simp add: rule_settled_def rule_in_care_def rule_cleaned_def rule_target_none)
  next
    case (deleted xs ruleID answer patched)
    then have "own_rule cfg env svc es ruleID" by (auto intro: own_rule_append dest: rule_target_own)
    with deleted show ?thesis
      by (auto simp: rule_settled_def rule_in_care_def rule_cleaned_def deletion_done_def)
  qed (simp_all add: rule_settled_def rule_in_care_def rule_untouched_def)
qed

text \<open>An answer to the delete request that says the load balancer is gone.\<close>

definition lb_gone :: "http_response option \<times> string option \<Rightarrow> bool" where
  "lb_gone answer \<longleftrightarrow>
     (\<exists>resp err. answer = (Some resp, err) \<and>
        (StatusCode resp = 200 \<or> StatusCode resp = 204 \<or> (StatusCode resp = 404 \<and> err \<noteq> None)))"

definition lb_released :: "config \<Rightarrow> service \<Rightarrow> event list \<Rightarrow> bool" where
  "lb_released cfg svc es \<longleftrightarrow>
     annotation svc loadbalancerIDLabelKey = '''' \<or>
     (\<exists>answer. DeleteExternalLoadBalancer (CrusoeProjectID cfg) (annotation svc loadbalancerIDLabelKey) answer
        \<in> set es \<and> lb_gone answer)"

lemma lb_released_deleted:
  "DeleteExternalLoadBalancer (CrusoeProjectID cfg) (annotation svc loadbalancerIDLabelKey) answer \<in> set es \<Longrightarrow>
     lb_gone answer \<Longrightarrow> lb_released cfg svc es"
  unfolding lb_released_def by blast

lemma lb_released_mono: "lb_released cfg svc es \<Longrightarrow> set es \<subseteq> set es' \<Longrightarrow> lb_released cfg svc es'"
  unfolding lb_released_def by blast

lemma delete_answered_gone:
  "delete_answered ident answer = (result, err) \<Longrightarrow> result = empty_result \<and> (err = None \<longleftrightarrow> lb_gone answer)"
  by (auto simp: delete_answered_def lb_gone_def split: prod.splits option.splits if_splits)

text \<open>A deletion that is done, and the events of one.\<close>

fun is_cleanup_event :: "event \<Rightarrow> bool" where
  "is_cleanup_event (DeleteExternalLoadBalancer _ _ _) = True"
| "is_cleanup_event (DeleteVPCFirewallRule _ _ _) = True"
| "is_cleanup_event (PatchService _ _ _) = True"
| "is_cleanup_event e = is_read e"

lemma read_is_cleanup: "is_read e \<Longrightarrow> is_cleanup_event e"
  by (cases e) simp_all

lemma reads_are_cleanup: "reads_only es \<Longrightarrow> e \<in> set es \<Longrightarrow> is_cleanup_event e"
  using read_is_cleanup by (auto simp: reads_only_def)

lemma rule_cleanup_events: "rule_cleanup cfg env svc es r \<Longrightarrow> e \<in> set es \<Longrightarrow> is_cleanup_event e"
  by (auto elim!: rule_cleanupE dest: reads_are_cleanup [OF rule_target_reads])

lemma delete_session_events: "delete_session cfg env svc es r \<Longrightarrow> e \<in> set es \<Longrightarrow> is_cleanup_event e"
  by (auto elim!: delete_sessionE dest: rule_cleanup_events)

lemma cleanup_event_no_update: "is_cleanup_event e \<Longrightarrow> \<not> is_service_update e"
  by (cases e) simp_all

lemma cleanup_event_change:
  "is_cleanup_event e \<Longrightarrow> is_cloud_change e \<Longrightarrow> is_delete_lb e \<or> is_delete_rule e"
  by (cases e) (simp_all add: is_cloud_change_def)

lemma delete_session_cleaned:
  assumes "delete_session cfg env svc es (svc', result, None)" "Result_IsZero result"
  shows "rule_settled cfg env svc es \<and> lb_released cfg svc es \<and>
    (svc' = svc \<or> PatchService svc (drop_rule_annotations svc) (Inr svc') \<in> set es)"
  using assms(1)
proof cases
  case (rule_pending err)
  then show ?thesis using assms(2) intervals_positive by (auto split: if_splits)
next
  case no_lb_recorded
  then show ?thesis using rule_cleanup_settled [OF no_lb_recorded(2)] by (simp add: lb_released_def)
next
  case (lb_delete es1 ident answer)
  then have "lb_gone answer" using delete_answered_gone [of ident answer result None] by simp
  then have "lb_released cfg svc es"
    using lb_delete(1,4) by (intro lb_released_deleted) auto
  moreover have "rule_settled cfg env svc es"
    unfolding lb_delete(1) by (intro rule_settled_append rule_cleanup_settled [OF lb_delete(3)])
      (simp add: rule_untouched_def)
  ultimately show ?thesis using rule_cleanup_settled(2) [OF lb_delete(3)] lb_delete(1) by auto
qed

text \<open>A pass over a Service marked for deletion.\<close>

lemma deletion_pass:
  assumes "reconcile_session rc cfg env key es r" and "hd es = GetService key (Inr svc)"
    and "\<not> DeletionTimestamp_IsZero svc"
  obtains "\<not> env_ContainsFinalizer env svc finalizer" "es = [GetService key (Inr svc)]"
    "r = Returned (empty_result, None)"
  | es' svc' result err where "env_ContainsFinalizer env svc finalizer" "es = GetService key (Inr svc) # es'"
    "delete_session cfg env svc es' (svc', result, err)" "err \<noteq> None \<or> \<not> Result_IsZero result"
    "r = Returned (if err = None then result else empty_result, err)"
  | es' svc' result answer err where "env_ContainsFinalizer env svc finalizer"
    "es = GetService key (Inr svc) # es' @ [UpdateService (env_RemoveFinalizer env svc' finalizer) answer]"
    "delete_session cfg env svc es' (svc', result, None)" "Result_IsZero result"
    "err = (case answer of Inl err \<Rightarrow> Some (KubeError err) | Inr _ \<Rightarrow> None)" "r = Returned (empty_result, err)"
  using assms by (elim reconcile_sessionE) auto

section \<open>Deletion\<close>

text \<open>
  C5. The finalizer is removed from a Service being deleted only as the last step of a pass in which
  the rest was dealt with. If the Service opts into rule management (as fetched, and in a configured
  project), its own firewall rule was deleted or answered with 404, or none was found by id,
  operation and name. If it does not opt in, no call concerns a rule and the annotations are kept: a
  rule that was recorded while it opted in is left behind, as documented. Either way its load balancer
  was deleted or is not known to the API, or none is recorded. And what is written is the Service as
  fetched, or as the API server returned it from the pass's own patch, without the finalizer.
\<close>

theorem finalizer_removed_only_when_clean:
  assumes "run_state (Reconcile fuel rc cfg env key) h = (r, h @ es)"
    and "hd es = GetService key (Inr svc)" and "\<not> DeletionTimestamp_IsZero svc"
    and "UpdateService written answer \<in> set es"
  shows "(if rule_in_care cfg svc then rule_cleaned cfg env svc es else rule_untouched es) \<and>
    lb_released cfg svc es \<and>
    last es = UpdateService written answer \<and> length (filter is_service_update es) = 1 \<and>
    (\<exists>svc'. written = env_RemoveFinalizer env svc' finalizer \<and>
       (svc' = svc \<or> PatchService svc (drop_rule_annotations svc) (Inr svc') \<in> set es))"
  using emits_appendD [OF Reconcile_follows assms(1)] assms(2,3)
proof (rule deletion_pass)
  fix es' svc' result answer' err
  assume s: "es = GetService key (Inr svc) # es' @ [UpdateService (env_RemoveFinalizer env svc' finalizer) answer']"
    "delete_session cfg env svc es' (svc', result, None)" "Result_IsZero result"
  have none: "\<not> is_service_update e" if "e \<in> set es'" for e
    using cleanup_event_no_update delete_session_events [OF s(2) that] by blast
  then have "filter is_service_update es' = []" by (simp add: filter_empty_conv)
  moreover have "UpdateService written answer \<notin> set es'" using none by force
  moreover have "rule_settled cfg env svc es"
    unfolding s(1) using delete_session_cleaned [OF s(2,3)]
    by (intro rule_settled_Cons rule_settled_append) (simp_all add: rule_untouched_def)
  ultimately show ?thesis
    using delete_session_cleaned [OF s(2,3)] assms(4)
    unfolding rule_settled_def [symmetric] by (auto simp: s(1) lb_released_def)
qed (use assms(4) cleanup_event_no_update delete_session_events in \<open>fastforce+\<close>)

text \<open>
  C20. A deletion is never given up: a pass over a Service that is being deleted and, as fetched, still
  has the finalizer either removes it, and the API server takes the write, or it asks to be run
  again, with an error or a delay.
\<close>

theorem deletion_released_or_retried:
  assumes "run_state (Reconcile fuel rc cfg env key) h = (r, h @ es)"
    and "hd es = GetService key (Inr svc)" and "\<not> DeletionTimestamp_IsZero svc"
    and "env_ContainsFinalizer env svc finalizer"
  shows "\<exists>result err. r = Returned (result, err) \<and>
    (err = None \<and> Result_IsZero result \<longleftrightarrow>
       (\<exists>svc' written. last es = UpdateService (env_RemoveFinalizer env svc' finalizer) (Inr written)))"
  using emits_appendD [OF Reconcile_follows assms(1)] assms(2,3)
proof (rule deletion_pass)
  fix es' svc' result err
  assume s: "es = GetService key (Inr svc) # es'" "delete_session cfg env svc es' (svc', result, err)"
    "err \<noteq> None \<or> \<not> Result_IsZero result" "r = Returned (if err = None then result else empty_result, err)"
  have "\<not> is_service_update (last es)"
    using cleanup_event_no_update delete_session_events [OF s(2)] by (cases "es' = []") (auto simp: s(1))
  with s(3,4) show ?thesis by auto
qed (use assms(4) in \<open>auto split: sum.splits\<close>)

text \<open>
  A pass over a Service that is being deleted creates and updates nothing in the cloud: the
  only changes it can make there are deletions.
\<close>

theorem deleting_service_only_deletes:
  assumes "run_state (Reconcile fuel rc cfg env key) h = (r, h @ es)"
    and "hd es = GetService key (Inr svc)" and "\<not> DeletionTimestamp_IsZero svc"
    and "e \<in> set es" and "is_cloud_change e"
  shows "is_delete_lb e \<or> is_delete_rule e"
  using emits_appendD [OF Reconcile_follows assms(1)] assms(2,3)
  by (rule deletion_pass)
    (use assms(4,5) cleanup_event_change delete_session_events in \<open>fastforce simp: is_cloud_change_def\<close>)+

section \<open>Creating and updating\<close>

text \<open>
  The events of a create or an update: they delete nothing in the cloud and do not touch the
  finalizer.
\<close>

fun is_setup_event :: "event \<Rightarrow> bool" where
  "is_setup_event (DeleteExternalLoadBalancer _ _ _) = False"
| "is_setup_event (DeleteVPCFirewallRule _ _ _) = False"
| "is_setup_event (UpdateService _ _) = False"
| "is_setup_event _ = True"

lemma read_is_setup: "is_read e \<Longrightarrow> is_setup_event e"
  by (cases e) simp_all

lemma record_is_setup: "is_record_event e \<Longrightarrow> is_setup_event e"
  by (cases e) simp_all

lemma lb_poll_is_setup: "is_lb_poll e \<Longrightarrow> is_setup_event e"
  by (cases e) simp_all

lemma sessions_are_setup:
  "reads_only es \<Longrightarrow> e \<in> set es \<Longrightarrow> is_setup_event e"
  "topology_reads es \<Longrightarrow> e \<in> set es \<Longrightarrow> is_setup_event e"
  "polling es \<Longrightarrow> e \<in> set es \<Longrightarrow> is_setup_event e"
  "only_warnings svc reason es \<Longrightarrow> e \<in> set es \<Longrightarrow> is_setup_event e"
  "record_session cfg env svc lb protocol es r \<Longrightarrow> e \<in> set es \<Longrightarrow> is_setup_event e"
  "rule_session cfg env svc es ensured \<Longrightarrow> e \<in> set es \<Longrightarrow> is_setup_event e"
  "lookup_session rc env projectID name es found \<Longrightarrow> e \<in> set es \<Longrightarrow> is_setup_event e"
  using read_is_setup lb_poll_is_setup topology_reads_only
  by (auto simp: reads_only_def polling_def only_warnings_def
      dest!: lookup_session_reads
      dest: record_session_events [THEN record_is_setup] rule_session_events [THEN rule_event_record [THEN record_is_setup]])

lemma submit_session_setup: "submit_session rc cfg env svc req es r \<Longrightarrow> e \<in> set es \<Longrightarrow> is_setup_event e"
  by (erule submit_sessionE) (auto dest: sessions_are_setup)

lemma create_session_setup: "create_session rc cfg env svc es r \<Longrightarrow> e \<in> set es \<Longrightarrow> is_setup_event e"
  by (erule create_sessionE) (auto dest: sessions_are_setup submit_session_setup read_is_setup)

lemma ingress_session_setup: "ingress_session cfg svc es r \<Longrightarrow> e \<in> set es \<Longrightarrow> is_setup_event e"
  by (auto elim!: ingress_sessionE)

lemma update_session_setup: "update_session cfg svc es r \<Longrightarrow> e \<in> set es \<Longrightarrow> is_setup_event e"
  by (auto elim!: update_sessionE dest: sessions_are_setup)

lemma update_pass_setup: "update_pass cfg env svc es r \<Longrightarrow> e \<in> set es \<Longrightarrow> is_setup_event e"
  by (erule update_passE) (auto dest: ingress_session_setup update_session_setup sessions_are_setup)

text \<open>
  C13. A load balancer is deleted only for a Service that is being deleted and still has the
  finalizer, only if its id is recorded on that Service, and only once the firewall rule in front of
  it was dealt with in the same pass: it was found gone or its deletion was accepted if the Service
  opts into rule management; if it does not, nothing but the fetch comes before, so a rule that is
  recorded stays, and stays recorded.
\<close>

theorem lb_deleted_after_rule:
  assumes "run_state (Reconcile fuel rc cfg env key) h = (r, h @ es)"
    and "DeleteExternalLoadBalancer p ident answer \<in> set es"
  shows "\<exists>svc before after. es = before @ DeleteExternalLoadBalancer p ident answer # after \<and>
    hd before = GetService key (Inr svc) \<and> \<not> DeletionTimestamp_IsZero svc \<and>
    env_ContainsFinalizer env svc finalizer \<and> p = CrusoeProjectID cfg \<and>
    ident = annotation svc loadbalancerIDLabelKey \<and> ident \<noteq> '''' \<and>
    (if rule_in_care cfg svc then rule_cleaned cfg env svc before else before = [GetService key (Inr svc)])"
proof -
  let ?delete = "DeleteExternalLoadBalancer p ident answer"
  have deletes: "\<not> is_setup_event ?delete" by simp
  have cleanup: "\<exists>before. es' = before @ [?delete] \<and> p = CrusoeProjectID cfg \<and>
      ident = annotation svc loadbalancerIDLabelKey \<and> ident \<noteq> '''' \<and>
      (if rule_in_care cfg svc then rule_cleaned cfg env svc (GetService key (Inr svc) # before) else before = [])"
    if "delete_session cfg env svc es' r'" "?delete \<in> set es'" for svc es' r'
  proof -
    have "?delete \<notin> set xs" if "rule_cleanup cfg env svc xs (svc', err)" for xs svc' err
      using that by (auto elim!: rule_cleanupE dest: reads_only_harmless(4) [OF rule_target_reads])
    moreover have "rule_cleaned cfg env svc (GetService key (Inr svc) # xs)"
      if "rule_cleanup cfg env svc xs (svc', None)" "rule_in_care cfg svc" for xs svc'
      using rule_cleanup_settled(1) [OF that(1)] that(2)
      by (auto simp: rule_settled_def elim: rule_cleaned_mono)
    moreover have "xs = []" if "rule_cleanup cfg env svc xs (svc', None)" "\<not> rule_in_care cfg svc" for xs svc'
      using that by (auto elim!: rule_cleanupE simp: rule_in_care_def)
    ultimately show ?thesis using that by (auto elim!: delete_sessionE)
  qed
  from emits_appendD [OF Reconcile_follows assms(1)] show ?thesis
  proof cases
    case (cleaning svc es' svc' result err)
    with assms(2) cleanup [OF cleaning(5)] obtain before where
      "es' = before @ [?delete]" "p = CrusoeProjectID cfg" "ident = annotation svc loadbalancerIDLabelKey"
      "ident \<noteq> ''''"
      "if rule_in_care cfg svc then rule_cleaned cfg env svc (GetService key (Inr svc) # before) else before = []"
      by auto
    with cleaning show ?thesis
      by (intro exI [of _ svc] exI [of _ "GetService key (Inr svc) # before"] exI [of _ "[]"]) simp
  next
    case (cleaned svc es' svc' result err answer')
    with assms(2) cleanup [OF cleaned(5)] obtain before where
      "es' = before @ [?delete]" "p = CrusoeProjectID cfg" "ident = annotation svc loadbalancerIDLabelKey"
      "ident \<noteq> ''''"
      "if rule_in_care cfg svc then rule_cleaned cfg env svc (GetService key (Inr svc) # before) else before = []"
      by auto
    with cleaned show ?thesis
      by (intro exI [of _ svc] exI [of _ "GetService key (Inr svc) # before"]
          exI [of _ "[UpdateService (env_RemoveFinalizer env svc' finalizer) answer']"]) simp
  next
    case (creating svc es1 svc' es2)
    have "?delete \<notin> set es2" using deletes create_session_setup [OF creating(6)] by blast
    with creating show ?thesis using assms(2) by (auto elim!: guard_stepE)
  next
    case (updating svc es1 svc' es2)
    have "?delete \<notin> set es2" using deletes update_pass_setup [OF updating(6)] by blast
    with updating show ?thesis using assms(2) by (auto elim!: guard_stepE)
  qed (use assms(2) in \<open>auto elim!: guard_stepE\<close>)
qed

text \<open>Seeing the finalizer on the Service: it was fetched with it, or adding it was accepted.\<close>

definition guard_seen :: "env \<Rightarrow> namespaced_name \<Rightarrow> event \<Rightarrow> bool" where
  "guard_seen env key e =
     (case e of
        GetService k (Inr svc) \<Rightarrow> k = key \<and> env_ContainsFinalizer env svc finalizer
      | UpdateService written (Inr _) \<Rightarrow> \<exists>svc. written = env_AddFinalizer env svc finalizer
      | _ \<Rightarrow> False)"

text \<open>
  C12. The finalizer is on the Service before anything else happens: in every pass, each change
  to a cloud resource and each patch of the Service comes after the Service was fetched with
  the finalizer or the API server accepted adding it. So nothing can be created for a Service
  that could vanish without a cleanup.
\<close>

theorem finalizer_before_changes:
  assumes "run_state (Reconcile fuel rc cfg env key) h = (r, h @ es)"
  shows "preceded_by (guard_seen env key) (\<lambda>e. is_cloud_change e \<or> is_service_patch e \<or> is_status_patch e) es"
  using emits_appendD [OF Reconcile_follows assms]
  by cases (auto simp: guard_seen_def is_cloud_change_def elim!: guard_stepE)

text \<open>
  The reverse of \<open>finalizer_removed_only_when_clean\<close>: a deletion relies on the recorded id alone. Without
  one no load balancer is deleted, even if one was created before the controller could record it.
\<close>

lemma rule_cleanup_no_lb:
  "rule_cleanup cfg env svc es r \<Longrightarrow> e \<in> set es \<Longrightarrow> \<not> is_delete_lb e"
  by (auto elim!: rule_cleanupE dest: reads_only_harmless [OF rule_target_reads])

lemma unrecorded_lb_left_behind:
  assumes "run_state (Reconcile fuel rc cfg env key) h = (r, h @ es)"
    and "hd es = GetService key (Inr svc)" and "\<not> DeletionTimestamp_IsZero svc"
    and "annotation svc loadbalancerIDLabelKey = ''''" and "e \<in> set es"
  shows "\<not> is_delete_lb e"
  using emits_appendD [OF Reconcile_follows assms(1)] assms(2,3)
  by (rule deletion_pass) (use assms(4,5) in \<open>auto elim!: delete_sessionE dest: rule_cleanup_no_lb\<close>)

text \<open>A Service with a load balancer and no firewall rule, being deleted.\<close>

definition dying_svc :: service where
  "dying_svc = lb_svc\<lparr>svcDeletionTimestamp := Some 5\<rparr>"

definition released_svc :: service where
  "released_svc = dying_svc\<lparr>svcFinalizers := []\<rparr>"

definition dying_env :: env where
  "dying_env = offline_env
     \<lparr>env_get_service := (\<lambda>_ _. Inr dying_svc),
      env_delete_lb := (\<lambda>_ _ _. (Some ok_response, None)),
      env_update_service := (\<lambda>_ svc. Inr svc)\<rparr>"

lemma dying_svc_simps [simp]:
  "annotation dying_svc loadbalancerIDLabelKey = ''lb''" "\<not> DeletionTimestamp_IsZero dying_svc"
  "\<not> rule_managed dying_svc" "svcDeletionTimestamp dying_svc = Some 5"
proof -
  have "annotation dying_svc k = annotation lb_svc k" for k by (simp add: dying_svc_def annotation_def)
  then show "annotation dying_svc loadbalancerIDLabelKey = ''lb''" by simp
  show "\<not> rule_managed dying_svc"
    by (simp add: rule_managed_def dying_svc_def lb_svc_def marked_service_def)
qed (simp_all add: dying_svc_def DeletionTimestamp_IsZero_def)

lemma dying_env_simps [simp]:
  "env_get_service dying_env h key = Inr dying_svc"
  "env_delete_lb dying_env h p i = (Some ok_response, None)"
  "env_update_service dying_env h svc = Inr svc"
  "env_ContainsFinalizer dying_env dying_svc finalizer"
  "env_RemoveFinalizer dying_env dying_svc finalizer = released_svc"
  by (simp_all add: dying_env_def offline_env_def dying_svc_def released_svc_def lb_svc_def
      marked_service_def set_annotation_def test_svc_def)

definition dying_events :: "event list" where
  "dying_events =
     [GetService (object_key test_svc) (Inr dying_svc),
      DeleteExternalLoadBalancer ''project'' ''lb'' (Some ok_response, None),
      UpdateService released_svc (Inr released_svc)]"

lemma run_Reconcile_dying:
  "run_state (Reconcile fuel rc test_config dying_env (object_key test_svc)) h =
     (Returned (empty_result, None), h @ dying_events)"
  by (simp add: Reconcile_def reconcile_deletion_def handleDelete_def deleteFirewallRule_def call_defs
      delete_answered_def dying_events_def Let_def)

lemma dying_events_facts [simp]:
  "hd dying_events = GetService (object_key test_svc) (Inr dying_svc)"
  "UpdateService released_svc (Inr released_svc) \<in> set dying_events"
  "DeleteExternalLoadBalancer ''project'' ''lb'' (Some ok_response, None) \<in> set dying_events"
  by (simp_all add: dying_events_def)

text \<open>One that opts in and also records a rule, and what the pass over it does.\<close>

definition ruled_svc :: service where
  "ruled_svc = set_annotation loadbalancerIDLabelKey ''lb''
     (recorded_svc\<lparr>svcDeletionTimestamp := Some 5, svcFinalizers := [finalizer]\<rparr>)"

definition unruled_svc :: service where
  "unruled_svc = drop_rule_annotations ruled_svc"

definition ruled_env :: env where
  "ruled_env = dying_env
     \<lparr>env_get_service := (\<lambda>_ _. Inr ruled_svc),
      env_delete_rule := (\<lambda>_ _ _. ApiOk ok_response ()),
      env_patch_service := (\<lambda>_ _ svc. Inr svc)\<rparr>"

definition ruled_events :: "event list" where
  "ruled_events =
     [GetService (object_key test_svc) (Inr ruled_svc),
      DeleteVPCFirewallRule ''project'' ''r'' (ApiOk ok_response ()),
      PatchService ruled_svc unruled_svc (Inr unruled_svc),
      DeleteExternalLoadBalancer ''project'' ''lb'' (Some ok_response, None),
      UpdateService (unruled_svc\<lparr>svcFinalizers := []\<rparr>) (Inr (unruled_svc\<lparr>svcFinalizers := []\<rparr>))]"

lemma ruled_svc_simps [simp]:
  "annotation ruled_svc loadbalancerIDLabelKey = ''lb''" "annotation ruled_svc FirewallRuleIdKey = ''r''"
  "rule_managed ruled_svc" "\<not> DeletionTimestamp_IsZero ruled_svc" "rule_in_care test_config ruled_svc"
  by (simp_all add: ruled_svc_def set_annotation_def annotation_def annotation_keys rule_managed_def
      DeletionTimestamp_IsZero_def rule_in_care_def)

lemma ruled_env_simps [simp]:
  "env_get_service ruled_env h key = Inr ruled_svc"
  "env_delete_rule ruled_env h p i = ApiOk ok_response ()"
  "env_patch_service ruled_env h orig svc = Inr svc"
  "env_delete_lb ruled_env h p i = (Some ok_response, None)"
  "env_update_service ruled_env h svc = Inr svc"
  "env_ContainsFinalizer ruled_env ruled_svc finalizer"
  "env_RemoveFinalizer ruled_env unruled_svc finalizer = unruled_svc\<lparr>svcFinalizers := []\<rparr>"
  by (simp_all add: ruled_env_def dying_env_def offline_env_def ruled_svc_def unruled_svc_def set_annotation_def
      drop_rule_annotations_def delete_annotation_def)

lemma run_Reconcile_ruled:
  "run_state (Reconcile fuel rc test_config ruled_env (object_key test_svc)) h =
     (Returned (empty_result, None), h @ ruled_events)"
  by (simp add: Reconcile_def reconcile_deletion_def handleDelete_def deleteFirewallRule_def
      delete_rule_by_id_def patch_service_def call_defs delete_answered_def ruled_events_def Let_def
      unruled_svc_def [symmetric])

lemma ruled_events_facts [simp]:
  "hd ruled_events = GetService (object_key test_svc) (Inr ruled_svc)"
  "UpdateService (unruled_svc\<lparr>svcFinalizers := []\<rparr>) (Inr (unruled_svc\<lparr>svcFinalizers := []\<rparr>)) \<in> set ruled_events"
  "DeleteExternalLoadBalancer ''project'' ''lb'' (Some ok_response, None) \<in> set ruled_events"
  by (simp_all add: ruled_events_def)

theorem finalizer_removed_only_when_clean_witness:
  "rule_cleaned test_config ruled_env ruled_svc ruled_events \<and> lb_released test_config ruled_svc ruled_events"
  using finalizer_removed_only_when_clean [OF run_Reconcile_ruled ruled_events_facts(1) ruled_svc_simps(4)
      ruled_events_facts(2)]
  by simp

theorem deletion_released_or_retried_witness:
  "\<exists>svc' written. last dying_events = UpdateService (env_RemoveFinalizer dying_env svc' finalizer) (Inr written)"
  using deletion_released_or_retried [OF run_Reconcile_dying dying_events_facts(1) dying_svc_simps(2)] by simp

theorem deleting_service_only_deletes_witness:
  "is_delete_lb (DeleteExternalLoadBalancer ''project'' ''lb'' (Some ok_response, None)) \<or>
   is_delete_rule (DeleteExternalLoadBalancer ''project'' ''lb'' (Some ok_response, None))"
  by (rule deleting_service_only_deletes [OF run_Reconcile_dying dying_events_facts(1) dying_svc_simps(2)
        dying_events_facts(3)]) (simp add: is_cloud_change_def)

theorem lb_deleted_after_rule_witness:
  "\<exists>svc before after. ruled_events =
     before @ DeleteExternalLoadBalancer ''project'' ''lb'' (Some ok_response, None) # after \<and>
     hd before = GetService (object_key test_svc) (Inr svc) \<and>
     (if rule_in_care test_config svc then rule_cleaned test_config ruled_env svc before
      else before = [GetService (object_key test_svc) (Inr svc)])"
  using lb_deleted_after_rule [OF run_Reconcile_ruled ruled_events_facts(3)] by blast

theorem finalizer_before_changes_witness:
  "preceded_by (guard_seen dying_env (object_key test_svc))
     (\<lambda>e. is_cloud_change e \<or> is_service_patch e \<or> is_status_patch e) dying_events"
  by (rule finalizer_before_changes [OF run_Reconcile_dying])

end
