(* ===== verification/ReconcilerLiveness.thy ===== *)
theory ReconcilerLiveness
  imports ReconcilerSafety
begin

text \<open>
  When a pass is over and what it leaves behind: a pass terminates if the operations it waits
  for settle, it creates each resource at most once, and what has been seen to when an update ends
  without asking for another pass.
\<close>

section \<open>Termination\<close>

text \<open>The create operation of the load balancer settles within \<open>n\<close> polls.\<close>

definition lb_operations_settle :: "env \<Rightarrow> config \<Rightarrow> nat \<Rightarrow> bool" where
  "lb_operations_settle env cfg n \<longleftrightarrow>
     (\<forall>h i. n \<le> count_polls h \<longrightarrow> \<not> keeps_polling (env_get_lb_operation env h (CrusoeProjectID cfg) i))"

lemma state_eqI: "(\<And>h. run_state m h = run_state m' h) \<Longrightarrow> m = m'"
  by (cases m; cases m') auto

text \<open>With enough fuel, waiting is one program whatever the fuel, and it does not run out.\<close>

lemma WaitForOperation_settles:
  assumes "lb_operations_settle env cfg n"
  shows "wp (WaitForOperation (Suc n + k) env (call_GetExternalLoadBalancerOperation env) op (CrusoeProjectID cfg))
    (\<lambda>r _. r \<noteq> Unfinished) h"
    and "WaitForOperation (Suc n + k) env (call_GetExternalLoadBalancerOperation env) op (CrusoeProjectID cfg) =
      WaitForOperation (Suc n) env (call_GetExternalLoadBalancerOperation env) op (CrusoeProjectID cfg)"
proof -
  let ?run = "\<lambda>op fuel. run_state (wait_loop fuel env (call_GetExternalLoadBalancerOperation env)
    (CrusoeProjectID cfg) 1 op)"
  have enough: "fst (?run op (Suc n) h) \<noteq> Unfinished" for op h
    by (rule wait_loop_enough_fuel [where n = n]) (use assms in \<open>auto simp: lb_operations_settle_def\<close>)
  have same: "?run op (Suc n + k) h = ?run op (Suc n) h" for op h
    using enough [of op h] wait_loop_fuel_mono [of "Suc n"] by (metis prod.collapse)
  show "wp (WaitForOperation (Suc n + k) env (call_GetExternalLoadBalancerOperation env) op (CrusoeProjectID cfg))
    (\<lambda>r _. r \<noteq> Unfinished) h"
    using enough [of "the op" h] same
    by (cases op) (force simp: WaitForOperation_def wp_def simp del: wait_loop.simps split: prod.split)+
  show "WaitForOperation (Suc n + k) env (call_GetExternalLoadBalancerOperation env) op (CrusoeProjectID cfg) =
      WaitForOperation (Suc n) env (call_GetExternalLoadBalancerOperation env) op (CrusoeProjectID cfg)"
    using same by (cases op) (auto simp: WaitForOperation_def simp del: wait_loop.simps intro: state_eqI)
qed

text \<open>The steps after the wait never run out of fuel: there is no loop in them.\<close>

lemma rule_session_returns: "rule_session cfg env svc es r \<Longrightarrow> r \<noteq> Unfinished"
  by (auto elim!: rule_session.cases branch_end.cases)

lemma record_session_returns: "record_session cfg env svc lb protocol es r \<Longrightarrow> r \<noteq> Unfinished"
  by (auto elim!: record_sessionE dest!: rule_session_returns
      simp: after_rule_def split: outcome.splits option.splits)

lemma update_pass_returns: "update_pass cfg env svc es r \<Longrightarrow> r \<noteq> Unfinished"
  by (auto elim!: update_passE dest!: rule_session_returns
      simp: update_requeue_def Let_def split: outcome.splits option.splits if_splits)

lemma recordLoadBalancer_returns: "wp (recordLoadBalancer cfg env svc lb protocol) (\<lambda>r _. r \<noteq> Unfinished) h"
  by (rule wp_emits [OF recordLoadBalancer_follows]) (rule record_session_returns)

lemma create_settled_returns: "wp (create_settled rc cfg env svc protocol op) (\<lambda>r _. r \<noteq> Unfinished) h"
  by (auto simp: create_settled_def wp Let_def
      intro!: recordLoadBalancer_returns wp_emits [OF recordWarning_emits] split: sum.split)

lemma create_submit_returns:
  assumes "lb_operations_settle env cfg n"
  shows "wp (create_submit (Suc n + k) rc cfg env svc req) (\<lambda>r _. r \<noteq> Unfinished) h"
proof -
  have waited: "wp (WaitForOperation (Suc n + k) env (call_GetExternalLoadBalancerOperation env) op (CrusoeProjectID cfg))
      (\<lambda>waited. wp (case waited of
          Panicked message \<Rightarrow> State_Monad.return (Panicked message)
        | Unfinished \<Rightarrow> State_Monad.return Unfinished
        | Returned (Inl err) \<Rightarrow> State_Monad.return (Returned (empty_result, Some err))
        | Returned (Inr op) \<Rightarrow> create_settled rc cfg env svc (postProtocol req) op)
       (\<lambda>r _. r \<noteq> Unfinished)) h" for op h
    by (rule wp_mono [OF WaitForOperation_settles(1) [OF assms]])
      (auto simp: wp intro: create_settled_returns split: outcome.split sum.split)
  then show ?thesis
    by (auto simp: create_submit_def wp call_CreateExternalLoadBalancer_def split: api_result.split)
qed

lemma handleCreate_returns:
  assumes "lb_operations_settle env cfg n"
  shows "wp (handleCreate (Suc n + k) rc cfg env svc) (\<lambda>r _. r \<noteq> Unfinished) h"
proof -
  have adopt: "wp (create_or_adopt (Suc n + k) rc cfg env svc protocol) (\<lambda>r _. r \<noteq> Unfinished) h" for protocol h
    unfolding create_or_adopt_def
    by (auto simp: wp Let_def simp del: add_Suc intro!: wp_emits [OF parseListenPortsAndBackends_reads]
        wp_emits [OF getVPCAndLocationInfo_emits] wp_emits [OF findExistingLoadBalancer_follows]
        recordLoadBalancer_returns create_submit_returns [OF assms] split: sum.split option.split)
  then show ?thesis
    unfolding handleCreate_def
    by (auto simp: wp simp del: add_Suc intro!: wp_emits [OF recordWarning_emits]
        wp_emits [OF cachedServiceIsStale_emits] split: sum.split bool.split)
qed

text \<open>
  C19. A pass terminates: if from the n-th poll on the operations API stops answering "in
  progress", then with n + 1 units of fuel or more a pass of \<open>Reconcile\<close>, whatever the Service
  and whatever the services answer, comes to an end, and always to the same end.
\<close>

theorem reconcile_terminates:
  assumes "lb_operations_settle env cfg n"
  shows "\<exists>r h'. r \<noteq> Unfinished \<and>
    (\<forall>k. run_state (Reconcile (Suc n + k) rc cfg env key) h = (r, h'))"
proof -
  have same: "Reconcile (Suc n + k) rc cfg env key = Reconcile (Suc n) rc cfg env key" for k
  proof -
    have "create_submit (Suc n + k) rc cfg env svc req = create_submit (Suc n) rc cfg env svc req" for svc req
      unfolding create_submit_def WaitForOperation_settles(2) [OF assms] ..
    then have "handleCreate (Suc n + k) rc cfg env svc = handleCreate (Suc n) rc cfg env svc" for svc
      unfolding handleCreate_def create_or_adopt_def by (simp only:)
    then show ?thesis unfolding Reconcile_def by (simp only:)
  qed
  have "wp (handleCreate (Suc n) rc cfg env svc) (\<lambda>r _. r \<noteq> Unfinished) h" for svc h
    using handleCreate_returns [OF assms, where k = 0] by simp
  moreover have "wp (handleUpdate rc cfg env svc) (\<lambda>r _. r \<noteq> Unfinished) h" for svc h
    by (rule wp_emits [OF handleUpdate_follows]) (rule update_pass_returns)
  moreover have "wp (reconcile_deletion cfg env svc) (\<lambda>_ _. True) h" for svc h
    by (simp add: wp_def split: prod.split)
  ultimately have "wp (Reconcile (Suc n) rc cfg env key) (\<lambda>r _. r \<noteq> Unfinished) h"
    unfolding Reconcile_def
    by (auto simp: wp call_GetService_def intro!: wp_emits [OF add_finalizer_follows] split: sum.split)
  then obtain r h' where "run_state (Reconcile (Suc n) rc cfg env key) h = (r, h')" "r \<noteq> Unfinished"
    by (auto simp: wp_def split: prod.splits)
  with same show ?thesis by auto
qed

theorem reconcile_terminates_witness:
  "\<exists>r h'. r \<noteq> Unfinished \<and>
    (\<forall>k. run_state (Reconcile (Suc 2 + k) test_reconciler test_config
       (offline_env\<lparr>env_get_lb_operation := \<lambda>h _ _. ApiOk ok_response
          (test_op (if count_polls h < 2 then OpInProgress else OpSuccess))\<rparr>) (object_key test_svc)) []
       = (r, h'))"
  by (rule reconcile_terminates) (simp add: lb_operations_settle_def keeps_polling_def)

section \<open>What a pass creates\<close>

text \<open>
  A Service with a \<open>loadBalancerClass\<close> belongs to another controller: unless it is being
  deleted, a pass over it reads it and does nothing else, not even adding the finalizer.
\<close>

theorem foreign_service_ignored:
  assumes "env_get_service env h key = Inr svc" and "DeletionTimestamp_IsZero svc"
    and "svcLoadBalancerClass svc \<noteq> None"
  shows "run_state (Reconcile fuel rc cfg env key) h = (Returned (empty_result, None), h @ [GetService key (Inr svc)])"
  using assms by (auto simp: Reconcile_def call_defs)

definition tailscale_svc :: service where
  "tailscale_svc = test_svc\<lparr>svcLoadBalancerClass := Some ''tailscale''\<rparr>"

theorem foreign_service_ignored_witness:
  "run_state (Reconcile 0 test_reconciler test_config (offline_env\<lparr>env_get_service := \<lambda>_ _. Inr tailscale_svc\<rparr>)
      (object_key test_svc)) [] =
     (Returned (empty_result, None), [GetService (object_key test_svc) (Inr tailscale_svc)])"
  using foreign_service_ignored [of "offline_env\<lparr>env_get_service := \<lambda>_ _. Inr tailscale_svc\<rparr>" "[]"
      "object_key test_svc" tailscale_svc]
  by (simp add: tailscale_svc_def DeletionTimestamp_IsZero_def)

text \<open>Creates in the sessions, counted.\<close>

definition creates :: "event list \<Rightarrow> nat \<times> nat" where
  "creates es = (length (filter is_create_lb es), length (filter is_create_rule es))"

lemma creates_simps [simp]:
  "creates [] = (0, 0)"
  "creates (es @ es') = (fst (creates es) + fst (creates es'), snd (creates es) + snd (creates es'))"
  "creates (e # es) = ((if is_create_lb e then 1 else 0) + fst (creates es),
     (if is_create_rule e then 1 else 0) + snd (creates es))"
  by (simp_all add: creates_def)

lemma creates_none: "\<forall>e \<in> set es. \<not> is_create_lb e \<and> \<not> is_create_rule e \<Longrightarrow> creates es = (0, 0)"
  by (simp add: creates_def)

lemma lb_poll_creates: "is_lb_poll e \<Longrightarrow> \<not> is_create_lb e \<and> \<not> is_create_rule e"
  by (cases e) simp_all

lemma creates_sessions [simp]:
  "reads_only es \<Longrightarrow> creates es = (0, 0)"
  "topology_reads es \<Longrightarrow> creates es = (0, 0)"
  "polling es \<Longrightarrow> creates es = (0, 0)"
  "only_warnings svc reason es \<Longrightarrow> creates es = (0, 0)"
  "lookup_session rc env projectID name es found \<Longrightarrow> creates es = (0, 0)"
  "rule_cleanup cfg env svc es cleaned \<Longrightarrow> creates es = (0, 0)"
  "delete_session cfg env svc es deleted \<Longrightarrow> creates es = (0, 0)"
proof -
  have reads: "creates es = (0, 0)" if "reads_only es" for es
    using reads_only_harmless [OF that] by (intro creates_none) auto
  then show "reads_only es \<Longrightarrow> creates es = (0, 0)" .
  show "topology_reads es \<Longrightarrow> creates es = (0, 0)" using reads by simp
  show "polling es \<Longrightarrow> creates es = (0, 0)"
    using lb_poll_creates by (intro creates_none) (auto simp: polling_def)
  show "only_warnings svc reason es \<Longrightarrow> creates es = (0, 0)"
    by (auto simp: only_warnings_def intro!: creates_none)
  show "lookup_session rc env projectID name es found \<Longrightarrow> creates es = (0, 0)"
    using lookup_session_reads reads by blast
  have cleanup: "\<not> is_create_lb e \<and> \<not> is_create_rule e" if "is_cleanup_event e" for e
    using that by (cases e) simp_all
  then show "rule_cleanup cfg env svc es cleaned \<Longrightarrow> creates es = (0, 0)"
    by (intro creates_none) (auto dest: rule_cleanup_events)
  from cleanup show "delete_session cfg env svc es deleted \<Longrightarrow> creates es = (0, 0)"
    by (intro creates_none) (auto dest: delete_session_events)
qed

lemma rule_session_creates: "rule_session cfg env svc es r \<Longrightarrow> fst (creates es) = 0 \<and> snd (creates es) \<le> 1"
proof
  assume s: "rule_session cfg env svc es r"
  have "filter is_create_lb es = []"
    using s record_event_harmless rule_event_record rule_session_events by (fastforce simp: filter_empty_conv)
  then show "fst (creates es) = 0" by (simp add: creates_def)
  show "snd (creates es) \<le> 1"
  proof (cases "\<exists>req p answer. CreateVPCFirewallRule req p answer \<in> set es")
    case True
    then show ?thesis using rule_session_create [OF s] by (auto simp: creates_def)
  next
    case False
    then have "filter is_create_rule es = []"
      by (auto simp: filter_empty_conv elim!: is_create_rule.elims(2))
    then show ?thesis by (simp add: creates_def)
  qed
qed

lemma record_session_creates:
  "record_session cfg env svc lb protocol es r \<Longrightarrow> fst (creates es) = 0 \<and> snd (creates es) \<le> 1"
  by (auto elim!: record_sessionE dest: rule_session_creates)

lemma submit_session_creates:
  "submit_session rc cfg env svc req es r \<Longrightarrow> fst (creates es) = 1 \<and> snd (creates es) \<le> 1"
  by (auto elim!: submit_sessionE dest: record_session_creates)

lemma read_creates [simp]: "is_read e \<Longrightarrow> \<not> is_create_lb e" "is_read e \<Longrightarrow> \<not> is_create_rule e"
  by (cases e; simp)+

lemma create_session_creates: "create_session rc cfg env svc es r \<Longrightarrow> fst (creates es) \<le> 1 \<and> snd (creates es) \<le> 1"
  by (erule create_sessionE) (auto dest!: record_session_creates submit_session_creates)

lemma update_pass_creates: "update_pass cfg env svc es r \<Longrightarrow> fst (creates es) = 0 \<and> snd (creates es) \<le> 1"
  by (erule update_passE)
    (auto elim!: ingress_sessionE update_sessionE dest!: rule_session_creates)

lemma guard_step_creates [simp]: "guard_step env svc es r \<Longrightarrow> creates es = (0, 0)"
  by (auto elim!: guard_stepE)

lemma guard_step_seen:
  "guard_step env svc es (Inr svc') \<Longrightarrow> svc' = svc \<or> (\<exists>written. UpdateService written (Inr svc') \<in> set es)"
  by (auto elim!: guard_stepE)

text \<open>
  A pass creates at most one load balancer and at most one firewall rule. It creates a load
  balancer only for a Service that, as fetched or as the API server returned it when the
  finalizer was added, records none.
\<close>

theorem one_create_per_pass:
  assumes "run_state (Reconcile fuel rc cfg env key) h = (r, h @ es)"
  shows "length (filter is_create_lb es) \<le> 1 \<and> length (filter is_create_rule es) \<le> 1 \<and>
    ((\<exists>e \<in> set es. is_create_lb e) \<longrightarrow>
       (\<exists>svc. (GetService key (Inr svc) \<in> set es \<or> (\<exists>written. UpdateService written (Inr svc) \<in> set es)) \<and>
          svcAnnotations svc loadbalancerIDLabelKey = None))"
proof -
  have "fst (creates es) \<le> 1 \<and> snd (creates es) \<le> 1 \<and> (0 < fst (creates es) \<longrightarrow>
       (\<exists>svc. (GetService key (Inr svc) \<in> set es \<or> (\<exists>written. UpdateService written (Inr svc) \<in> set es)) \<and>
          svcAnnotations svc loadbalancerIDLabelKey = None))"
    using emits_appendD [OF Reconcile_follows assms]
  proof cases
    case (creating svc es1 svc' es2)
    have "creates es = creates es2" using creating(1,4) by simp
    with create_session_creates [OF creating(6)] guard_step_seen [OF creating(4)] creating(1,5)
    show ?thesis by (intro conjI impI exI [of _ svc']) auto
  next
    case (updating svc es1 svc' es2)
    then show ?thesis using update_pass_creates [OF updating(6)] by simp
  qed simp_all
  then show ?thesis by (auto simp: creates_def filter_empty_conv)
qed

theorem one_create_per_pass_witness: "length (filter is_create_lb dying_events) \<le> 1"
  using one_create_per_pass [OF run_Reconcile_dying] by blast

section \<open>Updates that end quietly\<close>

lemma update_requeue_quiet:
  assumes "update_requeue delay ensured = Returned (empty_result, None)"
  obtains svc d where "ensured = Returned (svc, d, None)" "\<not> 0 < d" "\<not> 0 < delay"
proof -
  have "requeue_after d \<noteq> empty_result" if "0 < d" for d
    using that by (simp add: empty_result_def requeue_after_def)
  then have "\<not> 0 < earliestRequeue [d, delay]" if "ensured = Returned (svc, d, None)" for svc d
    using assms that by (auto simp: update_requeue_def Let_def split: if_splits)
  then show thesis
    using assms that
    by (fastforce simp: update_requeue_def earliestRequeue_def split: outcome.splits prod.splits option.splits if_splits)
qed

lemma reads_no_operation:
  "topology_reads es \<Longrightarrow> GetNetworkingVPCFirewallRulesOperation p i answer \<notin> set es"
  by (auto simp: topology_reads_def)

lemma rule_branch_quiet:
  assumes "rule_branch cfg env svc args es (EnsureDone (svc', d, None))" and "\<not> 0 < d"
    and "GetNetworkingVPCFirewallRulesOperation p i answer \<in> set es"
  shows "view_operation env answer \<noteq> OpPending"
  using assms by (auto elim!: rule_branchE simp: after_failure_def split: if_splits)

lemma rule_session_quiet:
  assumes "rule_session cfg env svc es (Returned (svc', d, None))" and "\<not> 0 < d"
  shows "filter is_create_rule es = [] \<and>
    (\<forall>p i answer. GetNetworkingVPCFirewallRulesOperation p i answer \<in> set es \<longrightarrow> view_operation env answer \<noteq> OpPending)"
  using assms(1)
proof cases
  case (branched es1 args branch "next" rest)
  from branched(5) assms(2) have s: "rest = []" "next = EnsureDone (svc', d, None)" by (auto elim: branch_end.cases)
  have "creates es1 = (0, 0)" using branched(3) by (auto simp: args_reads_def)
  moreover have "filter is_create_rule branch = []"
    using rule_branch_no_create [OF branched(4)] by (auto simp: filter_empty_conv)
  ultimately have "filter is_create_rule es = []" by (simp add: branched(1) s(1) creates_def)
  moreover have "view_operation env answer \<noteq> OpPending"
    if "GetNetworkingVPCFirewallRulesOperation p i answer \<in> set es" for p i answer
    using that branched(3) rule_branch_quiet [OF branched(4) [unfolded s(2)] assms(2)]
    by (auto simp: branched(1) s(1) args_reads_def dest: reads_no_operation)
  ultimately show ?thesis by blast
next
  case args_skipped
  then have "creates es = (0, 0)" by simp
  then show ?thesis using args_skipped reads_no_operation by (auto simp: creates_def)
qed simp

text \<open>
  What has become of the load balancer and of the rule: the update for the Service over the nodes
  listed was accepted, or no port is of its protocol; and the recorded rule was read and is the one
  wanted or was patched into it, or, where none was recorded, an id was recorded and the write taken.
\<close>

definition lb_pushed :: "config \<Rightarrow> service \<Rightarrow> event list \<Rightarrow> bool" where
  "lb_pushed cfg svc es \<longleftrightarrow>
     nothing_served svc \<or>
     (\<exists>nodes answer. ListNodes nodes \<in> set es \<and> update_outcome answer = None \<and>
        UpdateExternalLoadBalancer (update_request svc nodes) (CrusoeProjectID cfg)
          (annotation svc loadbalancerIDLabelKey) answer \<in> set es)"

definition rule_in_place :: "service \<Rightarrow> firewall_rule_args \<Rightarrow> event list \<Rightarrow> bool" where
  "rule_in_place svc args es \<longleftrightarrow>
     (case svcAnnotations svc FirewallRuleIdKey of
        Some ruleID \<Rightarrow> \<exists>resp rule. GetVPCFirewallRule (argProjectID args) ruleID (ApiOk resp rule) \<in> set es \<and>
          (case CompareFirewallRule rule args of
             (matches, _, args') \<Rightarrow> matches \<or>
               (\<exists>resp'. PatchVPCFirewallRule (rule_patch_request args') (argProjectID args) ruleID
                  (ApiOk resp' ()) \<in> set es))
      | None \<Rightarrow> \<exists>ruleID written modified. PatchService svc modified (Inr written) \<in> set es \<and>
          modified \<in> {set_annotation FirewallRuleIdKey ruleID svc, adopted_service ruleID svc})"

text \<open>The rule is not managed, or deliberately skipped, or in place; or the nodes could not be listed.\<close>

definition rule_attended :: "config \<Rightarrow> service \<Rightarrow> event list \<Rightarrow> bool" where
  "rule_attended cfg svc es \<longleftrightarrow>
     \<not> rule_managed svc \<or>
     (\<exists>before reads. es = before @ reads \<and> (rule_args_skipped cfg svc reads \<or> nodes_unlisted reads)) \<or>
     (\<exists>before reads args after. es = before @ reads @ after \<and> args_reads cfg svc reads args \<and>
        rule_in_place svc args after)"

lemma rule_attended_before: "rule_attended cfg svc es \<Longrightarrow> rule_attended cfg svc (before @ es)"
  unfolding rule_attended_def by (metis append_assoc)

lemma rule_branch_in_place:
  assumes "rule_branch cfg env svc args es (EnsureDone (svc', d, None))" and "\<not> 0 < d"
  shows "rule_in_place svc args es"
  using assms(1)
proof cases
  case (rule_drifted ruleID rule rule' args' resp patched)
  then show ?thesis by (cases patched) (auto simp: rule_in_place_def api_error_def)
qed (use assms(2) in \<open>auto simp: rule_in_place_def after_failure_def patch_outcome_def
    split: if_splits sum.splits prod.splits\<close>)

lemma rule_session_attended:
  assumes "rule_session cfg env svc es (Returned (svc', d, None))" and "\<not> 0 < d"
  shows "rule_attended cfg svc es"
  using assms(1)
proof cases
  case args_skipped
  then show ?thesis unfolding rule_attended_def by (metis append_Nil)
next
  case (branched es1 args branch "next" rest)
  from branched(5) assms(2) have "rest = []" "next = EnsureDone (svc', d, None)" by (auto elim: branch_end.cases)
  with branched(1,3) rule_branch_in_place [OF _ assms(2)] branched(4) show ?thesis
    unfolding rule_attended_def by (metis append_Nil append_Nil2)
qed (simp add: rule_attended_def)

lemma ingress_session_seen:
  "ingress_session cfg svc es (seen, delay) \<Longrightarrow> \<not> 0 < delay \<Longrightarrow>
     (seen = svc \<and> svcIngress svc \<noteq> []) \<or> (\<exists>modified. PatchServiceStatus svc modified (Inr seen) \<in> set es)"
  by (auto elim!: ingress_sessionE split: sum.splits)

lemma update_session_pushed:
  assumes "update_session cfg svc es None"
  shows "lb_pushed cfg svc es"
  using assms
proof cases
  case (pushed warnings req nodes answer)
  moreover have "patchId (update_request svc nodes) = annotation svc loadbalancerIDLabelKey"
    by (simp add: update_request_def)
  ultimately show ?thesis
    unfolding lb_pushed_def by (intro disjI2 exI [of _ nodes] exI [of _ answer]) simp
qed (simp add: lb_pushed_def)

lemma update_pass_quiet:
  assumes "update_pass cfg env svc es (Returned (empty_result, None))"
  obtains es1 svc1 delay es2 es3 svc2 d where "es = es1 @ es2 @ es3"
    "ingress_session cfg svc es1 (svc1, delay)" "\<not> 0 < delay" "update_session cfg svc1 es2 None"
    "rule_session cfg env svc1 es3 (Returned (svc2, d, None))" "\<not> 0 < d"
  using assms
proof cases
  case (lb_updated es1 svc1 delay es2 es3 ensured)
  from lb_updated(5) [symmetric] show thesis by (rule update_requeue_quiet) (use lb_updated that in auto)
qed (auto simp: empty_result_def requeue_after_def updateRetryInterval_def duration_defs)

text \<open>
  C27. What an update has done when it ends without an error and without asking for another pass. The
  Service has an external IP, or it was published and the API server took it. For the Service as it is
  then, every update of the load balancer was accepted, with the listeners over the nodes listed, or
  no port is of the load balancer's protocol. And the firewall rule is not managed or deliberately
  skipped, or is in place: the one recorded was read and is the one wanted or was patched into it, or
  an id was recorded for the first time; none was created in the pass and no create operation is
  pending. There is one exception: when the nodes cannot be listed, an update without listeners is
  sent, and the rule is passed over. Neither is noticed, and the update ends like any other.
\<close>

theorem quiet_update_is_settled:
  assumes "run_state (handleUpdate rc cfg env svc) h = (Returned (empty_result, None), h @ es)"
  shows "(svcIngress svc \<noteq> [] \<or> (\<exists>modified published. PatchServiceStatus svc modified (Inr published) \<in> set es)) \<and>
    (\<forall>req p i answer. UpdateExternalLoadBalancer req p i answer \<in> set es \<longrightarrow> update_outcome answer = None) \<and>
    filter is_create_rule es = [] \<and>
    (\<forall>p i answer. GetNetworkingVPCFirewallRulesOperation p i answer \<in> set es \<longrightarrow> view_operation env answer \<noteq> OpPending) \<and>
    (\<exists>seen. (seen = svc \<and> svcIngress svc \<noteq> [] \<or> (\<exists>modified. PatchServiceStatus svc modified (Inr seen) \<in> set es)) \<and>
       lb_pushed cfg seen es \<and> rule_attended cfg seen es)"
proof -
  obtain es1 svc1 delay es2 es3 svc2 d where s: "es = es1 @ es2 @ es3"
    "ingress_session cfg svc es1 (svc1, delay)" "\<not> 0 < delay" "update_session cfg svc1 es2 None"
    "rule_session cfg env svc1 es3 (Returned (svc2, d, None))" "\<not> 0 < d"
    by (rule update_pass_quiet [OF emits_appendD [OF handleUpdate_follows assms]])
  have rule: "\<not> (\<exists>req p i answer. UpdateExternalLoadBalancer req p i answer \<in> set es3)"
    using rule_session_events [OF s(5)] by fastforce
  have seen: "svc1 = svc \<and> svcIngress svc \<noteq> [] \<or> (\<exists>modified. PatchServiceStatus svc modified (Inr svc1) \<in> set es1)"
    by (rule ingress_session_seen [OF s(2,3)])
  have one: "filter is_create_rule es1 = []"
      "\<not> (\<exists>req p i answer. UpdateExternalLoadBalancer req p i answer \<in> set es1)"
      "\<not> (\<exists>p i answer. GetNetworkingVPCFirewallRulesOperation p i answer \<in> set es1)"
    using s(2,3) by (auto elim!: ingress_sessionE split: sum.splits)
  have two: "\<forall>req p i answer. UpdateExternalLoadBalancer req p i answer \<in> set es2 \<longrightarrow> update_outcome answer = None"
      "filter is_create_rule es2 = []"
      "\<not> (\<exists>p i answer. GetNetworkingVPCFirewallRulesOperation p i answer \<in> set es2)"
    using s(4) by (auto elim!: update_sessionE simp: only_warnings_def filter_empty_conv)
  have "lb_pushed cfg svc1 es"
    using update_session_pushed [OF s(4)] unfolding s(1) lb_pushed_def by auto
  moreover have "rule_attended cfg svc1 es"
    using rule_session_attended [OF s(5,6)] unfolding s(1) by (intro rule_attended_before)
  moreover have "svc1 = svc \<and> svcIngress svc \<noteq> [] \<or> (\<exists>modified. PatchServiceStatus svc modified (Inr svc1) \<in> set es)"
    using seen unfolding s(1) by auto
  ultimately show ?thesis
    using one two rule rule_session_quiet [OF s(5,6)] unfolding s(1) set_append filter_append
    by (intro conjI exI [of _ svc1]) auto
qed

definition quiet_events :: "event list" where
  "quiet_events =
     [GetExternalLoadBalancer ''project'' ''lb'' (ApiOk ok_response test_lb),
      PatchServiceStatus lb_svc (with_ip ''1.2.3.4'' lb_svc) (Inr (with_ip ''1.2.3.4'' lb_svc))] @ update_events"

lemma with_ip_lb_svc [simp]:
  "updateLoadBalancer rc cfg env (with_ip vip lb_svc) = updateLoadBalancer rc cfg env lb_svc"
  "\<not> rule_managed (with_ip vip lb_svc)"
  by (simp_all add: with_ip_def updateLoadBalancer_def warnOnProtocolDrift_def DeriveLoadBalancerProtocol_def
      recordWarning_def object_key_def annotation_def rule_managed_def lb_svc_def marked_service_def
      cong: if_cong sum.case_cong)

lemma run_handleUpdate_quiet:
  "run_state (handleUpdate test_reconciler test_config update_env lb_svc) h =
     (Returned (empty_result, None), h @ quiet_events)"
  by (simp add: handleUpdate_def run_ensureLoadBalancerIngress run_updateLoadBalancer quiet_events_def
      ensureFirewallRule_def update_requeue_def earliestRequeue_def)

theorem quiet_update_is_settled_witness:
  "\<exists>modified seen. PatchServiceStatus lb_svc modified (Inr seen) \<in> set quiet_events \<and>
     lb_pushed test_config seen quiet_events"
  using quiet_update_is_settled [OF run_handleUpdate_quiet] by auto

end
