(* ===== verification/System.thy ===== *)
theory System
  imports ReconcilerLiveness
begin

text \<open>
  The controller over time: pass after pass of \<open>Reconcile\<close>, for any Services in any order, each
  begun on the history that the earlier ones left. The manager runs one worker, so passes do not
  overlap; but the process can be killed and restarted anywhere, so a pass may be cut off after
  any of its events. What happens in the cluster and in the cloud between the passes is in the
  answers of the environment.
\<close>

section \<open>Histories\<close>

inductive histories :: "('e list \<Rightarrow> 'e list \<Rightarrow> bool) \<Rightarrow> 'e list \<Rightarrow> bool" for pass where
  start: "histories pass []"
| pass: "histories pass h \<Longrightarrow> pass h es \<Longrightarrow> histories pass (h @ take n es)"

definition reconcile_pass :: "reconciler \<Rightarrow> config \<Rightarrow> env \<Rightarrow> event list \<Rightarrow> event list \<Rightarrow> bool" where
  "reconcile_pass rc cfg env h es \<longleftrightarrow>
     (\<exists>fuel key r. run_state (Reconcile fuel rc cfg env key) h = (r, h @ es))"

text \<open>
  A property of the events of a kind, each with what came before it: if it holds within every
  pass it holds in every history.
\<close>

locale event_property =
  fixes pass :: "'e list \<Rightarrow> 'e list \<Rightarrow> bool"
    and kind :: "'e \<Rightarrow> bool"
    and holds :: "'e list \<Rightarrow> 'e \<Rightarrow> bool"
  assumes in_pass: "pass h (xs @ e # ys) \<Longrightarrow> kind e \<Longrightarrow> holds (h @ xs) e"
begin

lemma in_histories: "histories pass h \<Longrightarrow> h = xs @ e # ys \<Longrightarrow> kind e \<Longrightarrow> holds xs e"
proof (induction arbitrary: xs ys rule: histories.induct)
  case start
  then show ?case by simp
next
  case (pass h es n)
  from pass.prems(1) consider us where "h = xs @ e # us" | us where "xs = h @ us" "take n es = us @ e # ys"
    by (auto simp: append_eq_append_conv2 append_eq_Cons_conv)
  then show ?case
  proof cases
    case 1
    then show ?thesis by (rule pass.IH) (rule pass.prems(2))
  next
    case 2
    then have "es = us @ e # ys @ drop n es" by (metis append_Cons append_assoc append_take_drop_id)
    with pass.hyps(2) in_pass [of h us e "ys @ drop n es"] 2 pass.prems(2) show ?thesis by simp
  qed
qed

end

section \<open>Creations over time\<close>

text \<open>An accepted create of a load balancer with a name.\<close>

definition creates_named :: "string \<Rightarrow> string \<Rightarrow> event \<Rightarrow> bool" where
  "creates_named projectID name e \<longleftrightarrow>
     (\<exists>req resp op. e = CreateExternalLoadBalancer req projectID (ApiOk resp op) \<and>
        accepted_status resp \<and> postName req = name)"

text \<open>
  What the code relies on for not creating twice, of the API's listing by name: a load balancer
  whose create was accepted, and after which none was deleted, is in every list that is
  answered with success.
\<close>

definition listing_sees_creates :: "env \<Rightarrow> load_balancer_lookup \<Rightarrow> event list \<Rightarrow> bool" where
  "listing_sees_creates env l h \<longleftrightarrow>
     (\<forall>xs c vs e ys projectID name items. h = xs @ c # vs @ e # ys \<longrightarrow> creates_named projectID name c \<longrightarrow>
        (\<forall>d \<in> set vs. \<not> is_delete_lb d) \<longrightarrow> lookup_of env l projectID name e \<longrightarrow> listing e = Some items \<longrightarrow>
        (\<exists>lb \<in> set items. elbName lb = name))"

text \<open>The look-up that precedes a create, with only reads in between.\<close>

definition looked_up_before :: "env \<Rightarrow> load_balancer_lookup \<Rightarrow> event list \<Rightarrow> event \<Rightarrow> bool" where
  "looked_up_before env l xs e \<longleftrightarrow>
     (\<forall>req projectID answer. e = CreateExternalLoadBalancer req projectID answer \<longrightarrow>
        (\<exists>us found vs items. xs = us @ found # vs \<and> reads_only vs \<and> is_read found \<and>
           lookup_of env l projectID (postName req) found \<and> listing found = Some items \<and>
           (\<forall>lb \<in> set items. elbName lb \<noteq> postName req)))"

lemma skip_prefix:
  assumes "pre @ rest = xs @ e # ys" and "P e" and "filter P pre = []"
  obtains xs' where "xs = pre @ xs'" "rest = xs' @ e # ys"
  using assms by (auto simp: append_eq_append_conv2 append_eq_Cons_conv filter_empty_conv)

lemma only_split:
  assumes "xs @ c # ys = us @ c' # rest" and "P c" and "filter P us = []" and "filter P rest = []"
  shows "xs = us"
  using assms by (auto simp: append_eq_append_conv2 append_eq_Cons_conv Cons_eq_append_conv filter_empty_conv)

lemma create_session_looked_up:
  assumes "create_session rc cfg env svc es r" and "rLoadBalancerLookup rc = Some l"
    and "es = xs @ CreateExternalLoadBalancer req p answer # ys"
  shows "looked_up_before env l (h @ xs) (CreateExternalLoadBalancer req p answer)"
proof -
  have "CreateExternalLoadBalancer req p answer \<in> set es" using assms(3) by simp
  then obtain protocol e fresh reads looked submitted rest where s:
    "is_read e" "topology_reads reads"
    "lookup_session rc env (CrusoeProjectID cfg) (postName req) looked (Inr None)"
    "es = e # reads @ looked @ submitted" "p = CrusoeProjectID cfg"
    "submitted = CreateExternalLoadBalancer req p answer # rest" "filter is_create_lb rest = []"
    by (elim create_session_create [OF assms(1)]) blast
  from s(3) assms(2) obtain found items where f: "looked = [found]" "is_read found"
    "lookup_of env l p (postName req) found" "listing found = Some items"
    "\<forall>lb \<in> set items. elbName lb \<noteq> postName req"
    using lookup_session_reads [OF s(3)] s(5) by (auto elim!: lookup_sessionE simp: filter_empty_conv)
  have none: "filter is_create_lb (e # reads @ [found]) = []"
    using s(1,2) f(2) reads_no_create [of "e # reads @ [found]"] by simp
  have same: "xs @ CreateExternalLoadBalancer req p answer # ys =
      (e # reads @ [found]) @ CreateExternalLoadBalancer req p answer # rest"
    using assms(3) s(4,6) f(1) by simp
  have "xs = e # reads @ [found]"
    by (rule only_split [where P = is_create_lb, OF same _ none s(7)]) simp
  then have "h @ xs = (h @ e # reads) @ found # []" by simp
  with f show ?thesis unfolding looked_up_before_def by (metis event.inject(8) reads_only_simps(1))
qed

lemma reconcile_looked_up:
  assumes "reconcile_pass rc cfg env h es" and "rLoadBalancerLookup rc = Some l"
    and "es = xs @ e # ys" and "is_create_lb e"
  shows "looked_up_before env l (h @ xs) e"
proof -
  obtain req p answer where e: "e = CreateExternalLoadBalancer req p answer"
    using assms(4) by (auto elim: is_create_lb.elims)
  from assms(1) obtain fuel key r where "run_state (Reconcile fuel rc cfg env key) h = (r, h @ es)"
    by (auto simp: reconcile_pass_def)
  then have "reconcile_session rc cfg env key es r" by (rule emits_appendD [OF Reconcile_follows])
  moreover have some: "fst (creates es) \<noteq> 0" using assms(3,4) by simp
  ultimately show ?thesis
  proof cases
    case (creating svc es1 svc' es2)
    have "filter is_create_lb (GetService key (Inr svc) # es1) = []"
      using creating(4) by (auto elim!: guard_stepE)
    moreover have "(GetService key (Inr svc) # es1) @ es2 = xs @ e # ys"
      using assms(3) creating(1) by simp
    ultimately obtain xs' where "xs = (GetService key (Inr svc) # es1) @ xs'" "es2 = xs' @ e # ys"
      using skip_prefix assms(4) by metis
    with create_session_looked_up [OF creating(6) assms(2), of xs' req p answer ys "h @ GetService key (Inr svc) # es1"]
    show ?thesis by (simp add: e)
  next
    case (updating svc es1 svc' es2)
    then show ?thesis using some update_pass_creates [OF updating(6)] by simp
  qed (use some in simp_all)
qed

interpretation lookups: event_property "\<lambda>h es. reconcile_pass rc cfg env h es \<and> rLoadBalancerLookup rc = Some l"
    is_create_lb "looked_up_before env l" for rc cfg env l
  by unfold_locales (use reconcile_looked_up in blast)

text \<open>
  C1. Over all passes, restarts included, a Service never gets a second load balancer while the
  first one lives: if the API's listing by name shows the load balancers whose create it has
  accepted, then between an accepted create of a name and any later create of the same name, by
  whichever pass, a load balancer was deleted. The hypothesis on the listing is a strong one: every create that
  was accepted has to be listed, from then on, also while its operation is pending and after it failed.
\<close>

theorem no_second_load_balancer:
  assumes "histories (reconcile_pass rc cfg env) h" and "rLoadBalancerLookup rc = Some l"
    and "listing_sees_creates env l h"
    and "h = xs @ c # vs @ CreateExternalLoadBalancer req p answer # ys" and "creates_named p (postName req) c"
  shows "\<exists>d \<in> set vs. is_delete_lb d"
proof (rule ccontr)
  assume none: "\<not> (\<exists>d \<in> set vs. is_delete_lb d)"
  have "looked_up_before env l (xs @ c # vs) (CreateExternalLoadBalancer req p answer)"
    by (rule lookups.in_histories [of rc cfg env l h _ _ ys]) (use assms(1,2,4) in simp_all)
  then obtain us found reads items where f: "xs @ c # vs = us @ found # reads" "reads_only reads" "is_read found"
    "lookup_of env l p (postName req) found" "listing found = Some items"
    "\<forall>lb \<in> set items. elbName lb \<noteq> postName req"
    by (auto simp: looked_up_before_def)
  have "is_create_lb c" using assms(5) by (auto simp: creates_named_def)
  moreover have "filter is_create_lb reads = []" using f(2) by (rule reads_no_create)
  ultimately obtain ws where "vs = ws @ found # reads"
    using f(1,3) by (auto simp: append_eq_append_conv2 append_eq_Cons_conv Cons_eq_append_conv filter_empty_conv)
  with assms(4) none have "h = xs @ c # ws @ found # (reads @ CreateExternalLoadBalancer req p answer # ys)"
    "\<forall>d \<in> set ws. \<not> is_delete_lb d" by auto
  with assms(3,5) f(4-6) show False unfolding listing_sees_creates_def by blast
qed

section \<open>Witness: create, delete, create again\<close>

text \<open>An executable check that implies the hypothesis: no look-up while a created one lives.\<close>

fun quiet_while_live :: "bool \<Rightarrow> event list \<Rightarrow> bool" where
  "quiet_while_live live [] = True"
| "quiet_while_live live (e # es) =
     ((live \<longrightarrow> \<not> is_lookup e) \<and> quiet_while_live ((live \<or> is_create_lb e) \<and> \<not> is_delete_lb e) es)"

lemma quiet_while_live_suffix: "quiet_while_live live (xs @ ys) \<Longrightarrow> \<exists>live'. quiet_while_live live' ys"
  by (induction xs arbitrary: live) auto

lemma quiet_while_live_keeps:
  "quiet_while_live True (vs @ e # ys) \<Longrightarrow> \<forall>d \<in> set vs. \<not> is_delete_lb d \<Longrightarrow> \<not> is_lookup e"
  by (induction vs) auto

lemma create_no_delete: "is_create_lb e \<Longrightarrow> \<not> is_delete_lb e"
  by (cases e) simp_all

lemma quiet_listing: "quiet_while_live False h \<Longrightarrow> listing_sees_creates env l h"
  unfolding listing_sees_creates_def
proof (intro allI impI)
  fix xs c vs e ys projectID name items
  assume q: "quiet_while_live False h" "h = xs @ c # vs @ e # ys" "creates_named projectID name c"
    "\<forall>d \<in> set vs. \<not> is_delete_lb d" "lookup_of env l projectID name e"
  from q(3) have "is_create_lb c" by (auto simp: creates_named_def)
  with q(1,2) quiet_while_live_suffix [of False xs "c # vs @ e # ys"] create_no_delete
  have "quiet_while_live True (vs @ e # ys)" by auto
  with quiet_while_live_keeps q(4) lookup_of_is_lookup [OF q(5)] show "\<exists>lb \<in> set items. elbName lb = name"
    by blast
qed

definition cached_life :: "event list \<Rightarrow> service" where
  "cached_life h =
     (if length (filter is_create_lb h) = length (filter is_delete_lb h) then test_svc else dying_svc)"

definition life_env :: env where
  "life_env = lb_world cached_life [] (ApiOk ok_response (Some (test_op OpSuccess)))"

definition birth_events :: "event list" where
  "birth_events = GetService (object_key test_svc) (Inr test_svc) # prepare_events [] @
     CreateExternalLoadBalancer test_post ''project'' (ApiOk ok_response (Some (test_op OpSuccess))) # record_events"

lemma life_counts:
  "length (filter is_create_lb birth_events) = 1" "length (filter is_delete_lb birth_events) = 0"
  "length (filter is_create_lb dying_events) = 0" "length (filter is_delete_lb dying_events) = 1"
  by (simp_all add: birth_events_def prepare_events_def lookup_event_def record_events_def dying_events_def Let_def)

lemma run_birth:
  assumes "cached_life h = test_svc"
  shows "run_state (Reconcile 0 test_reconciler test_config life_env (object_key test_svc)) h =
     (Returned (requeue_after 0, None), h @ birth_events)"
proof -
  have "finalizer \<in> set (svcFinalizers test_svc)" "svcLoadBalancerClass test_svc = None"
    by (simp_all add: test_svc_def)
  with assms show ?thesis
    by (simp add: Reconcile_def add_finalizer_def call_GetService_def life_env_def run_handleCreate_creates birth_events_def)
qed

lemma run_death:
  assumes "cached_life h = dying_svc"
  shows "run_state (Reconcile 0 test_reconciler test_config life_env (object_key test_svc)) h =
     (Returned (empty_result, None), h @ dying_events)"
proof -
  have "finalizer \<in> set (svcFinalizers dying_svc)"
    "dying_svc\<lparr>svcFinalizers := filter (\<lambda>g. g \<noteq> finalizer) (svcFinalizers dying_svc)\<rparr> = released_svc"
    by (simp_all add: dying_svc_def lb_svc_def marked_service_def set_annotation_def test_svc_def released_svc_def)
  with assms show ?thesis
    by (simp add: Reconcile_def reconcile_deletion_def handleDelete_def deleteFirewallRule_def call_defs
      delete_answered_def dying_events_def life_env_def Let_def)
qed

theorem no_second_load_balancer_witness:
  "\<exists>d \<in> set (record_events @ dying_events @ GetService (object_key test_svc) (Inr test_svc) # prepare_events []).
     is_delete_lb d"
proof -
  let ?pass = "reconcile_pass test_reconciler test_config life_env"
  let ?h = "birth_events @ dying_events @ birth_events"
  have pass: "histories ?pass (h @ es)" if "histories ?pass h"
    "run_state (Reconcile 0 test_reconciler test_config life_env (object_key test_svc)) h = (r, h @ es)" for h es r
    using histories.pass [OF that(1), of es "length es"] that(2) by (auto simp: reconcile_pass_def)
  have "histories ?pass ([] @ birth_events)"
    by (rule pass [OF histories.start run_birth]) (simp add: cached_life_def)
  then have "histories ?pass (([] @ birth_events) @ dying_events)"
    by (rule pass [OF _ run_death]) (simp add: cached_life_def life_counts)
  then have "histories ?pass ((([] @ birth_events) @ dying_events) @ birth_events)"
    by (rule pass [OF _ run_birth]) (simp add: cached_life_def life_counts)
  then have h: "histories ?pass ?h" by simp
  have quiet: "quiet_while_live False ?h"
    by (simp add: birth_events_def dying_events_def prepare_events_def lookup_event_def record_events_def
        is_lookup_def Let_def)
  show ?thesis
    by (rule no_second_load_balancer [OF h _ quiet_listing [OF quiet], where c = "CreateExternalLoadBalancer test_post ''project''
        (ApiOk ok_response (Some (test_op OpSuccess)))" and req = test_post and p = "''project''" and xs = "GetService (object_key test_svc) (Inr test_svc) # prepare_events []"
        and answer = "ApiOk ok_response (Some (test_op OpSuccess))" and ys = record_events])
      (simp_all add: birth_events_def creates_named_def accepted_status_def)
qed

end
