(* ===== verification/Protocol.thy ===== *)
theory Protocol
  imports ReconcilerSafety
begin

text \<open>
  The write protocol of a pass: which changes a pass may make to the cloud and to the Service, in which
  order, and after which failures it may go on. It is an automaton over the changes and whether they
  succeeded, and \<open>Reconcile\<close> is shown to refine it: whatever the services answer, the changes of a pass
  are a run of the automaton. The second part says what the changes to the Service contain.
\<close>

section \<open>The automaton\<close>

datatype change =
    WriteFinalizer bool
  | PatchAnnotations bool
  | PatchStatus bool
  | CreateLB bool
  | UpdateLB bool
  | DeleteLB bool
  | CreateRule bool
  | PatchRule bool
  | DeleteRule bool

definition succeeded :: "kube_error + 'a \<Rightarrow> bool" where
  "succeeded answer = (case answer of Inl _ \<Rightarrow> False | Inr _ \<Rightarrow> True)"

text \<open>A create is accepted with status 200 or 201; a deletion succeeds if the resource is gone.\<close>

fun change_of :: "event \<Rightarrow> change option" where
  "change_of (UpdateService _ answer) = Some (WriteFinalizer (succeeded answer))"
| "change_of (PatchService _ _ answer) = Some (PatchAnnotations (succeeded answer))"
| "change_of (PatchServiceStatus _ _ answer) = Some (PatchStatus (succeeded answer))"
| "change_of (CreateExternalLoadBalancer _ _ answer) =
     Some (CreateLB (case answer of ApiErr _ _ \<Rightarrow> False | ApiOk resp _ \<Rightarrow> accepted_status resp))"
| "change_of (UpdateExternalLoadBalancer _ _ _ answer) = Some (UpdateLB (update_outcome answer = None))"
| "change_of (DeleteExternalLoadBalancer _ _ answer) = Some (DeleteLB (snd (delete_answered '''' answer) = None))"
| "change_of (CreateVPCFirewallRule _ _ answer) =
     Some (CreateRule (case answer of ApiErr _ _ \<Rightarrow> False | ApiOk _ op \<Rightarrow> op \<noteq> None))"
| "change_of (PatchVPCFirewallRule _ _ _ answer) = Some (PatchRule (api_error answer = None))"
| "change_of (DeleteVPCFirewallRule _ _ answer) =
     Some (DeleteRule (case answer of
        ApiErr _ resp \<Rightarrow> (case resp of None \<Rightarrow> False | Some r \<Rightarrow> StatusCode r = 404) | ApiOk _ _ \<Rightarrow> True))"
| "change_of _ = None"

definition changes :: "event list \<Rightarrow> change list" where
  "changes es = List.map_filter change_of es"

text \<open>
  \<open>Fetched\<close>: nothing written yet. \<open>Guarded\<close>: the finalizer was added. \<open>Submitted\<close>: a load balancer was
  created. \<open>Recorded\<close>: its id (or the id of a rule) is on the Service. \<open>Published\<close>: an update has tried to
  publish the external IP. \<open>Served\<close>: the load balancer is set up or updated, and the firewall rule may be
  seen to. \<open>RuleSubmitted\<close>: a rule was created. \<open>RuleGone\<close>, \<open>RuleForgotten\<close>: the rule was deleted, its annotations dropped. \<open>LBGone\<close>: the
  load balancer was deleted. \<open>Over\<close>: no write may follow.
\<close>

datatype phase =
  Fetched | Guarded | Submitted | Recorded | Published | Served | RuleSubmitted | RuleGone | RuleForgotten | LBGone | Over

definition on_success :: "phase \<Rightarrow> bool \<Rightarrow> phase" where
  "on_success p ok = (if ok then p else Over)"

definition see_to_rule :: "change \<Rightarrow> phase option" where
  "see_to_rule w =
     (case w of
        PatchAnnotations _ \<Rightarrow> Some Over
      | CreateRule ok \<Rightarrow> Some (on_success RuleSubmitted ok)
      | PatchRule _ \<Rightarrow> Some Over
      | _ \<Rightarrow> None)"

definition set_up :: "change \<Rightarrow> phase option" where
  "set_up w =
     (case w of
        CreateLB ok \<Rightarrow> Some (on_success Submitted ok)
      | PatchAnnotations ok \<Rightarrow> Some (on_success Recorded ok)
      | PatchStatus _ \<Rightarrow> Some Published
      | UpdateLB ok \<Rightarrow> Some (on_success Served ok)
      | _ \<Rightarrow> see_to_rule w)"

fun protocol_step :: "phase \<Rightarrow> change \<Rightarrow> phase option" where
  "protocol_step Fetched (WriteFinalizer ok) = Some (on_success Guarded ok)"
| "protocol_step Fetched (DeleteRule ok) = Some (on_success RuleGone ok)"
| "protocol_step Fetched (DeleteLB ok) = Some (on_success LBGone ok)"
| "protocol_step Fetched w = set_up w"
| "protocol_step Guarded w = set_up w"
| "protocol_step Submitted (PatchAnnotations ok) = Some (on_success Recorded ok)"
| "protocol_step Recorded (PatchStatus ok) = Some (on_success Served ok)"
| "protocol_step Published (UpdateLB ok) = Some (on_success Served ok)"
| "protocol_step Published w = see_to_rule w"
| "protocol_step Served w = see_to_rule w"
| "protocol_step RuleSubmitted (PatchAnnotations _) = Some Over"
| "protocol_step RuleGone (PatchAnnotations ok) = Some (on_success RuleForgotten ok)"
| "protocol_step RuleForgotten (DeleteLB ok) = Some (on_success LBGone ok)"
| "protocol_step RuleForgotten (WriteFinalizer _) = Some Over"
| "protocol_step LBGone (WriteFinalizer _) = Some Over"
| "protocol_step _ _ = None"

fun protocol_run :: "phase \<Rightarrow> change list \<Rightarrow> phase option" where
  "protocol_run p [] = Some p"
| "protocol_run p (w # ws) =
     (case protocol_step p w of None \<Rightarrow> None | Some q \<Rightarrow> protocol_run q ws)"

section \<open>The sessions are runs\<close>

lemma writes_simps [simp]:
  "changes [] = []"
  "changes (e # es) = (case change_of e of None \<Rightarrow> changes es | Some w \<Rightarrow> w # changes es)"
  "changes (es @ es') = changes es @ changes es'"
  by (simp_all add: changes_def map_filter_def split: option.split)

lemma protocol_run_append:
  "protocol_run p (ws @ ws') = (case protocol_run p ws of None \<Rightarrow> None | Some q \<Rightarrow> protocol_run q ws')"
  by (induction ws arbitrary: p) (simp_all split: option.split)

lemma writes_none: "\<forall>e \<in> set es. change_of e = None \<Longrightarrow> changes es = []"
  by (induction es) simp_all

lemma read_no_change [simp]: "is_read e \<Longrightarrow> change_of e = None"
  by (cases e) simp_all

lemma quiet_no_changes [simp]:
  "reads_only es \<Longrightarrow> changes es = []" "topology_reads es \<Longrightarrow> changes es = []"
  "polling es \<Longrightarrow> changes es = []" "only_warnings svc reason es \<Longrightarrow> changes es = []"
  "args_reads cfg svc es args \<Longrightarrow> changes es = []"
  "rule_target cfg env svc es target \<Longrightarrow> changes es = []"
  "lookup_session rc env projectID name es found \<Longrightarrow> changes es = []"
proof -
  have reads: "changes es = []" if "reads_only es" for es
    using that by (intro writes_none) (auto simp: reads_only_def)
  then show "reads_only es \<Longrightarrow> changes es = []" "topology_reads es \<Longrightarrow> changes es = []"
    "args_reads cfg svc es args \<Longrightarrow> changes es = []" "rule_target cfg env svc es target \<Longrightarrow> changes es = []"
    "lookup_session rc env projectID name es found \<Longrightarrow> changes es = []"
    using args_reads_only rule_target_reads lookup_session_reads by auto
  have "change_of e = None" if "is_lb_poll e" for e using that by (cases e) simp_all
  then show "polling es \<Longrightarrow> changes es = []" by (intro writes_none) (auto simp: polling_def)
  show "only_warnings svc reason es \<Longrightarrow> changes es = []" by (auto simp: only_warnings_def)
qed

lemmas protocol_defs = set_up_def see_to_rule_def on_success_def succeeded_def

lemma lookup_missed_no_change [simp]: "lookup_missed args e \<Longrightarrow> change_of e = None"
  by (auto elim: lookup_missedE)

lemma rule_branch_run:
  assumes "rule_branch cfg env svc args es next" and "p \<in> {Fetched, Guarded, Published, Served}"
  shows "\<exists>q. protocol_run p (changes es) = Some q \<and> (\<forall>svc'. next = EnsureCreate svc' \<longrightarrow> q = p)"
  using assms by (auto elim!: rule_branchE simp: protocol_defs)

lemma rule_session_run:
  assumes "rule_session cfg env svc es r" and "p \<in> {Fetched, Guarded, Published, Served}"
  shows "\<exists>q. protocol_run p (changes es) = Some q"
  using assms(1)
proof cases
  case (branched args es1 branch "next" rest)
  obtain q where q: "protocol_run p (changes branch) = Some q" "\<And>svc'. next = EnsureCreate svc' \<Longrightarrow> q = p"
    using rule_branch_run [OF branched(4) assms(2)] by blast
  from branched(5) show ?thesis
    using q assms(2) branched(1,3)
    by cases (auto simp: protocol_run_append protocol_defs)
qed simp_all

lemma record_session_run:
  assumes "record_session cfg env svc lb protocol es r" and "p \<in> {Fetched, Guarded, Submitted}"
  shows "\<exists>q. protocol_run p (changes es) = Some q"
  using assms(1)
proof cases
  case published
  then show ?thesis
    using rule_session_run [where p = Served] assms(2) by (fastforce simp: protocol_defs)
qed (use assms(2) in \<open>auto simp: protocol_defs\<close>)

lemma submit_session_run:
  assumes "submit_session rc cfg env svc req es r" and "p \<in> {Fetched, Guarded}"
  shows "\<exists>q. protocol_run p (changes es) = Some q"
  using assms(1)
proof cases
  case created_lb
  then show ?thesis
    using record_session_run [where p = Submitted] assms(2) by (fastforce simp: protocol_defs)
qed (use assms(2) in \<open>auto simp: protocol_defs\<close>)

lemma create_session_run:
  assumes "create_session rc cfg env svc es r" and "p \<in> {Fetched, Guarded}"
  shows "\<exists>q. protocol_run p (changes es) = Some q"
  using assms(1)
  by cases (use assms(2) record_session_run submit_session_run in \<open>auto 0 3\<close>)

lemma ingress_session_run:
  "ingress_session cfg svc es r \<Longrightarrow> p \<in> {Fetched, Guarded} \<Longrightarrow>
     \<exists>q \<in> {p, Published}. protocol_run p (changes es) = Some q"
  by (auto elim!: ingress_sessionE simp: protocol_defs)

lemma update_session_run:
  "update_session cfg svc es err \<Longrightarrow> p \<in> {Fetched, Guarded, Published} \<Longrightarrow>
     \<exists>q. protocol_run p (changes es) = Some q \<and> (err = None \<longrightarrow> q \<in> {p, Served})"
  by (auto elim!: update_sessionE simp: protocol_defs)

lemma update_pass_run:
  assumes "update_pass cfg env svc es r" and "p \<in> {Fetched, Guarded}"
  shows "\<exists>q. protocol_run p (changes es) = Some q"
  using assms(1)
proof cases
  case (lb_not_updated es1 svc' delay es2 err)
  then show ?thesis
    using ingress_session_run [OF lb_not_updated(3) assms(2)] update_session_run [OF lb_not_updated(4)] assms(2)
    by (fastforce simp: protocol_run_append)
next
  case (lb_updated es1 svc' delay es2 es3 ensured)
  obtain q1 where q1: "protocol_run p (changes es1) = Some q1" "q1 \<in> {p, Published}"
    using ingress_session_run [OF lb_updated(2) assms(2)] by blast
  obtain q2 where q2: "protocol_run q1 (changes es2) = Some q2" "q2 \<in> {q1, Served}"
    using update_session_run [OF lb_updated(3), of q1] q1(2) assms(2) by blast
  have "\<exists>q. protocol_run q2 (changes es3) = Some q"
    using rule_session_run [OF lb_updated(4), of q2] q1(2) q2(2) assms(2) by blast
  with q1 q2 lb_updated(1) show ?thesis by (simp add: protocol_run_append)
qed

lemma rule_cleanup_run:
  "rule_cleanup cfg env svc es (svc', err) \<Longrightarrow>
     \<exists>q. protocol_run Fetched (changes es) = Some q \<and> (err = None \<longrightarrow> q \<in> {Fetched, RuleForgotten})"
  by (auto elim!: rule_cleanupE simp: protocol_defs api_error_def answered_404_def patch_outcome_def
      split: api_result.splits option.splits sum.splits)

lemma delete_answered_error: "snd (delete_answered ident answer) = None \<longleftrightarrow> lb_gone answer"
  using delete_answered_gone [of ident answer] by (metis prod.collapse)

lemma delete_session_run:
  assumes "delete_session cfg env svc es (svc', result, err)"
  shows "\<exists>q. protocol_run Fetched (changes es) = Some q \<and>
    (err = None \<and> Result_IsZero result \<longrightarrow> q \<in> {Fetched, RuleForgotten, LBGone})"
  using assms
proof cases
  case (rule_pending e)
  have "err \<noteq> None \<or> \<not> Result_IsZero result"
    using rule_pending(2) intervals_positive by (auto split: if_splits)
  with rule_cleanup_run [OF rule_pending(1)] show ?thesis by blast
next
  case no_lb_recorded
  then show ?thesis using rule_cleanup_run by fastforce
next
  case (lb_delete es1 ident answer)
  obtain q where "protocol_run Fetched (changes es1) = Some q" "q \<in> {Fetched, RuleForgotten}"
    using rule_cleanup_run [OF lb_delete(3)] by blast
  moreover have "err = None \<longleftrightarrow> lb_gone answer"
    using delete_answered_error [of ident answer] lb_delete(2) by (metis snd_conv)
  ultimately show ?thesis
    using lb_delete(1) by (auto simp: protocol_run_append protocol_defs delete_answered_error)
qed

lemma guard_step_run:
  "guard_step env svc es r \<Longrightarrow>
     \<exists>q. protocol_run Fetched (changes es) = Some q \<and> ((\<exists>svc'. r = Inr svc') \<longrightarrow> q \<in> {Fetched, Guarded})"
  by (auto elim!: guard_stepE simp: protocol_defs split: sum.splits)

text \<open>
  C4. \<open>Reconcile\<close> refines the write protocol: whatever the Service and whatever the services answer, the
  changes a pass makes are a run of the automaton. So they come in its order (finalizer, load balancer, its
  id, external IP, firewall rule, its operation; or rule, annotations, load balancer, finalizer), only
  the annotations are ever written twice, and a change that failed is the last one, except that an external
  IP that could not be published does not keep an update from going on.
\<close>
theorem reconcile_refines_protocol:
  assumes "run_state (Reconcile fuel rc cfg env key) h = (r, h @ es)"
  shows "\<exists>p. protocol_run Fetched (changes es) = Some p"
  using emits_appendD [OF Reconcile_follows assms]
proof cases
  case (cleaning svc es' svc' result err)
  then show ?thesis using delete_session_run by fastforce
next
  case (cleaned svc es' svc' result err answer)
  then show ?thesis using delete_session_run [OF cleaned(5)] by (auto simp: protocol_run_append)
next
  case (not_guarded svc es' err)
  then show ?thesis using guard_step_run by fastforce
next
  case (creating svc es1 svc' es2)
  obtain q where "protocol_run Fetched (changes es1) = Some q" "q \<in> {Fetched, Guarded}"
    using guard_step_run [OF creating(4)] by blast
  with creating(1) create_session_run [OF creating(6)] show ?thesis by (simp add: protocol_run_append)
next
  case (updating svc es1 svc' es2)
  obtain q where "protocol_run Fetched (changes es1) = Some q" "q \<in> {Fetched, Guarded}"
    using guard_step_run [OF updating(4)] by blast
  with updating(1) update_pass_run [OF updating(6)] show ?thesis by (simp add: protocol_run_append)
qed simp_all

theorem reconcile_refines_protocol_witness:
  "\<exists>p. protocol_run Fetched (changes dying_events) = Some p"
  by (rule reconcile_refines_protocol [OF run_Reconcile_dying])

lemma dying_changes: "changes dying_events = [DeleteLB True, WriteFinalizer True]"
  by (simp add: dying_events_def succeeded_def delete_answered_def)

section \<open>What is written\<close>

definition own_annotations :: "string list" where
  "own_annotations =
     [loadbalancerIDLabelKey, AnnotationLoadBalancerProtocol, FirewallRuleIdKey, FirewallRuleOperationIdKey]"

text \<open>
  The patch changes annotations of the controller only, sets the protocol to one that is known, and keeps the
  id of a load balancer that is recorded.
\<close>

definition own_patch :: "service \<Rightarrow> service \<Rightarrow> bool" where
  "own_patch orig modified \<longleftrightarrow>
     modified = orig\<lparr>svcAnnotations := svcAnnotations modified\<rparr> \<and>
     (\<forall>k. svcAnnotations modified k = svcAnnotations orig k \<or> k \<in> set own_annotations) \<and>
     (svcAnnotations modified AnnotationLoadBalancerProtocol = svcAnnotations orig AnnotationLoadBalancerProtocol \<or>
      isKnownLoadBalancerProtocol (annotation modified AnnotationLoadBalancerProtocol)) \<and>
     (svcAnnotations orig loadbalancerIDLabelKey = None \<or>
      svcAnnotations modified loadbalancerIDLabelKey = svcAnnotations orig loadbalancerIDLabelKey)"

text \<open>
  The annotations, the status, the finalizer, and the request for a load balancer. An update of the
  Service replaces the whole object, so it matters which version it is made from: one of \<open>known\<close>.
\<close>

fun well_formed :: "env \<Rightarrow> service set \<Rightarrow> event \<Rightarrow> bool" where
  "well_formed env known (PatchService orig modified _) = own_patch orig modified"
| "well_formed env known (PatchServiceStatus orig modified _) = (\<exists>vip. vip \<noteq> '''' \<and> modified = with_ip vip orig)"
| "well_formed env known (UpdateService written _) =
     (\<exists>svc \<in> known. written = env_AddFinalizer env svc finalizer \<or> written = env_RemoveFinalizer env svc finalizer)"
| "well_formed env known (CreateExternalLoadBalancer req _ _) =
     (isKnownLoadBalancerProtocol (postProtocol req) \<and> postName req \<noteq> '''' \<and> length (postName req) < 50)"
| "well_formed env known _ = True"

lemma own_patch_edit [simp]: "own_patch svc (rule_edit ruleID operationID svc)"
  by (auto simp: own_patch_def rule_edit_def own_annotations_def)

lemma own_patch_marked:
  "isKnownLoadBalancerProtocol protocol \<Longrightarrow> svcAnnotations svc loadbalancerIDLabelKey = None \<Longrightarrow>
     own_patch svc (marked_service svc ident protocol)"
  by (auto simp: own_patch_def marked_service_def set_annotation_def own_annotations_def annotation_def)

lemma unchanged_well_formed [simp]: "change_of e = None \<Longrightarrow> well_formed env known e"
  by (cases e) simp_all

lemma quiet_well_formed [simp]: "changes es = [] \<Longrightarrow> list_all (well_formed env known) es"
proof (induction es)
  case (Cons e es)
  then show ?case by (cases "change_of e") auto
qed simp

lemma with_ip_well_formed [simp]:
  "vip \<noteq> '''' \<Longrightarrow> \<exists>v. v \<noteq> '''' \<and> with_ip vip svc = with_ip v svc"
  by blast

lemma rule_branch_well_formed:
  "rule_branch cfg env svc args es next \<Longrightarrow> list_all (well_formed env known) es"
  by (auto elim!: rule_branchE simp: rule_edits)

lemma rule_session_well_formed:
  assumes "rule_session cfg env svc es r"
  shows "list_all (well_formed env known) es"
  using assms
proof cases
  case (branched es1 args branch "next" rest)
  from branched(5) have "list_all (well_formed env known) rest"
  proof cases
    case (created marked op svc' patched)
    then show ?thesis
      using rule_branch_create_from(2) [OF branched(4) [unfolded created(1)], of "opOperationId op"]
      by (auto simp: rule_patch_ok_def)
  qed simp_all
  then show ?thesis
    using branched(1,3) rule_branch_well_formed [OF branched(4)] by simp
qed simp_all

lemma record_session_well_formed:
  assumes "record_session cfg env svc lb protocol es r" and "isKnownLoadBalancerProtocol protocol"
    and "svcAnnotations svc loadbalancerIDLabelKey = None"
  shows "list_all (well_formed env known) es"
  using assms by (auto elim!: record_sessionE simp: own_patch_marked rule_session_well_formed)

lemma name_well_formed:
  assumes "GenerateLoadBalancerResourceName namespace svcname uid = Inr name"
  shows "name \<noteq> '''' \<and> length name < 50"
  using assms by (auto simp: GenerateLoadBalancerResourceName_eq split: if_splits)

lemma submit_session_well_formed:
  assumes "submit_session rc cfg env svc req es r" and "isKnownLoadBalancerProtocol (postProtocol req)"
    and "postName req \<noteq> '''' \<and> length (postName req) < 50" and "svcAnnotations svc loadbalancerIDLabelKey = None"
  shows "list_all (well_formed env known) es"
  using assms by (auto elim!: submit_sessionE simp: record_session_well_formed)

lemma create_session_well_formed:
  assumes "create_session rc cfg env svc es r" and "svcAnnotations svc loadbalancerIDLabelKey = None"
  shows "list_all (well_formed env known) es"
  using assms(1)
proof cases
  case adopted
  then show ?thesis
    using DeriveLoadBalancerProtocol_known assms(2) by (auto simp: record_session_well_formed)
next
  case submitted
  then show ?thesis
    using DeriveLoadBalancerProtocol_known name_well_formed assms(2) by (simp add: submit_session_well_formed)
qed simp_all

lemma ingress_session_well_formed: "ingress_session cfg svc es r \<Longrightarrow> list_all (well_formed env known) es"
  by (auto elim!: ingress_sessionE)

lemma update_session_well_formed: "update_session cfg svc es r \<Longrightarrow> list_all (well_formed env known) es"
  by (auto elim!: update_sessionE)

lemma update_pass_well_formed: "update_pass cfg env svc es r \<Longrightarrow> list_all (well_formed env known) es"
  by (auto elim!: update_passE
      simp: ingress_session_well_formed update_session_well_formed rule_session_well_formed)

lemma rule_cleanup_well_formed: "rule_cleanup cfg env svc es r \<Longrightarrow> list_all (well_formed env known) es"
  by (auto elim!: rule_cleanupE simp: rule_edits)

lemma delete_session_well_formed: "delete_session cfg env svc es r \<Longrightarrow> list_all (well_formed env known) es"
  by (auto elim!: delete_sessionE simp: rule_cleanup_well_formed)

lemma guard_step_well_formed: "guard_step env svc es r \<Longrightarrow> svc \<in> known \<Longrightarrow> list_all (well_formed env known) es"
  by (auto elim!: guard_stepE)

text \<open>The versions of the Service that a pass knows: fetched, or returned from a patch of its own.\<close>

definition known_versions :: "namespaced_name \<Rightarrow> event list \<Rightarrow> service set" where
  "known_versions key es =
     {svc. GetService key (Inr svc) \<in> set es \<or>
        (\<exists>orig. PatchService orig (drop_rule_annotations orig) (Inr svc) \<in> set es \<and> GetService key (Inr orig) \<in> set es)}"

text \<open>
  C16. The shape of everything a pass writes. A patch of the Service changes nothing but the controller's
  four annotations, a protocol it sets is a known one, and the id of a recorded load balancer is never
  overwritten or dropped; a patch of the status sets one non-empty external
  IP and nothing else. An update of the Service writes the Service as it was fetched in this pass, or as
  the API server returned it from the pass's own patch that dropped the annotations of the firewall rule,
  passed through \<open>AddFinalizer\<close> or \<open>RemoveFinalizer\<close> and not edited otherwise. And a load balancer is requested with a known protocol and a name of 1 to 49 bytes.
\<close>
theorem pass_writes_well_formed:
  assumes "run_state (Reconcile fuel rc cfg env key) h = (r, h @ es)"
  shows "list_all (well_formed env (known_versions key es)) es"
  using emits_appendD [OF Reconcile_follows assms]
proof cases
  case (cleaned svc es' svc' result err answer)
  then have "svc' \<in> known_versions key es"
    using delete_session_cleaned [OF cleaned(5,6)] by (auto simp: known_versions_def)
  then show ?thesis using delete_session_well_formed [OF cleaned(5)] cleaned(1) by auto
next
  case (not_guarded svc es' err)
  have "svc \<in> known_versions key es" by (simp add: known_versions_def not_guarded(1))
  then show ?thesis using guard_step_well_formed [OF not_guarded(5)] not_guarded(1) by simp
next
  case (creating svc es1 svc' es2)
  have "svc \<in> known_versions key es" by (simp add: known_versions_def creating(1))
  then show ?thesis
    using guard_step_well_formed [OF creating(4)] create_session_well_formed [OF creating(6,5)] creating(1) by simp
next
  case (updating svc es1 svc' es2)
  have "svc \<in> known_versions key es" by (simp add: known_versions_def updating(1))
  then show ?thesis
    using guard_step_well_formed [OF updating(4)] update_pass_well_formed [OF updating(6)] updating(1) by simp
qed (auto simp: delete_session_well_formed)

theorem pass_writes_well_formed_witness:
  "\<exists>svc \<in> known_versions (object_key test_svc) ruled_events.
     unruled_svc\<lparr>svcFinalizers := []\<rparr> = env_AddFinalizer ruled_env svc finalizer \<or>
     unruled_svc\<lparr>svcFinalizers := []\<rparr> = env_RemoveFinalizer ruled_env svc finalizer"
  using pass_writes_well_formed [OF run_Reconcile_ruled] by (simp add: ruled_events_def)

end
