(* ===== verification/Answers.thy ===== *)
theory Answers
  imports Protocol ReconcilerLiveness
begin

text \<open>
  The answers in a history. The conversations of the other theories leave open what the services answer; here
  each entry that a pass appends is shown to hold the answer of the environment at that moment. With it a
  law of the environment can be applied to the entries of a conversation.
\<close>

section \<open>Answered histories\<close>

fun answered_event :: "env \<Rightarrow> event list \<Rightarrow> event \<Rightarrow> bool" where
  "answered_event env h (GetService key r) = (r = env_get_service env h key)"
| "answered_event env h (ReaderGetService key r) = (r = env_reader_get_service env h key)"
| "answered_event env h (ListNodes r) = (r = env_list_nodes env h)"
| "answered_event env h (ListServices r) = (r = env_list_services env h)"
| "answered_event env h (UpdateService svc r) = (r = env_update_service env h svc)"
| "answered_event env h (PatchService orig svc r) = (r = env_patch_service env h orig svc)"
| "answered_event env h (PatchServiceStatus orig svc r) = (r = env_patch_service_status env h orig svc)"
| "answered_event env h (CreateExternalLoadBalancer req p r) = (r = env_create_lb env h req p)"
| "answered_event env h (GetExternalLoadBalancerOperation p i r) = (r = env_get_lb_operation env h p i)"
| "answered_event env h (GetExternalLoadBalancer p i r) = (r = env_get_lb env h p i)"
| "answered_event env h (UpdateExternalLoadBalancer req p i r) = (r = env_update_lb env h req p i)"
| "answered_event env h (DeleteExternalLoadBalancer p i r) = (r = env_delete_lb env h p i)"
| "answered_event env h (HTTPDo req r) = (r = env_http_do env h req)"
| "answered_event env h (GetVPCSubnet p s r) = (r = env_get_subnet env h p s)"
| "answered_event env h (GetCluster p c r) = (r = env_get_cluster env h p c)"
| "answered_event env h (ListVPCFirewallRules p r) = (r = env_list_rules env h p)"
| "answered_event env h (GetVPCFirewallRule p i r) = (r = env_get_rule env h p i)"
| "answered_event env h (PatchVPCFirewallRule req p i r) = (r = env_patch_rule env h req p i)"
| "answered_event env h (CreateVPCFirewallRule req p r) = (r = env_create_rule env h req p)"
| "answered_event env h (DeleteVPCFirewallRule p i r) = (r = env_delete_rule env h p i)"
| "answered_event env h (GetNetworkingVPCFirewallRulesOperation p i r) = (r = env_get_rule_operation env h p i)"
| "answered_event env h (Now t) = (t = env_now env h)"
| "answered_event env h (RandInt m r) = (r = env_rand_int env h m)"
| "answered_event env h (RecordWarning _ _ _) = True"
| "answered_event env h (Sleep _) = True"

fun answered :: "env \<Rightarrow> event list \<Rightarrow> event list \<Rightarrow> bool" where
  "answered env h [] = True"
| "answered env h (e # es) = (answered_event env h e \<and> answered env (h @ [e]) es)"

lemma answered_append [simp]:
  "answered env h (es @ es') \<longleftrightarrow> answered env h es \<and> answered env (h @ es) es'"
  by (induction es arbitrary: h) auto

text \<open>Each entry of an answered history, with what came before it.\<close>

lemma answered_at: "answered env h es \<Longrightarrow> e \<in> set es \<Longrightarrow> \<exists>h'. answered_event env h' e"
  by (induction es arbitrary: h) auto

section \<open>Programs answered by the environment\<close>

definition answering :: "env \<Rightarrow> 'a prog \<Rightarrow> bool" where
  "answering env m \<longleftrightarrow> (\<forall>h. emits m (\<lambda>_ es. answered env h es) h)"

named_theorems answers \<open>programs that only append what the environment answers\<close>

lemma answering_return [answers]: "answering env (State_Monad.return r)"
  by (simp add: answering_def emits_def wp)

lemma answering_bind [answers]:
  assumes "answering env m" and "\<And>r. answering env (f r)"
  shows "answering env (State_Monad.bind m f)"
  unfolding answering_def emits_def wp_bind
proof (intro allI wp_emits [of m "\<lambda>_ es. answered env h es" h for h])
  show "emits m (\<lambda>_ es. answered env h es) h" for h using assms(1) by (simp add: answering_def)
next
  fix h r es
  assume "answered env h es"
  with assms(2) [of r] show "wp (f r) (\<lambda>_ h'. \<exists>es. h' = h @ es \<and> answered env h es) (h @ es)"
    by (auto simp: answering_def intro!: wp_emits [where P = "\<lambda>_ es'. answered env (h @ es) es'"])
qed

lemma answering_io: "(\<And>h. answered_event env h (ev (ask h))) \<Longrightarrow> answering env (io ask ev)"
  by (simp add: answering_def emits_def wp)

lemma answering_calls [answers]:
  "answering env (call_GetService env key)"
  "answering env (call_ReaderGetService env key)"
  "answering env (call_ListNodes env)"
  "answering env (call_UpdateService env svc)"
  "answering env (call_PatchService env orig svc)"
  "answering env (call_PatchServiceStatus env orig svc)"
  "answering env (call_CreateExternalLoadBalancer env create p)"
  "answering env (call_GetExternalLoadBalancerOperation env p i)"
  "answering env (call_GetExternalLoadBalancer env p i)"
  "answering env (call_UpdateExternalLoadBalancer env update p i)"
  "answering env (call_DeleteExternalLoadBalancer env p i)"
  "answering env (call_HTTPDo env get)"
  "answering env (call_GetVPCSubnet env p i)"
  "answering env (call_GetCluster env p i)"
  "answering env (call_ListVPCFirewallRules env p)"
  "answering env (call_GetVPCFirewallRule env p i)"
  "answering env (call_PatchVPCFirewallRule env patch p i)"
  "answering env (call_CreateVPCFirewallRule env post p)"
  "answering env (call_DeleteVPCFirewallRule env p i)"
  "answering env (call_GetNetworkingVPCFirewallRulesOperation env p i)"
  "answering env (call_Now env)"
  "answering env (call_RandInt env n)"
  "answering env (record_event key reason message)"
  "answering env (time_Sleep d)"
  by (simp_all add: call_defs answering_io)

section \<open>The code is answered by the environment\<close>

lemmas answer_splits = option.split sum.split api_result.split prod.split outcome.split ensure_next.split
  resolved.split bool.split

lemma recordWarning_answers [answers]: "answering env (recordWarning rc svc reason message)"
  by (auto simp: recordWarning_def intro!: answers)

lemma warnOnProtocolDrift_answers [answers]: "answering env (warnOnProtocolDrift rc svc protocol)"
  by (auto simp: warnOnProtocolDrift_def Let_def intro!: answers split: answer_splits)

lemma parseListenPortsAndBackends_answers [answers]: "answering env (parseListenPortsAndBackends env ports)"
  by (auto simp: parseListenPortsAndBackends_def intro!: answers split: answer_splits)

lemma getVPCAndLocationInfo_answers [answers]: "answering env (getVPCAndLocationInfo cfg env)"
  by (auto simp: getVPCAndLocationInfo_def getVPCInfoForSelfManagedCluster_def Let_def
      intro!: answers split: answer_splits)

lemma GetFirewallRuleArgs_answers [answers]: "answering env (GetFirewallRuleArgs cfg env svc)"
  by (auto simp: GetFirewallRuleArgs_def Let_def intro!: answers split: answer_splits)

lemma GetFirewallRuleOperationResult_answers [answers]:
  "answering env (GetFirewallRuleOperationResult cfg env operationID)"
  by (auto simp: GetFirewallRuleOperationResult_def Let_def intro!: answers split: answer_splits)

lemma wait_loop_answers:
  "answering env (wait_loop fuel env (call_GetExternalLoadBalancerOperation env) projectID backoff op)"
proof (induction fuel arbitrary: backoff op)
  case 0
  show ?case by (auto intro!: answers)
next
  case (Suc fuel)
  then show ?case by (auto simp: jitterMillisecond_def intro!: answers split: answer_splits)
qed

lemma WaitForOperation_answers [answers]:
  "answering env (WaitForOperation fuel env (call_GetExternalLoadBalancerOperation env) op projectID)"
  by (auto simp: WaitForOperation_def wait_loop_answers intro!: answers split: answer_splits)

lemma patch_service_answers [answers]: "answering env (patch_service env orig svc)"
  by (auto simp: patch_service_def intro!: answers split: answer_splits)

lemma findFirewallRuleByName_answers [answers]: "answering env (findFirewallRuleByName env projectID name)"
  by (auto simp: findFirewallRuleByName_def intro!: answers split: answer_splits)

lemma adoptFirewallRuleByName_answers [answers]: "answering env (adoptFirewallRuleByName env svc orig args)"
  by (auto simp: adoptFirewallRuleByName_def intro!: answers split: answer_splits)

lemma ensure_check_rule_answers [answers]: "answering env (ensure_check_rule env svc args ruleID)"
  by (auto simp: ensure_check_rule_def intro!: answers split: answer_splits)

lemma ensure_failed_answers [answers]: "answering env (ensure_failed env svc orig args op)"
  by (auto simp: ensure_failed_def ensure_failed_cooldown_def Let_def intro!: answers split: answer_splits)

lemma ensure_unresolvable_answers [answers]: "answering env (ensure_unresolvable env svc orig args)"
  by (auto simp: ensure_unresolvable_def intro!: answers split: answer_splits)

lemma ensure_operation_result_answers [answers]:
  "answering env (ensure_operation_result env svc orig args operationID result)"
  by (auto simp: ensure_operation_result_def intro!: answers split: answer_splits)

lemma ensure_branch_answers [answers]: "answering env (ensure_branch cfg env svc orig args)"
  by (auto simp: ensure_branch_def ensure_resume_operation_def intro!: answers split: answer_splits)

lemma ensure_create_answers [answers]: "answering env (ensure_create env svc orig args)"
  by (auto simp: ensure_create_def intro!: answers split: answer_splits)

lemma ensureFirewallRule_answers [answers]: "answering env (ensureFirewallRule cfg env svc)"
  by (auto simp: ensureFirewallRule_def Let_def intro!: answers split: answer_splits)

lemma delete_rule_by_id_answers [answers]: "answering env (delete_rule_by_id cfg env svc ruleID)"
  by (auto simp: delete_rule_by_id_def intro!: answers split: answer_splits)

lemma delete_rule_by_name_answers [answers]: "answering env (delete_rule_by_name cfg env svc)"
  by (auto simp: delete_rule_by_name_def intro!: answers split: answer_splits)

lemma deleteFirewallRule_answers [answers]: "answering env (deleteFirewallRule cfg env svc)"
  by (auto simp: deleteFirewallRule_def delete_resolve_operation_def delete_hold_expired_def delete_resolved_def
      Let_def intro!: answers split: answer_splits)

lemma findExistingLoadBalancer_answers [answers]: "answering env (findExistingLoadBalancer rc env projectID name)"
  by (auto simp: findExistingLoadBalancer_def lookup_ByName_def Let_def intro!: answers split: answer_splits)

lemma cachedServiceIsStale_answers [answers]: "answering env (cachedServiceIsStale rc env svc)"
  by (auto simp: cachedServiceIsStale_def fresh_get_def Let_def intro!: answers split: answer_splits)

lemma setLoadBalancerIngress_answers [answers]: "answering env (setLoadBalancerIngress env svc vip)"
  by (auto simp: setLoadBalancerIngress_def Let_def intro!: answers split: answer_splits)

lemma recordLoadBalancer_answers [answers]: "answering env (recordLoadBalancer cfg env svc lb protocol)"
  by (auto simp: recordLoadBalancer_def intro!: answers split: answer_splits)

lemma create_submit_answers [answers]: "answering env (create_submit fuel rc cfg env svc req)"
  by (auto simp: create_submit_def create_settled_def Let_def intro!: answers split: answer_splits)

lemma handleCreate_answers [answers]: "answering env (handleCreate fuel rc cfg env svc)"
  by (auto simp: handleCreate_def create_or_adopt_def Let_def intro!: answers split: answer_splits)

lemma handleUpdate_answers [answers]: "answering env (handleUpdate rc cfg env svc)"
  by (auto simp: handleUpdate_def updateLoadBalancer_def ensureLoadBalancerIngress_def Let_def
      intro!: answers split: answer_splits)

lemma handleDelete_answers [answers]: "answering env (handleDelete cfg env svc)"
  by (auto simp: handleDelete_def Let_def intro!: answers split: answer_splits)

lemma Reconcile_answers: "answering env (Reconcile fuel rc cfg env key)"
  by (auto simp: Reconcile_def reconcile_deletion_def add_finalizer_def Let_def intro!: answers split: answer_splits)

text \<open>A pass: its conversation, answered by the environment.\<close>

lemma pass_answered:
  assumes "run_state (Reconcile fuel rc cfg env key) h = (r, h')"
  obtains es where "h' = h @ es" "reconcile_session rc cfg env key es r" "answered env h es"
proof (rule emitsD [OF emits_conj assms])
  show "emits (Reconcile fuel rc cfg env key) (\<lambda>r es. reconcile_session rc cfg env key es r) h"
    by (rule Reconcile_follows)
  show "emits (Reconcile fuel rc cfg env key) (\<lambda>_ es. answered env h es) h"
    using Reconcile_answers by (simp add: answering_def)
qed (use that in blast)

end
