(* ===== verification/Cooperation.thy ===== *)
theory Cooperation
  imports Answers
begin

text \<open>
  A pass in a cooperative world, where the API server keeps what the controller writes and the Crusoe API
  carries out what it accepts, though its operations take time. From whatever is recorded on a Service that
  wants a load balancer and a firewall rule, a pass records and publishes the load balancer and brings
  the rule one step further, without an error (\<open>pass_served\<close>).
\<close>

section \<open>A cooperative world\<close>

text \<open>The Service as the API server has it: as last written.\<close>

fun written :: "event \<Rightarrow> service option" where
  "written (UpdateService _ (Inr svc)) = Some svc"
| "written (PatchService _ _ (Inr svc)) = Some svc"
| "written (PatchServiceStatus _ _ (Inr svc)) = Some svc"
| "written _ = None"

definition server_copy :: "service \<Rightarrow> event list \<Rightarrow> service" where
  "server_copy svc h = foldl (\<lambda>svc e. case written e of None \<Rightarrow> svc | Some svc' \<Rightarrow> svc') svc h"

fun is_rule_poll :: "event \<Rightarrow> bool" where
  "is_rule_poll (GetNetworkingVPCFirewallRulesOperation _ _ _) = True"
| "is_rule_poll _ = False"

definition rule_polls :: "event list \<Rightarrow> nat" where
  "rule_polls h = length (filter is_rule_poll h)"

text \<open>
  The API server: reads show the last write, and every write is taken. (A Service whose last finalizer
  was removed is still shown, without it; the API server would delete it then.)
\<close>

definition faithful_server :: "env \<Rightarrow> namespaced_name \<Rightarrow> service \<Rightarrow> bool" where
  "faithful_server env key svc \<longleftrightarrow>
     (\<forall>h. env_get_service env h key = Inr (server_copy svc h)) \<and>
     (\<forall>h. env_reader_get_service env h key = Inr (server_copy svc h)) \<and>
     (\<forall>h s. env_update_service env h s = Inr s) \<and>
     (\<forall>h orig s. env_patch_service env h orig s = Inr s) \<and>
     (\<forall>h orig s. env_patch_service_status env h orig s = Inr s) \<and>
     (\<forall>s f. env_ContainsFinalizer env s f = (f \<in> set (svcFinalizers s))) \<and>
     (\<forall>s f. env_AddFinalizer env s f = s\<lparr>svcFinalizers := svcFinalizers s @ [f]\<rparr>) \<and>
     (\<forall>s f. env_RemoveFinalizer env s f = s\<lparr>svcFinalizers := filter (\<lambda>g. g \<noteq> f) (svcFinalizers s)\<rparr>)"

text \<open>The cluster: its nodes, its subnet.\<close>

definition stable_topology :: "env \<Rightarrow> node list \<Rightarrow> vpc_subnet \<Rightarrow> bool" where
  "stable_topology env nodes subnet \<longleftrightarrow>
     (\<forall>h. env_list_nodes env h = Inr nodes) \<and>
     (\<forall>h p s. \<exists>resp. env_get_subnet env h p s = ApiOk resp subnet) \<and>
     (\<forall>h p c. \<exists>resp cluster. env_get_cluster env h p c = ApiOk resp cluster)"

text \<open>Load balancers: a create succeeds in the end, within m polls, and a load balancer has an address.\<close>

definition fine_operation :: "env \<Rightarrow> operation \<Rightarrow> bool" where
  "fine_operation env op \<longleftrightarrow>
     opState op = OpInProgress \<or>
     opState op = OpSuccess \<and>
       (\<exists>lb. OpResultToItem (env_unmarshal_load_balancer env) (opResult op) = Inr lb \<and> elbVip lb \<noteq> '''')"

definition lbs_served :: "env \<Rightarrow> config \<Rightarrow> reconciler \<Rightarrow> string \<Rightarrow> string \<Rightarrow> nat \<Rightarrow> bool" where
  "lbs_served env cfg rc name protocol m \<longleftrightarrow>
     (\<forall>base parts. \<exists>url. env_url_JoinPath env base parts = Inr url) \<and> (\<forall>url. env_NewRequest env url = None) \<and>
     (\<forall>h req. \<exists>resp items. env_http_do env h req = Inr resp \<and> listStatusCode resp = 200 \<and>
        listBody resp = Inr items \<and>
        (\<forall>lb \<in> set items. elbName lb = name \<longrightarrow> elbVip lb \<noteq> '''' \<and> elbProtocol lb = protocol)) \<and>
     (\<forall>h req p. \<exists>resp op. env_create_lb env h req p = ApiOk resp (Some op) \<and> accepted_status resp \<and>
        fine_operation env op) \<and>
     (\<forall>h p i. \<exists>resp op. env_get_lb_operation env h p i = ApiOk resp op \<and> StatusCode resp = 200 \<and>
        bodyCloseErr resp = None \<and> fine_operation env op) \<and>
     lb_operations_settle env cfg m \<and>
     (\<forall>h p i. \<exists>resp lb. env_get_lb env h p i = ApiOk resp lb \<and> elbVip lb \<noteq> '''') \<and>
     (\<forall>h req p i. update_outcome (env_update_lb env h req p i) = None)"

text \<open>Firewall rules: a create operation is pending for n polls and then has made the rule.\<close>

definition rule_operations_land :: "env \<Rightarrow> nat \<Rightarrow> bool" where
  "rule_operations_land env n \<longleftrightarrow>
     (\<forall>h p i. if rule_polls h < n then view_operation env (env_get_rule_operation env h p i) = OpPending
              else \<exists>rule. view_operation env (env_get_rule_operation env h p i) = OpLanded rule)"

definition rules_served :: "env \<Rightarrow> nat \<Rightarrow> bool" where
  "rules_served env n \<longleftrightarrow>
     (\<forall>h req p. \<exists>resp op. env_create_rule env h req p = ApiOk resp (Some op)) \<and>
     rule_operations_land env n \<and>
     (\<forall>h p i. \<exists>resp rule. env_get_rule env h p i = ApiOk resp rule) \<and>
     (\<forall>h req p i. api_error (env_patch_rule env h req p i) = None)"

text \<open>
  A Service that is to have a load balancer and the firewall rule \<open>args\<close>. Nothing is said of what is
  recorded on it, but that a recorded load balancer has the protocol of the ports or none recorded.
\<close>

definition wanted_rule :: "config \<Rightarrow> vpc_subnet \<Rightarrow> node list \<Rightarrow> string \<Rightarrow> service \<Rightarrow> firewall_rule_args \<Rightarrow> bool" where
  "wanted_rule cfg subnet nodes protocol svc args \<longleftrightarrow>
     (let ports = servicePortsForProtocol (svcPorts svc) protocol in
      argProjectID args = CrusoeProjectID cfg \<and> argProjectID args \<noteq> '''' \<and>
      argVpcID args = subnetVpcNetworkId subnet \<and>
      GenerateLoadBalancerResourceName (svcNamespace svc) (svcName svc) (svcUID svc) = Inr (argRuleName args) \<and>
      argDestinationPorts args = firewallRuleDestinationPorts (listeners (backendIPs nodes) ports) \<and>
      argDestinationPorts args \<noteq> [] \<and> argProtocols args = firewallRuleProtocols ports \<and>
      argSources args = firewallRuleSources svc)"

record goal =
  goalNodes :: "node list"
  goalSubnet :: vpc_subnet
  goalProtocol :: string
  goalRule :: firewall_rule_args

text \<open>The protocol that is recorded is that of the ports, if it is one at all.\<close>

definition protocol_fits :: "goal \<Rightarrow> service \<Rightarrow> bool" where
  "protocol_fits g svc \<longleftrightarrow>
     annotation svc AnnotationLoadBalancerProtocol = goalProtocol g \<or>
     \<not> isKnownLoadBalancerProtocol (annotation svc AnnotationLoadBalancerProtocol)"

definition wanted :: "config \<Rightarrow> namespaced_name \<Rightarrow> goal \<Rightarrow> service \<Rightarrow> bool" where
  "wanted cfg key g svc \<longleftrightarrow>
     object_key svc = key \<and> DeletionTimestamp_IsZero svc \<and> svcLoadBalancerClass svc = None \<and> rule_managed svc \<and>
     DeriveLoadBalancerProtocol svc = Inr (goalProtocol g) \<and>
     (svcAnnotations svc loadbalancerIDLabelKey = None \<or> protocol_fits g svc) \<and>
     wanted_rule cfg (goalSubnet g) (goalNodes g) (goalProtocol g) svc (goalRule g)"

definition cooperative :: "env \<Rightarrow> reconciler \<Rightarrow> config \<Rightarrow> namespaced_name \<Rightarrow> service \<Rightarrow> goal \<Rightarrow> nat \<Rightarrow> nat \<Rightarrow> bool" where
  "cooperative env rc cfg key svc g m n \<longleftrightarrow>
     faithful_server env key svc \<and> stable_topology env (goalNodes g) (goalSubnet g) \<and>
     lbs_served env cfg rc (argRuleName (goalRule g)) (goalProtocol g) m \<and> rules_served env n"

text \<open>A Service with a recorded load balancer, and its external IP.\<close>

definition lb_ready :: "service \<Rightarrow> bool" where
  "lb_ready svc \<longleftrightarrow>
     finalizer \<in> set (svcFinalizers svc) \<and> svcAnnotations svc loadbalancerIDLabelKey \<noteq> None \<and> svcIngress svc \<noteq> []"

text \<open>What is left to do for the rule, in passes.\<close>

definition rule_work :: "nat \<Rightarrow> event list \<Rightarrow> service \<Rightarrow> nat" where
  "rule_work n h svc =
     (case rule_state svc of
        RuleNone \<Rightarrow> n + 2 | RuleCreating _ \<Rightarrow> n - rule_polls h + 1 | RuleRecorded _ \<Rightarrow> 0)"

section \<open>Reading and writing the Service\<close>

lemma server_copy_simps [simp]:
  "server_copy svc [] = svc" "server_copy svc (e # es) = server_copy (case written e of None \<Rightarrow> svc | Some s \<Rightarrow> s) es"
  "server_copy svc (es @ es') = server_copy (server_copy svc es) es'"
  by (simp_all add: server_copy_def)

lemma unchanged_not_written: "change_of e = None \<Longrightarrow> written e = None"
  by (cases e rule: written.cases) simp_all

lemma server_copy_unchanged [simp]: "changes es = [] \<Longrightarrow> server_copy svc es = svc"
proof (induction es)
  case (Cons e es)
  then show ?case using unchanged_not_written [of e] by (cases "change_of e") auto
qed simp

lemma rule_polls_simps [simp]:
  "rule_polls [] = 0" "rule_polls (e # es) = (if is_rule_poll e then Suc (rule_polls es) else rule_polls es)"
  "rule_polls (es @ es') = rule_polls es + rule_polls es'"
  by (simp_all add: rule_polls_def)

lemma rule_polls_topology [simp]: "topology_reads es \<Longrightarrow> rule_polls es = 0"
proof -
  have "is_topology_read e \<Longrightarrow> \<not> is_rule_poll e" for e by (cases e) simp_all
  then show "topology_reads es \<Longrightarrow> rule_polls es = 0"
    by (auto simp: rule_polls_def topology_reads_def filter_empty_conv)
qed

lemma service_keys_distinct [simp]:
  "FirewallRuleIdKey \<noteq> AnnotationLoadBalancerProtocol" "FirewallRuleOperationIdKey \<noteq> AnnotationLoadBalancerProtocol"
  "ManageFirewallRuleKey \<noteq> AnnotationLoadBalancerProtocol" "ManageFirewallRuleKey \<noteq> loadbalancerIDLabelKey"
  "AnnotationLoadBalancerProtocol \<noteq> FirewallRuleIdKey" "AnnotationLoadBalancerProtocol \<noteq> FirewallRuleOperationIdKey"
  by (simp_all add: FirewallRuleIdKey_def FirewallRuleOperationIdKey_def ManageFirewallRuleKey_def
      AnnotationLoadBalancerProtocol_def loadbalancerIDLabelKey_def)

text \<open>The three ways in which a pass edits the Service.\<close>

lemma rule_state_edits [simp]:
  "rule_state (with_ip vip svc) = rule_state svc"
  "rule_state (marked_service svc ident protocol) = rule_state svc"
  "rule_state (svc\<lparr>svcFinalizers := fs\<rparr>) = rule_state svc"
  by (simp_all add: rule_state_def with_ip_def marked_service_def set_annotation_def split: option.split)

lemma rule_work_edits [simp]:
  "rule_work n h (with_ip vip svc) = rule_work n h svc"
  "rule_work n h (marked_service svc ident protocol) = rule_work n h svc"
  "rule_work n h (svc\<lparr>svcFinalizers := fs\<rparr>) = rule_work n h svc"
  by (simp_all add: rule_work_def)

lemma rule_work_unpolled: "rule_polls es = 0 \<Longrightarrow> rule_work n (h @ es) svc = rule_work n h svc"
  by (simp add: rule_work_def split: rule_state.split)

lemma firewallRuleSources_edits [simp]:
  "firewallRuleSources (svc\<lparr>svcFinalizers := fs\<rparr>) = firewallRuleSources svc"
  "firewallRuleSources (svc\<lparr>svcIngress := is\<rparr>) = firewallRuleSources svc"
  "firewallRuleSources (svc\<lparr>svcAnnotations := as\<rparr>) = firewallRuleSources svc"
  by (simp_all add: firewallRuleSources_def)

lemma DeriveLoadBalancerProtocol_edits [simp]:
  "DeriveLoadBalancerProtocol (svc\<lparr>svcFinalizers := fs\<rparr>) = DeriveLoadBalancerProtocol svc"
  "DeriveLoadBalancerProtocol (svc\<lparr>svcIngress := is\<rparr>) = DeriveLoadBalancerProtocol svc"
  "DeriveLoadBalancerProtocol (svc\<lparr>svcAnnotations := as\<rparr>) = DeriveLoadBalancerProtocol svc"
  by (simp_all add: DeriveLoadBalancerProtocol_def)

lemma wanted_edits:
  assumes "wanted cfg key g svc"
  shows "wanted cfg key g (with_ip vip svc)"
    "wanted cfg key g (svc\<lparr>svcFinalizers := fs\<rparr>)"
    "wanted cfg key g (rule_edit ruleID operationID svc)"
    "wanted cfg key g (marked_service svc ident (goalProtocol g))"
  using assms
  by (auto simp: wanted_def wanted_rule_def with_ip_def rule_edit_def marked_service_def set_annotation_def
      object_key_def DeletionTimestamp_IsZero_def rule_managed_def annotation_def protocol_fits_def Let_def cong: option.case_cong)

section \<open>The reads\<close>

lemma topology_served:
  assumes "stable_topology env nodes subnet" and "answered env h es"
  shows "\<not> vpc_lookup_failed es" "ListNodes answer \<in> set es \<Longrightarrow> answer = Inr nodes"
    "GetVPCSubnet p i (ApiOk resp found) \<in> set es \<Longrightarrow> found = subnet"
proof -
  have at: "\<exists>h. answered_event env h e" if "e \<in> set es" for e using answered_at [OF assms(2) that] .
  have "GetVPCSubnet p i (ApiErr err resp) \<notin> set es" "GetCluster p i (ApiErr err resp) \<notin> set es" for p i err resp
    using at [of "GetVPCSubnet p i (ApiErr err resp)"] at [of "GetCluster p i (ApiErr err resp)"] assms(1)
    by (auto simp: stable_topology_def) (metis api_result.distinct(1))+
  then show "\<not> vpc_lookup_failed es" by (auto simp: vpc_lookup_failed_def)
  show "answer = Inr nodes" if "ListNodes answer \<in> set es"
    using at [OF that] assms(1) by (simp add: stable_topology_def)
  show "found = subnet" if "GetVPCSubnet p i (ApiOk resp found) \<in> set es"
    using at [OF that] assms(1) by (simp add: stable_topology_def) (metis api_result.inject(1))
qed

lemma wanted_ports:
  assumes "wanted cfg key g svc" and "protocol_fits g svc"
  shows "managed_ports svc = servicePortsForProtocol (svcPorts svc) (goalProtocol g)"
    "managed_ports svc \<noteq> []"
proof -
  have "isKnownLoadBalancerProtocol (goalProtocol g)"
    "servicePortsForProtocol (svcPorts svc) (goalProtocol g) = svcPorts svc"
    using assms(1) by (auto simp: wanted_def dest: DeriveLoadBalancerProtocol_known servicePortsForProtocol_derived)
  then show ports: "managed_ports svc = servicePortsForProtocol (svcPorts svc) (goalProtocol g)"
    using assms(2) by (auto simp: managed_ports_def protocol_fits_def Let_def)
  show "managed_ports svc \<noteq> []"
    using assms(1) unfolding ports wanted_def wanted_rule_def Let_def
    by (metis firewallRuleDestinationPorts_Nil listeners.simps(1))
qed

lemma args_served:
  assumes "stable_topology env (goalNodes g) (goalSubnet g)" and "answered env h es"
    and "wanted cfg key g svc" and "protocol_fits g svc"
  shows "args_reads cfg svc es args \<Longrightarrow> args = goalRule g"
    "\<not> rule_args_skipped cfg svc es" "\<not> nodes_unlisted es"
proof -
  note served = topology_served [OF assms(1,2)] and ports = wanted_ports [OF assms(3,4)]
  note rule = assms(3) [unfolded wanted_def wanted_rule_def Let_def]
  show "args = goalRule g" if "args_reads cfg svc es args"
  proof -
    from that obtain es' vpcID location nodes where r: "es = es' @ [ListNodes (Inr nodes)]"
      "vpc_from_subnet cfg (vpcID, location) es'" "rule_args_for cfg svc vpcID nodes args"
      by (auto simp: args_reads_def)
    from r(1) served(2) have "nodes = goalNodes g" by (metis in_set_conv_decomp sum.inject(2))
    moreover from r(2) obtain before subnetID resp subnet where
      "es' = before @ [GetVPCSubnet (CrusoeProjectID cfg) subnetID (ApiOk resp subnet)]"
      "vpcID = subnetVpcNetworkId subnet"
      unfolding vpc_from_subnet_def by blast
    with r(1) served(3) have "vpcID = subnetVpcNetworkId (goalSubnet g)"
      by (metis in_set_conv_decomp append_Cons append_assoc)
    ultimately show ?thesis
      using r(3) rule by (auto simp: rule_args_for_def ports(1) intro!: firewall_rule_args.equality)
  qed
  show "\<not> rule_args_skipped cfg svc es"
  proof
    assume "rule_args_skipped cfg svc es"
    with rule ports(2) obtain es' nodes where e: "es = es' @ [ListNodes (Inr nodes)]"
      "firewallRuleDestinationPorts (listeners (backendIPs nodes) (managed_ports svc)) = []"
      by (auto simp: rule_args_skipped_def)
    from e(1) served(2) [of "Inr nodes"] have "nodes = goalNodes g" by simp
    with e(2) rule show False by (auto simp: ports(1))
  qed
  show "\<not> nodes_unlisted es"
    using served(2) by (force simp: nodes_unlisted_def)
qed

section \<open>The firewall rule\<close>

lemma rule_reads_polls: "args_reads cfg svc es args \<Longrightarrow> rule_polls es = 0"
  by (simp add: args_reads_def)

lemma rule_operation_view:
  assumes "rule_operations_land env n" and "answered_event env h (GetNetworkingVPCFirewallRulesOperation p i answer)"
  shows "if rule_polls h < n then view_operation env answer = OpPending
    else \<exists>rule. view_operation env answer = OpLanded rule"
  using assms by (simp add: rule_operations_land_def)

text \<open>What a session with the rules API leaves of the work.\<close>

definition worked :: "nat \<Rightarrow> event list \<Rightarrow> service \<Rightarrow> event list \<Rightarrow> service \<Rightarrow> bool" where
  "worked n h svc es svc' \<longleftrightarrow>
     server_copy svc es = svc' \<and> (\<exists>i j. svc' = rule_edit i j svc) \<and>
     rule_work n (h @ es) svc' < max 1 (rule_work n h svc) \<and> (rule_work n h svc = 0 \<longrightarrow> svc' = svc)"

lemma rule_edit_self: "rule_edit (svcAnnotations svc FirewallRuleIdKey) (svcAnnotations svc FirewallRuleOperationIdKey) svc = svc"
  by (simp add: rule_edit_def)

lemma rules_served_create:
  assumes "rules_served env n"
  shows "ApiErr err resp \<noteq> env_create_rule env h req p" "ApiOk response None \<noteq> env_create_rule env h req p"
proof -
  obtain resp' op where "env_create_rule env h req p = ApiOk resp' (Some op)"
    using assms unfolding rules_served_def by blast
  then show "ApiErr err resp \<noteq> env_create_rule env h req p" "ApiOk response None \<noteq> env_create_rule env h req p"
    by simp_all
qed

lemma rule_state_NoneD: "rule_state svc = RuleNone \<Longrightarrow> svcAnnotations svc FirewallRuleIdKey = None"
  by (simp add: rule_state_def split: option.splits)

lemma rule_branch_served:
  assumes "rule_branch cfg env svc args es next" and "answered env h es"
    and "faithful_server env key svc0" and "rules_served env n"
  shows "case next of
      EnsureCreate svc' \<Rightarrow> svc' = svc \<and> rule_state svc = RuleNone \<and> es = []
    | EnsureDone (svc', d, err) \<Rightarrow> err = None \<and> worked n h svc es svc' \<and> (rule_work n h svc = 0 \<longrightarrow> d = 0)
    | EnsurePanic _ \<Rightarrow> False"
proof -
  note world = assms(2-4)
  have view: "if rule_polls h < n then view_operation env answer = OpPending
      else \<exists>rule. view_operation env answer = OpLanded rule"
    if "es = GetNetworkingVPCFirewallRulesOperation (CrusoeProjectID cfg) operationID answer # rest"
    for operationID answer rest
    using rule_operation_view [of env n] assms(2,4) that by (auto simp: rules_served_def)
  have same: "\<exists>i j. svc = rule_edit i j svc" by (metis rule_edit_self)
  have rule: "\<exists>resp rule. answer = ApiOk resp rule"
    if "GetVPCFirewallRule p i answer \<in> set es" for p i answer
    using answered_at [OF assms(2) that] assms(4) by (auto simp: rules_served_def)
  from assms(1) show ?thesis
  proof cases
    case unrecorded
    then show ?thesis by (simp add: rule_state_simps)
  next
    case (rule_matches ruleID rule resp)
    then show ?thesis using same by (simp add: worked_def rule_work_def rule_state_simps)
  next
    case (rule_drifted ruleID rule rule' args' resp patched)
    then have "api_error patched = None" using assms(2,4) by (simp add: rules_served_def)
    with rule_drifted same show ?thesis by (simp add: worked_def rule_work_def rule_state_simps)
  next
    case (operation_pending operationID answer)
    then show ?thesis using view same
      by (auto simp: worked_def rule_work_def rule_state_simps split: if_splits)
  next
    case (operation_landed operationID answer rule patched svc' err)
    with world view [of operationID answer] show ?thesis
      by (auto simp: worked_def rule_work_def rule_state_simps rule_edits faithful_server_def patch_outcome_def
          split: if_splits)
  qed (use view rule in \<open>auto simp: answered_404_def split: if_splits\<close>)
qed

lemma rule_session_served:
  assumes "rule_session cfg env svc es r" and "answered env h es"
    and "faithful_server env key svc0" and "stable_topology env (goalNodes g) (goalSubnet g)"
    and "rules_served env n" and "wanted cfg key g svc"
    and "protocol_fits g svc"
  shows "\<exists>svc' d. r = Returned (svc', d, None) \<and> worked n h svc es svc' \<and> (rule_work n h svc = 0 \<longrightarrow> d = 0)"
  using assms(1)
proof cases
  case unmanaged
  then show ?thesis using assms(6) by (simp add: wanted_def)
next
  case args_unknown
  then show ?thesis using topology_served [OF assms(4,2)] by simp
next
  case args_skipped
  then show ?thesis using args_served(2,3) [OF assms(4,2,6,7)] by simp
next
  case (branched reads args branch "next" rest)
  have a: "answered env h reads" "answered env (h @ reads) branch" "answered env (h @ reads @ branch) rest"
    using assms(2) branched(1) by simp_all
  have args: "args = goalRule g" using args_served(1) [OF assms(4) a(1) assms(6,7)] branched(3) by simp
  have polls: "rule_polls reads = 0" "changes reads = []" using branched(3) by (auto simp: rule_reads_polls)
  note served = rule_branch_served [OF branched(4) a(2) assms(3) assms(5)]
  from branched(5) show ?thesis
  proof cases
    case settled
    then show ?thesis using served polls branched(1) by (auto simp: worked_def rule_work_def split: rule_state.splits)
  next
    case (created marked op svc' patched svc'' err resp)
    then show ?thesis using served polls branched(1) a(3) assms(3)
      by (auto simp: worked_def rule_work_def rule_edits faithful_server_def patch_outcome_def rule_work_def
          rule_state_NoneD)
  qed (use a(3) rules_served_create [OF assms(5)] in simp_all)
qed

section \<open>The load balancer\<close>

lemma worked_copy: "worked n h svc es svc' \<Longrightarrow> server_copy svc es = svc'"
  by (simp add: worked_def)

lemma cooperativeD:
  assumes "cooperative env rc cfg key svc g m n"
  shows "faithful_server env key svc" "stable_topology env (goalNodes g) (goalSubnet g)"
    "lbs_served env cfg rc (argRuleName (goalRule g)) (goalProtocol g) m" "rules_served env n"
  using assms by (simp_all add: cooperative_def)

text \<open>A Service that a pass has served: recorded and published, and the work for its rule advanced.\<close>

definition served :: "config \<Rightarrow> namespaced_name \<Rightarrow> goal \<Rightarrow> nat \<Rightarrow> event list \<Rightarrow> service \<Rightarrow> event list \<Rightarrow> bool" where
  "served cfg key g n h svc es \<longleftrightarrow>
     wanted cfg key g (server_copy svc es) \<and> lb_ready (server_copy svc es) \<and>
     rule_work n (h @ es) (server_copy svc es) < max 1 (rule_work n h svc)"

lemma worked_served:
  assumes "worked n (h @ es) svc' es' svc''" and "server_copy svc es = svc'" and "rule_work n (h @ es) svc' = rule_work n h svc"
    and "wanted cfg key g svc'" and "lb_ready svc'"
  shows "served cfg key g n h svc (es @ es')"
proof -
  obtain i j where "svc'' = rule_edit i j svc'" using assms(1) by (auto simp: worked_def)
  then have "wanted cfg key g svc''" "lb_ready svc''"
    using assms(4,5) by (simp_all add: wanted_edits) (simp add: lb_ready_def rule_edit_def)
  with assms(1-3) show ?thesis by (auto simp: served_def worked_def)
qed

lemma record_session_served:
  assumes "record_session cfg env svc lb (goalProtocol g) es r" and "answered env h es"
    and "cooperative env rc cfg key svc0 g m n" and "wanted cfg key g svc"
    and "finalizer \<in> set (svcFinalizers svc)" and "elbVip lb \<noteq> ''''"
  shows "served cfg key g n h svc es \<and> (\<exists>result. r = Returned (result, None))"
  using assms(1)
proof cases
  case (published marked shown es' ensured written)
  note world = cooperativeD [OF assms(3)]
  have a: "written = marked" "shown = with_ip (elbVip lb) marked"
    "answered env (h @ [PatchService svc marked (Inr written), PatchServiceStatus written shown (Inr shown)]) es'"
    using assms(2) world(1) published(1) by (auto simp: faithful_server_def)
  have w: "wanted cfg key g shown"
    using assms(4) by (simp add: a(2) published(3) wanted_edits)
  have p: "protocol_fits g shown"
    by (simp add: protocol_fits_def a(2) published(3) with_ip_def marked_service_def annotation_def set_annotation_def)
  obtain svc' d where r: "ensured = Returned (svc', d, None)"
    "worked n (h @ [PatchService svc marked (Inr written), PatchServiceStatus written shown (Inr shown)]) shown es' svc'"
    using rule_session_served [OF published(5) a(3) world(1,2,4) w p] by blast
  have "lb_ready shown"
    using assms(5) by (simp add: lb_ready_def a(2) published(3) with_ip_def marked_service_def set_annotation_def)
  from worked_served [OF r(2) _ _ w this, of svc] have "served cfg key g n h svc es"
    using a(1,2) published(1,3) by (simp add: rule_work_unpolled)
  with r(1) published(2) show ?thesis by (simp add: after_rule_def)
qed (use assms(2,6) cooperativeD [OF assms(3)] in \<open>auto simp: faithful_server_def\<close>)

lemma lbs_served_lookup:
  assumes "lbs_served env cfg rc name protocol m" and "lookup_session rc env p name es found" and "answered env h es"
  shows "case found of Inl _ \<Rightarrow> False | Inr None \<Rightarrow> True
    | Inr (Some lb) \<Rightarrow> elbVip lb \<noteq> '''' \<and> elbProtocol lb = protocol"
proof -
  have listed: "\<exists>items. listing e = Some items \<and>
      (\<forall>lb \<in> set items. elbName lb = name \<longrightarrow> elbVip lb \<noteq> '''' \<and> elbProtocol lb = protocol)"
    if look: "e \<in> set es" "lookup_of env l p name e" for e l
  proof -
    obtain req answer where e: "e = HTTPDo req answer"
      using look(2) by (auto simp: lookup_of_def split: event.splits)
    obtain h where "answer = env_http_do env h req"
      using answered_at [OF assms(3) look(1)] e by auto
    with assms(1) obtain resp items where "answer = Inr resp" "listStatusCode resp = 200" "listBody resp = Inr items"
      "\<forall>lb \<in> set items. elbName lb = name \<longrightarrow> elbVip lb \<noteq> '''' \<and> elbProtocol lb = protocol"
      unfolding lbs_served_def by metis
    then show ?thesis by (simp add: e listing_def)
  qed
  have sendable: "\<not> lookup_unsendable env l p" for l
    using assms(1) by (auto simp: lbs_served_def lookup_unsendable_def) (metis sum.distinct(1))
  from assms(2) show ?thesis
  proof cases
    case (found l e items lb lbs)
    then have "lb \<in> set items" "elbName lb = name" by (auto dest: filter_eq_ConsD)
    with found listed [of e l] show ?thesis by auto
  next
    case (lookup_failed l err)
    then show ?thesis using listed sendable by fastforce
  qed simp_all
qed

text \<open>With a create accepted in the end, the wait ends with a load balancer.\<close>

lemma polling_polls: "polling es \<Longrightarrow> rule_polls es = 0"
proof -
  have "is_lb_poll e \<Longrightarrow> \<not> is_rule_poll e" for e by (cases e) simp_all
  then show "polling es \<Longrightarrow> rule_polls es = 0" by (auto simp: polling_def rule_polls_def filter_empty_conv)
qed

lemma lb_poll_served:
  assumes "lbs_served env cfg rc name protocol m"
  obtains resp op where "env_get_lb_operation env h p i = ApiOk resp op" "StatusCode resp = 200"
    "bodyCloseErr resp = None" "fine_operation env op"
proof -
  from assms have "\<forall>h p i. \<exists>resp op. env_get_lb_operation env h p i = ApiOk resp op \<and> StatusCode resp = 200 \<and>
      bodyCloseErr resp = None \<and> fine_operation env op"
    by (simp add: lbs_served_def)
  then show thesis using that by blast
qed

lemma create_served:
  assumes "lbs_served env cfg rc name protocol m"
  obtains resp op where "env_create_lb env h req p = ApiOk resp (Some op)" "accepted_status resp" "fine_operation env op"
proof -
  from assms have "\<forall>h req p. \<exists>resp op. env_create_lb env h req p = ApiOk resp (Some op) \<and> accepted_status resp \<and>
      fine_operation env op"
    by (simp add: lbs_served_def)
  then show thesis using that by blast
qed

lemma settled_by_fine:
  assumes "lbs_served env cfg rc name protocol m" and "answered env h polls"
    and "settled_by projectID op polls op'" and "fine_operation env op"
  shows "fine_operation env op'"
  using settled_by_polled [OF assms(3)]
proof (elim disjE exE)
  fix p i resp
  assume "GetExternalLoadBalancerOperation p i (ApiOk resp op') \<in> set polls"
  from answered_at [OF assms(2) this] obtain h where h: "ApiOk resp op' = env_get_lb_operation env h p i" by auto
  show ?thesis by (rule lb_poll_served [OF assms(1), of h p i]) (use h in simp)
qed (use assms(4) in simp)

lemma polls_not_refused:
  assumes "lbs_served env cfg rc name protocol m" and "answered env h polls"
  shows "\<not> poll_refused polls"
proof
  assume "poll_refused polls"
  then obtain p i answer where a: "GetExternalLoadBalancerOperation p i answer \<in> set polls" "\<not> poll_answered answer"
    by (auto simp: poll_refused_def)
  from answered_at [OF assms(2) a(1)] obtain h where h: "answer = env_get_lb_operation env h p i" by auto
  show False by (rule lb_poll_served [OF assms(1), of h p i]) (use h a(2) in \<open>simp add: poll_answered_def\<close>)
qed

lemma submit_session_served:
  assumes "submit_session rc cfg env svc req es r" and "postProtocol req = goalProtocol g"
    and "answered env h es" and "cooperative env rc cfg key svc0 g m n" and "wanted cfg key g svc"
    and "finalizer \<in> set (svcFinalizers svc)" and "r \<noteq> Unfinished"
  shows "served cfg key g n h svc es \<and> (\<exists>result. r = Returned (result, None))"
proof -
  note world = cooperativeD [OF assms(4)]
  have create: "\<exists>resp op. answer = ApiOk resp (Some op) \<and> accepted_status resp \<and> fine_operation env op"
    if made: "CreateExternalLoadBalancer req p answer \<in> set es" for p answer
  proof -
    from answered_at [OF assms(3) made] obtain h where "answer = env_create_lb env h req p" by auto
    then show ?thesis using create_served [OF world(3), of h req p] by metis
  qed
  from assms(1) show ?thesis
  proof cases
    case (created_lb resp polls op op' lb rest)
    let ?create = "CreateExternalLoadBalancer req (CrusoeProjectID cfg) (ApiOk resp (Some op))"
    have "es = (?create # polls) @ rest" using created_lb(1) by simp
    with assms(3) have "answered env h ((?create # polls) @ rest)" by (rule back_subst)
    then have a: "answered env (h @ [?create]) polls" "answered env (h @ ?create # polls) rest"
      unfolding answered_append answered.simps by blast+
    have "fine_operation env op" using create created_lb(1) by auto
    then have "fine_operation env op'" using settled_by_fine [OF world(3) a(1) created_lb(4)] by blast
    then have vip: "elbVip lb \<noteq> ''''" using created_lb(5,6) by (auto simp: fine_operation_def)
    have quiet: "rule_polls (?create # polls) = 0" "server_copy svc (?create # polls) = svc"
      using polling_polls [OF created_lb(3)] created_lb(3) by simp_all
    have "served cfg key g n (h @ ?create # polls) svc rest \<and> (\<exists>result. r = Returned (result, None))"
      using record_session_served [OF _ a(2) assms(4-6) vip] created_lb(7) assms(2) by simp
    then show ?thesis using quiet created_lb(1,3) by (simp add: served_def rule_work_unpolled)
  next
    case (create_failed resp polls op op' warnings)
    have "fine_operation env op'"
      using settled_by_fine [OF world(3) _ create_failed(5)] create create_failed(1) assms(3) by auto
    then show ?thesis using create_failed by (auto simp: fine_operation_def)
  next
    case (undecodable_result resp polls op op' err)
    have "fine_operation env op'"
      using settled_by_fine [OF world(3) _ undecodable_result(5)] create undecodable_result(1) assms(3) by auto
    then show ?thesis using undecodable_result by (auto simp: fine_operation_def)
  next
    case (poll_failed resp polls op err)
    then show ?thesis using polls_not_refused [OF world(3)] assms(3) by auto
  qed (use create assms(7) in auto)
qed

lemma served_after:
  assumes "served cfg key g n (h @ pre) svc' post" and "rule_polls pre = 0" and "server_copy svc pre = svc'"
    and "rule_work n h svc' = rule_work n h svc"
  shows "served cfg key g n h svc (pre @ post)"
  using assms by (simp add: served_def rule_work_unpolled)

lemma fresh_served:
  assumes "fresh_answer rc key e = Some answer" and "answered_event env h e" and "faithful_server env key svc"
  shows "answer = Inr (server_copy svc h)"
  using assms by (auto simp: fresh_answer_def faithful_server_def split: event.splits if_splits)

lemma lookup_quiet:
  assumes "lookup_session rc env p name es found"
  shows "rule_polls es = 0" "server_copy svc es = svc"
proof -
  have "is_read e \<Longrightarrow> lookup_of env l p name e \<Longrightarrow> \<not> is_rule_poll e" for e l
    by (cases e) (simp_all add: lookup_of_def)
  then show "rule_polls es = 0"
    using assms by (auto elim!: lookup_sessionE simp: lookup_of_def split: event.splits)
  show "server_copy svc es = svc" using assms by simp
qed

lemma create_session_served:
  assumes "create_session rc cfg env svc es r" and "answered env h es" and "r \<noteq> Unfinished"
    and "cooperative env rc cfg key svc0 g m n" and "wanted cfg key g svc" and "server_copy svc0 h = svc"
    and "finalizer \<in> set (svcFinalizers svc)" and "svcAnnotations svc loadbalancerIDLabelKey = None"
  shows "served cfg key g n h svc es \<and> (\<exists>result. r = Returned (result, None))"
proof -
  note world = cooperativeD [OF assms(4)]
  have key: "object_key svc = key" and derived: "DeriveLoadBalancerProtocol svc = Inr (goalProtocol g)"
    and name: "GenerateLoadBalancerResourceName (svcNamespace svc) (svcName svc) (svcUID svc) = Inr (argRuleName (goalRule g))"
    using assms(5) by (simp_all add: wanted_def wanted_rule_def Let_def)
  have fresh: "permits_create answer" if "fresh_answer rc (object_key svc) e = Some answer" "answered_event env h e" for e answer
    using fresh_served [OF that(1,2) world(1) [folded key]] assms(5,6,8) by (simp add: permits_create_def wanted_def)
  have rest: "served cfg key g n h svc es"
    if "es = pre @ post" "rule_polls pre = 0" "server_copy svc pre = svc" "served cfg key g n (h @ pre) svc post" for pre post
    unfolding that(1) by (rule served_after [OF that(4,2,3) refl])
  have split: "answered env (h @ pre) post" if "es = pre @ post" for pre post
    using assms(2) that by simp
  from assms(1) show ?thesis
  proof cases
    case (adopted protocol e answer reads name' looked lb protocol' post)
    have at: "lookup_session rc env (CrusoeProjectID cfg) (argRuleName (goalRule g)) looked (Inr (Some lb))"
      using adopted(7,8) name by simp
    have lb: "elbVip lb \<noteq> ''''" "elbProtocol lb = goalProtocol g"
      using lbs_served_lookup [OF world(3) at] assms(2) adopted(1) by auto
    have p: "protocol' = goalProtocol g" using adopted(2,9) lb(2) derived by simp
    have es: "es = (e # reads @ looked) @ post" using adopted(1) by simp
    have "is_read e \<Longrightarrow> fresh_answer rc k e = Some answer \<Longrightarrow> \<not> is_rule_poll e" for k by (cases e) (simp_all add: fresh_answer_def)
    then have quiet: "rule_polls (e # reads @ looked) = 0" "server_copy svc (e # reads @ looked) = svc"
      using adopted(3,4,6) lookup_quiet [OF at] unchanged_not_written [of e] by auto
    show ?thesis
      using record_session_served [OF adopted(10) [unfolded p] split [OF es] assms(4,5,7) lb(1)] rest [OF es quiet] by blast
  next
    case (submitted protocol e answer reads name' looked req post)
    have at: "lookup_session rc env (CrusoeProjectID cfg) (argRuleName (goalRule g)) looked (Inr None)"
      using submitted(7,8) name by simp
    have es: "es = (e # reads @ looked) @ post" using submitted(1) by simp
    have "is_read e \<Longrightarrow> fresh_answer rc k e = Some answer \<Longrightarrow> \<not> is_rule_poll e" for k by (cases e) (simp_all add: fresh_answer_def)
    then have quiet: "rule_polls (e # reads @ looked) = 0" "server_copy svc (e # reads @ looked) = svc"
      using submitted(3,4,6) lookup_quiet [OF at] unchanged_not_written [of e] by auto
    have "postProtocol req = goalProtocol g" using submitted(2,10) derived by simp
    from submit_session_served [OF submitted(11) this split [OF es] assms(4,5,7,3)] rest [OF es quiet] show ?thesis by blast
  next
    case (not_fresh protocol e answer)
    then show ?thesis using fresh assms(2) by auto
  next
    case (unprepared protocol e answer reads)
    then show ?thesis using topology_served(1) [OF world(2)] assms(2) name by auto
  next
    case (lookup_broken protocol e answer reads name' looked err)
    then show ?thesis using lbs_served_lookup [OF world(3), of _ looked] assms(2) name by fastforce
  qed (use derived in simp)
qed

section \<open>An update\<close>

lemma ingress_session_served:
  assumes "ingress_session cfg svc es (svc', delay)" and "answered env h es"
    and "cooperative env rc cfg key svc0 g m n"
  shows "delay = 0 \<and> server_copy svc es = svc' \<and> rule_polls es = 0 \<and> svcIngress svc' \<noteq> [] \<and>
    (svc' = svc \<or> svcIngress svc = [] \<and> (\<exists>vip. svc' = with_ip vip svc))"
proof -
  note world = cooperativeD [OF assms(3)]
  have "\<exists>resp lb. answer = ApiOk resp lb \<and> elbVip lb \<noteq> ''''"
    if "GetExternalLoadBalancer p i answer \<in> set es" for p i answer
    using answered_at [OF assms(2) that] world(3) by (auto simp: lbs_served_def)
  with assms(1,2) world(1) show ?thesis
    by (auto elim!: ingress_sessionE simp: faithful_server_def with_ip_def)
qed

lemma update_session_served:
  assumes "update_session cfg svc es err" and "answered env h es" and "cooperative env rc cfg key svc0 g m n"
  shows "err = None \<and> server_copy svc es = svc \<and> rule_polls es = 0"
  using assms(1)
proof cases
  case left_alone
  then show ?thesis by (auto simp: only_warnings_def rule_polls_def)
next
  case (pushed warnings req nodes answer)
  then have "update_outcome answer = None"
    using assms(2) cooperativeD(3) [OF assms(3)] by (auto simp: lbs_served_def)
  with pushed show ?thesis by (auto simp: only_warnings_def rule_polls_def)
qed

lemma update_pass_served:
  assumes "update_pass cfg env svc es r" and "answered env h es" and "cooperative env rc cfg key svc0 g m n"
    and "wanted cfg key g svc" and "finalizer \<in> set (svcFinalizers svc)" and "svcAnnotations svc loadbalancerIDLabelKey \<noteq> None"
  shows "served cfg key g n h svc es \<and> (\<exists>result. r = Returned (result, None) \<and>
    (svcIngress svc \<noteq> [] \<and> rule_work n h svc = 0 \<longrightarrow> result = empty_result \<and> server_copy svc es = svc))"
  using assms(1)
proof cases
  case (lb_not_updated es1 svc' delay es2 err)
  then show ?thesis using update_session_served [OF lb_not_updated(4) _ assms(3)] assms(2) by auto
next
  case (lb_updated es1 svc' delay es2 es3 ensured)
  note world = cooperativeD [OF assms(3)]
  have a: "answered env h es1" "answered env (h @ es1) es2" "answered env (h @ es1 @ es2) es3"
    using assms(2) lb_updated(1) by simp_all
  have ip: "delay = 0" "server_copy svc es1 = svc'" "rule_polls es1 = 0" "svcIngress svc' \<noteq> []"
    "svc' = svc \<or> svcIngress svc = [] \<and> (\<exists>vip. svc' = with_ip vip svc)"
    using ingress_session_served [OF lb_updated(2) a(1) assms(3)] by blast+
  have up: "server_copy svc' es2 = svc'" "rule_polls es2 = 0"
    using update_session_served [OF lb_updated(3) a(2) assms(3)] by blast+
  have w: "wanted cfg key g svc'" "protocol_fits g svc'" "lb_ready svc'"
    "rule_work n (h @ es1 @ es2) svc' = rule_work n h svc"
  proof -
    show w: "wanted cfg key g svc'" using ip(5) assms(4) by (auto simp: wanted_edits)
    have marked: "svcAnnotations svc' = svcAnnotations svc" "svcFinalizers svc' = svcFinalizers svc"
      using ip(5) by (auto simp: with_ip_def)
    with w assms(6) show "protocol_fits g svc'"
      by (simp add: wanted_def)
    show "lb_ready svc'" using marked assms(5,6) ip(4) by (simp add: lb_ready_def)
    show "rule_work n (h @ es1 @ es2) svc' = rule_work n h svc"
      using ip(3,5) up(2) by (auto simp: rule_work_unpolled)
  qed
  obtain svc'' d where s: "ensured = Returned (svc'', d, None)" "worked n (h @ es1 @ es2) svc' es3 svc''"
    "rule_work n (h @ es1 @ es2) svc' = 0 \<longrightarrow> d = 0"
    using rule_session_served [OF lb_updated(4) a(3) world(1,2,4) w(1,2)] by (elim exE conjE) (rule that)
  have "served cfg key g n h svc es"
    using worked_served [OF s(2) _ w(4,1,3)] ip(2) up(1) lb_updated(1) by simp
  moreover have "server_copy svc es = svc''" using worked_copy [OF s(2)] ip(2) up(1) lb_updated(1) by simp
  moreover have "svcIngress svc \<noteq> [] \<Longrightarrow> rule_work n h svc = 0 \<Longrightarrow> svc'' = svc \<and> d = 0"
    using ip(5) s(2,3) w(4) by (auto simp: worked_def)
  ultimately show ?thesis
    using lb_updated(5) s(1) ip(1) by (auto simp: update_requeue_def earliestRequeue_def Let_def)
qed

section \<open>A pass\<close>

lemma guard_step_served:
  assumes "guard_step env svc es guarded" and "answered env h es" and "faithful_server env key svc0"
  obtains fs where "guarded = Inr (svc\<lparr>svcFinalizers := fs\<rparr>)" "finalizer \<in> set fs"
    "server_copy svc es = svc\<lparr>svcFinalizers := fs\<rparr>" "rule_polls es = 0"
    "finalizer \<in> set (svcFinalizers svc) \<longrightarrow> fs = svcFinalizers svc"
  using assms(1)
proof cases
  case has_finalizer
  with assms(3) show ?thesis by (intro that [of "svcFinalizers svc"]) (auto simp: faithful_server_def)
next
  case adds_finalizer
  with assms(2,3) show ?thesis
    by (intro that [of "svcFinalizers svc @ [finalizer]"]) (auto simp: faithful_server_def)
qed

text \<open>What a pass over a Service that is not being deleted comes down to, after the guard.\<close>

lemma guarded_pass_served:
  assumes "guard_step env svc es1 (Inr svc')" and "es = GetService key answer # es1 @ es2" and "answered env h es"
    and "faithful_server env key svc0" and "wanted cfg key g svc"
    and "svc = server_copy svc0 h" and "answer = Inr svc"
    and goes_on: "\<And>h'. answered env h' es2 \<Longrightarrow> wanted cfg key g svc' \<Longrightarrow> finalizer \<in> set (svcFinalizers svc') \<Longrightarrow>
      server_copy svc0 h' = svc' \<Longrightarrow>
      served cfg key g n h' svc' es2 \<and> (\<exists>result. r = Returned (result, None) \<and>
        (lb_ready svc' \<and> rule_work n h' svc' = 0 \<longrightarrow> result = empty_result \<and> server_copy svc' es2 = svc'))"
  shows "served cfg key g n h svc es \<and> (\<exists>result. r = Returned (result, None) \<and>
    (lb_ready svc \<and> rule_work n h svc = 0 \<longrightarrow> result = empty_result \<and> server_copy svc es = svc))"
proof -
  let ?pre = "GetService key answer # es1"
  have a: "answered env (h @ [GetService key answer]) es1" "answered env (h @ ?pre) es2"
    using assms(3) unfolding assms(2) append_Cons [symmetric] answered_append answered.simps by blast+
  obtain fs where g: "svc' = svc\<lparr>svcFinalizers := fs\<rparr>" "finalizer \<in> set fs" "server_copy svc es1 = svc'"
    "rule_polls es1 = 0" "finalizer \<in> set (svcFinalizers svc) \<longrightarrow> fs = svcFinalizers svc"
    using guard_step_served [OF assms(1) a(1) assms(4)] by (metis sum.inject(2))
  have pre: "rule_polls ?pre = 0" "server_copy svc ?pre = svc'" "rule_work n h svc' = rule_work n h svc"
    using g by simp_all
  have w: "wanted cfg key g svc'" "finalizer \<in> set (svcFinalizers svc')" "server_copy svc0 (h @ ?pre) = svc'"
    using g(1-3) assms(5,6) by (simp_all add: wanted_edits)
  note rest = goes_on [OF a(2) w]
  have "es = ?pre @ es2" using assms(2) by simp
  with served_after [OF conjunct1 [OF rest] pre] have "served cfg key g n h svc es" by simp
  moreover have "lb_ready svc \<Longrightarrow> svc' = svc" using g(1,5) by (simp add: lb_ready_def)
  ultimately show ?thesis
    using conjunct2 [OF rest] pre \<open>es = ?pre @ es2\<close> rule_work_unpolled [OF pre(1), of n h svc'] by auto
qed

lemma pass_served:
  assumes "cooperative env rc cfg key svc0 g m n" and "wanted cfg key g (server_copy svc0 h)" and "m < fuel"
    and "run_state (Reconcile fuel rc cfg env key) h = (r, h')"
  obtains es result where "h' = h @ es" "r = Returned (result, None)" "served cfg key g n h (server_copy svc0 h) es"
    "lb_ready (server_copy svc0 h) \<and> rule_work n h (server_copy svc0 h) = 0 \<longrightarrow>
       result = empty_result \<and> server_copy svc0 h' = server_copy svc0 h"
proof (rule pass_answered [OF assms(4)])
  fix es
  assume es: "h' = h @ es" "reconcile_session rc cfg env key es r" "answered env h es"
  note world = cooperativeD [OF assms(1)]
  define svc where "svc = server_copy svc0 h"
  have "lb_operations_settle env cfg m" using world(3) by (simp add: lbs_served_def)
  from reconcile_terminates [OF this, of rc key h] assms(3,4) have r: "r \<noteq> Unfinished"
    by (metis add_Suc less_iff_Suc_add prod.inject)
  have w: "wanted cfg key g svc" using assms(2) by (simp add: svc_def)
  have get: "answer = Inr svc" if "es = GetService key answer # es'" for answer es'
    using that es(3) world(1) by (auto simp: faithful_server_def svc_def)
  have "served cfg key g n h svc es \<and> (\<exists>result. r = Returned (result, None) \<and>
    (lb_ready svc \<and> rule_work n h svc = 0 \<longrightarrow> result = empty_result \<and> server_copy svc es = svc))"
    using es(2)
  proof cases
    case (creating svc1 es1 svc' es2)
    note same = get [OF creating(1), THEN sum.inject(2) [THEN iffD1]]
    show ?thesis
      by (rule guarded_pass_served [OF creating(4) [unfolded same] creating(1) es(3) world(1) w svc_def get [OF creating(1)]])
        (use create_session_served [OF creating(6) _ r assms(1)] creating(5) in \<open>auto simp: lb_ready_def\<close>)
  next
    case (updating svc1 es1 svc' es2)
    note same = get [OF updating(1), THEN sum.inject(2) [THEN iffD1]]
    show ?thesis
      by (rule guarded_pass_served [OF updating(4) [unfolded same] updating(1) es(3) world(1) w svc_def get [OF updating(1)]])
        (use update_pass_served [OF updating(6) _ assms(1)] updating(5) in \<open>simp add: lb_ready_def\<close>)
  next
    case (not_guarded svc1 es1 err)
    from es(3) have "answered env (h @ [GetService key (Inr svc1)]) es1"
      unfolding not_guarded(1) answered.simps by blast
    from guard_step_served [OF not_guarded(5) this world(1)] show ?thesis by simp
  qed (use get w in \<open>auto simp: wanted_def\<close>)
  then show thesis using that es(1) by (auto simp: svc_def)
qed

end
