(* ===== verification/Upkeep.thy ===== *)
theory Upkeep
  imports Cooperation System
begin

text \<open>
  What passes leave behind when they are cut off. Every version of a wanted Service that a pass writes in a
  cooperative world is wanted too, so wherever the process is killed, what a restarted
  controller finds is again a Service that wants the same load balancer and the same rule.
\<close>

section \<open>Versions that are written\<close>

text \<open>Every version of the Service that is written satisfies \<open>W\<close>.\<close>

definition keeps :: "(service \<Rightarrow> bool) \<Rightarrow> event list \<Rightarrow> bool" where
  "keeps W es \<longleftrightarrow> (\<forall>e \<in> set es. case written e of None \<Rightarrow> True | Some svc \<Rightarrow> W svc)"

lemma keeps_simps [simp]:
  "keeps W []" "keeps W (e # es) \<longleftrightarrow> (case written e of None \<Rightarrow> True | Some svc \<Rightarrow> W svc) \<and> keeps W es"
  "keeps W (es @ es') \<longleftrightarrow> keeps W es \<and> keeps W es'"
  by (auto simp: keeps_def)

lemma keeps_unchanged [simp]: "changes es = [] \<Longrightarrow> keeps W es"
proof (induction es)
  case (Cons e es)
  then show ?case using unchanged_not_written [of e] by (cases "change_of e") auto
qed simp

text \<open>So it holds of the Service as it is after any part of them.\<close>

lemma keeps_copy: "keeps W es \<Longrightarrow> W svc \<Longrightarrow> W (server_copy svc (take k es))"
proof (induction es arbitrary: svc k)
  case (Cons e es)
  then show ?case by (cases k) (auto split: option.splits)
qed simp

lemma rule_branch_keeps:
  assumes "rule_branch cfg env svc args es next" and "answered env h es" and "faithful_server env key svc0"
    and "wanted cfg key g svc"
  shows "keeps (wanted cfg key g) es \<and> (\<forall>svc'. next = EnsureCreate svc' \<longrightarrow> wanted cfg key g svc')"
  using assms(1)
proof cases
  case (rule_drifted ruleID rule rule' args' resp patched)
  then show ?thesis by simp
qed (use assms in \<open>auto simp: faithful_server_def rule_edits wanted_edits after_failure_def elim!: lookup_missedE split: if_splits\<close>)

lemma rule_session_keeps:
  assumes "rule_session cfg env svc es r" and "answered env h es" and "faithful_server env key svc0"
    and "wanted cfg key g svc"
  shows "keeps (wanted cfg key g) es"
  using assms(1)
proof cases
  case (branched reads args branch "next" rest)
  have a: "answered env (h @ reads) branch" "answered env (h @ reads @ branch) rest"
    using assms(2) branched(1) by simp_all
  note b = rule_branch_keeps [OF branched(4) a(1) assms(3,4)]
  have "keeps (wanted cfg key g) rest"
    using branched(5) b a(2) assms(3) by cases (auto simp: faithful_server_def rule_edits wanted_edits)
  with b branched(1,3) show ?thesis by simp
qed simp_all

lemma record_session_keeps:
  assumes "record_session cfg env svc lb (goalProtocol g) es r" and "answered env h es"
    and "faithful_server env key svc0" and "wanted cfg key g svc"
  shows "keeps (wanted cfg key g) es"
  using assms(1)
proof cases
  case (published marked shown es' ensured written)
  have w: "wanted cfg key g written" "wanted cfg key g shown"
    using published(1,3) assms(2-4) by (auto simp: faithful_server_def wanted_edits)
  have "answered env (h @ [PatchService svc marked (Inr written),
      PatchServiceStatus written (with_ip (elbVip lb) written) (Inr shown)]) es'"
    using assms(2) unfolding published(1) answered.simps append_assoc append_Cons append_Nil by blast
  from rule_session_keeps [OF published(5) this assms(3) w(2)] w published(1) show ?thesis by simp
qed (use assms(2-4) in \<open>auto simp: faithful_server_def wanted_edits\<close>)

lemma submit_session_keeps:
  assumes "submit_session rc cfg env svc req es r" and "postProtocol req = goalProtocol g" and "answered env h es"
    and "faithful_server env key svc0" and "wanted cfg key g svc"
  shows "keeps (wanted cfg key g) es"
  using assms(1)
proof cases
  case (created_lb resp polls op op' lb rest)
  let ?create = "CreateExternalLoadBalancer req (CrusoeProjectID cfg) (ApiOk resp (Some op))"
  have "es = (?create # polls) @ rest" using created_lb(1) by simp
  with assms(3) have "answered env h ((?create # polls) @ rest)" by (rule back_subst)
  then have "answered env (h @ ?create # polls) rest" unfolding answered_append by blast
  from record_session_keeps [OF created_lb(7) [unfolded assms(2)] this assms(4,5)] created_lb(1,3)
  show ?thesis by simp
qed simp_all

lemma create_session_keeps:
  assumes "create_session rc cfg env svc es r" and "answered env h es"
    and "cooperative env rc cfg key svc0 g m n" and "wanted cfg key g svc"
  shows "keeps (wanted cfg key g) es"
proof -
  note world = cooperativeD [OF assms(3)]
  have derived: "DeriveLoadBalancerProtocol svc = Inr (goalProtocol g)"
    and name: "GenerateLoadBalancerResourceName (svcNamespace svc) (svcName svc) (svcUID svc) = Inr (argRuleName (goalRule g))"
    using assms(4) by (simp_all add: wanted_def wanted_rule_def Let_def)
  from assms(1) show ?thesis
  proof cases
    case (adopted protocol e answer reads name' looked lb protocol' post)
    have at: "lookup_session rc env (CrusoeProjectID cfg) (argRuleName (goalRule g)) looked (Inr (Some lb))"
      using adopted(7,8) name by simp
    have "protocol' = goalProtocol g"
      using lbs_served_lookup [OF world(3) at] assms(2) adopted(1,2,9) derived by auto
    moreover have "answered env (h @ e # reads @ looked) post" using assms(2) adopted(1) by simp
    ultimately have "keeps (wanted cfg key g) post"
      using record_session_keeps [of cfg env svc lb g post r] adopted(10) world(1) assms(4) by blast
    with adopted(1,4,6) at show ?thesis using unchanged_not_written [of e] by simp
  next
    case (submitted protocol e answer reads name' looked req post)
    have "answered env (h @ e # reads @ looked) post" using assms(2) submitted(1) by simp
    from submit_session_keeps [OF submitted(11) _ this world(1) assms(4)]
    have "keeps (wanted cfg key g) post" using submitted(2,10) derived by simp
    with submitted(1,4,6,8) show ?thesis using unchanged_not_written [of e] by simp
  qed (use unchanged_not_written in simp_all)
qed

lemma ingress_session_keeps:
  assumes "ingress_session cfg svc es (svc', delay)" and "answered env h es"
    and "faithful_server env key svc0" and "wanted cfg key g svc"
  shows "keeps (wanted cfg key g) es \<and> wanted cfg key g svc'"
  using assms by (auto elim!: ingress_sessionE simp: faithful_server_def wanted_edits)

lemma update_session_keeps: "update_session cfg svc es err \<Longrightarrow> keeps W es"
  by (auto elim!: update_sessionE)

lemma update_pass_keeps:
  assumes "update_pass cfg env svc es r" and "answered env h es"
    and "faithful_server env key svc0" and "wanted cfg key g svc"
  shows "keeps (wanted cfg key g) es"
  using assms(1)
proof cases
  case (lb_not_updated es1 svc' delay es2 err)
  then show ?thesis
    using ingress_session_keeps [OF lb_not_updated(3) _ assms(3,4)] update_session_keeps [OF lb_not_updated(4)] assms(2)
    by auto
next
  case (lb_updated es1 svc' delay es2 es3 ensured)
  have a: "answered env h es1" "answered env (h @ es1 @ es2) es3" using assms(2) lb_updated(1) by simp_all
  note ip = ingress_session_keeps [OF lb_updated(2) a(1) assms(3,4)]
  from rule_session_keeps [OF lb_updated(4) a(2) assms(3) conjunct2 [OF ip]] ip update_session_keeps [OF lb_updated(3)] lb_updated(1)
  show ?thesis by simp
qed

lemma guard_step_keeps:
  assumes "guard_step env svc es guarded" and "answered env h es" and "faithful_server env key svc0"
    and "wanted cfg key g svc"
  shows "keeps (wanted cfg key g) es \<and> (\<forall>svc'. guarded = Inr svc' \<longrightarrow> wanted cfg key g svc')"
  using assms by (auto elim!: guard_stepE simp: faithful_server_def wanted_edits)

text \<open>A pass over a Service that is wanted writes only versions of it that are.\<close>

lemma pass_keeps:
  assumes "run_state (Reconcile fuel rc cfg env key) h = (r, h @ es)"
    and "cooperative env rc cfg key svc0 g m n" and "wanted cfg key g (server_copy svc0 h)"
  shows "keeps (wanted cfg key g) es"
proof (rule pass_answered [OF assms(1)])
  fix es'
  assume "h @ es = h @ es'" "reconcile_session rc cfg env key es' r" "answered env h es'"
  then have s: "reconcile_session rc cfg env key es r" "answered env h es" by simp_all
  note world = cooperativeD [OF assms(2)]
  have get: "wanted cfg key g svc" if "es = GetService key (Inr svc) # es'" for svc es'
    using that s(2) world(1) assms(3) by (auto simp: faithful_server_def)
  have rest: "answered env (h @ [GetService key (Inr svc)]) es'" if "es = GetService key (Inr svc) # es'" for svc es'
    using s(2) unfolding that answered.simps by blast
  from s(1) show ?thesis
  proof cases
    case (not_guarded svc es1 err)
    then show ?thesis using guard_step_keeps [OF _ rest [OF not_guarded(1)] world(1) get [OF not_guarded(1)]] by simp
  next
    case (creating svc es1 svc' es2)
    have a: "answered env (h @ [GetService key (Inr svc)]) es1" "answered env (h @ GetService key (Inr svc) # es1) es2"
      using rest [OF creating(1)] by simp_all
    note g = guard_step_keeps [OF creating(4) a(1) world(1) get [OF creating(1)]]
    from create_session_keeps [OF creating(6) a(2) assms(2)] g creating(1) show ?thesis by simp
  next
    case (updating svc es1 svc' es2)
    have a: "answered env (h @ [GetService key (Inr svc)]) es1" "answered env (h @ GetService key (Inr svc) # es1) es2"
      using rest [OF updating(1)] by simp_all
    note g = guard_step_keeps [OF updating(4) a(1) world(1) get [OF updating(1)]]
    from update_pass_keeps [OF updating(6) a(2) world(1)] g updating(1) show ?thesis by simp
  qed (use get in \<open>auto simp: wanted_def\<close>)
qed

section \<open>Passes that are cut off\<close>

definition pass_over :: "reconciler \<Rightarrow> config \<Rightarrow> env \<Rightarrow> namespaced_name \<Rightarrow> event list \<Rightarrow> event list \<Rightarrow> bool" where
  "pass_over rc cfg env key h es \<longleftrightarrow> (\<exists>fuel r. run_state (Reconcile fuel rc cfg env key) h = (r, h @ es))"

lemma histories_wanted:
  assumes "histories (pass_over rc cfg env key) h" and "cooperative env rc cfg key svc g m n" and "wanted cfg key g svc"
  shows "wanted cfg key g (server_copy svc h)"
  using assms(1)
proof induction
  case start
  then show ?case using assms(3) by simp
next
  case (pass h es k)
  then obtain fuel r where "run_state (Reconcile fuel rc cfg env key) h = (r, h @ es)" by (auto simp: pass_over_def)
  from keeps_copy [OF pass_keeps [OF this assms(2) pass.IH] pass.IH] show ?case by simp
qed

end
