(* ===== verification/Convergence.thy ===== *)
theory Convergence
  imports Upkeep
begin

text \<open>
  What repeated passes lead to. In a cooperative world a Service that wants a load balancer and a firewall
  rule reaches a settled state after a bounded number of passes, from wherever it was left, and stays in it;
  and a Service that is being deleted is released after a bounded number of passes.
\<close>

section \<open>Passes in a row\<close>

fun passes :: "nat \<Rightarrow> reconciler \<Rightarrow> config \<Rightarrow> env \<Rightarrow> namespaced_name \<Rightarrow> nat \<Rightarrow> event list \<Rightarrow> event list" where
  "passes fuel rc cfg env key 0 h = h"
| "passes fuel rc cfg env key (Suc k) h =
     passes fuel rc cfg env key k (snd (run_state (Reconcile fuel rc cfg env key) h))"

section \<open>A wanted Service settles\<close>

lemma pass_progress:
  assumes "cooperative env rc cfg key svc g m n" and "m < fuel" and "wanted cfg key g (server_copy svc h)"
    and h': "h' = snd (run_state (Reconcile fuel rc cfg env key) h)"
  shows "wanted cfg key g (server_copy svc h') \<and> lb_ready (server_copy svc h') \<and>
    rule_work n h' (server_copy svc h') < max 1 (rule_work n h (server_copy svc h))"
proof -
  obtain r where run: "run_state (Reconcile fuel rc cfg env key) h = (r, h')"
    using h' by (metis prod.collapse)
  show ?thesis
    by (rule pass_served [OF assms(1,3,2) run]) (simp add: served_def)
qed

lemma passes_progress:
  assumes "cooperative env rc cfg key svc g m n" and "m < fuel" and "wanted cfg key g (server_copy svc h)"
    and h': "h' = passes fuel rc cfg env key k h"
  shows "wanted cfg key g (server_copy svc h') \<and> (lb_ready (server_copy svc h) \<or> 0 < k \<longrightarrow> lb_ready (server_copy svc h')) \<and>
    rule_work n h' (server_copy svc h') \<le> rule_work n h (server_copy svc h) - k"
  using assms(3,4)
proof (induction k arbitrary: h)
  case 0
  then show ?case by simp
next
  case (Suc k)
  let ?h1 = "snd (run_state (Reconcile fuel rc cfg env key) h)"
  note first = pass_progress [OF assms(1,2) Suc.prems(1) refl]
  have "h' = passes fuel rc cfg env key k ?h1" using Suc.prems(2) by simp
  with Suc.IH [of ?h1] first show ?case by fastforce
qed

lemma rule_work_bound: "rule_work n h svc \<le> n + 2"
  by (cases "rule_state svc") (simp_all add: rule_work_def)

lemma rule_work_done: "rule_work n h svc = 0 \<longleftrightarrow> (\<exists>ruleID. rule_state svc = RuleRecorded ruleID)"
  by (simp add: rule_work_def split: rule_state.split)

text \<open>
  C2. A Service settles. Take a Service that wants a load balancer and a firewall rule, with whatever is recorded
  on it, in a cooperative world in which the create operations of rules are pending for n polls; let any number
  of passes go over it, each cut off after any of its events. Then \<open>n + 2\<close> passes that are not cut off bring
  it to where its finalizer, its load balancer's id and its external IP are set and its rule is recorded. There
  it stays: one more pass returns without an error, asks for no other pass, and leaves the Service as it is.
  One thing is excluded of what may be recorded (\<open>wanted\<close>): a load balancer with a known protocol other than
  that of the ports. The ports have drifted from it then, and the rule is skipped as long as they have.
\<close>

theorem service_settles:
  assumes "cooperative env rc cfg key svc g m n" and "m < fuel" and "wanted cfg key g svc"
    and "histories (pass_over rc cfg env key) h" and "n + 2 \<le> k" and h': "h' = passes fuel rc cfg env key k h"
  shows "lb_ready (server_copy svc h') \<and> (\<exists>ruleID. rule_state (server_copy svc h') = RuleRecorded ruleID) \<and>
    (\<exists>es. run_state (Reconcile fuel rc cfg env key) h' = (Returned (empty_result, None), h' @ es) \<and>
       server_copy svc (h' @ es) = server_copy svc h')"
proof -
  note there = passes_progress [OF assms(1,2) histories_wanted [OF assms(4,1,3)] h']
  have settled: "lb_ready (server_copy svc h')" "rule_work n h' (server_copy svc h') = 0"
    using there assms(5) rule_work_bound [of n h "server_copy svc h"] by auto
  obtain r h'' where run: "run_state (Reconcile fuel rc cfg env key) h' = (r, h'')" by fastforce
  have "\<exists>es. h'' = h' @ es \<and> r = Returned (empty_result, None) \<and> server_copy svc h'' = server_copy svc h'"
    by (rule pass_served [OF assms(1) conjunct1 [OF there] assms(2) run]) (use settled in auto)
  with run settled show ?thesis by (auto simp: rule_work_done)
qed

section \<open>A dying Service is released\<close>

text \<open>The Crusoe API answers deletions, and lists the rules.\<close>

definition deletions_served :: "env \<Rightarrow> bool" where
  "deletions_served env \<longleftrightarrow>
     (\<forall>h p i. lb_gone (env_delete_lb env h p i)) \<and>
     (\<forall>h p i. api_error (env_delete_rule env h p i) = None \<or> answered_404 (env_delete_rule env h p i)) \<and>
     (\<forall>h p. \<exists>resp rules. env_list_rules env h p = ApiOk resp rules)"

text \<open>One pass less to go, while the rule's create operation is pending.\<close>

definition held_back :: "nat \<Rightarrow> event list \<Rightarrow> service \<Rightarrow> event list \<Rightarrow> bool" where
  "held_back n h svc es \<longleftrightarrow> server_copy svc es = svc \<and> rule_polls h < n \<and> rule_polls es = 1"

lemma hold_read_quiet: "hold_read svc hold expired \<Longrightarrow> rule_polls hold = 0"
  by (auto elim: hold_readE)

lemma name_lookup_served:
  assumes "name_lookup cfg svc es target" and "answered env h es" and "deletions_served env"
  shows "target \<noteq> TargetUnknown err"
proof -
  have "ApiErr msg resp \<noteq> env_list_rules env h p" for msg resp p
    using assms(3) unfolding deletions_served_def by (metis api_result.distinct(1))
  with assms(1,2) show ?thesis by (auto elim!: name_lookupE)
qed

lemma rule_target_served:
  assumes "rule_target cfg env svc es (TargetUnknown err)" and "answered env h es"
    and "rule_operations_land env n" and "deletions_served env"
  shows "held_back n h svc es"
  using assms(1)
proof cases
  case (held operationID hold answer)
  then show ?thesis
    using rule_operation_view [OF assms(3), of "h @ hold" "CrusoeProjectID cfg" operationID answer] assms(2)
      hold_read_quiet [of svc hold] by (auto simp: held_back_def elim!: hold_readE split: if_splits)
next
  case (unreadable operationID hold expired answer)
  then show ?thesis
    using rule_operation_view [OF assms(3), of "h @ hold" "CrusoeProjectID cfg" operationID answer] assms(2)
    by (auto split: if_splits)
next
  case (by_name es1 es2)
  then show ?thesis using name_lookup_served [OF by_name(4) _ assms(4)] assms(2) by auto
qed

lemma rule_cleanup_served:
  assumes "rule_cleanup cfg env svc es (svc', Some err)" and "answered env h es" and "faithful_server env key svc0"
    and "rule_operations_land env n" and "deletions_served env"
  shows "held_back n h svc es"
  using assms(1)
proof cases
  case unknown_rule
  then show ?thesis using rule_target_served [OF _ assms(2,4,5)] by blast
next
  case (delete_failed es1 ruleID answer msg resp)
  have "api_error answer = None \<or> answered_404 answer"
    using delete_failed(1) assms(2,5) by (auto simp: deletions_served_def)
  with delete_failed show ?thesis by (simp add: api_error_def)
next
  case (deleted es1 ruleID answer patched)
  then show ?thesis using assms(2,3) by (auto simp: faithful_server_def patch_outcome_def)
qed

lemma delete_session_served:
  assumes "delete_session cfg env svc es (svc', result, err)" and "answered env h es"
    and "faithful_server env key svc0" and "rule_operations_land env n" and "deletions_served env"
  shows "held_back n h svc es \<or> err = None \<and> result = empty_result"
  using assms(1)
proof cases
  case (rule_pending e)
  then show ?thesis using rule_cleanup_served [OF rule_pending(1) assms(2-5)] by simp
next
  case (lb_delete es1 ident answer)
  then have "lb_gone answer" using assms(2,5) by (auto simp: deletions_served_def)
  then show ?thesis using lb_delete delete_answered_gone [of ident answer result err] by simp
qed simp

lemma rule_cleanup_dying:
  assumes "rule_cleanup cfg env svc es (svc', err)" and "answered env h es" and "faithful_server env key svc0"
  shows "svcDeletionTimestamp svc' = svcDeletionTimestamp svc"
  using assms by (auto elim!: rule_cleanupE simp: faithful_server_def patch_outcome_def rule_edits rule_edit_def)

lemma delete_session_dying:
  assumes "delete_session cfg env svc es (svc', result, err)" and "answered env h es"
    and "faithful_server env key svc0"
  shows "svcDeletionTimestamp svc' = svcDeletionTimestamp svc"
  using assms(1)
proof cases
  case (rule_pending e)
  then show ?thesis using rule_cleanup_dying [OF _ assms(2,3)] by blast
next
  case no_lb_recorded
  then show ?thesis using rule_cleanup_dying [OF _ assms(2,3)] by blast
next
  case (lb_delete es1 ident answer)
  then have "answered env h es1" using assms(2) by simp
  with lb_delete show ?thesis using rule_cleanup_dying [OF _ _ assms(3)] by blast
qed

definition dying :: "service \<Rightarrow> bool" where
  "dying svc \<longleftrightarrow> \<not> DeletionTimestamp_IsZero svc"

definition released :: "service \<Rightarrow> bool" where
  "released svc \<longleftrightarrow> finalizer \<notin> set (svcFinalizers svc)"

lemma deletion_progress:
  assumes "faithful_server env key svc" and "rule_operations_land env n" and "deletions_served env"
    and "dying (server_copy svc h)" and h': "h' = snd (run_state (Reconcile fuel rc cfg env key) h)"
  shows "dying (server_copy svc h') \<and>
    (released (server_copy svc h') \<or>
     \<not> released (server_copy svc h) \<and> rule_polls h < n \<and> rule_polls h' = Suc (rule_polls h))"
proof -
  obtain r where run: "run_state (Reconcile fuel rc cfg env key) h = (r, h')"
    using h' by (metis prod.collapse)
  let ?svc = "server_copy svc h"
  show ?thesis
  proof (rule pass_answered [OF run])
    fix es
    assume es: "h' = h @ es" "reconcile_session rc cfg env key es r" "answered env h es"
    have get: "answer = Inr ?svc" if "es = GetService key answer # es'" for answer es'
      using that es(3) assms(1) by (auto simp: faithful_server_def)
    have finalizers: "env_ContainsFinalizer env s finalizer \<longleftrightarrow> \<not> released s" for s
      using assms(1) by (simp add: faithful_server_def released_def)
    show ?thesis
      using es(2)
    proof cases
      case (let_go svc1)
      then show ?thesis using get [OF let_go(1)] assms(4) es(1) finalizers by simp
    next
      case (cleaning svc1 es1 svc' result err)
      have s: "svc1 = ?svc" using get [OF cleaning(1)] by simp
      have "answered env (h @ [GetService key (Inr svc1)]) es1"
        using es(3) unfolding cleaning(1) answered.simps by blast
      from delete_session_served [OF cleaning(5) this assms(1-3)] cleaning(6)
      have "held_back n (h @ [GetService key (Inr svc1)]) svc1 es1" by (auto simp: empty_result_def Result_IsZero_def)
      then show ?thesis
        using cleaning(1,4) es(1) assms(4) by (simp add: held_back_def finalizers s)
    next
      case (cleaned svc1 es1 svc' result err answer)
      have s: "svc1 = ?svc" using get [OF cleaned(1)] by simp
      let ?update = "UpdateService (env_RemoveFinalizer env svc' finalizer) answer"
      have "answered env (h @ [GetService key (Inr svc1)]) (es1 @ [?update])"
        using es(3) unfolding cleaned(1) answered.simps by blast
      then have a: "answered env (h @ [GetService key (Inr svc1)]) es1" "\<exists>h. answered_event env h ?update"
        unfolding answered_append answered.simps by blast+
      have "answer = Inr (svc'\<lparr>svcFinalizers := filter (\<lambda>g. g \<noteq> finalizer) (svcFinalizers svc')\<rparr>)"
        using a(2) assms(1) by (auto simp: faithful_server_def)
      moreover have "svcDeletionTimestamp svc' = svcDeletionTimestamp ?svc"
        using delete_session_dying [OF cleaned(5) a(1) assms(1)] s by simp
      ultimately show ?thesis
        using cleaned(1) es(1) assms(4) by (simp add: released_def dying_def DeletionTimestamp_IsZero_def)
    next
      case (unreadable err)
      then show ?thesis using get by simp
    next
      case (gone err)
      then show ?thesis using get by simp
    qed (use get assms(4) in \<open>auto simp: dying_def\<close>)
  qed
qed

lemma deletion_passes:
  assumes "faithful_server env key svc" and "rule_operations_land env n" and "deletions_served env"
    and "dying (server_copy svc h)" and h': "h' = passes fuel rc cfg env key k h"
  shows "released (server_copy svc h') \<or> \<not> released (server_copy svc h) \<and> k \<le> n - rule_polls h"
  using assms(4,5)
proof (induction k arbitrary: h)
  case 0
  then show ?case by auto
next
  case (Suc k)
  let ?h1 = "snd (run_state (Reconcile fuel rc cfg env key) h)"
  note first = deletion_progress [OF assms(1-3) Suc.prems(1) refl]
  have "h' = passes fuel rc cfg env key k ?h1" using Suc.prems(2) by simp
  with Suc.IH [of ?h1] first show ?case by fastforce
qed

text \<open>
  C6. A Service that is being deleted is released. If the API server keeps what it is sent, deletions are
  answered, the rules are listed, and the create operation of a rule is pending for n polls, then after \<open>n + 1\<close>
  passes the finalizer is off the Service, whatever was recorded on it; and it stays off.
\<close>

theorem dying_service_released:
  assumes "faithful_server env key svc" and "rule_operations_land env n" and "deletions_served env"
    and "dying (server_copy svc h)" and "n < k" and h': "h' = passes fuel rc cfg env key k h"
  shows "released (server_copy svc h')"
  using deletion_passes [OF assms(1-4) h'] assms(5) by auto

section \<open>Witnesses\<close>

definition kind_world :: "service \<Rightarrow> nat \<Rightarrow> env" where
  "kind_world svc n = rule_env
     \<lparr>env_get_service := (\<lambda>h _. Inr (server_copy svc h)),
      env_reader_get_service := (\<lambda>h _. Inr (server_copy svc h)),
      env_update_service := (\<lambda>_ s. Inr s), env_patch_service := (\<lambda>_ _ s. Inr s),
      env_patch_service_status := (\<lambda>_ _ s. Inr s),
      env_http_do := (\<lambda>_ _. Inr (list_answer [])),
      env_create_lb := (\<lambda>_ _ _. ApiOk ok_response (Some (test_op OpInProgress))),
      env_get_lb_operation := (\<lambda>h _ _. ApiOk ok_response (test_op (if count_polls h < 2 then OpInProgress else OpSuccess))),
      env_get_lb := (\<lambda>_ _ _. ApiOk ok_response test_lb),
      env_update_lb := (\<lambda>_ _ _ _. ApiOk ok_response ()),
      env_delete_lb := (\<lambda>_ _ _. (Some ok_response, None)),
      env_get_cluster := (\<lambda>_ _ _. ApiOk ok_response \<lparr>clusterSubnetId = ''subnet''\<rparr>),
      env_create_rule := (\<lambda>_ _ _. ApiOk ok_response (Some (test_op OpInProgress))),
      env_get_rule_operation := (\<lambda>h _ _. ApiOk ok_response (test_op (if rule_polls h < n then OpInProgress else OpSuccess))),
      env_get_rule := (\<lambda>_ _ _. ApiOk ok_response listed_rule),
      env_patch_rule := (\<lambda>_ _ _ _. ApiOk ok_response ()),
      env_list_rules := (\<lambda>_ _. ApiOk ok_response []),
      env_delete_rule := (\<lambda>_ _ _. ApiOk ok_response ()),
      env_unmarshal_load_balancer := (\<lambda>_. Some test_lb),
      env_unmarshal_firewall_rule := (\<lambda>_. Some listed_rule)\<rparr>"

definition test_goal :: goal where
  "test_goal =
     \<lparr>goalNodes = [plain_node ''a'' True ''10.0.0.1''],
      goalSubnet = \<lparr>subnetVpcNetworkId = ''vpc'', subnetLocation = ''loc''\<rparr>,
      goalProtocol = LoadBalancerProtocolTCP, goalRule = test_svc_args\<rparr>"

lemma kind_world_answers [simp]:
  "env_get_service (kind_world svc n) h key = Inr (server_copy svc h)"
  "env_reader_get_service (kind_world svc n) h key = Inr (server_copy svc h)"
  "env_update_service (kind_world svc n) h s = Inr s" "env_patch_service (kind_world svc n) h orig s = Inr s"
  "env_patch_service_status (kind_world svc n) h orig s = Inr s"
  "env_http_do (kind_world svc n) h req = Inr (list_answer [])"
  "env_create_lb (kind_world svc n) h post p = ApiOk ok_response (Some (test_op OpInProgress))"
  "env_get_lb_operation (kind_world svc n) h p i =
     ApiOk ok_response (test_op (if count_polls h < 2 then OpInProgress else OpSuccess))"
  "env_get_lb (kind_world svc n) h p i = ApiOk ok_response test_lb"
  "env_update_lb (kind_world svc n) h patch p i = ApiOk ok_response ()"
  "env_delete_lb (kind_world svc n) h p i = (Some ok_response, None)"
  "env_create_rule (kind_world svc n) h post_rule p = ApiOk ok_response (Some (test_op OpInProgress))"
  "env_get_rule_operation (kind_world svc n) h p i =
     ApiOk ok_response (test_op (if rule_polls h < n then OpInProgress else OpSuccess))"
  "env_get_rule (kind_world svc n) h p i = ApiOk ok_response listed_rule"
  "env_patch_rule (kind_world svc n) h change p i = ApiOk ok_response ()"
  "env_list_rules (kind_world svc n) h p = ApiOk ok_response []"
  "env_delete_rule (kind_world svc n) h p i = ApiOk ok_response ()"
  "env_unmarshal_load_balancer (kind_world svc n) json = Some test_lb"
  "env_unmarshal_firewall_rule (kind_world svc n) json = Some listed_rule"
  "env_list_nodes (kind_world svc n) h = Inr [plain_node ''a'' True ''10.0.0.1'']"
  "env_get_subnet (kind_world svc n) h p i = ApiOk ok_response \<lparr>subnetVpcNetworkId = ''vpc'', subnetLocation = ''loc''\<rparr>"
  "env_get_cluster (kind_world svc n) h p i = ApiOk ok_response \<lparr>clusterSubnetId = ''subnet''\<rparr>"
  "env_url_JoinPath (kind_world svc n) base parts = Inr base" "env_NewRequest (kind_world svc n) url = None"
  "env_ContainsFinalizer (kind_world svc n) s f = (f \<in> set (svcFinalizers s))"
  "env_AddFinalizer (kind_world svc n) s f = s\<lparr>svcFinalizers := svcFinalizers s @ [f]\<rparr>"
  "env_RemoveFinalizer (kind_world svc n) s f = s\<lparr>svcFinalizers := filter (\<lambda>g. g \<noteq> f) (svcFinalizers s)\<rparr>"
  by (simp_all add: kind_world_def rule_env_def nodes_env_def offline_env_def)

lemma kind_server: "faithful_server (kind_world svc n) key svc"
  by (simp add: faithful_server_def)

lemma test_op_states [simp]: "OpSuccess \<noteq> OpInProgress" "OpSuccess \<noteq> OpFailed" "OpInProgress \<noteq> OpFailed"
  "OpInProgress \<noteq> OpSuccess"
  by (simp_all add: OpInProgress_def OpSuccess_def OpFailed_def)

lemma kind_operations: "rule_operations_land (kind_world svc n) n"
  by (simp add: rule_operations_land_def view_operation_def ok_response_def)

lemma kind_rules: "rules_served (kind_world svc n) n"
  by (simp add: rules_served_def kind_operations api_error_def)

lemma kind_lbs: "lbs_served (kind_world svc n) test_config test_reconciler name LoadBalancerProtocolTCP 2"
  by (simp add: lbs_served_def list_answer_def accepted_status_def ok_response_def fine_operation_def
      OpResultToItem_def test_lb_def lb_operations_settle_def keeps_polling_def update_outcome_def)

lemma kind_cooperative: "cooperative (kind_world svc n) test_reconciler test_config key svc test_goal 2 n"
  by (simp add: cooperative_def kind_server kind_rules kind_lbs stable_topology_def test_goal_def)

definition new_svc :: service where
  "new_svc = managed_svc\<lparr>svcFinalizers := []\<rparr>"

lemma managed_svc_fields:
  "svcPorts managed_svc = [tcp_port]" "svcDeletionTimestamp managed_svc = None" "svcLoadBalancerClass managed_svc = None"
  "GenerateLoadBalancerResourceName (svcNamespace managed_svc) (svcName managed_svc) (svcUID managed_svc) = Inr test_name"
  "firewallRuleSources managed_svc = firewallRuleSources test_svc"
  "DeriveLoadBalancerProtocol managed_svc = Inr LoadBalancerProtocolTCP"
  unfolding managed_svc_def set_annotation_def by simp_all (simp add: test_svc_def)

lemma new_svc_wanted: "wanted test_config (object_key new_svc) test_goal new_svc"
  by (simp add: wanted_def wanted_rule_def new_svc_def test_goal_def managed_svc_fields DeletionTimestamp_IsZero_def
      rule_managed_def test_svc_args_def firewallRuleDestinationPorts_tcp_port del: listeners.simps)

theorem service_settles_witness:
  "\<exists>ruleID. rule_state (server_copy new_svc
     (passes 3 test_reconciler test_config (kind_world new_svc 2) (object_key new_svc) 4 [])) = RuleRecorded ruleID"
  using service_settles [OF kind_cooperative _ new_svc_wanted histories.start _ refl, where fuel = 3 and n = 2 and k = 4]
  by simp

definition dying_new_svc :: service where
  "dying_new_svc = creating_svc\<lparr>svcDeletionTimestamp := Some 5\<rparr>"

theorem dying_service_released_witness:
  "released (server_copy dying_new_svc
     (passes 0 test_reconciler test_config (kind_world dying_new_svc 2) (object_key dying_new_svc) 3 []))"
proof (rule dying_service_released [OF kind_server kind_operations])
  show "deletions_served (kind_world dying_new_svc 2)"
    by (simp add: deletions_served_def lb_gone_def ok_response_def api_error_def)
  show "dying (server_copy dying_new_svc [])"
    by (simp add: dying_def dying_new_svc_def DeletionTimestamp_IsZero_def)
qed simp_all

end
