(* ===== verification/Utils.thy ===== *)
theory Utils
  imports Env
begin

text \<open>
  The helpers of \<open>internal/utils/utils.go\<close> that compare and copy parts of a Service
  (\<open>EqualPorts\<close>, \<open>CopyPortsFromService\<close>, \<open>EqualSelectors\<close>) and the binding of the
  configuration to environment variables (\<open>BindEnvs\<close>).

  A selector is a Go map; it is given as the list of its entries in the order in which \<open>range\<close>
  visits them, every key once. The results do not depend on that order.
\<close>

section \<open>Ports and selectors\<close>

fun ports_agree :: "service_port list \<Rightarrow> service_port list \<Rightarrow> bool" where
  "ports_agree (p1 # ports1) (p2 # ports2) = (if p1 \<noteq> p2 then False else ports_agree ports1 ports2)"
| "ports_agree _ _ = True"

definition EqualPorts :: "service_port list \<Rightarrow> service_port list \<Rightarrow> bool" where
  "EqualPorts ports1 ports2 = (if length ports1 \<noteq> length ports2 then False else ports_agree ports1 ports2)"

text \<open>The copy sets five of the six fields; the sixth, \<open>AppProtocol\<close>, is nil in it.\<close>

definition copy_port :: "service_port \<Rightarrow> service_port" where
  "copy_port port =
     \<lparr>spName = spName port, spProtocol = spProtocol port, spAppProtocol = None, spPort = spPort port,
      spTargetPort = spTargetPort port, spNodePort = spNodePort port\<rparr>"

definition CopyPortsFromService :: "service \<Rightarrow> service_port list" where
  "CopyPortsFromService svc = map copy_port (svcPorts svc)"

type_synonym selector = "(string \<times> string) list"

definition selector_get :: "selector \<Rightarrow> string \<Rightarrow> string" where
  "selector_get sel k = (case map_of sel k of None \<Rightarrow> '''' | Some v \<Rightarrow> v)"

fun selectors_agree :: "selector \<Rightarrow> selector \<Rightarrow> bool" where
  "selectors_agree [] selector2 = True"
| "selectors_agree ((key, val) # selector1) selector2 =
     (if selector_get selector2 key \<noteq> val then False else selectors_agree selector1 selector2)"

definition EqualSelectors :: "selector \<Rightarrow> selector \<Rightarrow> bool" where
  "EqualSelectors selector1 selector2 =
     (if length selector1 \<noteq> length selector2 then False else selectors_agree selector1 selector2)"

section \<open>Facts about ports and selectors\<close>

lemma EqualPorts_iff: "EqualPorts ports1 ports2 \<longleftrightarrow> ports1 = ports2"
proof -
  have "length ports1 = length ports2 \<Longrightarrow> ports_agree ports1 ports2 \<longleftrightarrow> ports1 = ports2"
    by (induction ports1 ports2 rule: list_induct2) auto
  then show ?thesis by (auto simp: EqualPorts_def)
qed

lemma copy_port_eq_iff: "copy_port port = port \<longleftrightarrow> spAppProtocol port = None"
  by (cases port) (auto simp: copy_port_def)

text \<open>The copy of a Service's ports compares equal to them exactly when no port names an application
  protocol: the copy drops that field, so a Service that uses it always looks changed.\<close>
theorem copied_ports_equal:
  "EqualPorts (CopyPortsFromService svc) (svcPorts svc) = list_all (\<lambda>port. spAppProtocol port = None) (svcPorts svc)"
  by (simp add: EqualPorts_iff CopyPortsFromService_def map_idI list_all_iff)
    (metis copy_port_eq_iff map_eq_conv map_idI map_ident)

lemma selectors_agree_iff:
  "selectors_agree selector1 selector2 \<longleftrightarrow> (\<forall>(key, val) \<in> set selector1. selector_get selector2 key = val)"
  by (induction selector1) (auto split: if_splits)

lemma same_size_sub_map:
  assumes "distinct (map fst s1)" and "distinct (map fst s2)" and "length s1 = length s2"
    and "\<forall>(k, v) \<in> set s1. map_of s2 k = Some v"
  shows "map_of s1 = map_of s2"
proof -
  have sub: "set s1 \<subseteq> set s2" using assms(2,4) by auto
  have "card (set s1) = card (set s2)"
    using assms(1-3) by (metis distinct_card distinct_map)
  with sub have "set s1 = set s2" by (simp add: card_subset_eq)
  then show ?thesis using assms(1,2) by (simp add: map_of_inject_set)
qed

text \<open>Selectors without empty values are equal exactly when they are the same map. (A missing key reads
  as the empty value, so an empty value is confused with a missing key.)\<close>
theorem equal_selectors_iff:
  assumes "distinct (map fst selector1)" and "distinct (map fst selector2)"
    and "'''' \<notin> snd ` set selector1"
  shows "EqualSelectors selector1 selector2 = (map_of selector1 = map_of selector2)"
proof
  assume eq: "EqualSelectors selector1 selector2"
  have "\<forall>(k, v) \<in> set selector1. map_of selector2 k = Some v"
  proof (intro ballI, clarify)
    fix k v
    assume entry: "(k, v) \<in> set selector1"
    have "length selector1 = length selector2" "selectors_agree selector1 selector2"
      using eq by (simp_all add: EqualSelectors_def split: if_splits)
    with entry have "selector_get selector2 k = v" by (auto simp: selectors_agree_iff)
    moreover have "v \<noteq> ''''" using entry assms(3) by force
    ultimately show "map_of selector2 k = Some v" by (simp add: selector_get_def split: option.splits)
  qed
  with eq assms(1,2) show "map_of selector1 = map_of selector2"
    by (intro same_size_sub_map) (auto simp: EqualSelectors_def split: if_splits)
next
  assume same: "map_of selector1 = map_of selector2"
  then have "set selector1 = set selector2" using assms(1,2) by (simp add: map_of_inject_set)
  then have "length selector1 = length selector2"
    using assms(1,2) by (metis distinct_card distinct_map)
  moreover have "selector_get selector2 k = v" if "(k, v) \<in> set selector1" for k v
    using that assms(1) by (simp add: selector_get_def flip: same)
  ultimately show "EqualSelectors selector1 selector2"
    by (auto simp: EqualSelectors_def selectors_agree_iff)
qed

theorem equal_selectors_iff_witness:
  "EqualSelectors [(''app'', ''web''), (''tier'', ''front'')] [(''tier'', ''front''), (''app'', ''web'')] =
     (map_of [(''app'', ''web''), (''tier'', ''front'')] = map_of [(''tier'', ''front''), (''app'', ''web'')])"
  by (rule equal_selectors_iff) simp_all

lemma equal_selectors_confuse_empty:
  "EqualSelectors [(''canary'', '''')] [(''app'', ''web'')] \<and>
   map_of [(''canary'', '''')] \<noteq> map_of [(''app'', ''web'')]"
proof
  show "EqualSelectors [(''canary'', '''')] [(''app'', ''web'')]"
    by (simp add: EqualSelectors_def selector_get_def)
  have "map_of [(''canary'', '''')] ''app'' \<noteq> map_of [(''app'', ''web'')] ''app''" by simp
  then show "map_of [(''canary'', '''')] \<noteq> map_of [(''app'', ''web'')]" by metis
qed

section \<open>Environment variables\<close>

text \<open>
  viper's \<open>BindEnv\<close> is a parameter: the text of its error, if it fails. What is returned are the
  bindings made, in order, and the error of the first that failed.
\<close>

definition CrusoeAPIEndpointFlag :: string where "CrusoeAPIEndpointFlag = ''crusoe-api-endpoint''"
definition CrusoeAccessKeyFlag :: string where "CrusoeAccessKeyFlag = ''crusoe-elb-access-key''"
definition CrusoeSecretKeyFlag :: string where "CrusoeSecretKeyFlag = ''crusoe-elb-secret-key''"
definition CrusoeClusterIDFlag :: string where "CrusoeClusterIDFlag = ''crusoe-cluster-id''"
definition CrusoeProjectIDFlag :: string where "CrusoeProjectIDFlag = ''crusoe-project-id''"
definition CrusoeVPCIDFlag :: string where "CrusoeVPCIDFlag = ''crusoe-vpc-id''"
definition CrusoeSubnetIDFlag :: string where "CrusoeSubnetIDFlag = ''crusoe-subnet-id''"
definition NodeNameFlag :: string where "NodeNameFlag = ''node-name''"

type_synonym bindings = "(string \<times> string) list"

text \<open>The error of a binding: the first two are wrapped, the others only quoted.\<close>

definition wrap_bind_error :: "string \<Rightarrow> string \<Rightarrow> go_error" where
  "wrap_bind_error name err = Wrapped (''bind '' @ name @ '': '') (ExternalError err) ''''"

definition quote_bind_error :: "string \<Rightarrow> string \<Rightarrow> go_error" where
  "quote_bind_error variable err = Errorf (''Failed to bind env '' @ variable @ '': '' @ err)"

definition env_bindings :: "(string \<times> string \<times> (string \<Rightarrow> go_error)) list" where
  "env_bindings =
     [(CrusoeAPIEndpointFlag, ''CRUSOE_API_ENDPOINT'', wrap_bind_error ''CrusoeAPIEndpointFlag''),
      (CrusoeAccessKeyFlag, ''CRUSOE_ACCESS_KEY'', wrap_bind_error ''CrusoeAccessKeyFlag''),
      (CrusoeSecretKeyFlag, ''CRUSOE_SECRET_KEY'', quote_bind_error ''CRUSOE_SECRET_KEY''),
      (CrusoeProjectIDFlag, ''CRUSOE_PROJECT_ID'', quote_bind_error ''CRUSOE_PROJECT_ID''),
      (CrusoeVPCIDFlag, ''CRUSOE_VPC_ID'', quote_bind_error ''CRUSOE_VPC_ID''),
      (NodeNameFlag, ''NODE_NAME'', quote_bind_error ''NODE_NAME''),
      (CrusoeClusterIDFlag, ''CRUSOE_CLUSTER_ID'', quote_bind_error ''CRUSOE_CLUSTER_ID''),
      (CrusoeSubnetIDFlag, ''CRUSOE_SUBNET_ID'', quote_bind_error ''CRUSOE_SUBNET_ID'')]"

fun bind_each ::
    "(string \<Rightarrow> string \<Rightarrow> string option) \<Rightarrow> (string \<times> string \<times> (string \<Rightarrow> go_error)) list \<Rightarrow>
     bindings \<times> go_error option" where
  "bind_each bindEnv [] = ([], None)"
| "bind_each bindEnv ((flag, variable, mk_err) # rest) =
     (case bindEnv flag variable of
        Some err \<Rightarrow> ([], Some (mk_err err))
      | None \<Rightarrow> (let (bs, err) = bind_each bindEnv rest in ((flag, variable) # bs, err)))"

definition BindEnvs :: "(string \<Rightarrow> string \<Rightarrow> string option) \<Rightarrow> bindings \<times> go_error option" where
  "BindEnvs bindEnv = bind_each bindEnv env_bindings"

lemma bind_each_ok:
  "snd (bind_each bindEnv bs) = None \<longleftrightarrow> (\<forall>(flag, variable, _) \<in> set bs. bindEnv flag variable = None)"
  by (induction bindEnv bs rule: bind_each.induct) (auto split: option.splits prod.splits)

lemma bind_each_bound:
  "snd (bind_each bindEnv bs) = None \<Longrightarrow> fst (bind_each bindEnv bs) = map (\<lambda>(flag, variable, _). (flag, variable)) bs"
  by (induction bindEnv bs rule: bind_each.induct) (auto split: option.splits prod.splits)

lemma bind_each_failed:
  "bind_each bindEnv bs = (done', Some err) \<Longrightarrow>
     \<exists>xs flag variable mk_err ys msg.
       bs = xs @ (flag, variable, mk_err) # ys \<and> done' = map (\<lambda>(flag, variable, _). (flag, variable)) xs \<and>
       (\<forall>(flag, variable, _) \<in> set xs. bindEnv flag variable = None) \<and>
       bindEnv flag variable = Some msg \<and> err = mk_err msg"
proof (induction bindEnv bs arbitrary: done' rule: bind_each.induct)
  case (2 bindEnv flag variable mk_err rest)
  show ?case
  proof (cases "bindEnv flag variable")
    case None
    with 2 obtain xs flag' variable' mk_err' ys msg where
      "rest = xs @ (flag', variable', mk_err') # ys" "done' = map (\<lambda>(flag, variable, _). (flag, variable)) ((flag, variable, mk_err) # xs)"
      "\<forall>(flag, variable, _) \<in> set xs. bindEnv flag variable = None" "bindEnv flag' variable' = Some msg" "err = mk_err' msg"
      by (fastforce split: prod.splits)
    with None show ?thesis
      by (intro exI [of _ "(flag, variable, mk_err) # xs"] exI [of _ flag'] exI [of _ variable'] exI [of _ mk_err']
          exI [of _ ys] exI [of _ msg]) simp
  next
    case (Some msg)
    with 2 show ?thesis by (intro exI [of _ "[] :: (string \<times> string \<times> (string \<Rightarrow> go_error)) list"]) auto
  qed
qed simp

end
