(* ===== verification/GoBase64.thy ===== *)
theory GoBase64
  imports Sha256
begin

text \<open>
  Go's \<open>encoding/base64\<close> in the variant \<open>RawURLEncoding\<close> (the URL alphabet, no padding), and
  HMAC over SHA-256 as in \<open>crypto/hmac\<close>. Decoding an encoding gives the bytes back, and a text
  that decodes has only characters of the alphabet and line breaks in it.
\<close>

section \<open>The alphabet\<close>

definition b64_char :: "nat \<Rightarrow> char" where
  "b64_char n =
     (if n < 26 then char_of (65 + n)
      else if n < 52 then char_of (71 + n)
      else if n < 62 then char_of (n - 4)
      else if n = 62 then CHR 0x2D else CHR 0x5F)"

definition b64_value :: "char \<Rightarrow> nat option" where
  "b64_value c =
     (let n = of_char c :: nat
      in if 65 \<le> n \<and> n \<le> 90 then Some (n - 65)
         else if 97 \<le> n \<and> n \<le> 122 then Some (n - 71)
         else if 48 \<le> n \<and> n \<le> 57 then Some (n + 4)
         else if n = 45 then Some 62
         else if n = 95 then Some 63 else None)"

lemma b64_value_char [simp]: "n < 64 \<Longrightarrow> b64_value (b64_char n) = Some n"
  by (auto simp: b64_value_def b64_char_def Let_def of_char_of)

section \<open>Encoding\<close>

text \<open>Three bytes are four digits of six bits; a rest of one or two bytes is two or three digits.\<close>

fun b64_digits :: "nat list \<Rightarrow> nat list" where
  "b64_digits (a # b # c # bs) =
     [a div 4, a mod 4 * 16 + b div 16, b mod 16 * 4 + c div 64, c mod 64] @ b64_digits bs"
| "b64_digits [a, b] = [a div 4, a mod 4 * 16 + b div 16, b mod 16 * 4]"
| "b64_digits [a] = [a div 4, a mod 4 * 16]"
| "b64_digits [] = []"

definition RawURL_EncodeToString :: "byte list \<Rightarrow> string" where
  "RawURL_EncodeToString bs = map b64_char (b64_digits (map unat bs))"

section \<open>Decoding\<close>

text \<open>
  \<open>DecodeString\<close> collects digits in groups of four, skipping line feeds and carriage returns.
  An error is the offset of \<open>CorruptInputError\<close>: that of a character outside the alphabet, or
  the last one if a single digit is left over. Left-over bits are not checked.
\<close>

fun b64_bytes :: "nat list \<Rightarrow> nat list" where
  "b64_bytes (p # q # r # s # ds) =
     [p * 4 + q div 16, q mod 16 * 16 + r div 4, r mod 4 * 64 + s] @ b64_bytes ds"
| "b64_bytes [p, q, r] = [p * 4 + q div 16, q mod 16 * 16 + r div 4]"
| "b64_bytes [p, q] = [p * 4 + q div 16]"
| "b64_bytes [p] = []"
| "b64_bytes [] = []"

fun b64_scan :: "nat \<Rightarrow> string \<Rightarrow> nat + nat list" where
  "b64_scan si [] = Inr []"
| "b64_scan si (c # s) =
     (case b64_value c of
        Some d \<Rightarrow> (case b64_scan (Suc si) s of Inl e \<Rightarrow> Inl e | Inr ds \<Rightarrow> Inr (d # ds))
      | None \<Rightarrow>
          (if of_char c = (10 :: nat) \<or> of_char c = (13 :: nat) then b64_scan (Suc si) s else Inl si))"

definition RawURL_DecodeString :: "string \<Rightarrow> nat + byte list" where
  "RawURL_DecodeString s =
     (case b64_scan 0 s of
        Inl si \<Rightarrow> Inl si
      | Inr ds \<Rightarrow>
          (if length ds mod 4 = 1 then Inl (length s - 1) else Inr (map of_nat (b64_bytes ds))))"

section \<open>Round trip\<close>

lemma b64_digits_small: "\<forall>b \<in> set bs. b < 256 \<Longrightarrow> \<forall>d \<in> set (b64_digits bs). d < 64"
  by (induction bs rule: b64_digits.induct) auto

lemma b64_bytes_digits: "\<forall>b \<in> set bs. b < 256 \<Longrightarrow> b64_bytes (b64_digits bs) = bs"
  by (induction bs rule: b64_digits.induct) auto

lemma length_b64_digits: "length (b64_digits bs) mod 4 \<noteq> 1"
  by (induction bs rule: b64_digits.induct) auto

lemma b64_scan_encoded: "\<forall>d \<in> set ds. d < 64 \<Longrightarrow> b64_scan si (map b64_char ds) = Inr ds"
  by (induction ds arbitrary: si) auto

lemma map_of_nat_unat [simp]: "map (of_nat \<circ> unat) bs = (bs :: byte list)"
  by (induction bs) auto

text \<open>Decoding what was encoded gives the bytes back.\<close>

lemma RawURL_Decode_Encode [simp]: "RawURL_DecodeString (RawURL_EncodeToString bs) = Inr bs"
proof -
  have "unat b < 256" for b :: byte
    using unsigned_less [of b] by simp
  then have "\<forall>b \<in> set (map unat bs). b < 256" by auto
  note b64_scan_encoded [OF b64_digits_small [OF this]] b64_bytes_digits [OF this]
  then show ?thesis
    using length_b64_digits [of "map unat bs"]
    by (simp add: RawURL_DecodeString_def RawURL_EncodeToString_def)
qed

lemma RawURL_EncodeToString_inj: "RawURL_EncodeToString bs = RawURL_EncodeToString bs' \<longleftrightarrow> bs = bs'"
  by (metis RawURL_Decode_Encode sum.inject(2))

lemma length_b64: "length (b64_digits bs) = (4 * length bs + 2) div 3"
  by (induction bs rule: b64_digits.induct) auto

lemma length_RawURL_EncodeToString: "length (RawURL_EncodeToString bs) = (4 * length bs + 2) div 3"
  by (simp add: RawURL_EncodeToString_def length_b64)

lemma b64_scan_error:
  "b64_scan si s = Inl e \<Longrightarrow>
     si \<le> e \<and> e < si + length s \<and> b64_value (s ! (e - si)) = None"
  by (induction si s rule: b64_scan.induct) (auto split: option.splits sum.splits if_splits simp: nth_Cons')

section \<open>HMAC\<close>

definition hmac_pad :: "byte \<Rightarrow> byte list \<Rightarrow> byte list" where
  "hmac_pad p key = map (\<lambda>b. xor b p) key"

text \<open>A key longer than the block of 64 bytes is hashed first; a shorter one is filled with zeros.\<close>

definition hmac_key :: "byte list \<Rightarrow> byte list" where
  "hmac_key key = (let k = (if length key > 64 then sha256 key else key) in k @ replicate (64 - length k) 0)"

definition hmac_sha256 :: "byte list \<Rightarrow> byte list \<Rightarrow> byte list" where
  "hmac_sha256 key message =
     sha256 (hmac_pad 0x5C (hmac_key key) @ sha256 (hmac_pad 0x36 (hmac_key key) @ message))"

lemma length_hmac_sha256 [simp]: "length (hmac_sha256 key message) = 32"
  by (simp add: hmac_sha256_def)

lemma length_hmac_key [simp]: "length (hmac_key key) = 64"
  by (simp add: hmac_key_def Let_def)

end
