(* ===== verification/GoTime.thy ===== *)
theory GoTime
  imports GoStd
begin

text \<open>
  \<open>Time.UTC().Format(time.RFC3339)\<close>: a time, counted in nanoseconds from the start of the year 1,
  as a calendar date and a time of day. The calendar is checked against the count of the days.
\<close>

section \<open>The calendar\<close>

definition is_leap :: "nat \<Rightarrow> bool" where
  "is_leap y = (y mod 4 = 0 \<and> (y mod 100 \<noteq> 0 \<or> y mod 400 = 0))"

definition month_lengths :: "bool \<Rightarrow> nat list" where
  "month_lengths leap = [31, if leap then 29 else 28, 31, 30, 31, 30, 31, 31, 30, 31, 30, 31]"

text \<open>The month and day of a day of the year, both counted from one.\<close>

fun month_day :: "nat \<Rightarrow> nat list \<Rightarrow> nat \<Rightarrow> nat \<times> nat" where
  "month_day m [] d = (m, Suc d)"
| "month_day m (l # ls) d = (if d < l then (m, Suc d) else month_day (Suc m) ls (d - l))"

text \<open>The year and the day of the year of the n-th day: whole cycles of 400, 100 and 4 years, and years.\<close>

definition year_day :: "nat \<Rightarrow> nat \<times> nat" where
  "year_day n =
     (let n400 = n div 146097; r = n mod 146097;
          n100 = min 3 (r div 36524); r = r - 36524 * n100;
          n4 = r div 1461; r = r mod 1461;
          n1 = min 3 (r div 365); r = r - 365 * n1
      in (400 * n400 + 100 * n100 + 4 * n4 + n1 + 1, r))"

definition days_before_year :: "nat \<Rightarrow> nat" where
  "days_before_year y = 365 * (y - 1) + (y - 1) div 4 - (y - 1) div 100 + (y - 1) div 400"

section \<open>The text\<close>

definition pad_zeros :: "nat \<Rightarrow> nat \<Rightarrow> string" where
  "pad_zeros w n = replicate (w - length (decimal n)) (digit_char 0) @ decimal n"

definition Format_RFC3339 :: "time \<Rightarrow> string" where
  "Format_RFC3339 t =
     (let secs = nat (t div Second);
          (y, yd) = year_day (secs div 86400);
          (m, d) = month_day 1 (month_lengths (is_leap y)) yd;
          s = secs mod 86400
      in pad_zeros 4 y @ ''-'' @ pad_zeros 2 m @ ''-'' @ pad_zeros 2 d @ ''T'' @
         pad_zeros 2 (s div 3600) @ '':'' @ pad_zeros 2 (s mod 3600 div 60) @ '':'' @
         pad_zeros 2 (s mod 60) @ ''Z'')"

section \<open>Facts\<close>

lemma year_day_correct:
  assumes "year_day n = (y, d)"
  shows "days_before_year y + d = n" and "1 \<le> y" and "d \<le> 365"
proof -
  define a r1 where "a = n div 146097" and "r1 = n mod 146097"
  define b r2 where "b = min 3 (r1 div 36524)" and "r2 = r1 - 36524 * b"
  define c r3 where "c = r2 div 1461" and "r3 = r2 mod 1461"
  define e where "e = min 3 (r3 div 365)"
  have n: "n = 146097 * a + r1" "r1 < 146097" by (simp_all add: a_def r1_def)
  have r1: "r1 = 36524 * b + r2" "b \<le> 3" "r2 \<le> 36524" using n(2) by (auto simp: b_def r2_def min_def)
  have r2: "r2 = 1461 * c + r3" "r3 < 1461" "c \<le> 24" using r1(3) by (auto simp: c_def r3_def)
  have r3: "365 * e \<le> r3" "e \<le> 3" "r3 - 365 * e \<le> 365" using r2(2) by (auto simp: e_def min_def)
  have y: "y = 400 * a + 100 * b + 4 * c + e + 1" "d = r3 - 365 * e"
    using assms by (auto simp: year_day_def Let_def a_def b_def c_def e_def r1_def r2_def r3_def)
  have "(400 * a + 100 * b + 4 * c + e) div 4 = 100 * a + 25 * b + c"
    "(400 * a + 100 * b + 4 * c + e) div 100 = 4 * a + b"
    "(400 * a + 100 * b + 4 * c + e) div 400 = a"
    using r1(2) r2(3) r3(2) by linarith+
  with n r1 r2 r3 y show "days_before_year y + d = n" by (simp add: days_before_year_def)
  from y r3 show "1 \<le> y" "d \<le> 365" by auto
qed

lemma digit_char_no_newline: "digit_char n \<noteq> CHR 0x0A" if "n < 10"
  using digit_char_props(1) [of n] that by (auto simp: is_digit_def)

lemma pad_zeros_no_newline: "CHR 0x0A \<notin> set (pad_zeros w n)"
  using decimal_digits [of n] digit_char_no_newline [of 0] by (auto simp: pad_zeros_def is_digit_def)

lemma Format_RFC3339_no_newline: "CHR 0x0A \<notin> set (Format_RFC3339 t)"
  using pad_zeros_no_newline by (auto simp: Format_RFC3339_def Let_def split: prod.split)

lemma Format_RFC3339_example: "Format_RFC3339 (63902217600 * Second + 5) = ''2025-12-25T00:00:00Z''"
proof -
  have "nat ((63902217600 * Second + 5) div Second) = 63902217600" by (simp add: Second_def)
  moreover have "year_day 739609 = (2025, 358)" by (simp add: year_day_def Let_def)
  moreover have "month_day 1 (month_lengths (is_leap 2025)) 358 = (12, 25)"
    by (simp add: month_lengths_def is_leap_def)
  moreover have "pad_zeros 4 2025 = ''2025''" "pad_zeros 2 12 = ''12''" "pad_zeros 2 25 = ''25''" "pad_zeros 2 0 = ''00''"
    by (simp_all add: pad_zeros_def decimal.simps digit_char_def char_of_eq_iff take_bit_eq_mod)
  ultimately show ?thesis by (simp add: Format_RFC3339_def Let_def)
qed

end
