(* ===== verification/Signing.thy ===== *)
theory Signing
  imports GoBase64 GoUrl GoTime "HOL-Library.List_Lexorder" "HOL-Library.Char_ord"
begin

text \<open>
  The signing of API requests, \<open>internal/crusoe/auth.go\<close>: the canonical form of a query
  (\<open>canonicalizeQuery\<close>, \<open>encodeQuery\<close>), the message that is signed, the signature
  (\<open>signMessageV1_0\<close>), the headers (\<open>addSignature\<close>) and the round tripper.

  A request is the part of \<open>http.Request\<close> the code looks at; its header maps a name, in the
  canonical spelling in which the code gives it, to the values. Strings are compared byte by byte.
\<close>

section \<open>Definitions\<close>

record http_request =
  rqMethod :: string
  rqPath :: string
  rqRawQuery :: string
  rqHeader :: "string \<rightharpoonup> string list"

definition Header_Set :: "string \<Rightarrow> string \<Rightarrow> http_request \<Rightarrow> http_request" where
  "Header_Set k v req = req\<lparr>rqHeader := (rqHeader req)(k \<mapsto> [v])\<rparr>"

definition Header_Get :: "string \<Rightarrow> http_request \<Rightarrow> string" where
  "Header_Get k req = (case rqHeader req k of Some (v # _) \<Rightarrow> v | _ \<Rightarrow> '''')"

definition timestampHeader :: string where "timestampHeader = ''X-Crusoe-Timestamp''"
definition authHeader :: string where "authHeader = ''Authorization''"
definition authVersion :: string where "authVersion = ''1.0''"

text \<open>
  The errors: a semicolon in the query, \<open>url.EscapeError\<close> with the offending text, and
  \<open>base64.CorruptInputError\<close> with its offset, wrapped by \<open>signMessageV1_0\<close>.
\<close>

datatype signing_error =
    SemicolonSeparator
  | EscapeError string
  | SecretKeyError nat

text \<open>The offending text: the first percent sign that no two digits follow, and up to two more bytes.\<close>

fun first_bad_escape :: "string \<Rightarrow> string" where
  "first_bad_escape [] = []"
| "first_bad_escape (c # s) =
     (if c = percent_char then
        (case s of
           x # y # s' \<Rightarrow>
             (if hex_value x = None \<or> hex_value y = None then take 3 (c # s) else first_bad_escape s')
         | _ \<Rightarrow> c # s)
      else first_bad_escape s)"

definition url_QueryUnescape :: "string \<Rightarrow> signing_error + string" where
  "url_QueryUnescape s =
     (case QueryUnescape s of None \<Rightarrow> Inl (EscapeError (first_bad_escape s)) | Some t \<Rightarrow> Inr t)"

text \<open>The map from keys to values, in the order in which the keys were first seen.\<close>

type_synonym url_values = "(string \<times> string list) list"

fun values_append :: "string \<Rightarrow> string \<Rightarrow> url_values \<Rightarrow> url_values" where
  "values_append k v [] = [(k, [v])]"
| "values_append k v ((k', vs) # vals) =
     (if k' = k then (k', vs @ [v]) # vals else (k', vs) # values_append k v vals)"

definition values_get :: "url_values \<Rightarrow> string \<Rightarrow> string list" where
  "values_get vals k = (case map_of vals k of None \<Rightarrow> [] | Some vs \<Rightarrow> vs)"

definition write_pair :: "string \<Rightarrow> string \<Rightarrow> string \<Rightarrow> string" where
  "write_pair keyEscaped buf v =
     (if length buf > 0 then buf @ ''&'' else buf) @ keyEscaped @ ''='' @ QueryEscape v"

definition encodeQuery :: "url_values \<Rightarrow> string" where
  "encodeQuery vals =
     foldl (\<lambda>buf k. foldl (write_pair (QueryEscape k)) buf (values_get vals k)) '''' (sort (map fst vals))"

definition amp :: char where "amp = CHR 0x26"
definition equals_char :: char where "equals_char = CHR 0x3D"
definition semicolon :: char where "semicolon = CHR 0x3B"

text \<open>\<open>strings.Cut\<close> at the first equals sign.\<close>

definition cut_equals :: "string \<Rightarrow> string \<times> string" where
  "cut_equals s = (takeWhile (\<lambda>c. c \<noteq> equals_char) s, drop 1 (dropWhile (\<lambda>c. c \<noteq> equals_char) s))"

definition first_error :: "signing_error option \<Rightarrow> signing_error \<Rightarrow> signing_error option" where
  "first_error err err1 = (if err = None then Some err1 else err)"

lemma rest_shorter: "query \<noteq> [] \<Longrightarrow> length (dropWhile P query) - Suc 0 < length query"
  using length_dropWhile_le [of P query] by (cases query) auto

function canonical_loop ::
    "string \<Rightarrow> url_values \<Rightarrow> signing_error option \<Rightarrow> url_values \<times> signing_error option" where
  "canonical_loop query vals err =
     (if query = [] then (vals, err)
      else
        (let key = takeWhile (\<lambda>c. c \<noteq> amp) query;
             query = drop 1 (dropWhile (\<lambda>c. c \<noteq> amp) query)
         in if semicolon \<in> set key then canonical_loop query vals (Some SemicolonSeparator)
            else if key = [] then canonical_loop query vals err
            else
              (let (key, value) = cut_equals key
               in case url_QueryUnescape key of
                    Inl err1 \<Rightarrow> canonical_loop query vals (first_error err err1)
                  | Inr key \<Rightarrow>
                      (case url_QueryUnescape value of
                         Inl err1 \<Rightarrow> canonical_loop query vals (first_error err err1)
                       | Inr value \<Rightarrow> canonical_loop query (values_append key value vals) err))))"
  by pat_completeness auto

termination
  by (relation "measure (\<lambda>(query, _, _). length query)") (simp_all add: rest_shorter)

declare canonical_loop.simps [simp del]

definition canonicalizeQuery :: "string \<Rightarrow> string \<times> signing_error option" where
  "canonicalizeQuery query =
     (let (vals, err) = canonical_loop query [] None in (encodeQuery vals, err))"

definition newline :: string where "newline = [CHR 0x0A]"

definition generateMessageV1_0 :: "http_request \<Rightarrow> signing_error + byte list" where
  "generateMessageV1_0 req =
     (case canonicalizeQuery (rqRawQuery req) of
        (_, Some err) \<Rightarrow> Inl err
      | (canonicalQuery, None) \<Rightarrow>
          Inr (bytes_of_string
            (rqPath req @ newline @ canonicalQuery @ newline @ rqMethod req @ newline @
             Header_Get timestampHeader req @ newline)))"

definition signMessageV1_0 :: "byte list \<Rightarrow> string \<Rightarrow> signing_error + byte list" where
  "signMessageV1_0 message encodedKey =
     (case RawURL_DecodeString encodedKey of
        Inl si \<Rightarrow> Inl (SecretKeyError si)
      | Inr expectedKey \<Rightarrow> Inr (hmac_sha256 expectedKey message))"

text \<open>\<open>now\<close> is the reading of the clock; the request is changed in place.\<close>

definition addSignature ::
    "time \<Rightarrow> http_request \<Rightarrow> string \<Rightarrow> string \<Rightarrow> http_request \<times> signing_error option" where
  "addSignature now req encodedKeyID encodedKey =
     (let req = Header_Set timestampHeader (Format_RFC3339 now) req
      in case generateMessageV1_0 req of
           Inl err \<Rightarrow> (req, Some err)
         | Inr message \<Rightarrow>
             (case signMessageV1_0 message encodedKey of
                Inl err \<Rightarrow> (req, Some err)
              | Inr signature \<Rightarrow>
                  (Header_Set authHeader
                     (''Bearer '' @ authVersion @ '':'' @ encodedKeyID @ '':'' @ RawURL_EncodeToString signature) req,
                   None)))"

text \<open>
  \<open>AuthenticatingTransport\<close>: a round tripper, called on the signed request. The default round
  tripper of \<open>net/http\<close> is a parameter.
\<close>

record 'rt authenticating_transport =
  atRoundTripper :: 'rt
  atKeyID :: string
  atSecretKey :: string

definition NewAuthenticatingTransport ::
    "'rt \<Rightarrow> 'rt option \<Rightarrow> string \<Rightarrow> string \<Rightarrow> 'rt authenticating_transport" where
  "NewAuthenticatingTransport DefaultTransport r keyID secretKey =
     (let r = (case r of None \<Rightarrow> DefaultTransport | Some r \<Rightarrow> r)
      in \<lparr>atRoundTripper = r, atKeyID = keyID, atSecretKey = secretKey\<rparr>)"

definition RoundTrip ::
    "time \<Rightarrow> (http_request \<Rightarrow> 'a) authenticating_transport \<Rightarrow> http_request \<Rightarrow> signing_error + 'a" where
  "RoundTrip now t r =
     (case addSignature now r (atKeyID t) (atSecretKey t) of
        (_, Some err) \<Rightarrow> Inl err
      | (r, None) \<Rightarrow> Inr (atRoundTripper t r))"

definition NewHTTPClient :: "'rt \<Rightarrow> string \<Rightarrow> string \<Rightarrow> 'rt authenticating_transport" where
  "NewHTTPClient DefaultTransport key secret = NewAuthenticatingTransport DefaultTransport None key secret"

section \<open>Grouping by sorting\<close>

text \<open>A list sorted by a key is the concatenation of its groups, for any list of keys that covers it.\<close>

lemma sorted_split_least:
  "sorted (map f xs) \<Longrightarrow> \<forall>x \<in> set xs. k \<le> f x \<Longrightarrow>
     filter (\<lambda>x. f x = k) xs @ filter (\<lambda>x. f x \<noteq> k) xs = xs"
proof (induction xs)
  case (Cons x xs)
  show ?case
  proof (cases "f x = k")
    case False
    with Cons.prems have "\<forall>y \<in> set xs. f y \<noteq> k" by fastforce
    then have "filter (\<lambda>y. f y = k) xs = []" "filter (\<lambda>y. f y \<noteq> k) xs = xs"
      by (simp_all add: filter_empty_conv filter_id_conv)
    with False show ?thesis by simp
  qed (use Cons in simp)
qed simp

lemma sorted_concat_groups:
  assumes "sorted (map f xs)" and "sorted ks" and "distinct ks" and "f ` set xs \<subseteq> set ks"
  shows "concat (map (\<lambda>k. filter (\<lambda>x. f x = k) xs) ks) = xs"
  using assms
proof (induction ks arbitrary: xs)
  case (Cons k ks)
  let ?rest = "filter (\<lambda>x. f x \<noteq> k) xs"
  have "\<forall>x \<in> set xs. k \<le> f x" using Cons.prems(2,4) by auto
  then have split: "filter (\<lambda>x. f x = k) xs @ ?rest = xs" using Cons.prems(1) sorted_split_least by blast
  have "filter (\<lambda>x. f x = k') xs = filter (\<lambda>x. f x = k') ?rest" if "k' \<in> set ks" for k'
    using that Cons.prems(3) by (auto intro: filter_cong)
  moreover have "concat (map (\<lambda>k'. filter (\<lambda>x. f x = k') ?rest) ks) = ?rest"
    by (rule Cons.IH) (use Cons.prems in \<open>auto simp: sorted_filter\<close>)
  ultimately have "concat (map (\<lambda>k'. filter (\<lambda>x. f x = k') xs) ks) = ?rest"
    by (metis (no_types, lifting) map_eq_conv)
  with split show ?case by simp
qed simp

lemma sort_key_groups:
  assumes "sorted ks" and "distinct ks" and "f ` set xs \<subseteq> set ks"
  shows "sort_key f xs = concat (map (\<lambda>k. filter (\<lambda>x. f x = k) xs) ks)"
  using sorted_concat_groups [of f "sort_key f xs" ks] assms by (simp add: sort_key_stable)

lemma sort_key_eq_iff:
  "sort_key f xs = sort_key f ys \<longleftrightarrow> (\<forall>k. filter (\<lambda>x. f x = k) xs = filter (\<lambda>x. f x = k) ys)"
proof
  assume "sort_key f xs = sort_key f ys"
  then show "\<forall>k. filter (\<lambda>x. f x = k) xs = filter (\<lambda>x. f x = k) ys" by (metis sort_key_stable)
next
  assume same: "\<forall>k. filter (\<lambda>x. f x = k) xs = filter (\<lambda>x. f x = k) ys"
  let ?ks = "sorted_list_of_set (f ` set xs \<union> f ` set ys)"
  have "sort_key f xs = concat (map (\<lambda>k. filter (\<lambda>x. f x = k) xs) ?ks)"
    "sort_key f ys = concat (map (\<lambda>k. filter (\<lambda>x. f x = k) ys) ?ks)"
    by (rule sort_key_groups; simp)+
  with same show "sort_key f xs = sort_key f ys" by simp
qed

section \<open>The canonical query as sorting\<close>

text \<open>The reference: the parameters in their order, sorted stably by key, escaped and joined.\<close>

definition encode_pair :: "string \<times> string \<Rightarrow> string" where
  "encode_pair kv = QueryEscape (fst kv) @ ''='' @ QueryEscape (snd kv)"

fun join_amp :: "string list \<Rightarrow> string" where
  "join_amp [] = ''''"
| "join_amp [s] = s"
| "join_amp (s # t # ss) = s @ ''&'' @ join_amp (t # ss)"

lemma encode_pair_nonempty [simp]: "encode_pair kv \<noteq> []"
  by (simp add: encode_pair_def)

lemma join_amp_Cons: "ss \<noteq> [] \<Longrightarrow> join_amp (s # ss) = s @ ''&'' @ join_amp ss"
  by (cases ss) simp_all

lemma write_pairs:
  "foldl (\<lambda>buf kv. write_pair (QueryEscape (fst kv)) buf (snd kv)) buf kvs =
     (if buf = [] then join_amp (map encode_pair kvs)
      else if kvs = [] then buf else buf @ ''&'' @ join_amp (map encode_pair kvs))"
proof (induction kvs arbitrary: buf)
  case (Cons kv kvs)
  have "write_pair (QueryEscape (fst kv)) buf (snd kv) = (if buf = [] then encode_pair kv else buf @ ''&'' @ encode_pair kv)"
    by (simp add: write_pair_def encode_pair_def)
  then show ?case by (cases "kvs = []") (simp_all add: Cons.IH join_amp_Cons)
qed simp

lemma write_values:
  "foldl (write_pair (QueryEscape k)) buf vs =
     foldl (\<lambda>buf kv. write_pair (QueryEscape (fst kv)) buf (snd kv)) buf (map (Pair k) vs)"
  by (induction vs arbitrary: buf) simp_all

lemma foldl_concat: "foldl (\<lambda>a k. foldl f a (g k)) a ks = foldl f a (concat (map g ks))"
  by (induction ks arbitrary: a) simp_all

text \<open>The map that collecting a list of parameters builds.\<close>

definition collect_pairs :: "(string \<times> string) list \<Rightarrow> url_values \<Rightarrow> url_values" where
  "collect_pairs kvs vals = foldl (\<lambda>vals kv. values_append (fst kv) (snd kv) vals) vals kvs"

lemma values_append_get:
  "values_get (values_append k v vals) k' = values_get vals k' @ (if k' = k then [v] else [])"
  by (induction k v vals rule: values_append.induct) (auto simp: values_get_def)

lemma values_append_keys: "set (map fst (values_append k v vals)) = insert k (set (map fst vals))"
  by (induction k v vals rule: values_append.induct) auto

lemma values_append_distinct: "distinct (map fst vals) \<Longrightarrow> distinct (map fst (values_append k v vals))"
proof (induction k v vals rule: values_append.induct)
  case (2 k v k' vs vals)
  then show ?case using values_append_keys [of k v vals] by auto
qed simp

lemma collect_pairs_get:
  "values_get (collect_pairs kvs vals) k = values_get vals k @ map snd (filter (\<lambda>kv. fst kv = k) kvs)"
  by (induction kvs arbitrary: vals) (auto simp: collect_pairs_def values_append_get)

lemma collect_pairs_keys:
  "set (map fst (collect_pairs kvs vals)) = set (map fst vals) \<union> fst ` set kvs"
  using values_append_keys by (induction kvs arbitrary: vals) (auto simp: collect_pairs_def)

lemma collect_pairs_distinct: "distinct (map fst vals) \<Longrightarrow> distinct (map fst (collect_pairs kvs vals))"
  by (induction kvs arbitrary: vals) (auto simp: collect_pairs_def values_append_distinct)

lemma encodeQuery_collect_pairs:
  "encodeQuery (collect_pairs kvs []) = join_amp (map encode_pair (sort_key fst kvs))"
proof -
  let ?ks = "sort (map fst (collect_pairs kvs []))"
  have one_key: "map (Pair k) (map snd (filter (\<lambda>kv. fst kv = k) kvs)) = filter (\<lambda>kv. fst kv = k) kvs"
    for k :: string
    by (induction kvs) auto
  have "sort_key fst kvs = concat (map (\<lambda>k. filter (\<lambda>kv. fst kv = k) kvs) ?ks)"
    using collect_pairs_keys [of kvs "[]"] collect_pairs_distinct [of "[]" kvs]
    by (intro sort_key_groups) auto
  moreover have "values_get (collect_pairs kvs []) k = map snd (filter (\<lambda>kv. fst kv = k) kvs)" for k
    by (simp add: collect_pairs_get) (simp add: values_get_def)
  ultimately have "encodeQuery (collect_pairs kvs []) =
      foldl (\<lambda>buf kv. write_pair (QueryEscape (fst kv)) buf (snd kv)) '''' (sort_key fst kvs)"
    by (simp add: encodeQuery_def write_values foldl_concat one_key del: map_map)
  then show ?thesis by (simp add: write_pairs)
qed

section \<open>Reading a query\<close>

text \<open>The pieces between the ampersands, and what each of them is: an error, nothing, or a parameter.\<close>

function segments :: "string \<Rightarrow> string list" where
  "segments query =
     (if query = [] then []
      else takeWhile (\<lambda>c. c \<noteq> amp) query # segments (drop 1 (dropWhile (\<lambda>c. c \<noteq> amp) query)))"
  by pat_completeness auto
termination
  by (relation "measure length") (simp_all add: rest_shorter)

declare segments.simps [simp del]

definition segment_outcome :: "string \<Rightarrow> signing_error + (string \<times> string) option" where
  "segment_outcome seg =
     (if semicolon \<in> set seg then Inl SemicolonSeparator
      else if seg = [] then Inr None
      else
        (case url_QueryUnescape (fst (cut_equals seg)) of
           Inl e \<Rightarrow> Inl e
         | Inr k \<Rightarrow>
             (case url_QueryUnescape (snd (cut_equals seg)) of Inl e \<Rightarrow> Inl e | Inr v \<Rightarrow> Inr (Some (k, v)))))"

definition segment_param :: "string \<Rightarrow> (string \<times> string) option" where
  "segment_param seg = (case segment_outcome seg of Inl _ \<Rightarrow> None | Inr kv \<Rightarrow> kv)"

definition query_params :: "string \<Rightarrow> (string \<times> string) list" where
  "query_params query = List.map_filter segment_param (segments query)"

definition note_error :: "signing_error option \<Rightarrow> string \<Rightarrow> signing_error option" where
  "note_error err seg =
     (case segment_outcome seg of
        Inr _ \<Rightarrow> err
      | Inl e \<Rightarrow> (if e = SemicolonSeparator then Some e else first_error err e))"

lemma url_QueryUnescape_error: "url_QueryUnescape s = Inl e \<Longrightarrow> e \<noteq> SemicolonSeparator"
  by (auto simp: url_QueryUnescape_def split: option.splits)

lemma segment_empty [simp]: "segment_param [] = None" "note_error err [] = err"
  by (simp_all add: segment_param_def note_error_def segment_outcome_def)

lemma canonical_loop_eq:
  "canonical_loop query vals err =
     (collect_pairs (query_params query) vals, foldl note_error err (segments query))"
proof (induction query vals err rule: canonical_loop.induct)
  case (1 query vals err)
  show ?case
  proof (cases "query = []")
    case False
    let ?key = "takeWhile (\<lambda>c. c \<noteq> amp) query"
    note IH = 1 [OF False refl refl]
    have segs: "segments query = ?key # segments (drop 1 (dropWhile (\<lambda>c. c \<noteq> amp) query))"
      using False by (subst segments.simps) simp
    consider "semicolon \<in> set ?key" | "semicolon \<notin> set ?key" "?key = []"
      | "semicolon \<notin> set ?key" "?key \<noteq> []" by blast
    then show ?thesis
    proof cases
      case 3
      obtain k v where cut: "cut_equals ?key = (k, v)" by fastforce
      note IH' = IH(3-5) [OF 3 cut [symmetric] refl]
      have outcome: "segment_outcome ?key =
          (case url_QueryUnescape k of
             Inl e \<Rightarrow> Inl e
           | Inr k \<Rightarrow> (case url_QueryUnescape v of Inl e \<Rightarrow> Inl e | Inr v \<Rightarrow> Inr (Some (k, v))))"
        unfolding segment_outcome_def cut fst_conv snd_conv using 3 by simp
      show ?thesis
        using IH' 3 False cut url_QueryUnescape_error
        by (subst canonical_loop.simps)
          (auto simp: segs note_error_def [of err ?key] outcome query_params_def map_filter_simps
            segment_param_def [of ?key] collect_pairs_def split: sum.split)
    qed (use IH(1,2) False in \<open>subst canonical_loop.simps,
        simp add: segs note_error_def [of err ?key] segment_outcome_def [of ?key] segment_param_def [of ?key]
          query_params_def map_filter_simps\<close>)+
  qed (simp add: canonical_loop.simps segments.simps query_params_def collect_pairs_def map_filter_simps)
qed


definition query_error :: "string \<Rightarrow> signing_error option" where
  "query_error query = foldl note_error None (segments query)"

lemma canonicalizeQuery_eq:
  "canonicalizeQuery query = (join_amp (map encode_pair (sort_key fst (query_params query))), query_error query)"
  by (simp add: canonicalizeQuery_def canonical_loop_eq encodeQuery_collect_pairs query_error_def)

lemma note_errors_None:
  "foldl note_error err segs = None \<longleftrightarrow> err = None \<and> (\<forall>seg \<in> set segs. \<exists>kv. segment_outcome seg = Inr kv)"
  by (induction segs arbitrary: err) (auto simp: note_error_def first_error_def split: sum.splits)

lemma query_error_None: "query_error query = None \<longleftrightarrow> (\<forall>seg \<in> set (segments query). \<exists>kv. segment_outcome seg = Inr kv)"
  by (simp add: query_error_def note_errors_None)

text \<open>A canonical query is read back as its parameters.\<close>

lemma unreserved_not_special:
  "\<not> is_unreserved amp" "\<not> is_unreserved equals_char" "\<not> is_unreserved semicolon"
  "amp \<noteq> plus_char" "amp \<noteq> percent_char" "equals_char \<noteq> plus_char" "equals_char \<noteq> percent_char"
  "semicolon \<noteq> plus_char" "semicolon \<noteq> percent_char" "amp \<noteq> equals_char" "semicolon \<noteq> equals_char"
  by (simp_all add: amp_def equals_char_def semicolon_def is_unreserved_def plus_char_def percent_char_def)

lemma escaped_has_no_separator:
  "amp \<notin> set (QueryEscape s)" "equals_char \<notin> set (QueryEscape s)" "semicolon \<notin> set (QueryEscape s)"
  using QueryEscape_range unreserved_not_special by metis+

lemma equals_literal: "''='' = [equals_char]" "''&'' = [amp]"
  by (simp_all add: equals_char_def amp_def)

lemma encode_pair_separators: "amp \<notin> set (encode_pair kv)" "semicolon \<notin> set (encode_pair kv)"
  using escaped_has_no_separator unreserved_not_special by (auto simp: encode_pair_def equals_literal)

lemma break_at:
  assumes "c \<notin> set s"
  shows "takeWhile (\<lambda>x. x \<noteq> c) s = s" "dropWhile (\<lambda>x. x \<noteq> c) s = []"
    "takeWhile (\<lambda>x. x \<noteq> c) (s @ c # t) = s" "dropWhile (\<lambda>x. x \<noteq> c) (s @ c # t) = c # t"
  using assms by (induction s) auto

lemma cut_equals_append: "equals_char \<notin> set s \<Longrightarrow> cut_equals (s @ equals_char # t) = (s, t)"
  by (simp add: cut_equals_def break_at)

lemma url_QueryUnescape_escape [simp]: "url_QueryUnescape (QueryEscape s) = Inr s"
  by (simp add: url_QueryUnescape_def)

lemma segment_encode_pair: "segment_outcome (encode_pair kv) = Inr (Some kv)"
proof -
  have "cut_equals (encode_pair kv) = (QueryEscape (fst kv), QueryEscape (snd kv))"
    using escaped_has_no_separator by (simp add: encode_pair_def equals_literal cut_equals_append)
  then show ?thesis using encode_pair_separators by (simp add: segment_outcome_def)
qed

lemma segments_join: "segments (join_amp (map encode_pair kvs)) = map encode_pair kvs"
proof (induction kvs)
  case Nil
  then show ?case by (simp add: segments.simps)
next
  case (Cons kv kvs)
  show ?case
  proof (cases "kvs = []")
    case True
    have "segments (encode_pair kv) = [encode_pair kv]"
      by (subst segments.simps) (simp only: break_at [OF encode_pair_separators(1)], simp add: segments.simps [of "[]"])
    with True show ?thesis by simp
  next
    case False
    let ?rest = "join_amp (map encode_pair kvs)"
    have "segments (encode_pair kv @ amp # ?rest) = encode_pair kv # segments ?rest"
      by (subst segments.simps) (simp only: break_at [OF encode_pair_separators(1)], simp)
    with False Cons.IH show ?thesis by (simp add: join_amp_Cons equals_literal)
  qed
qed

lemma query_params_join [simp]: "query_params (join_amp (map encode_pair kvs)) = kvs"
proof -
  have "List.map_filter segment_param (map encode_pair kvs) = kvs"
    by (induction kvs) (simp_all add: map_filter_simps segment_param_def segment_encode_pair)
  then show ?thesis by (simp add: query_params_def segments_join)
qed

lemma query_error_join [simp]: "query_error (join_amp (map encode_pair kvs)) = None"
  by (auto simp: query_error_None segments_join segment_encode_pair)

section \<open>The message\<close>

lemma newline_not_escaped: "CHR 0x0A \<notin> set (QueryEscape s)"
  using QueryEscape_range [of "CHR 0x0A" s] by (auto simp: is_unreserved_def plus_char_def percent_char_def)

lemma join_amp_set: "c \<in> set (join_amp ss) \<Longrightarrow> c = amp \<or> (\<exists>s \<in> set ss. c \<in> set s)"
  by (induction ss rule: join_amp.induct) (auto simp: equals_literal)

lemma canonical_no_newline: "CHR 0x0A \<notin> set (fst (canonicalizeQuery query))"
proof
  assume "CHR 0x0A \<in> set (fst (canonicalizeQuery query))"
  then obtain kv where "CHR 0x0A \<in> set (encode_pair kv)"
    by (auto simp: canonicalizeQuery_eq amp_def dest!: join_amp_set)
  then show False using newline_not_escaped by (auto simp: encode_pair_def)
qed

definition message_lines :: "http_request \<Rightarrow> string list" where
  "message_lines req =
     [rqPath req, fst (canonicalizeQuery (rqRawQuery req)), rqMethod req, Header_Get timestampHeader req]"

lemma generateMessage_lines:
  "generateMessageV1_0 req =
     (case query_error (rqRawQuery req) of
        Some err \<Rightarrow> Inl err
      | None \<Rightarrow> Inr (bytes_of_string (concat (map (\<lambda>line. line @ newline) (message_lines req)))))"
  by (simp add: generateMessageV1_0_def message_lines_def canonicalizeQuery_eq split: option.split)

lemma lines_inj:
  "concat (map (\<lambda>line. line @ newline) ls) = concat (map (\<lambda>line. line @ newline) ls') \<Longrightarrow>
     \<forall>line \<in> set ls \<union> set ls'. CHR 0x0A \<notin> set line \<Longrightarrow> ls = ls'"
proof (induction ls arbitrary: ls')
  case Nil
  then show ?case by (cases ls') (auto simp: newline_def)
next
  case (Cons l ls)
  then obtain l' ks where ls': "ls' = l' # ks" by (cases ls') (auto simp: newline_def)
  let ?rest = "\<lambda>ls. concat (map (\<lambda>line. line @ newline) ls)"
  have eq: "l @ CHR 0x0A # ?rest ls = l' @ CHR 0x0A # ?rest ks"
    using Cons.prems(1) by (simp add: ls' newline_def)
  have "CHR 0x0A \<notin> set l" "CHR 0x0A \<notin> set l'" using Cons.prems(2) by (auto simp: ls')
  then have "l = l'"
    using arg_cong [OF eq, of "takeWhile (\<lambda>x. x \<noteq> CHR 0x0A)"] by (simp add: break_at)
  moreover from this eq have "?rest ls = ?rest ks" by simp
  ultimately show ?case using Cons by (auto simp: ls')
qed

lemma bytes_of_string_inj: "bytes_of_string s = bytes_of_string t \<longleftrightarrow> s = t"
proof -
  have unat: "unat (of_char c :: byte) = of_char c" for c :: char
  proof -
    have "of_char c < (256::nat)" using nat_of_char_less_256 [of c] by simp
    moreover have "(of_char c :: byte) = of_nat (of_char c)" by (simp only: of_nat_of_char)
    ultimately show ?thesis by (simp add: unsigned_of_nat take_bit_eq_mod)
  qed
  have "inj (of_char :: char \<Rightarrow> byte)"
  proof (rule injI)
    fix c d :: char
    assume "(of_char c :: byte) = of_char d"
    then have "(of_char c :: nat) = of_char d" by (metis unat)
    then show "c = d" by simp
  qed
  then show ?thesis by (simp add: bytes_of_string_def inj_map_eq_map)
qed

end
