(* ===== verification/SigningSafety.thy ===== *)
theory SigningSafety
  imports Signing
begin

text \<open>
  What the signing of requests promises: the canonical query is a normal form that depends only on the
  values of every key, the signed message determines the request, and a request that leaves the
  transport carries a signature that a server holding the same key accepts.
\<close>

section \<open>The canonical query\<close>

lemma collected_values:
  "values_get (fst (canonical_loop query [] None)) k = map snd (filter (\<lambda>kv. fst kv = k) (query_params query))"
  by (simp add: canonical_loop_eq collect_pairs_get) (simp add: values_get_def)

lemma same_group_iff:
  "map snd (filter (\<lambda>kv. fst kv = k) kvs) = map snd (filter (\<lambda>kv. fst kv = k) kvs') \<longleftrightarrow>
     filter (\<lambda>kv. fst kv = k) kvs = filter (\<lambda>kv. fst kv = k) kvs'"
proof
  assume "map snd (filter (\<lambda>kv. fst kv = k) kvs) = map snd (filter (\<lambda>kv. fst kv = k) kvs')"
  moreover have "filter (\<lambda>kv. fst kv = k) l = map (Pair k) (map snd (filter (\<lambda>kv. fst kv = k) l))" for l
    by (induction l) auto
  ultimately show "filter (\<lambda>kv. fst kv = k) kvs = filter (\<lambda>kv. fst kv = k) kvs'" by metis
qed simp

lemma canonical_eq_iff:
  "fst (canonicalizeQuery q1) = fst (canonicalizeQuery q2) \<longleftrightarrow>
     sort_key fst (query_params q1) = sort_key fst (query_params q2)"
  by (metis canonicalizeQuery_eq fst_conv query_params_join)

text \<open>C30. A canonical query is a normal form: canonicalising it again gives the same text and no error,
  whatever the query it came from, malformed ones included.\<close>
theorem canonical_query_idempotent:
  "canonicalizeQuery (fst (canonicalizeQuery query)) = (fst (canonicalizeQuery query), None)"
  by (simp add: canonicalizeQuery_eq sort_key_id_if_sorted)

text \<open>C17. Two queries have the same canonical text exactly when every key has the same values in the same
  order in both; the order of the keys, and which of several spellings of an escape was used, do not matter.
  The text lists the decoded parameters sorted stably by key.\<close>
theorem canonical_query_iff:
  "(fst (canonicalizeQuery q1) = fst (canonicalizeQuery q2)) =
     (\<forall>k. values_get (fst (canonical_loop q1 [] None)) k = values_get (fst (canonical_loop q2 [] None)) k)"
  by (simp only: canonical_eq_iff sort_key_eq_iff collected_values same_group_iff)

section \<open>The message\<close>

lemma last_line_inj:
  assumes "s @ c # l = s' @ c # l'" and "c \<notin> set l" and "c \<notin> set l'"
  shows "s = s' \<and> l = l'"
proof -
  have "rev l @ c # rev s = rev l' @ c # rev s'"
    using arg_cong [OF assms(1), of rev] by simp
  moreover from arg_cong [OF this, of "takeWhile (\<lambda>x. x \<noteq> c)"] assms(2,3) have "rev l = rev l'"
    by (simp add: break_at)
  ultimately show ?thesis by simp
qed

lemma Header_Set_simps [simp]:
  "rqMethod (Header_Set k v req) = rqMethod req" "rqPath (Header_Set k v req) = rqPath req"
  "rqRawQuery (Header_Set k v req) = rqRawQuery req" "Header_Get k (Header_Set k v req) = v"
  "k' \<noteq> k \<Longrightarrow> rqHeader (Header_Set k v req) k' = rqHeader req k'"
  "rqHeader (Header_Set k v req) k = Some [v]"
  by (simp_all add: Header_Set_def Header_Get_def)

lemma Header_Get_other [simp]: "k' \<noteq> k \<Longrightarrow> Header_Get k' (Header_Set k v req) = Header_Get k' req"
  by (simp add: Header_Set_def Header_Get_def)

lemma headers_differ [simp]: "timestampHeader \<noteq> authHeader" "authHeader \<noteq> timestampHeader"
  by (simp_all add: timestampHeader_def authHeader_def)

text \<open>C31. The signed message determines the request. If two requests, stamped with the times of their
  signing, give the same message, then they have the same path, method, timestamp and canonical query. A
  path may contain line breaks; only a method must not (\<open>net/http\<close> refuses such a method).\<close>
theorem signed_message_determines_request:
  assumes "generateMessageV1_0 (Header_Set timestampHeader (Format_RFC3339 now1) r1) = Inr message"
    and "generateMessageV1_0 (Header_Set timestampHeader (Format_RFC3339 now2) r2) = Inr message"
    and "CHR 0x0A \<notin> set (rqMethod r1)" and "CHR 0x0A \<notin> set (rqMethod r2)"
  shows "rqPath r1 = rqPath r2 \<and> rqMethod r1 = rqMethod r2 \<and> Format_RFC3339 now1 = Format_RFC3339 now2 \<and>
    fst (canonicalizeQuery (rqRawQuery r1)) = fst (canonicalizeQuery (rqRawQuery r2))"
proof -
  let ?lines = "\<lambda>now r. concat (map (\<lambda>line. line @ newline) (message_lines (Header_Set timestampHeader (Format_RFC3339 now) r)))"
  have "bytes_of_string (?lines now1 r1) = message" "bytes_of_string (?lines now2 r2) = message"
    using assms(1,2) by (simp_all add: generateMessage_lines split: option.splits)
  then have lines: "?lines now1 r1 = ?lines now2 r2" by (metis bytes_of_string_inj)
  define q1 q2 where "q1 = fst (canonicalizeQuery (rqRawQuery r1))" and "q2 = fst (canonicalizeQuery (rqRawQuery r2))"
  have "((rqPath r1 @ CHR 0x0A # q1) @ CHR 0x0A # rqMethod r1) @ CHR 0x0A # Format_RFC3339 now1 =
      ((rqPath r2 @ CHR 0x0A # q2) @ CHR 0x0A # rqMethod r2) @ CHR 0x0A # Format_RFC3339 now2"
    using lines by (simp add: message_lines_def q1_def q2_def newline_def)
  from last_line_inj [OF this Format_RFC3339_no_newline Format_RFC3339_no_newline]
  have stamp: "Format_RFC3339 now1 = Format_RFC3339 now2"
    and rest: "(rqPath r1 @ CHR 0x0A # q1) @ CHR 0x0A # rqMethod r1 = (rqPath r2 @ CHR 0x0A # q2) @ CHR 0x0A # rqMethod r2"
    by blast+
  from last_line_inj [OF rest assms(3,4)]
  have "rqMethod r1 = rqMethod r2" and rest: "rqPath r1 @ CHR 0x0A # q1 = rqPath r2 @ CHR 0x0A # q2" by blast+
  with last_line_inj [OF rest] stamp show ?thesis
    using canonical_no_newline by (simp add: q1_def q2_def)
qed

text \<open>Two spellings of one listing request are signed alike.\<close>

definition listing_request :: "string \<Rightarrow> http_request" where
  "listing_request query =
     \<lparr>rqMethod = ''GET'', rqPath = ''/v1alpha5/projects/p'', rqRawQuery = query, rqHeader = (\<lambda>_. None)\<rparr>"

lemma listing_queries:
  "canonicalizeQuery ''a=1&b=%7A'' = (''a=1&b=z'', None)" "canonicalizeQuery ''b=z&&a=1'' = (''a=1&b=z'', None)"
  by code_simp+

theorem signed_message_determines_request_witness:
  "rqPath (listing_request ''a=1&b=%7A'') = rqPath (listing_request ''b=z&&a=1'') \<and>
   rqMethod (listing_request ''a=1&b=%7A'') = rqMethod (listing_request ''b=z&&a=1'') \<and>
   Format_RFC3339 0 = Format_RFC3339 0 \<and>
   fst (canonicalizeQuery (rqRawQuery (listing_request ''a=1&b=%7A''))) =
     fst (canonicalizeQuery (rqRawQuery (listing_request ''b=z&&a=1'')))"
proof (rule signed_message_determines_request)
  let ?message = "bytes_of_string (''/v1alpha5/projects/p'' @ newline @ ''a=1&b=z'' @ newline @ ''GET'' @ newline @
    Format_RFC3339 0 @ newline)"
  show "generateMessageV1_0 (Header_Set timestampHeader (Format_RFC3339 0) (listing_request ''a=1&b=%7A'')) = Inr ?message"
    "generateMessageV1_0 (Header_Set timestampHeader (Format_RFC3339 0) (listing_request ''b=z&&a=1'')) = Inr ?message"
    by (simp_all only: generateMessageV1_0_def Header_Set_simps listing_request_def http_request.simps listing_queries
        prod.case option.case)
  show "CHR 0x0A \<notin> set (rqMethod (listing_request ''a=1&b=%7A''))" "CHR 0x0A \<notin> set (rqMethod (listing_request ''b=z&&a=1''))"
    by (simp_all add: listing_request_def)
qed

section \<open>The signature\<close>

text \<open>
  A server that holds the key: it reads the signature from the \<open>Authorization\<close> header, computes the
  message from the request it received and compares.
\<close>

definition request_message :: "http_request \<Rightarrow> byte list" where
  "request_message req = bytes_of_string (concat (map (\<lambda>line. line @ newline) (message_lines req)))"

definition signature_accepted :: "string \<Rightarrow> byte list \<Rightarrow> http_request \<Rightarrow> bool" where
  "signature_accepted keyID key req =
     (let prefix = ''Bearer 1.0:'' @ keyID @ '':'';
          auth = Header_Get authHeader req
      in take (length prefix) auth = prefix \<and>
         RawURL_DecodeString (drop (length prefix) auth) = Inr (hmac_sha256 key (request_message req)))"

text \<open>The request but for the two headers that signing sets.\<close>

definition same_request :: "http_request \<Rightarrow> http_request \<Rightarrow> bool" where
  "same_request r r' =
     (rqMethod r' = rqMethod r \<and> rqPath r' = rqPath r \<and> rqRawQuery r' = rqRawQuery r \<and>
      (\<forall>k. rqHeader r' k = rqHeader r k \<or> k = timestampHeader \<or> k = authHeader))"

lemma message_lines_auth [simp]: "message_lines (Header_Set authHeader v req) = message_lines req"
  by (simp add: message_lines_def)

lemma request_message_auth [simp]: "request_message (Header_Set authHeader v req) = request_message req"
  by (simp add: request_message_def)

lemma same_request_set:
  "same_request r (Header_Set timestampHeader t r)"
  "same_request r (Header_Set authHeader a (Header_Set timestampHeader t r))"
  by (simp_all add: same_request_def Header_Set_def)

lemma accepted_set:
  "signature_accepted keyID key
     (Header_Set authHeader (''Bearer '' @ authVersion @ '':'' @ keyID @ '':'' @
        RawURL_EncodeToString (hmac_sha256 key (request_message req))) req)"
  by (simp add: signature_accepted_def Let_def authVersion_def RawURL_Decode_Encode)

lemma addSignature_eq:
  "addSignature now req keyID encodedKey =
     (let req' = Header_Set timestampHeader (Format_RFC3339 now) req in
      case query_error (rqRawQuery req) of
        Some err \<Rightarrow> (req', Some err)
      | None \<Rightarrow>
          (case RawURL_DecodeString encodedKey of
             Inl si \<Rightarrow> (req', Some (SecretKeyError si))
           | Inr key \<Rightarrow>
               (Header_Set authHeader (''Bearer '' @ authVersion @ '':'' @ keyID @ '':'' @
                  RawURL_EncodeToString (hmac_sha256 key (request_message req'))) req', None)))"
  by (simp add: addSignature_def generateMessage_lines signMessageV1_0_def request_message_def Let_def
      split: option.split sum.split)

lemma add_signature_facts:
  "case addSignature now req keyID encodedKey of
     (req', err) \<Rightarrow>
       same_request req req' \<and> rqHeader req' timestampHeader = Some [Format_RFC3339 now] \<and>
       (case err of
          None \<Rightarrow>
            query_error (rqRawQuery req) = None \<and>
            (\<exists>key. RawURL_DecodeString encodedKey = Inr key \<and> signature_accepted keyID key req')
        | Some e \<Rightarrow>
            rqHeader req' authHeader = rqHeader req authHeader \<and>
            (case query_error (rqRawQuery req) of
               Some e' \<Rightarrow> e = e'
             | None \<Rightarrow> (\<exists>si. RawURL_DecodeString encodedKey = Inl si \<and> e = SecretKeyError si)))"
  using same_request_set accepted_set
  by (auto simp: addSignature_eq Let_def split: option.split sum.split)

text \<open>What \<open>addSignature\<close> does on every branch. If it succeeds, the query was well formed, the secret
  key decodes, and a server with that key accepts the request as it now is. If it fails, it reports the error
  of the query or of the key, and the \<open>Authorization\<close> header is what it was. Either way the request carries
  the time of the signing, and nothing but these two headers has changed.\<close>
theorem add_signature_spec:
  "case addSignature now req keyID encodedKey of
     (req', err) \<Rightarrow>
       same_request req req' \<and> rqHeader req' timestampHeader = Some [Format_RFC3339 now] \<and>
       (case err of
          None \<Rightarrow>
            query_error (rqRawQuery req) = None \<and>
            (\<exists>key. RawURL_DecodeString encodedKey = Inr key \<and> signature_accepted keyID key req')
        | Some e \<Rightarrow>
            rqHeader req' authHeader = rqHeader req authHeader \<and>
            (case query_error (rqRawQuery req) of
               Some e' \<Rightarrow> e = e'
             | None \<Rightarrow> (\<exists>si. RawURL_DecodeString encodedKey = Inl si \<and> e = SecretKeyError si)))"
  by (rule add_signature_facts)

text \<open>C18. The client of the API sends a request only with a valid signature: what the underlying transport
  is called with is the request with the signature added. A request that cannot be signed, because its query
  is malformed or the secret key does not decode, is never sent, and that error is returned in its place.\<close>
theorem only_signed_requests_sent:
  "case RoundTrip now (NewHTTPClient transport keyID secret) req of
     Inr answer \<Rightarrow>
       (\<exists>req' key. answer = transport req' \<and> same_request req req' \<and>
          RawURL_DecodeString secret = Inr key \<and> signature_accepted keyID key req')
   | Inl err \<Rightarrow>
       (case query_error (rqRawQuery req) of
          Some e \<Rightarrow> err = e
        | None \<Rightarrow> (\<exists>si. RawURL_DecodeString secret = Inl si \<and> err = SecretKeyError si))"
proof (cases "addSignature now req keyID secret")
  case (Pair req' err)
  then show ?thesis
    using add_signature_facts [where now = now and req = req and keyID = keyID and encodedKey = secret]
    by (auto simp: RoundTrip_def NewHTTPClient_def NewAuthenticatingTransport_def split: option.splits)
qed

end
