(* ===== verification/Startup.thy ===== *)
theory Startup
  imports Utils SigningSafety
begin

text \<open>
  How the controller is put together: the API client (\<open>NewCrusoeClient\<close> of \<open>internal/crusoe/auth.go\<close>),
  \<open>GetCrusoeClient\<close> and \<open>GetLoadBalancerLookup\<close> of \<open>internal/controller/util.go\<close>, and \<open>main\<close> of
  \<open>cmd/main.go\<close> from its parsed flags on.

  Parameters are viper, the default transport of \<open>net/http\<close> and the manager of controller-runtime;
  its calls are given by the text of the error they return. \<open>ctrl.GetConfigOrDie\<close>, which ends the
  process when there is no cluster to talk to, is taken to have returned.
\<close>

section \<open>The API client\<close>

record viper =
  vBindEnv :: "string \<Rightarrow> string \<Rightarrow> string option"
  vGetString :: "bindings \<Rightarrow> string \<Rightarrow> string"

record 'rt api_client =
  cfgUserAgent :: string
  cfgBasePath :: string
  cfgHTTPClient :: "'rt authenticating_transport"

definition crusoeUserAgent :: string where
  "crusoeUserAgent = ''crusoe-external-load-balancer-controller/0.0.1''"

definition NewCrusoeClient :: "'rt \<Rightarrow> string \<Rightarrow> string \<Rightarrow> string \<Rightarrow> string \<Rightarrow> 'rt api_client" where
  "NewCrusoeClient DefaultTransport host key secret userAgent =
     \<lparr>cfgUserAgent = userAgent, cfgBasePath = host, cfgHTTPClient = NewHTTPClient DefaultTransport key secret\<rparr>"

definition bind_failed :: "go_error \<Rightarrow> go_error" where
  "bind_failed bindErr = Wrapped ''could not bind env variables from helm: '' bindErr ''''"

text \<open>The bindings made are the state that it leaves in viper.\<close>

definition GetCrusoeClient :: "viper \<Rightarrow> 'rt \<Rightarrow> bindings \<times> (go_error + 'rt api_client)" where
  "GetCrusoeClient vp DefaultTransport =
     (case BindEnvs (vBindEnv vp) of
        (bs, Some bindErr) \<Rightarrow> (bs, Inl (bind_failed bindErr))
      | (bs, None) \<Rightarrow>
          (bs, Inr (NewCrusoeClient DefaultTransport (vGetString vp bs CrusoeAPIEndpointFlag)
             (vGetString vp bs CrusoeAccessKeyFlag) (vGetString vp bs CrusoeSecretKeyFlag) crusoeUserAgent)))"

definition GetLoadBalancerLookup ::
    "viper \<Rightarrow> 'rt \<Rightarrow> bindings \<Rightarrow> load_balancer_lookup \<times> 'rt authenticating_transport" where
  "GetLoadBalancerLookup vp DefaultTransport bs =
     (\<lparr>lookupBasePath = vGetString vp bs CrusoeAPIEndpointFlag, lookupUserAgent = crusoeUserAgent\<rparr>,
      NewHTTPClient DefaultTransport (vGetString vp bs CrusoeAccessKeyFlag) (vGetString vp bs CrusoeSecretKeyFlag))"

section \<open>main\<close>

record main_flags =
  metricsAddr :: string
  probeAddr :: string
  enableLeaderElection :: bool
  secureMetrics :: bool
  enableHTTP2 :: bool

definition default_flags :: main_flags where
  "default_flags =
     \<lparr>metricsAddr = ''0'', probeAddr = '':8081'', enableLeaderElection = False, secureMetrics = True,
      enableHTTP2 = False\<rparr>"

record tls_config =
  NextProtos :: "string list"

definition disableHTTP2 :: "tls_config \<Rightarrow> tls_config" where
  "disableHTTP2 c = c\<lparr>NextProtos := [''http/1.1'']\<rparr>"

datatype filter_provider = WithAuthenticationAndAuthorization

record metrics_server_options =
  BindAddress :: string
  SecureServing :: bool
  metricsTLSOpts :: "(tls_config \<Rightarrow> tls_config) list"
  FilterProvider :: "filter_provider option"

record manager_options =
  Metrics :: metrics_server_options
  webhookTLSOpts :: "(tls_config \<Rightarrow> tls_config) list"
  HealthProbeBindAddress :: string
  LeaderElection :: bool
  LeaderElectionID :: string

definition main_tlsOpts :: "main_flags \<Rightarrow> (tls_config \<Rightarrow> tls_config) list" where
  "main_tlsOpts flags = (if \<not> enableHTTP2 flags then [disableHTTP2] else [])"

definition main_manager_options :: "main_flags \<Rightarrow> manager_options" where
  "main_manager_options flags =
     (let tlsOpts = main_tlsOpts flags;
          metricsServerOptions = \<lparr>BindAddress = metricsAddr flags, SecureServing = secureMetrics flags,
            metricsTLSOpts = tlsOpts, FilterProvider = None\<rparr>;
          metricsServerOptions =
            (if secureMetrics flags
             then metricsServerOptions\<lparr>FilterProvider := Some WithAuthenticationAndAuthorization\<rparr>
             else metricsServerOptions)
      in \<lparr>Metrics = metricsServerOptions, webhookTLSOpts = tlsOpts,
          HealthProbeBindAddress = probeAddr flags, LeaderElection = enableLeaderElection flags,
          LeaderElectionID = ''a451eb4c.crusoecloud.com''\<rparr>)"

text \<open>The reconciler that is registered: its optional parts, the clients, and the lookup's HTTP client.\<close>

record 'rt main_reconciler =
  mrReconciler :: reconciler
  mrCrusoeClient :: "'rt api_client option"
  mrLookupClient :: "'rt authenticating_transport"

record 'rt startup_env =
  suViper :: viper
  suDefaultTransport :: 'rt
  suNewManager :: "manager_options \<Rightarrow> string option"
  suSetupWithManager :: "'rt main_reconciler \<Rightarrow> string option"
  suAddHealthzCheck :: "string option"
  suAddReadyzCheck :: "string option"
  suStart :: "string option"

datatype 'rt startup_event =
    NewManager manager_options "string option"
  | GotCrusoeClient "go_error option"
  | SetupController "'rt main_reconciler" "string option"
  | AddHealthzCheck "string option"
  | AddReadyzCheck "string option"
  | StartManager "string option"

datatype process_end = MainReturned | Exited int

type_synonym 'rt startup = "('rt startup_event list, process_end) state"

text \<open>
  The client that could not be made is nil (\<open>None\<close>), and so it is passed on; a step that fails ends
  the process with status 1.
\<close>

definition main_reconciler :: "'rt startup_env \<Rightarrow> 'rt main_reconciler" where
  "main_reconciler su =
     (case GetCrusoeClient (suViper su) (suDefaultTransport su) of
        (bs, crusoeClient) \<Rightarrow>
          (case GetLoadBalancerLookup (suViper su) (suDefaultTransport su) bs of
             (lookup, http) \<Rightarrow>
               \<lparr>mrReconciler = \<lparr>rHasAPIReader = True, rLoadBalancerLookup = Some lookup, rHasRecorder = True\<rparr>,
                mrCrusoeClient = (case crusoeClient of Inl err \<Rightarrow> None | Inr c \<Rightarrow> Some c),
                mrLookupClient = http\<rparr>))"

definition client_error_of :: "go_error + 'a \<Rightarrow> go_error option" where
  "client_error_of r = (case r of Inl err \<Rightarrow> Some err | Inr _ \<Rightarrow> None)"

definition startup_step :: "('rt startup_event) \<Rightarrow> string option \<Rightarrow> 'rt startup \<Rightarrow> 'rt startup" where
  "startup_step ev err continue = do {
     io (\<lambda>_. ()) (\<lambda>_. ev);
     if err \<noteq> None then State_Monad.return (Exited 1) else continue
   }"

definition main :: "main_flags \<Rightarrow> 'rt startup_env \<Rightarrow> 'rt startup" where
  "main flags su =
     (let mgrErr = suNewManager su (main_manager_options flags);
          reconciler = main_reconciler su;
          setupErr = suSetupWithManager su reconciler
      in startup_step (NewManager (main_manager_options flags) mgrErr) mgrErr (do {
           io (\<lambda>_. ()) (\<lambda>_. GotCrusoeClient (client_error_of (snd (GetCrusoeClient (suViper su) (suDefaultTransport su)))));
           startup_step (SetupController reconciler setupErr) setupErr
             (startup_step (AddHealthzCheck (suAddHealthzCheck su)) (suAddHealthzCheck su)
               (startup_step (AddReadyzCheck (suAddReadyzCheck su)) (suAddReadyzCheck su)
                 (startup_step (StartManager (suStart su)) (suStart su)
                   (State_Monad.return MainReturned))))
         }))"

section \<open>What startup promises\<close>

text \<open>The generated client and the direct lookup are configured alike. If every environment variable can
  be bound, there is a client, and the lookup made after it uses the same endpoint, user agent, key and
  secret; otherwise there is only the error of the first variable that could not be bound.\<close>
theorem clients_configured_alike:
  "case GetCrusoeClient vp transport of
     (bs, Inr client) \<Rightarrow>
       list_all (\<lambda>(flag, variable, mk_err). (flag, variable) \<in> set bs \<and> vBindEnv vp flag variable = None) env_bindings \<and>
       (case GetLoadBalancerLookup vp transport bs of
          (lookup, http) \<Rightarrow>
            lookupBasePath lookup = cfgBasePath client \<and> lookupUserAgent lookup = cfgUserAgent client \<and>
            http = cfgHTTPClient client \<and> atRoundTripper http = transport)
   | (bs, Inl err) \<Rightarrow>
       (\<exists>xs flag variable mk_err ys text.
          env_bindings = xs @ (flag, variable, mk_err) # ys \<and>
          bs = map (\<lambda>(flag, variable, _). (flag, variable)) xs \<and>
          list_all (\<lambda>(flag, variable, _). vBindEnv vp flag variable = None) xs \<and>
          vBindEnv vp flag variable = Some text \<and> err = bind_failed (mk_err text))"
proof (cases "BindEnvs (vBindEnv vp)")
  case (Pair bs err)
  show ?thesis
  proof (cases err)
    case None
    with Pair bind_each_ok [of "vBindEnv vp" env_bindings] bind_each_bound [of "vBindEnv vp" env_bindings]
    have "\<forall>(flag, variable, _) \<in> set env_bindings. vBindEnv vp flag variable = None"
      "bs = map (\<lambda>(flag, variable, _). (flag, variable)) env_bindings"
      by (simp_all add: BindEnvs_def)
    then have "list_all (\<lambda>(flag, variable, mk_err). (flag, variable) \<in> set bs \<and> vBindEnv vp flag variable = None) env_bindings"
      by (force simp: list_all_iff)
    with Pair None show ?thesis
      by (simp add: GetCrusoeClient_def GetLoadBalancerLookup_def NewCrusoeClient_def NewHTTPClient_def
          NewAuthenticatingTransport_def)
  next
    case (Some e)
    with Pair show ?thesis
      using bind_each_failed [of "vBindEnv vp" env_bindings bs e]
      by (fastforce simp: GetCrusoeClient_def BindEnvs_def list_all_iff)
  qed
qed

text \<open>C39. What \<open>main\<close> does with its flags and with every failure. The manager is started exactly when it
  could be made, the controller registered and both probes added, and a failure of these or of the manager
  ends the process with status 1; a client that could not be made does not: the controller is registered
  without one. HTTP/2 is off on both servers unless enabled, and a secure metrics endpoint is authenticated.\<close>
theorem main_spec:
  "case run_state (main flags su) [] of
     (ended, es) \<Rightarrow>
       (StartManager (suStart su) \<in> set es) =
         (suNewManager su (main_manager_options flags) = None \<and> suSetupWithManager su (main_reconciler su) = None \<and>
          suAddHealthzCheck su = None \<and> suAddReadyzCheck su = None) \<and>
       (ended = (if StartManager None \<in> set es then MainReturned else Exited 1)) \<and>
       (mrCrusoeClient (main_reconciler su) = None) = (snd (BindEnvs (vBindEnv (suViper su))) \<noteq> None) \<and>
       (\<forall>options err.
          (NewManager options err \<in> set es) =
            (options = main_manager_options flags \<and> err = suNewManager su options)) \<and>
       (\<forall>c. foldl (\<lambda>c f. f c) c (webhookTLSOpts (main_manager_options flags)) =
              (if enableHTTP2 flags then c else c\<lparr>NextProtos := [''http/1.1'']\<rparr>)) \<and>
       metricsTLSOpts (Metrics (main_manager_options flags)) = webhookTLSOpts (main_manager_options flags) \<and>
       (FilterProvider (Metrics (main_manager_options flags)) \<noteq> None) = secureMetrics flags"
proof -
  have client: "(mrCrusoeClient (main_reconciler su) = None) = (snd (BindEnvs (vBindEnv (suViper su))) \<noteq> None)"
    by (auto simp: main_reconciler_def GetCrusoeClient_def split: prod.split option.split)
  have options: "\<forall>c. foldl (\<lambda>c f. f c) c (webhookTLSOpts (main_manager_options flags)) =
      (if enableHTTP2 flags then c else c\<lparr>NextProtos := [''http/1.1'']\<rparr>)"
    "metricsTLSOpts (Metrics (main_manager_options flags)) = webhookTLSOpts (main_manager_options flags)"
    "(FilterProvider (Metrics (main_manager_options flags)) = None) = (\<not> secureMetrics flags)"
    by (simp_all add: main_manager_options_def main_tlsOpts_def disableHTTP2_def Let_def)
  show ?thesis
    by (simp add: main_def startup_step_def Let_def options client) auto
qed

end
