(* ===== verification/Flags.thy ===== *)
theory Flags
  imports Startup
begin

text \<open>
  The command line of \<open>cmd/main.go\<close>: the flags that \<open>main\<close> defines, and \<open>flag.Parse\<close> of Go's standard
  library, which reads them. The flags that other packages define on the same command line (those of the
  logger, bound by \<open>opts.BindFlags\<close>, and \<open>kubeconfig\<close>) are a parameter: whether a name is one, whether it is a
  boolean flag, and the error of setting it.
\<close>

section \<open>The flags\<close>

text \<open>What sets a flag: a pointer to a string or to a bool of \<open>main\<close>, or another package's \<open>flag.Value\<close>.\<close>

datatype flag_value =
    StringVar "string \<Rightarrow> main_flags \<Rightarrow> main_flags"
  | BoolVar "bool \<Rightarrow> main_flags \<Rightarrow> main_flags"
  | OtherVar bool "string \<Rightarrow> string option"

definition main_flag_set :: "(string \<times> flag_value) list" where
  "main_flag_set =
     [(''metrics-bind-address'', StringVar (\<lambda>v. metricsAddr_update (\<lambda>_. v))),
      (''health-probe-bind-address'', StringVar (\<lambda>v. probeAddr_update (\<lambda>_. v))),
      (''leader-elect'', BoolVar (\<lambda>v. enableLeaderElection_update (\<lambda>_. v))),
      (''metrics-secure'', BoolVar (\<lambda>v. secureMetrics_update (\<lambda>_. v))),
      (''enable-http2'', BoolVar (\<lambda>v. enableHTTP2_update (\<lambda>_. v)))]"

type_synonym other_flags = "string \<Rightarrow> (bool \<times> (string \<Rightarrow> string option)) option"

definition formal :: "other_flags \<Rightarrow> string \<Rightarrow> flag_value option" where
  "formal others name =
     (case map_of main_flag_set name of
        Some v \<Rightarrow> Some v
      | None \<Rightarrow> map_option (\<lambda>(isBool, Set). OtherVar isBool Set) (others name))"

section \<open>Parsing\<close>

definition ParseBool :: "string \<Rightarrow> bool option" where
  "ParseBool s =
     (if s \<in> {''1'', ''t'', ''T'', ''true'', ''TRUE'', ''True''} then Some True
      else if s \<in> {''0'', ''f'', ''F'', ''false'', ''FALSE'', ''False''} then Some False
      else None)"

datatype flag_error =
    ErrHelp
  | BadFlagSyntax string
  | FlagNotDefined string
  | FlagNeedsArgument string
  | InvalidFlagValue string string

text \<open>One step: the flags end, leaving these arguments; a flag was set; or the command line is bad.\<close>

datatype parse_step = FlagsEnd "string list" | FlagSet main_flags "string list" | FlagFailed flag_error

text \<open>A value is set; without one (\<open>None\<close>) a boolean flag is set to true, another takes the next argument.\<close>

definition set_flag :: "flag_value \<Rightarrow> string \<Rightarrow> main_flags \<Rightarrow> main_flags option" where
  "set_flag v value flags =
     (case v of
        StringVar f \<Rightarrow> Some (f value flags)
      | BoolVar f \<Rightarrow> map_option (\<lambda>b. f b flags) (ParseBool value)
      | OtherVar _ Set \<Rightarrow> (case Set value of None \<Rightarrow> Some flags | Some err \<Rightarrow> None))"

definition IsBoolFlag :: "flag_value \<Rightarrow> bool" where
  "IsBoolFlag v = (case v of StringVar _ \<Rightarrow> False | BoolVar _ \<Rightarrow> True | OtherVar isBool _ \<Rightarrow> isBool)"

definition apply_flag ::
    "flag_value \<Rightarrow> string \<Rightarrow> string option \<Rightarrow> main_flags \<Rightarrow> string list \<Rightarrow> parse_step" where
  "apply_flag v name value flags args =
     (let set_to = (\<lambda>value args.
        (case set_flag v value flags of
           Some flags \<Rightarrow> FlagSet flags args | None \<Rightarrow> FlagFailed (InvalidFlagValue value name)))
      in if IsBoolFlag v then set_to (case value of Some s \<Rightarrow> s | None \<Rightarrow> ''true'') args
         else
           (case value of
              Some s \<Rightarrow> set_to s args
            | None \<Rightarrow> (case args of [] \<Rightarrow> FlagFailed (FlagNeedsArgument name) | s # args \<Rightarrow> set_to s args)))"

text \<open>The name and the value of \<open>name=value\<close>, cut at the first equals sign.\<close>

definition flag_name :: "string \<Rightarrow> string" where
  "flag_name s = takeWhile (\<lambda>c. c \<noteq> CHR ''='') s"

definition flag_text :: "string \<Rightarrow> string option" where
  "flag_text s = (case dropWhile (\<lambda>c. c \<noteq> CHR ''='') s of [] \<Rightarrow> None | _ # value \<Rightarrow> Some value)"

text \<open>After the dashes.\<close>

definition parse_named :: "other_flags \<Rightarrow> main_flags \<Rightarrow> string \<Rightarrow> string \<Rightarrow> string list \<Rightarrow> parse_step" where
  "parse_named others flags s name args =
     (if name = [] \<or> hd name = CHR ''-'' \<or> hd name = CHR ''='' then FlagFailed (BadFlagSyntax s)
      else
        (case formal others (flag_name name) of
           None \<Rightarrow>
             (if flag_name name = ''help'' \<or> flag_name name = ''h'' then FlagFailed ErrHelp
              else FlagFailed (FlagNotDefined (flag_name name)))
         | Some v \<Rightarrow> apply_flag v (flag_name name) (flag_text name) flags args))"

fun parseOne :: "other_flags \<Rightarrow> main_flags \<Rightarrow> string list \<Rightarrow> parse_step" where
  "parseOne others flags [] = FlagsEnd []"
| "parseOne others flags (s # args) =
     (if length s < 2 \<or> hd s \<noteq> CHR ''-'' then FlagsEnd (s # args)
      else if s = ''--'' then FlagsEnd args
      else parse_named others flags s (if s ! 1 = CHR ''-'' then drop 2 s else drop 1 s) args)"

lemma apply_flag_shorter: "apply_flag v name value flags args = FlagSet flags' args' \<Longrightarrow> length args' \<le> length args"
  by (auto simp: apply_flag_def Let_def split: if_splits option.splits list.splits)

lemma parseOne_shorter: "parseOne others flags args = FlagSet flags' args' \<Longrightarrow> length args' < length args"
  by (cases args) (auto simp: parse_named_def dest!: apply_flag_shorter split: if_splits option.splits)

function parse_loop :: "other_flags \<Rightarrow> main_flags \<Rightarrow> string list \<Rightarrow> flag_error + main_flags \<times> string list" where
  "parse_loop others flags args =
     (case parseOne others flags args of
        FlagsEnd rest \<Rightarrow> Inr (flags, rest)
      | FlagSet flags args \<Rightarrow> parse_loop others flags args
      | FlagFailed err \<Rightarrow> Inl err)"
  by pat_completeness auto
termination by (relation "measure (\<lambda>(_, _, args). length args)") (auto dest: parseOne_shorter)

declare parse_loop.simps [simp del]

text \<open>\<open>flag.Parse\<close>: the command line exits on an error, with status 0 when help was asked for.\<close>

definition flag_Parse :: "other_flags \<Rightarrow> string list \<Rightarrow> int + main_flags" where
  "flag_Parse others args =
     (case parse_loop others default_flags args of
        Inl err \<Rightarrow> Inl (if err = ErrHelp then 0 else 2)
      | Inr (flags, rest) \<Rightarrow> Inr flags)"

text \<open>The whole of \<open>main\<close>, from the arguments of the process on.\<close>

definition main_program :: "other_flags \<Rightarrow> string list \<Rightarrow> 'rt startup_env \<Rightarrow> 'rt startup" where
  "main_program others args su =
     (case flag_Parse others args of
        Inl status \<Rightarrow> State_Monad.return (Exited status)
      | Inr flags \<Rightarrow> main flags su)"

section \<open>What the command line means\<close>

text \<open>The command line that spells the flags out.\<close>

definition FormatBool :: "bool \<Rightarrow> string" where
  "FormatBool b = (if b then ''true'' else ''false'')"

definition spelled_out :: "main_flags \<Rightarrow> string list" where
  "spelled_out flags =
     [''--metrics-bind-address='' @ metricsAddr flags, ''--health-probe-bind-address='' @ probeAddr flags,
      ''-leader-elect='' @ FormatBool (enableLeaderElection flags),
      ''-metrics-secure='' @ FormatBool (secureMetrics flags), ''--enable-http2='' @ FormatBool (enableHTTP2 flags)]"

lemma ParseBool_FormatBool [simp]: "ParseBool (FormatBool b) = Some b"
  by (simp add: ParseBool_def FormatBool_def)

lemma parse_loop_FlagSet [simp]:
  "parseOne others flags args = FlagSet flags' args' \<Longrightarrow> parse_loop others flags args = parse_loop others flags' args'"
  by (subst parse_loop.simps) simp

text \<open>One flag of \<open>main\<close> with a value.\<close>

lemma parse_spelled:
  assumes "\<not> CHR ''='' \<in> set name" and "name \<noteq> []" and "hd name \<noteq> CHR ''-''" and "map_of main_flag_set name = Some v"
    and "set_flag v value flags = Some flags'"
  shows "parse_loop others flags ((''--'' @ name @ ''='' @ value) # args) = parse_loop others flags' args"
    "parse_loop others flags ((''-'' @ name @ ''='' @ value) # args) = parse_loop others flags' args"
proof -
  have cut: "flag_name (name @ ''='' @ value) = name" "flag_text (name @ ''='' @ value) = Some value"
    using assms(1) by (auto simp: flag_name_def flag_text_def takeWhile_append dropWhile_append)
  obtain c cs where name: "name = c # cs" "c \<noteq> CHR ''=''" "c \<noteq> CHR ''-''"
    using assms(1-3) by (cases name) auto
  have named: "parse_named others flags s (name @ ''='' @ value) args = FlagSet flags' args" for s
  proof -
    have "formal others name = Some v" using assms(4) by (simp add: formal_def)
    moreover have "apply_flag v name (Some value) flags args = FlagSet flags' args"
      using assms(5) by (simp add: apply_flag_def)
    ultimately show ?thesis using name unfolding parse_named_def cut by simp
  qed
  show "parse_loop others flags ((''--'' @ name @ ''='' @ value) # args) = parse_loop others flags' args"
    using named name by (intro parse_loop_FlagSet) simp
  show "parse_loop others flags ((''-'' @ name @ ''='' @ value) # args) = parse_loop others flags' args"
    using named name by (intro parse_loop_FlagSet) simp
qed

lemma main_flag_set_values [simp]:
  "map_of main_flag_set ''metrics-bind-address'' = Some (StringVar (\<lambda>v. metricsAddr_update (\<lambda>_. v)))"
  "map_of main_flag_set ''health-probe-bind-address'' = Some (StringVar (\<lambda>v. probeAddr_update (\<lambda>_. v)))"
  "map_of main_flag_set ''leader-elect'' = Some (BoolVar (\<lambda>v. enableLeaderElection_update (\<lambda>_. v)))"
  "map_of main_flag_set ''metrics-secure'' = Some (BoolVar (\<lambda>v. secureMetrics_update (\<lambda>_. v)))"
  "map_of main_flag_set ''enable-http2'' = Some (BoolVar (\<lambda>v. enableHTTP2_update (\<lambda>_. v)))"
  by (simp_all add: main_flag_set_def)

lemmas parse_each =
  parse_spelled(1) [where name = "''metrics-bind-address''"] parse_spelled(1) [where name = "''health-probe-bind-address''"]
  parse_spelled(2) [where name = "''leader-elect''"] parse_spelled(2) [where name = "''metrics-secure''"]
  parse_spelled(1) [where name = "''enable-http2''"]

lemma parse_spelled_out:
  "parse_loop others flags0 (spelled_out flags @ args) = parse_loop others flags args"
proof -
  have "parse_loop others flags0 (spelled_out flags @ args) =
      parse_loop others
        (flags0\<lparr>metricsAddr := metricsAddr flags, probeAddr := probeAddr flags,
           enableLeaderElection := enableLeaderElection flags, secureMetrics := secureMetrics flags,
           enableHTTP2 := enableHTTP2 flags\<rparr>) args"
    using parse_each [simplified] by (simp add: spelled_out_def set_flag_def)
  also have "flags0\<lparr>metricsAddr := metricsAddr flags, probeAddr := probeAddr flags,
      enableLeaderElection := enableLeaderElection flags, secureMetrics := secureMetrics flags,
      enableHTTP2 := enableHTTP2 flags\<rparr> = flags"
    by (rule main_flags.equality) simp_all
  finally show ?thesis .
qed

text \<open>
  The command line can say everything: the flags that spell a choice out are read as that choice, with either
  one dash or two, whatever the texts in it. A later flag overrides an earlier one, and what follows
  \<open>--\<close> is not read.
\<close>
theorem command_line_roundtrip:
  "flag_Parse others (spelled_out flags) = Inr flags \<and>
   flag_Parse others (spelled_out flags' @ spelled_out flags @ ''--'' # rest) = Inr flags"
proof -
  have "parse_loop others flags args = Inr (flags, rest)" if "parseOne others flags args = FlagsEnd rest" for args rest
    using that by (subst parse_loop.simps) simp
  then show ?thesis
    using parse_spelled_out [of others default_flags flags "[]"] by (simp add: flag_Parse_def parse_spelled_out)
qed

section \<open>Command lines that are refused\<close>

text \<open>The flag that an argument names.\<close>

definition names_flag :: "string \<Rightarrow> string \<Rightarrow> bool" where
  "names_flag name a \<longleftrightarrow> flag_name (if take 2 a = ''--'' then drop 2 a else drop 1 a) = name"

lemma parseOne_cases:
  assumes "parseOne others flags (s # args) = FlagSet flags' args' \<or> parseOne others flags (s # args) = FlagFailed err"
  obtains name where "names_flag (flag_name name) s"
    "parseOne others flags (s # args) = parse_named others flags s name args"
proof (cases "length s < 2 \<or> hd s \<noteq> CHR ''-'' \<or> s = ''--''")
  case True
  with assms show ?thesis by (auto split: if_splits)
next
  case False
  then obtain c cs where "s = CHR ''-'' # c # cs" by (cases s; cases "tl s") auto
  with False show ?thesis
    by (intro that [of "if c = CHR ''-'' then cs else c # cs"]) (auto simp: names_flag_def)
qed

lemma apply_flag_rest: "apply_flag v name value flags args = FlagSet flags' args' \<Longrightarrow> set args' \<subseteq> set args"
  by (auto simp: apply_flag_def Let_def split: if_splits option.splits list.splits)

lemma parseOne_rest: "parseOne others flags args = FlagSet flags' args' \<Longrightarrow> set args' \<subseteq> set args"
  by (cases args) (auto simp: parse_named_def dest!: apply_flag_rest split: if_splits option.splits)

lemma apply_flag_no_help: "apply_flag v name value flags args \<noteq> FlagFailed ErrHelp"
  by (auto simp: apply_flag_def Let_def split: option.split list.split)

lemma help_asked:
  "parse_loop others flags args = Inl ErrHelp \<Longrightarrow> \<exists>a \<in> set args. names_flag ''help'' a \<or> names_flag ''h'' a"
proof (induction others flags args rule: parse_loop.induct)
  case (1 others flags args)
  show ?case
  proof (cases "parseOne others flags args")
    case (FlagsEnd rest)
    then show ?thesis using 1 (2) by (subst (asm) parse_loop.simps) simp
  next
    case (FlagSet flags' args')
    then show ?thesis using 1 parseOne_rest [OF FlagSet] by auto
  next
    case (FlagFailed err)
    then have err: "err = ErrHelp" using 1 (2) by (subst (asm) parse_loop.simps) simp
    obtain s rest where args: "args = s # rest" using FlagFailed by (cases args) simp_all
    obtain name where "names_flag (flag_name name) s" "parse_named others flags s name rest = FlagFailed ErrHelp"
      using FlagFailed parseOne_cases [of others flags s rest] unfolding args err by metis
    then show ?thesis
      using apply_flag_no_help by (auto simp: parse_named_def args split: if_splits option.splits)
  qed
qed

lemma main_begins:
  "\<exists>ended es. run_state (main flags su) h =
     (ended, h @ NewManager (main_manager_options flags) (suNewManager su (main_manager_options flags)) # es) \<and>
     (ended = MainReturned \<or> ended = Exited 1)"
  by (simp add: main_def startup_step_def Let_def)

text \<open>
  A command line that cannot be read has no effect: the process exits with status 2, or 0 if an argument asks for
  help, and no manager is made. Otherwise the flags are known before anything is done, the
  first of which is to make the manager with them, and the process does not exit with these statuses.
\<close>
theorem bad_command_line_exits:
  assumes "run_state (main_program others args su) h = (ended, h @ es)"
  shows "case flag_Parse others args of
      Inl status \<Rightarrow> ended = Exited status \<and> es = [] \<and>
        (status = 2 \<or> status = 0 \<and> (\<exists>a \<in> set args. names_flag ''help'' a \<or> names_flag ''h'' a))
    | Inr flags \<Rightarrow> ended \<in> {MainReturned, Exited 1} \<and>
        (\<exists>rest. es = NewManager (main_manager_options flags) (suNewManager su (main_manager_options flags)) # rest)"
proof (cases "flag_Parse others args")
  case (Inl status)
  then have "status = 2 \<or> status = 0 \<and> parse_loop others default_flags args = Inl ErrHelp"
    by (auto simp: flag_Parse_def split: sum.splits if_splits)
  with Inl assms help_asked [of others default_flags args] show ?thesis by (auto simp: main_program_def)
next
  case (Inr flags)
  with assms main_begins [of flags su h] show ?thesis by (auto simp: main_program_def)
qed

definition no_other_flags :: other_flags where
  "no_other_flags name = None"

lemma parse_unknown:
  "flag_Parse no_other_flags [''-v''] = Inl 2"
proof -
  have "parseOne no_other_flags default_flags [''-v''] = FlagFailed (FlagNotDefined ''v'')"
    by (simp add: parse_named_def formal_def main_flag_set_def no_other_flags_def flag_name_def)
  then have "parse_loop no_other_flags default_flags [''-v''] = Inl (FlagNotDefined ''v'')"
    by (subst parse_loop.simps) simp
  then show ?thesis by (simp add: flag_Parse_def)
qed

definition test_startup :: "unit startup_env" where
  "test_startup =
     \<lparr>suViper = \<lparr>vBindEnv = (\<lambda>_ _. None), vGetString = (\<lambda>_ _. '''')\<rparr>, suDefaultTransport = (),
      suNewManager = (\<lambda>_. None), suSetupWithManager = (\<lambda>_. None), suAddHealthzCheck = None,
      suAddReadyzCheck = None, suStart = None\<rparr>"

theorem bad_command_line_exits_witness:
  "run_state (main_program no_other_flags [''-v''] test_startup) [] = (Exited 2, [])"
  using bad_command_line_exits [of no_other_flags "[''-v'']" test_startup "[]"]
  by (cases "run_state (main_program no_other_flags [''-v''] test_startup) []") (simp add: parse_unknown)

section \<open>Secure unless said otherwise\<close>

lemma set_flag_other:
  assumes "formal others name = Some v" and "name \<noteq> ''metrics-secure''" and "name \<noteq> ''enable-http2''"
    and "set_flag v value flags = Some flags'"
  shows "secureMetrics flags' = secureMetrics flags" "enableHTTP2 flags' = enableHTTP2 flags"
  using assms
  by (auto simp: formal_def main_flag_set_def set_flag_def split: option.splits if_splits)

lemma apply_flag_sets:
  "apply_flag v name value flags args = FlagSet flags' args' \<Longrightarrow> \<exists>value. set_flag v value flags = Some flags'"
  by (auto simp: apply_flag_def Let_def split: if_splits option.splits list.splits)

lemma unnamed_flags_kept:
  "parse_loop others flags args = Inr (flags', rest) \<Longrightarrow>
     \<forall>a \<in> set args. \<not> names_flag ''metrics-secure'' a \<and> \<not> names_flag ''enable-http2'' a \<Longrightarrow>
     secureMetrics flags' = secureMetrics flags \<and> enableHTTP2 flags' = enableHTTP2 flags"
proof (induction others flags args rule: parse_loop.induct)
  case (1 others flags args)
  show ?case
  proof (cases "parseOne others flags args")
    case (FlagsEnd rest)
    then show ?thesis using 1 (2) by (subst (asm) parse_loop.simps) simp
  next
    case (FlagSet flags1 args')
    obtain s more where args: "args = s # more" using FlagSet by (cases args) simp_all
    obtain name where name: "names_flag (flag_name name) s" "parse_named others flags s name more = FlagSet flags1 args'"
      using FlagSet parseOne_cases [of others flags s more] unfolding args by metis
    have "flag_name name \<noteq> ''metrics-secure''" "flag_name name \<noteq> ''enable-http2''"
      using name(1) 1 (3) by (auto simp: args)
    then have "secureMetrics flags1 = secureMetrics flags" "enableHTTP2 flags1 = enableHTTP2 flags"
      using name(2) set_flag_other
      by (auto simp: parse_named_def split: if_splits option.splits dest!: apply_flag_sets)
    moreover have "secureMetrics flags' = secureMetrics flags1 \<and> enableHTTP2 flags' = enableHTTP2 flags1"
      using 1 FlagSet parseOne_rest [OF FlagSet] by auto
    ultimately show ?thesis by simp
  next
    case (FlagFailed err)
    then show ?thesis using 1 (2) by (subst (asm) parse_loop.simps) simp
  qed
qed

text \<open>
  C40. Secure by default: unless an argument names \<open>metrics-secure\<close> or \<open>enable-http2\<close>, whatever else is on the command
  line, the metrics endpoint is served securely and behind authentication and authorization, and both
  servers offer HTTP/1.1 only.
\<close>
theorem secure_by_default:
  assumes "flag_Parse others args = Inr flags"
    and "\<forall>a \<in> set args. \<not> names_flag ''metrics-secure'' a \<and> \<not> names_flag ''enable-http2'' a"
  shows "SecureServing (Metrics (main_manager_options flags)) \<and>
    FilterProvider (Metrics (main_manager_options flags)) = Some WithAuthenticationAndAuthorization \<and>
    NextProtos (foldl (\<lambda>c f. f c) c (metricsTLSOpts (Metrics (main_manager_options flags)))) = [''http/1.1''] \<and>
    NextProtos (foldl (\<lambda>c f. f c) c (webhookTLSOpts (main_manager_options flags))) = [''http/1.1'']"
proof -
  obtain rest where "parse_loop others default_flags args = Inr (flags, rest)"
    using assms(1) by (auto simp: flag_Parse_def split: sum.splits)
  with unnamed_flags_kept assms(2) have "secureMetrics flags \<and> \<not> enableHTTP2 flags"
    by (fastforce simp: default_flags_def)
  then show ?thesis
    by (simp add: main_manager_options_def main_tlsOpts_def disableHTTP2_def Let_def)
qed

theorem secure_by_default_witness:
  "SecureServing (Metrics (main_manager_options (default_flags\<lparr>enableLeaderElection := True\<rparr>)))"
proof -
  have "parseOne no_other_flags default_flags [''-leader-elect''] =
      FlagSet (default_flags\<lparr>enableLeaderElection := True\<rparr>) []"
    by (simp add: parse_named_def formal_def main_flag_set_def flag_name_def flag_text_def apply_flag_def IsBoolFlag_def
        set_flag_def ParseBool_def Let_def)
  then have "parse_loop no_other_flags default_flags [''-leader-elect''] = Inr (default_flags\<lparr>enableLeaderElection := True\<rparr>, [])"
    by simp (subst parse_loop.simps, simp)
  then have "flag_Parse no_other_flags [''-leader-elect''] = Inr (default_flags\<lparr>enableLeaderElection := True\<rparr>)"
    by (simp add: flag_Parse_def)
  from secure_by_default [OF this] show ?thesis by (simp add: names_flag_def flag_name_def)
qed

end
