(* ===== verification/Watches.thy ===== *)
theory Watches
  imports Nodes
begin

text \<open>
  The registration of the controller with the manager, \<open>SetupWithManager\<close> of
  \<open>internal/controller/service_controller.go\<close>: which events of Services and Nodes lead to a pass over which
  Service. The builder, the predicates and the handlers of controller-runtime are parameters; what the code
  relies on is their documented behaviour, \<open>documented_runtime\<close>.
\<close>

section \<open>Definitions\<close>

type_synonym event_handler = "watch_event \<Rightarrow> namespaced_name list prog"

text \<open>
  \<open>predicate.NewPredicateFuncs\<close>, \<open>handler.EnqueueRequestForObject\<close> (what \<open>For\<close> uses),
  \<open>handler.EnqueueRequestsFromMapFunc\<close>, and the delivery of an event through a predicate to a handler.
\<close>

record controller_runtime =
  NewPredicateFuncs :: "(object \<Rightarrow> bool) \<Rightarrow> watch_event \<Rightarrow> bool"
  EnqueueRequestForObject :: event_handler
  EnqueueRequestsFromMapFunc :: "(object \<Rightarrow> namespaced_name list prog) \<Rightarrow> event_handler"
  WithPredicates :: "(watch_event \<Rightarrow> bool) \<Rightarrow> event_handler \<Rightarrow> event_handler"

datatype watched_kind = WatchService | WatchNode

definition SetupWithManager :: "controller_runtime \<Rightarrow> env \<Rightarrow> (watched_kind \<times> event_handler) list" where
  "SetupWithManager rt env =
     [(WatchService, WithPredicates rt (NewPredicateFuncs rt loadBalancerPredicate) (EnqueueRequestForObject rt)),
      (WatchNode, WithPredicates rt nodeEventPredicate (EnqueueRequestsFromMapFunc rt (mapNodeToLBServices env)))]"

text \<open>The Services to reconcile after an event of one kind of object.\<close>

definition requests :: "controller_runtime \<Rightarrow> env \<Rightarrow> watched_kind \<Rightarrow> event_handler" where
  "requests rt env kind ev =
     (case map_of (SetupWithManager rt env) kind of
        None \<Rightarrow> State_Monad.return [] | Some handle \<Rightarrow> handle ev)"

section \<open>The documented behaviour of controller-runtime\<close>

definition object_requests :: "object \<Rightarrow> namespaced_name list" where
  "object_requests obj = (case obj of ServiceObject svc \<Rightarrow> [object_key svc] | _ \<Rightarrow> [])"

fun filter_new_object :: "(object \<Rightarrow> bool) \<Rightarrow> watch_event \<Rightarrow> bool" where
  "filter_new_object p (CreateEvent obj) = p obj"
| "filter_new_object p (UpdateEvent _ objNew) = p objNew"
| "filter_new_object p (DeleteEvent obj) = p obj"
| "filter_new_object p (GenericEvent obj) = p obj"

fun enqueue_object :: event_handler where
  "enqueue_object (CreateEvent obj) = State_Monad.return (object_requests obj)"
| "enqueue_object (UpdateEvent _ objNew) = State_Monad.return (object_requests objNew)"
| "enqueue_object (DeleteEvent obj) = State_Monad.return (object_requests obj)"
| "enqueue_object (GenericEvent obj) = State_Monad.return (object_requests obj)"

text \<open>The map runs on both objects of an update, and both lists of requests are enqueued.\<close>

fun enqueue_mapped :: "(object \<Rightarrow> namespaced_name list prog) \<Rightarrow> event_handler" where
  "enqueue_mapped f (CreateEvent obj) = f obj"
| "enqueue_mapped f (UpdateEvent objOld objNew) = do {
     reqs \<leftarrow> f objOld;
     reqs' \<leftarrow> f objNew;
     State_Monad.return (reqs @ reqs')
   }"
| "enqueue_mapped f (DeleteEvent obj) = f obj"
| "enqueue_mapped f (GenericEvent obj) = f obj"

definition deliver :: "(watch_event \<Rightarrow> bool) \<Rightarrow> event_handler \<Rightarrow> event_handler" where
  "deliver p handle ev = (if p ev then handle ev else State_Monad.return [])"

definition documented_runtime :: "controller_runtime \<Rightarrow> bool" where
  "documented_runtime rt \<longleftrightarrow>
     NewPredicateFuncs rt = filter_new_object \<and> EnqueueRequestForObject rt = enqueue_object \<and>
     EnqueueRequestsFromMapFunc rt = enqueue_mapped \<and> WithPredicates rt = deliver"

definition plain_runtime :: controller_runtime where
  "plain_runtime =
     \<lparr>NewPredicateFuncs = filter_new_object, EnqueueRequestForObject = enqueue_object,
      EnqueueRequestsFromMapFunc = enqueue_mapped, WithPredicates = deliver\<rparr>"

lemma documented_plain_runtime: "documented_runtime plain_runtime"
  by (simp add: documented_runtime_def plain_runtime_def)

section \<open>Which events reach the Services\<close>

lemma requests_service:
  "documented_runtime rt \<Longrightarrow>
     requests rt env WatchService ev =
       (if filter_new_object loadBalancerPredicate ev then enqueue_object ev else State_Monad.return [])"
  by (simp add: requests_def SetupWithManager_def documented_runtime_def deliver_def)

lemma requests_node:
  "documented_runtime rt \<Longrightarrow>
     requests rt env WatchNode ev =
       (if nodeEventPredicate ev then enqueue_mapped (mapNodeToLBServices env) ev else State_Monad.return [])"
  by (simp add: requests_def SetupWithManager_def documented_runtime_def deliver_def)

text \<open>The Services of a listing that are to be reconciled.\<close>

definition lb_requests :: "service list \<Rightarrow> namespaced_name list" where
  "lb_requests svcs = map object_key (filter (\<lambda>svc. svcType svc = ServiceTypeLoadBalancer) svcs)"

definition listed_requests :: "kube_error + service list \<Rightarrow> namespaced_name list" where
  "listed_requests answer = (case answer of Inl _ \<Rightarrow> [] | Inr svcs \<Rightarrow> lb_requests svcs)"

lemma mapNode_lists:
  "emits (mapNodeToLBServices env (NodeObject n))
     (\<lambda>reqs es. \<exists>answer. es = [ListServices answer] \<and> reqs = listed_requests answer) h"
  by (auto simp: emits_def mapNodeToLBServices_def listed_requests_def lb_requests_def wp call_defs split: sum.split)

lemma flip_passes:
  "serves_traffic old \<noteq> serves_traffic new \<Longrightarrow> nodeEventPredicate (UpdateEvent (NodeObject old) (NodeObject new))"
  by (auto simp: serves_traffic_def Let_def)

text \<open>
  C34. A Node that starts or stops serving traffic reaches every load balancer: the event lists the Services
  of the cluster, for the Node as it was and as it is, and every Service of type LoadBalancer in these
  listings is reconciled, and nothing else is.
\<close>
theorem serving_change_reconciles_services:
  assumes "documented_runtime rt" and "serves_traffic old \<noteq> serves_traffic new"
    and "run_state (requests rt env WatchNode (UpdateEvent (NodeObject old) (NodeObject new))) h = (reqs, h')"
  shows "\<exists>answer answer'. h' = h @ [ListServices answer, ListServices answer'] \<and>
    reqs = listed_requests answer @ listed_requests answer'"
proof -
  have "emits (requests rt env WatchNode (UpdateEvent (NodeObject old) (NodeObject new)))
      (\<lambda>reqs es. \<exists>answer answer'. es = [ListServices answer, ListServices answer'] \<and>
         reqs = listed_requests answer @ listed_requests answer') h"
    unfolding requests_node [OF assms(1)] emits_def
    using flip_passes [OF assms(2)]
    by (auto simp: wp intro!: wp_emits [OF mapNode_lists])
  with assms(3) show ?thesis by (auto simp: emits_def wp_def)
qed

text \<open>
  A Service that has been changed to another type reaches the controller no more: its updates, the mark for
  deletion among them, and its deletion are filtered out, so that no pass ever removes its finalizer.
\<close>

lemma retyped_service_unseen:
  assumes "documented_runtime rt" and "svcType svc \<noteq> ServiceTypeLoadBalancer"
  shows "requests rt env WatchService (UpdateEvent old (ServiceObject svc)) = State_Monad.return []"
    and "requests rt env WatchService (DeleteEvent (ServiceObject svc)) = State_Monad.return []"
    and "object_key svc \<in> set (lb_requests svcs) \<Longrightarrow> \<exists>svc' \<in> set svcs. object_key svc' = object_key svc \<and> svc' \<noteq> svc"
  using assms(2)
  by (auto simp: requests_service [OF assms(1)] loadBalancerPredicate_def lb_requests_def)

definition two_services_env :: env where
  "two_services_env = offline_env
     \<lparr>env_list_services := (\<lambda>_. Inr [test_svc, test_svc\<lparr>svcName := ''db'', svcType := ''ClusterIP''\<rparr>])\<rparr>"

theorem serving_change_reconciles_services_witness:
  "\<exists>answer answer'.
     [ListServices (Inr [test_svc, test_svc\<lparr>svcName := ''db'', svcType := ''ClusterIP''\<rparr>]),
      ListServices (Inr [test_svc, test_svc\<lparr>svcName := ''db'', svcType := ''ClusterIP''\<rparr>])] =
        [] @ [ListServices answer, ListServices answer'] \<and>
     [object_key test_svc, object_key test_svc] = listed_requests answer @ listed_requests answer'"
proof (rule serving_change_reconciles_services [OF documented_plain_runtime])
  let ?old = "plain_node ''a'' False ''10.0.0.1''" and ?new = "plain_node ''a'' True ''10.0.0.1''"
  show "serves_traffic ?old \<noteq> serves_traffic ?new" by (simp add: serves_traffic_def)
  then show "run_state (requests plain_runtime two_services_env WatchNode
      (UpdateEvent (NodeObject ?old) (NodeObject ?new))) [] =
     ([object_key test_svc, object_key test_svc],
      [ListServices (Inr [test_svc, test_svc\<lparr>svcName := ''db'', svcType := ''ClusterIP''\<rparr>]),
       ListServices (Inr [test_svc, test_svc\<lparr>svcName := ''db'', svcType := ''ClusterIP''\<rparr>])])"
    using flip_passes [of ?old ?new]
    by (simp add: requests_node [OF documented_plain_runtime] mapNodeToLBServices_def call_defs
        two_services_env_def ServiceTypeLoadBalancer_def test_svc_def)
qed

end
