(* ===== verification/Spec2Isabelle.thy ===== *)
theory Spec2Isabelle
  imports System Convergence Flags Watches
begin

text \<open>
  The Crusoe external load balancer controller, a Kubernetes controller written in Go that gives every
  Service of type LoadBalancer a load balancer of the Crusoe cloud and, on request, a firewall rule.

  \<^bold>\<open>The program.\<close> \<open>cmd/main.go\<close> builds the API client and the reconciler and starts the manager of
  controller-runtime, which watches Services and Nodes and calls \<open>Reconcile\<close>
  (\<open>internal/controller/service_controller.go\<close>) for one Service at a time. A pass fetches the Service. If
  it is being deleted, \<open>handleDelete\<close> removes the firewall rule and the load balancer, and the finalizer
  is removed last. Otherwise the finalizer is added, and the pass goes to \<open>handleCreate\<close> if no load
  balancer is recorded in the annotations and to \<open>handleUpdate\<close> if one is. Both end in
  \<open>ensureFirewallRule\<close> (\<open>internal/controller/util.go\<close>). All that survives a pass is in the annotations
  of the Service: the id and the protocol of the load balancer, the id of a pending create operation
  of the rule and the id of the rule. Requests to the Crusoe API are signed (\<open>internal/crusoe/auth.go\<close>);
  one of them, the look-up of a load balancer by its name, is made directly (\<open>internal/crusoe/lookup.go\<close>).

  \<^bold>\<open>The model.\<close> A pass is a program over the history of its interactions with the API server, the Crusoe
  API and the clock (\<open>Prelude\<close>, \<open>Env\<close>): each interaction appends an event with its arguments and its
  answer, and the answer is an arbitrary function of the history, so that the theorems hold for every
  behaviour of these services, other writers of the Service included. Go errors are values
  (\<open>go_error\<close>), a panic is the outcome \<open>Panicked\<close>, and 32 and 64 bit integers are words. The definitions
  have the names of the Go functions; where one is split at its early returns, the parts have names of
  their own and the texts say which branch they are.

  \<^item> \<open>Prelude\<close>: programs, weakest preconditions (\<open>wp\<close>), contracts over histories (\<open>emits\<close>), lists.
  \<^item> \<open>GoStd\<close>, \<open>Json\<close>, \<open>GoUrl\<close>, \<open>GoTime\<close>, \<open>GoBase64\<close>, \<open>Sha256\<close>: the parts of the Go standard library that
    the code computes with.
  \<^item> \<open>Types\<close>, \<open>Env\<close>, \<open>Fixtures\<close>: the data, the services, and the objects of the witnesses.
  \<^item> \<open>Ports\<close>, \<open>Nodes\<close>, \<open>HealthCheck\<close>, \<open>Names\<close>, \<open>Vpc\<close>: the parts of \<open>util.go\<close> that derive the protocol, the
    served ports and the backends, the health check, the resource name and the network of a load
    balancer. \<open>Nodes\<close> also has the event filters, and \<open>Watches\<close> their registration by \<open>SetupWithManager\<close>.
  \<^item> \<open>Operations\<close>: asynchronous operations, with the polling loop of \<open>internal/utils/utils.go\<close>.
  \<^item> \<open>FirewallArgs\<close>, \<open>FirewallRules\<close>: the firewall rule, its comparison, its creation and deletion.
    \<open>FirewallSafety\<close> and \<open>FirewallDelete\<close> have their properties.
  \<^item> \<open>LoadBalancer\<close>: look-up, creation, adoption, update and the external IP. \<open>LoadBalancerSafety\<close>,
    \<open>CreateSafety\<close> and \<open>UpdateSafety\<close> have their properties.
  \<^item> \<open>Reconciler\<close>: \<open>handleDelete\<close>, \<open>handleUpdate\<close> and \<open>Reconcile\<close>, with the properties of a pass in
    \<open>ReconcilerSafety\<close> and \<open>ReconcilerLiveness\<close>, and those of a sequence of passes in \<open>System\<close>.
    \<open>Protocol\<close> has the abstract specification of a pass, an automaton over the changes it makes.
  \<^item> \<open>Answers\<close>, \<open>Cooperation\<close>, \<open>Upkeep\<close>, \<open>Convergence\<close>: that the entries of a history hold the environment's
    answers, what a pass does in a world that cooperates, what a pass that is cut off leaves behind, and
    where passes in a row lead.
  \<^item> \<open>Signing\<close>, \<open>SigningSafety\<close>: the signing transport, \<open>internal/crusoe/auth.go\<close>.
  \<^item> \<open>Utils\<close>, \<open>Startup\<close>, \<open>Flags\<close>: the helpers of \<open>internal/utils\<close>, the configuration, \<open>main\<close>, and its
    command line.

  \<^bold>\<open>The proofs.\<close> Each handler has an abstract specification, an inductive relation between its argument,
  the events of its conversation and its result (\<open>rule_session\<close>, \<open>rule_cleanup\<close>, \<open>create_session\<close>,
  \<open>update_session\<close>, \<open>delete_session\<close>, \<open>reconcile_session\<close>), and a lemma that the code follows it. The
  properties are read off the rules of these relations, by case analysis, without going back to the
  code. On top of them, \<open>Protocol\<close> shows that \<open>Reconcile\<close> refines one automaton over the changes to the
  cloud and to the Service and their outcomes. The same relations carry the proofs of progress: \<open>Answers\<close> shows, once for all
  functions, that each event has the environment's answer, so a law of the environment (\<open>cooperative\<close>) rules
  out the failing cases of a conversation, and a measure of the work left for the rule (\<open>rule_work\<close>)
  counts the passes. The contracts that components rely on are locales, interpreted where the code provides
  them: sorting (\<open>FirewallArgs\<close>), resource naming (\<open>Names\<close>), reading an operation (\<open>Operations\<close>),
  and properties of the events of passes (\<open>System\<close>).

  The properties say that no second load balancer is created for a name while the first lives, across
  passes and restarts; that nothing is created without the finalizer; that the finalizer stays until the
  load balancer is found gone and, for a Service that opts into rule management at that time, its firewall
  rule too (for one that has opted out, a rule that is recorded is not touched and stays behind, as the
  README says); that ids are recorded before anything is built on them; that a firewall rule is created
  only when it is missing and adopted when it exists; that an edit of the ports does not strip a load
  balancer that records its protocol, while a legacy one keeps getting every port; which errors are
  retried, and that a failed listing of the nodes is not among them (an update without listeners is sent,
  and the rule is skipped); that passes terminate; that in a cooperative world a bounded number of passes
  brings a Service, whatever is recorded on it (but for a protocol that the ports have drifted from) and
  however many passes were cut off, to where it should be, or releases it if it is being deleted; that the
  servers are secure unless the command line says otherwise; and that requests are sent only with a
  signature that a server accepts.

  \<^bold>\<open>Bounds and fuel.\<close> The polling loop may run for ever, so \<open>WaitForOperation\<close>, \<open>handleCreate\<close> and
  \<open>Reconcile\<close> take fuel, the number of polls. More fuel never changes a result, and if the operation
  settles at the n-th poll, n + 1 units are enough. Every other loop ends (\<open>parse_loop\<close> by the number of
  arguments). Durations and times are
  integers (nanoseconds); the additions the code makes to them stay far below 64 bits.

  \<^bold>\<open>Parameters.\<close> Code that is not in the repository is a parameter, without any assumption: the
  Kubernetes client and \<open>controllerutil\<close>, the generated Crusoe client (with the JSON decoding at its
  types), the flags that other packages define, viper, \<open>time.Parse\<close>, \<open>url.JoinPath\<close>, \<open>http.NewRequest\<close>, the transport of \<open>net/http\<close>, the
  manager and the builder. The hypotheses of single theorems about them (a listing that shows accepted
  creates, an operation that settles, a cooperative world, the documented delivery of events) are named definitions with
  witnesses.

  \<^bold>\<open>Not modelled.\<close> Logging, the spinner, contexts and their cancellation; the setting up of the logger and
  of the scheme; the texts \<open>flag.Parse\<close> prints; the queue of controller-runtime (it runs at most one pass per
  Service at a time) and its retries; the nil pointers of the reconciler's client, which \<open>main\<close> can leave behind (\<open>main_spec\<close>); manifests and tests.
\<close>

end
